(* ===== verification/Go_Prelude.thy ===== *)
theory Go_Prelude
  imports Main "HOL-Library.Word" "HOL-Library.AList"
begin

text \<open>
  What the Go language and the parts of its standard library used everywhere give to the
  other theories: machine integers, errors, the effect type of a Go function, and the
  \<open>strings\<close> functions. Nothing here models a file of the repository.

  A Go function that can fail, panic or change shared state is a function from the world
  to an outcome and a new world. \<open>Ret\<close> is a normal return with a nil error, \<open>Err\<close> a
  return whose error is not nil, \<open>Panic\<close> a run-time panic that unwinds the stack.
\<close>

section \<open>Automation shared by the development\<close>

named_theorems go_simps "unfolding rules of the effect combinators"
named_theorems entity_defs "definitions of the entity methods"

section \<open>Basic types\<close>

type_synonym go_int = "64 word"
type_synonym time = int \<comment> \<open>\<open>time.Time\<close>: nanoseconds since the epoch\<close>
type_synonym duration = int \<comment> \<open>\<open>time.Duration\<close>: nanoseconds\<close>
type_synonym uuid = "128 word"

definition second :: duration where "second = 1000000000"
definition minute :: duration where "minute = 60 * second"
definition hour :: duration where "hour = 60 * minute"

lemmas duration_defs = second_def minute_def hour_def

section \<open>Errors and outcomes\<close>

text \<open>
  \<open>Errorf s\<close> is \<open>fmt.Errorf\<close> without an operand to wrap, \<open>Wrapf s e\<close> is
  \<open>fmt.Errorf("s: %w", e)\<close>.
\<close>

datatype goerror = Errorf string | Wrapf string goerror

fun error_msg :: "goerror \<Rightarrow> string" where
  "error_msg (Errorf s) = s"
| "error_msg (Wrapf s e) = s @ '': '' @ error_msg e"

datatype 'a outcome = Ret 'a | Err goerror | Panic string

type_synonym ('w, 'a) go = "'w \<Rightarrow> 'a outcome \<times> 'w"

definition returnG :: "'a \<Rightarrow> ('w, 'a) go" where
  "returnG x w = (Ret x, w)"

definition failG :: "goerror \<Rightarrow> ('w, 'a) go" where
  "failG e w = (Err e, w)"

definition panicG :: "string \<Rightarrow> ('w, 'a) go" where
  "panicG p w = (Panic p, w)"

definition bindG :: "('w, 'a) go \<Rightarrow> ('a \<Rightarrow> ('w, 'b) go) \<Rightarrow> ('w, 'b) go" where
  "bindG m f w = (case m w of
     (Ret x, w') \<Rightarrow> f x w'
   | (Err e, w') \<Rightarrow> (Err e, w')
   | (Panic p, w') \<Rightarrow> (Panic p, w'))"

text \<open>\<open>if err != nil { return nil, fmt.Errorf("s: %w", err) }\<close>\<close>

definition wrapG :: "string \<Rightarrow> ('w, 'a) go \<Rightarrow> ('w, 'a) go" where
  "wrapG s m w = (case m w of
     (Ret x, w') \<Rightarrow> (Ret x, w')
   | (Err e, w') \<Rightarrow> (Err (Wrapf s e), w')
   | (Panic p, w') \<Rightarrow> (Panic p, w'))"

text \<open>\<open>if err != nil { return nil, fmt.Errorf("s") }\<close>: the cause is dropped\<close>

definition maskG :: "string \<Rightarrow> ('w, 'a) go \<Rightarrow> ('w, 'a) go" where
  "maskG s m w = (case m w of
     (Ret x, w') \<Rightarrow> (Ret x, w')
   | (Err e, w') \<Rightarrow> (Err (Errorf s), w')
   | (Panic p, w') \<Rightarrow> (Panic p, w'))"

text \<open>\<open>x, err := f()\<close> where the code goes on and looks at \<open>err\<close> itself\<close>

definition attemptG :: "('w, 'a) go \<Rightarrow> ('w, goerror + 'a) go" where
  "attemptG m w = (case m w of
     (Ret x, w') \<Rightarrow> (Ret (Inr x), w')
   | (Err e, w') \<Rightarrow> (Ret (Inl e), w')
   | (Panic p, w') \<Rightarrow> (Panic p, w'))"

text \<open>An operation that can not fail (reading the clock, drawing a UUID).\<close>

definition stateG :: "('w \<Rightarrow> 'a \<times> 'w) \<Rightarrow> ('w, 'a) go" where
  "stateG f w = (case f w of (x, w') \<Rightarrow> (Ret x, w'))"

definition guardG :: "bool \<Rightarrow> goerror \<Rightarrow> ('w, unit) go" where
  "guardG b e w = (if b then (Ret (), w) else (Err e, w))"

lemma returnG_apply [simp, go_simps]: "returnG x w = (Ret x, w)"
  by (simp add: returnG_def)

lemma failG_apply [simp, go_simps]: "failG e w = (Err e, w)"
  by (simp add: failG_def)

lemma panicG_apply [simp, go_simps]: "panicG p w = (Panic p, w)"
  by (simp add: panicG_def)

lemma guardG_apply [simp, go_simps]: "guardG b e w = (if b then (Ret (), w) else (Err e, w))"
  by (simp add: guardG_def)

lemma stateG_apply [simp, go_simps]: "stateG f w = (Ret (fst (f w)), snd (f w))"
  by (simp add: stateG_def split: prod.splits)

lemma bindG_Ret [simp]: "m w = (Ret x, w') \<Longrightarrow> bindG m f w = f x w'"
  by (simp add: bindG_def)

lemma bindG_Err [simp]: "m w = (Err e, w') \<Longrightarrow> bindG m f w = (Err e, w')"
  by (simp add: bindG_def)

lemma bindG_Panic [simp]: "m w = (Panic p, w') \<Longrightarrow> bindG m f w = (Panic p, w')"
  by (simp add: bindG_def)

lemma bindG_eq_Ret:
  "bindG m f w = (Ret y, w'') \<longleftrightarrow> (\<exists>x w'. m w = (Ret x, w') \<and> f x w' = (Ret y, w''))"
  by (auto simp: bindG_def split: prod.splits outcome.splits)

lemma wrapG_eq_Ret: "wrapG s m w = (Ret y, w') \<longleftrightarrow> m w = (Ret y, w')"
  by (auto simp: wrapG_def split: prod.splits outcome.splits)

lemma maskG_eq_Ret: "maskG s m w = (Ret y, w') \<longleftrightarrow> m w = (Ret y, w')"
  by (auto simp: maskG_def split: prod.splits outcome.splits)

lemma attemptG_eq_Ret:
  "attemptG m w = (Ret r, w') \<longleftrightarrow>
     (case r of Inl e \<Rightarrow> m w = (Err e, w') | Inr x \<Rightarrow> m w = (Ret x, w'))"
  by (auto simp: attemptG_def split: prod.splits outcome.splits sum.splits)

lemma guardG_eq_Ret: "guardG b e w = (Ret u, w') \<longleftrightarrow> b \<and> w' = w"
  by auto

lemmas ret_iffs = bindG_eq_Ret wrapG_eq_Ret maskG_eq_Ret attemptG_eq_Ret guardG_eq_Ret

lemma wrapG_cases [simp]:
  "m w = (Ret x, w') \<Longrightarrow> wrapG s m w = (Ret x, w')"
  "m w = (Err e, w') \<Longrightarrow> wrapG s m w = (Err (Wrapf s e), w')"
  "m w = (Panic p, w') \<Longrightarrow> wrapG s m w = (Panic p, w')"
  by (simp_all add: wrapG_def)

lemma maskG_cases [simp]:
  "m w = (Ret x, w') \<Longrightarrow> maskG s m w = (Ret x, w')"
  "m w = (Err e, w') \<Longrightarrow> maskG s m w = (Err (Errorf s), w')"
  "m w = (Panic p, w') \<Longrightarrow> maskG s m w = (Panic p, w')"
  by (simp_all add: maskG_def)

lemma attemptG_cases [simp]:
  "m w = (Ret x, w') \<Longrightarrow> attemptG m w = (Ret (Inr x), w')"
  "m w = (Err e, w') \<Longrightarrow> attemptG m w = (Ret (Inl e), w')"
  "m w = (Panic p, w') \<Longrightarrow> attemptG m w = (Panic p, w')"
  by (simp_all add: attemptG_def)

section \<open>Frame rules: what a computation leaves alone\<close>

text \<open>
  \<open>keeps f m\<close>: whatever its outcome, \<open>m\<close> does not change the part \<open>f\<close> of the world.
  \<open>maintains P m\<close>: \<open>P\<close> is an invariant of \<open>m\<close>, again on every outcome.
\<close>

definition maintains :: "('w \<Rightarrow> bool) \<Rightarrow> ('w, 'a) go \<Rightarrow> bool" where
  "maintains P m \<longleftrightarrow> (\<forall>w. P w \<longrightarrow> P (snd (m w)))"

definition keeps :: "('w \<Rightarrow> 'b) \<Rightarrow> ('w, 'a) go \<Rightarrow> bool" where
  "keeps f m \<longleftrightarrow> (\<forall>w. f (snd (m w)) = f w)"

lemma keepsI: "(\<And>w. f (snd (m w)) = f w) \<Longrightarrow> keeps f m"
  by (simp add: keeps_def)

lemma keepsD: "keeps f m \<Longrightarrow> m w = (r, w') \<Longrightarrow> f w' = f w"
  by (metis keeps_def snd_conv)

lemma keeps_snd: "keeps f m \<Longrightarrow> f (snd (m w)) = f w"
  by (simp add: keeps_def)

lemma keeps_basic [intro, simp]:
  "keeps f (returnG x)" "keeps f (failG e)" "keeps f (panicG p)" "keeps f (guardG b e)"
  by (simp_all add: keeps_def)

lemma keeps_bindG [intro]:
  "keeps f m \<Longrightarrow> (\<And>x. keeps f (k x)) \<Longrightarrow> keeps f (bindG m k)"
  by (auto simp: keeps_def bindG_def split: prod.splits outcome.splits) (metis snd_conv)+

lemma keeps_wrapG [intro]: "keeps f m \<Longrightarrow> keeps f (wrapG s m)"
  by (auto simp: keeps_def wrapG_def split: prod.splits outcome.splits) (metis snd_conv)+

lemma keeps_maskG [intro]: "keeps f m \<Longrightarrow> keeps f (maskG s m)"
  by (auto simp: keeps_def maskG_def split: prod.splits outcome.splits) (metis snd_conv)+

lemma keeps_attemptG [intro]: "keeps f m \<Longrightarrow> keeps f (attemptG m)"
  by (auto simp: keeps_def attemptG_def split: prod.splits outcome.splits) (metis snd_conv)+

lemma keeps_stateG [intro]: "(\<And>w. f (snd (g w)) = f w) \<Longrightarrow> keeps f (stateG g)"
  by (simp add: keeps_def)

lemma keeps_if [intro]: "keeps f m \<Longrightarrow> keeps f n \<Longrightarrow> keeps f (if b then m else n)"
  by simp

lemma maintainsI: "(\<And>w. P w \<Longrightarrow> P (snd (m w))) \<Longrightarrow> maintains P m"
  by (simp add: maintains_def)

lemma maintainsD: "maintains P m \<Longrightarrow> P w \<Longrightarrow> m w = (r, w') \<Longrightarrow> P w'"
  by (metis maintains_def snd_conv)

lemma maintains_basic [intro, simp]:
  "maintains P (returnG x)" "maintains P (failG e)" "maintains P (panicG p)" "maintains P (guardG b e)"
  by (simp_all add: maintains_def)

lemma maintains_bindG [intro]:
  "maintains P m \<Longrightarrow> (\<And>x. maintains P (k x)) \<Longrightarrow> maintains P (bindG m k)"
  unfolding maintains_def bindG_def by (auto split: prod.splits outcome.splits)

lemma maintains_wrapG [intro]: "maintains P m \<Longrightarrow> maintains P (wrapG s m)"
  by (auto simp: maintains_def wrapG_def split: prod.splits outcome.splits)

lemma maintains_attemptG [intro]: "maintains P m \<Longrightarrow> maintains P (attemptG m)"
  by (auto simp: maintains_def attemptG_def split: prod.splits outcome.splits)

lemma maintains_stateG [intro]: "(\<And>w. P w \<Longrightarrow> P (snd (g w))) \<Longrightarrow> maintains P (stateG g)"
  by (simp add: maintains_def)

section \<open>The \<open>strings\<close> package\<close>

text \<open>
  A Go string is a sequence of bytes, as \<open>string\<close> is here. \<open>to_lower\<close> and
  \<open>trim_space\<close> treat the ASCII range, which is what the code's own literals are made of;
  bytes of multi-byte UTF-8 sequences are left alone.
\<close>

definition has_prefix :: "string \<Rightarrow> string \<Rightarrow> bool" where
  "has_prefix s p \<longleftrightarrow> take (length p) s = p"

definition trim_prefix :: "string \<Rightarrow> string \<Rightarrow> string" where
  "trim_prefix s p = (if has_prefix s p then drop (length p) s else s)"

definition trim_suffix :: "string \<Rightarrow> string \<Rightarrow> string" where
  "trim_suffix s p = rev (trim_prefix (rev s) (rev p))"

fun contains :: "string \<Rightarrow> string \<Rightarrow> bool" where
  "contains [] p = (p = [])"
| "contains (c # s) p = (has_prefix (c # s) p \<or> contains s p)"

definition lower_char :: "char \<Rightarrow> char" where
  "lower_char c =
     (if 65 \<le> (of_char c :: int) \<and> (of_char c :: int) \<le> 90 then char_of ((of_char c :: int) + 32) else c)"

definition to_lower :: "string \<Rightarrow> string" where
  "to_lower s = map lower_char s"

definition is_space :: "char \<Rightarrow> bool" where
  "is_space c \<longleftrightarrow> (of_char c :: int) \<in> {9, 10, 11, 12, 13, 32}"

definition trim_space :: "string \<Rightarrow> string" where
  "trim_space s = rev (dropWhile is_space (rev (dropWhile is_space s)))"

lemma has_prefix_append [simp]: "has_prefix (p @ s) p"
  by (simp add: has_prefix_def)

lemma has_prefix_iff: "has_prefix s p \<longleftrightarrow> (\<exists>t. s = p @ t)"
  by (metis append_eq_conv_conj has_prefix_def append_take_drop_id)

lemma trim_prefix_append [simp]: "trim_prefix (p @ s) p = s"
  by (simp add: trim_prefix_def)

lemma contains_iff: "contains s p \<longleftrightarrow> (\<exists>u v. s = u @ p @ v)"
proof (induction s)
  case Nil
  then show ?case by auto
next
  case (Cons c s)
  have "(\<exists>u v. c # s = u @ p @ v) \<longleftrightarrow> (\<exists>v. c # s = p @ v) \<or> (\<exists>u v. s = u @ p @ v)"
    by (metis append_Cons append_Nil append_eq_Cons_conv)
  with Cons show ?case by (simp add: has_prefix_iff)
qed

text \<open>\<open>strconv.Itoa\<close> and \<open>%d\<close>.\<close>

function nat_digits :: "int \<Rightarrow> string" where
  "nat_digits n =
     (if n < 10 then [char_of (48 + n)] else nat_digits (n div 10) @ [char_of (48 + n mod 10)])"
  by pat_completeness auto
termination
  by (relation "measure nat") auto

declare nat_digits.simps [simp del]

definition int_digits :: "int \<Rightarrow> string" where
  "int_digits i = (if i < 0 then ''-'' @ nat_digits (- i) else nat_digits i)"

definition itoa :: "go_int \<Rightarrow> string" where
  "itoa i = int_digits (sint i)"

section \<open>Lists and maps\<close>

text \<open>A Go map with string keys, as an association list with distinct keys.\<close>

lemma map_of_update [simp]: "map_of (AList.update k v m) = (map_of m)(k \<mapsto> v)"
  by (rule update_conv')

lemma map_of_delete [simp]: "map_of (AList.delete k m) = (map_of m)(k := None)"
  by (rule delete_conv')

end
