(* ===== verification/Go_Float.thy ===== *)
theory Go_Float
  imports Go_Prelude Complex_Main
begin

text \<open>
  Go's \<open>float64\<close>: IEEE 754 binary64 values with round-to-nearest-even, computed on exact
  rationals. \<open>FNum q\<close> holds a nonzero finite value, \<open>FZero s\<close> a zero with its sign
  (\<open>True\<close> is negative), so \<open>-0\<close>, infinities and NaN behave as in the program.
\<close>

datatype f64 = FNaN | FInf bool | FZero bool | FNum rat

section \<open>Rounding\<close>

definition pow2 :: "int \<Rightarrow> rat" where
  "pow2 e = (if 0 \<le> e then 2 ^ nat e else 1 / 2 ^ nat (- e))"

text \<open>\<open>int_bits n\<close>: the number of binary digits of \<open>n\<close>.\<close>

function int_bits :: "int \<Rightarrow> int" where
  "int_bits n = (if n \<le> 0 then 0 else 1 + int_bits (n div 2))"
  by pat_completeness auto
termination
  by (relation "measure nat") auto

declare int_bits.simps [simp del]

definition ilog2 :: "rat \<Rightarrow> int" where
  "ilog2 q = (case quotient_of q of (n, d) \<Rightarrow>
     let e = int_bits n - int_bits d in if pow2 e \<le> q then e else e - 1)"

definition round_even :: "rat \<Rightarrow> int" where
  "round_even x = (let f = \<lfloor>x\<rfloor>; r = x - of_int f in
     if r < 1 / 2 then f else if 1 / 2 < r then f + 1 else if even f then f else f + 1)"

text \<open>\<open>round64 s q\<close> is the float nearest to \<open>q > 0\<close> with sign \<open>s\<close>.\<close>

definition round64 :: "bool \<Rightarrow> rat \<Rightarrow> f64" where
  "round64 s q =
     (let e = max (ilog2 q - 52) (- 1074);
          v = of_int (round_even (q / pow2 e)) * pow2 e
      in if 2 ^ 1024 \<le> v then FInf s
         else if v = 0 then FZero s
         else FNum (if s then - v else v))"

text \<open>A float constant of the source, such as \<open>0.7\<close>.\<close>

definition float_of_rat :: "rat \<Rightarrow> f64" where
  "float_of_rat q = (if q = 0 then FZero False else round64 (q < 0) \<bar>q\<bar>)"

section \<open>Arithmetic and comparison\<close>

definition fneg :: "f64 \<Rightarrow> f64" where
  "fneg x = (case x of FNaN \<Rightarrow> FNaN | FInf s \<Rightarrow> FInf (\<not> s) | FZero s \<Rightarrow> FZero (\<not> s) | FNum q \<Rightarrow> FNum (- q))"

fun fadd :: "f64 \<Rightarrow> f64 \<Rightarrow> f64" where
  "fadd FNaN y = FNaN"
| "fadd x FNaN = FNaN"
| "fadd (FInf s) (FInf t) = (if s = t then FInf s else FNaN)"
| "fadd (FInf s) y = FInf s"
| "fadd x (FInf t) = FInf t"
| "fadd (FZero s) (FZero t) = FZero (s \<and> t)"
| "fadd (FZero s) y = y"
| "fadd x (FZero t) = x"
| "fadd (FNum p) (FNum q) = float_of_rat (p + q)"

definition fsub :: "f64 \<Rightarrow> f64 \<Rightarrow> f64" where
  "fsub x y = fadd x (fneg y)"

fun fsign :: "f64 \<Rightarrow> bool" where
  "fsign FNaN = False"
| "fsign (FInf s) = s"
| "fsign (FZero s) = s"
| "fsign (FNum q) = (q < 0)"

fun fmul :: "f64 \<Rightarrow> f64 \<Rightarrow> f64" where
  "fmul FNaN y = FNaN"
| "fmul x FNaN = FNaN"
| "fmul (FInf s) (FZero t) = FNaN"
| "fmul (FZero s) (FInf t) = FNaN"
| "fmul (FInf s) y = FInf (s \<noteq> fsign y)"
| "fmul x (FInf t) = FInf (fsign x \<noteq> t)"
| "fmul (FZero s) y = FZero (s \<noteq> fsign y)"
| "fmul x (FZero t) = FZero (fsign x \<noteq> t)"
| "fmul (FNum p) (FNum q) = round64 ((p < 0) \<noteq> (q < 0)) \<bar>p * q\<bar>"

fun fdiv :: "f64 \<Rightarrow> f64 \<Rightarrow> f64" where
  "fdiv FNaN y = FNaN"
| "fdiv x FNaN = FNaN"
| "fdiv (FInf s) (FInf t) = FNaN"
| "fdiv (FZero s) (FZero t) = FNaN"
| "fdiv (FInf s) y = FInf (s \<noteq> fsign y)"
| "fdiv x (FInf t) = FZero (fsign x \<noteq> t)"
| "fdiv x (FZero t) = FInf (fsign x \<noteq> t)"
| "fdiv (FZero s) y = FZero (s \<noteq> fsign y)"
| "fdiv (FNum p) (FNum q) = round64 ((p < 0) \<noteq> (q < 0)) \<bar>p / q\<bar>"

text \<open>The order of \<open><\<close> and \<open>==\<close>: NaN is in no relation, the two zeros are equal.\<close>

definition fval :: "f64 \<Rightarrow> rat" where
  "fval x = (case x of FNum q \<Rightarrow> q | _ \<Rightarrow> 0)"

fun flt :: "f64 \<Rightarrow> f64 \<Rightarrow> bool" where
  "flt FNaN y = False"
| "flt x FNaN = False"
| "flt (FInf s) y = (s \<and> y \<noteq> FInf True)"
| "flt x (FInf t) = (\<not> t)"
| "flt x y = (fval x < fval y)"

definition fle :: "f64 \<Rightarrow> f64 \<Rightarrow> bool" where
  "fle x y \<longleftrightarrow> flt x y \<or> (x \<noteq> FNaN \<and> y \<noteq> FNaN \<and> \<not> flt y x)"

definition f_is_zero :: "f64 \<Rightarrow> bool" where
  "f_is_zero x \<longleftrightarrow> (case x of FZero s \<Rightarrow> True | _ \<Rightarrow> False)"

text \<open>The conversion \<open>int(x)\<close>: truncation towards zero, used where the value is in range.\<close>

definition f_to_int :: "f64 \<Rightarrow> go_int" where
  "f_to_int x = (case x of FNum q \<Rightarrow> word_of_int (if q < 0 then - \<lfloor>- q\<rfloor> else \<lfloor>q\<rfloor>) | _ \<Rightarrow> 0)"

definition f_finite :: "f64 \<Rightarrow> bool" where
  "f_finite x \<longleftrightarrow> (case x of FNaN \<Rightarrow> False | FInf s \<Rightarrow> False | _ \<Rightarrow> True)"

section \<open>Decimal text\<close>

text \<open>The value of a string of decimal digits.\<close>

definition digit_val :: "char \<Rightarrow> int" where
  "digit_val c = of_char c - 48"

definition is_digit :: "char \<Rightarrow> bool" where
  "is_digit c \<longleftrightarrow> 48 \<le> (of_char c :: int) \<and> (of_char c :: int) \<le> 57"

definition digits_val :: "string \<Rightarrow> int" where
  "digits_val s = foldl (\<lambda>n c. 10 * n + digit_val c) 0 s"

definition pow10 :: "int \<Rightarrow> rat" where
  "pow10 e = (if 0 \<le> e then 10 ^ nat e else 1 / 10 ^ nat (- e))"

text \<open>
  The parts of a decimal number \<open>-?digits(.digits)?([eE][+-]?digits)?\<close>: sign, integer
  digits, fraction digits, exponent and the rest of the input.
\<close>

definition scan_sign :: "string \<Rightarrow> bool \<times> string" where
  "scan_sign s = (case s of c # t \<Rightarrow> if c = CHR ''-'' then (True, t) else (False, s) | [] \<Rightarrow> (False, []))"

definition scan_exp :: "string \<Rightarrow> (int \<times> string) option" where
  "scan_exp s = (case s of
     c # t \<Rightarrow>
       if c = CHR ''e'' \<or> c = CHR ''E'' then
         (let (neg, u) = (case t of
               d # u \<Rightarrow> if d = CHR ''-'' then (True, u) else if d = CHR ''+'' then (False, u) else (False, t)
             | [] \<Rightarrow> (False, []));
              ds = takeWhile is_digit u
          in if ds = [] then None
             else Some ((if neg then - digits_val ds else digits_val ds), dropWhile is_digit u))
       else Some (0, s)
   | [] \<Rightarrow> Some (0, []))"

definition scan_frac :: "string \<Rightarrow> (string \<times> string) option" where
  "scan_frac s = (case s of
     c # t \<Rightarrow>
       if c = CHR ''.'' then
         (let ds = takeWhile is_digit t in if ds = [] then None else Some (ds, dropWhile is_digit t))
       else Some ([], s)
   | [] \<Rightarrow> Some ([], []))"

text \<open>
  \<open>strconv.ParseFloat\<close> on a decimal literal: the float nearest to the decimal value; an
  out-of-range value is an error.
\<close>

definition parse_decimal :: "string \<Rightarrow> f64 option" where
  "parse_decimal s =
     (let (neg, t) = scan_sign s; ip = takeWhile is_digit t in
      if ip = [] then None else
      (case scan_frac (dropWhile is_digit t) of None \<Rightarrow> None
       | Some (fp, u) \<Rightarrow>
         (case scan_exp u of None \<Rightarrow> None
          | Some (e, v) \<Rightarrow>
            if v \<noteq> [] then None else
            (let q = of_int (digits_val (ip @ fp)) * pow10 (e - int (length fp)) in
             if q = 0 then Some (FZero neg)
             else (case round64 neg q of FInf b \<Rightarrow> None | x \<Rightarrow> Some x)))))"

text \<open>
  \<open>strconv.AppendFloat(x, 'f' or 'e', -1, 64)\<close> as \<open>encoding/json\<close> calls it: the least
  number of digits that reads back as \<open>x\<close>, in exponent form below \<open>1e-6\<close> and from
  \<open>1e21\<close> on. Seventeen digits always suffice for a binary64 value.
\<close>

fun ilog10_aux :: "nat \<Rightarrow> rat \<Rightarrow> int" where
  "ilog10_aux 0 q = 0"
| "ilog10_aux (Suc n) q =
     (if 10 \<le> q then 1 + ilog10_aux n (q / 10) else if q < 1 then ilog10_aux n (q * 10) - 1 else 0)"

definition digits_at :: "rat \<Rightarrow> int \<Rightarrow> int \<times> int" where
  "digits_at q e = (round_even (q / pow10 e), e)"

fun shortest_from :: "nat \<Rightarrow> rat \<Rightarrow> int \<Rightarrow> int \<times> int" where
  "shortest_from 0 q e = digits_at q e"
| "shortest_from (Suc n) q e =
     (case digits_at q e of (d, e') \<Rightarrow>
        if round64 False (of_int d * pow10 e') = FNum q then (d, e') else shortest_from n q (e - 1))"

definition shortest :: "rat \<Rightarrow> int \<times> int" where
  "shortest q = shortest_from 16 q (ilog10_aux 400 q)"

definition strip_zeros :: "int \<times> int \<Rightarrow> string \<times> int" where
  "strip_zeros de = (case de of (d, e) \<Rightarrow>
     let ds = int_digits d; z = length (takeWhile (\<lambda>c. c = CHR ''0'') (rev ds))
     in (take (length ds - z) ds, e + int z))"

definition format_pos :: "rat \<Rightarrow> string" where
  "format_pos q = (case strip_zeros (shortest q) of (ds, e) \<Rightarrow>
     let p = e + int (length ds) in
     if p < - 5 \<or> 21 < p then
       take 1 ds @ (if length ds = 1 then [] else ''.'' @ drop 1 ds) @ ''e''
         @ (if p - 1 < 0 then ''-'' else ''+'') @ (if 10 \<le> \<bar>p - 1\<bar> \<or> p - 1 < 0 then [] else ''0'') @ nat_digits \<bar>p - 1\<bar>
     else if p \<le> 0 then ''0.'' @ replicate (nat (- p)) (CHR ''0'') @ ds
     else if int (length ds) \<le> p then ds @ replicate (nat p - length ds) (CHR ''0'')
     else take (nat p) ds @ ''.'' @ drop (nat p) ds)"

definition format_float :: "f64 \<Rightarrow> string option" where
  "format_float x = (case x of
     FZero s \<Rightarrow> Some (if s then ''-0'' else ''0'')
   | FNum q \<Rightarrow> Some (if q < 0 then ''-'' @ format_pos (- q) else format_pos q)
   | _ \<Rightarrow> None)"

text \<open>\<open>format_float\<close> has no result exactly on the values \<open>encoding/json\<close> refuses.\<close>

lemma format_float_None_iff: "format_float x = None \<longleftrightarrow> \<not> f_finite x"
  by (cases x) (auto simp: format_float_def f_finite_def)

end
