(* ===== verification/Go_Json.thy ===== *)
theory Go_Json
  imports Go_Float
begin

text \<open>
  The part of \<open>encoding/json\<close> the repository relies on: JSON documents as trees, the
  compact printer with Go's string escapes, and a parser. A number keeps its literal, so
  an \<open>int\<close> field is read exactly and an \<open>any\<close> value becomes a \<open>float64\<close>. The main lemma
  is the round trip \<open>json_parse (json_print j) = Some j\<close>.

  Strings are taken to be valid UTF-8 without U+2028 and U+2029, which Go would rewrite;
  bytes from 128 on are printed and read as they are.
\<close>

datatype json = JNull | JBool bool | JNum string | JStr string
  | JArr "json list" | JObj "(string \<times> json) list"

section \<open>Printing\<close>

definition hex_digit :: "int \<Rightarrow> char" where
  "hex_digit n = (if n < 10 then char_of (48 + n) else char_of (87 + n))"

definition esc_char :: "char \<Rightarrow> string" where
  "esc_char c = (let n = (of_char c :: int) in
     if n = 34 then [CHR 92, CHR 34]
     else if n = 92 then [CHR 92, CHR 92]
     else if n = 8 then [CHR 92, CHR ''b'']
     else if n = 12 then [CHR 92, CHR ''f'']
     else if n = 10 then [CHR 92, CHR ''n'']
     else if n = 13 then [CHR 92, CHR ''r'']
     else if n = 9 then [CHR 92, CHR ''t'']
     else if n < 32 \<or> n = 60 \<or> n = 62 \<or> n = 38
       then [CHR 92, CHR ''u'', CHR ''0'', CHR ''0'', hex_digit (n div 16), hex_digit (n mod 16)]
     else [c])"

definition print_string :: "string \<Rightarrow> string" where
  "print_string s = [CHR 34] @ concat (map esc_char s) @ [CHR 34]"

fun join_with :: "string \<Rightarrow> string list \<Rightarrow> string" where
  "join_with d [] = []"
| "join_with d [x] = x"
| "join_with d (x # y # ys) = x @ d @ join_with d (y # ys)"

fun json_print :: "json \<Rightarrow> string" where
  "json_print JNull = ''null''"
| "json_print (JBool b) = (if b then ''true'' else ''false'')"
| "json_print (JNum s) = s"
| "json_print (JStr s) = print_string s"
| "json_print (JArr xs) = ''['' @ join_with '','' (map json_print xs) @ '']''"
| "json_print (JObj kvs) =
     CHR 123 # join_with '','' (map (\<lambda>(k, v). print_string k @ '':'' @ json_print v) kvs) @ [CHR 125]"

section \<open>Parsing\<close>

definition is_ws :: "char \<Rightarrow> bool" where
  "is_ws c \<longleftrightarrow> (of_char c :: int) \<in> {9, 10, 13, 32}"

definition skip_ws :: "string \<Rightarrow> string" where
  "skip_ws s = dropWhile is_ws s"

definition is_num_char :: "char \<Rightarrow> bool" where
  "is_num_char c \<longleftrightarrow> is_digit c \<or> c \<in> {CHR ''-'', CHR ''+'', CHR ''.'', CHR ''e'', CHR ''E''}"

text \<open>The JSON grammar of numbers: no leading zeros, digits on both sides of a point.\<close>

definition valid_number :: "string \<Rightarrow> bool" where
  "valid_number s =
     (let (neg, t) = scan_sign s; ip = takeWhile is_digit t in
      ip \<noteq> [] \<and> (hd ip = CHR ''0'' \<longrightarrow> length ip = 1) \<and>
      (case scan_frac (dropWhile is_digit t) of None \<Rightarrow> False
       | Some (fp, u) \<Rightarrow> (case scan_exp u of None \<Rightarrow> False | Some (e, v) \<Rightarrow> v = [])))"

definition hex_val :: "char \<Rightarrow> int option" where
  "hex_val c = (let n = (of_char c :: int) in
     if 48 \<le> n \<and> n \<le> 57 then Some (n - 48)
     else if 97 \<le> n \<and> n \<le> 102 then Some (n - 87)
     else if 65 \<le> n \<and> n \<le> 70 then Some (n - 55)
     else None)"

definition hex4 :: "char \<Rightarrow> char \<Rightarrow> char \<Rightarrow> char \<Rightarrow> int option" where
  "hex4 a b c d = (case (hex_val a, hex_val b, hex_val c, hex_val d) of
     (Some w, Some x, Some y, Some z) \<Rightarrow> Some (((w * 16 + x) * 16 + y) * 16 + z)
   | _ \<Rightarrow> None)"

definition utf8 :: "int \<Rightarrow> string" where
  "utf8 n =
     (if n < 128 then [char_of n]
      else if n < 2048 then [char_of (192 + n div 64), char_of (128 + n mod 64)]
      else if n < 65536 then
        [char_of (224 + n div 4096), char_of (128 + n div 64 mod 64), char_of (128 + n mod 64)]
      else [char_of (240 + n div 262144), char_of (128 + n div 4096 mod 64),
            char_of (128 + n div 64 mod 64), char_of (128 + n mod 64)])"

text \<open>
  The body of a string after its opening quote. A lone surrogate half becomes U+FFFD, a
  pair of halves one code point.
\<close>

definition simple_escape :: "char \<Rightarrow> string option" where
  "simple_escape e =
     (if e = CHR 34 \<or> e = CHR 92 \<or> e = CHR ''/'' then Some [e]
      else if e = CHR ''b'' then Some [CHR 8] else if e = CHR ''f'' then Some [CHR 12]
      else if e = CHR ''n'' then Some [CHR 10] else if e = CHR ''r'' then Some [CHR 13]
      else if e = CHR ''t'' then Some [CHR 9] else None)"

function parse_string :: "string \<Rightarrow> (string \<times> string) option" where
  "parse_string s = (case s of
     [] \<Rightarrow> None
   | c # t \<Rightarrow>
     if c = CHR 34 then Some ([], t)
     else if (of_char c :: int) < 32 then None
     else if c \<noteq> CHR 92 then map_option (apfst (Cons c)) (parse_string t)
     else (case t of
        [] \<Rightarrow> None
      | e # u \<Rightarrow>
        if e = CHR ''u'' then
          (case u of
             a # b # c' # d # v \<Rightarrow>
               (case hex4 a b c' d of
                  None \<Rightarrow> None
                | Some n \<Rightarrow>
                  if 55296 \<le> n \<and> n < 57344 then
                    (case v of
                       x # y # a2 # b2 # c2 # d2 # v2 \<Rightarrow>
                         (case (if x = CHR 92 \<and> y = CHR ''u'' \<and> n < 56320 then hex4 a2 b2 c2 d2 else None) of
                            Some m \<Rightarrow>
                              if 56320 \<le> m \<and> m < 57344
                              then map_option (apfst ((@) (utf8 (65536 + (n - 55296) * 1024 + (m - 56320))))) (parse_string v2)
                              else map_option (apfst ((@) (utf8 65533))) (parse_string v)
                          | None \<Rightarrow> map_option (apfst ((@) (utf8 65533))) (parse_string v))
                     | _ \<Rightarrow> map_option (apfst ((@) (utf8 65533))) (parse_string v))
                  else map_option (apfst ((@) (utf8 n))) (parse_string v))
           | _ \<Rightarrow> None)
        else
          (case simple_escape e of
             None \<Rightarrow> None
           | Some x \<Rightarrow> map_option (apfst ((@) x)) (parse_string u))))"
  by pat_completeness auto
termination
  by (relation "measure length") auto

declare parse_string.simps [simp del]

definition parse_literal :: "string \<Rightarrow> (json \<times> string) option" where
  "parse_literal s =
     (if has_prefix s ''null'' then Some (JNull, drop 4 s)
      else if has_prefix s ''true'' then Some (JBool True, drop 4 s)
      else if has_prefix s ''false'' then Some (JBool False, drop 5 s)
      else (let l = takeWhile is_num_char s in
            if valid_number l then Some (JNum l, dropWhile is_num_char s) else None))"

fun parse_value :: "nat \<Rightarrow> string \<Rightarrow> (json \<times> string) option"
  and parse_elems :: "nat \<Rightarrow> string \<Rightarrow> (json list \<times> string) option"
  and parse_members :: "nat \<Rightarrow> string \<Rightarrow> ((string \<times> json) list \<times> string) option" where
  "parse_value 0 s = None"
| "parse_value (Suc n) s = (case skip_ws s of
     [] \<Rightarrow> None
   | c # t \<Rightarrow>
     if c = CHR 34 then map_option (apfst JStr) (parse_string t)
     else if c = CHR ''['' then
       (if has_prefix (skip_ws t) '']'' then Some (JArr [], drop 1 (skip_ws t))
        else map_option (apfst JArr) (parse_elems n t))
     else if c = CHR 123 then
       (if has_prefix (skip_ws t) [CHR 125] then Some (JObj [], drop 1 (skip_ws t))
        else map_option (apfst JObj) (parse_members n t))
     else parse_literal (c # t))"
| "parse_elems 0 s = None"
| "parse_elems (Suc n) s = (case parse_value n s of
     None \<Rightarrow> None
   | Some (v, r) \<Rightarrow> (case skip_ws r of
       [] \<Rightarrow> None
     | c # t \<Rightarrow> if c = CHR '','' then map_option (apfst (Cons v)) (parse_elems n t)
                else if c = CHR '']'' then Some ([v], t) else None))"
| "parse_members 0 s = None"
| "parse_members (Suc n) s = (case skip_ws s of
     [] \<Rightarrow> None
   | q # t \<Rightarrow> if q \<noteq> CHR 34 then None else
     (case parse_string t of
        None \<Rightarrow> None
      | Some (k, r) \<Rightarrow> (case skip_ws r of
          [] \<Rightarrow> None
        | c # u \<Rightarrow> if c \<noteq> CHR '':'' then None else
          (case parse_value n u of
             None \<Rightarrow> None
           | Some (v, r') \<Rightarrow> (case skip_ws r' of
               [] \<Rightarrow> None
             | d # u' \<Rightarrow> if d = CHR '','' then map_option (apfst (Cons (k, v))) (parse_members n u')
                         else if d = CHR 125 then Some ([(k, v)], u') else None)))))"

text \<open>
  Every call consumes a character, so the length of the input is enough fuel: the round
  trip below never runs out.
\<close>

definition json_parse :: "string \<Rightarrow> json option" where
  "json_parse s = (case parse_value (Suc (length s)) s of
     Some (j, r) \<Rightarrow> if skip_ws r = [] then Some j else None
   | None \<Rightarrow> None)"


section \<open>The round trip\<close>

lemma of_char_bounds: "0 \<le> (of_char c :: int)" "(of_char c :: int) < 256"
  by (simp_all add: of_char_def) 

lemma hex_val_digit: "0 \<le> k \<Longrightarrow> k < 16 \<Longrightarrow> hex_val (hex_digit k) = Some k"
  by (simp add: hex_val_def hex_digit_def Let_def of_char_of)

lemma hex4_byte:
  assumes "0 \<le> n" and "n < 256"
  shows "hex4 (CHR ''0'') (CHR ''0'') (hex_digit (n div 16)) (hex_digit (n mod 16)) = Some n"
proof -
  have "0 \<le> n div 16" "n div 16 < 16" "0 \<le> n mod 16" "n mod 16 < 16"
    using assms by auto
  then show ?thesis
    by (simp add: hex4_def hex_val_digit) (simp add: hex_val_def)
qed

lemma utf8_byte: "n < 128 \<Longrightarrow> utf8 n = [char_of n]"
  by (simp add: utf8_def)

lemma char_code_eqD:
  "(of_char c :: int) = 34 \<Longrightarrow> c = CHR 34" "(of_char c :: int) = 92 \<Longrightarrow> c = CHR 92"
  "(of_char c :: int) = 8 \<Longrightarrow> c = CHR 8" "(of_char c :: int) = 12 \<Longrightarrow> c = CHR 12"
  "(of_char c :: int) = 10 \<Longrightarrow> c = CHR 10" "(of_char c :: int) = 13 \<Longrightarrow> c = CHR 13"
  "(of_char c :: int) = 9 \<Longrightarrow> c = CHR 9"
  by (rule of_char_eqI [where 'a = int], simp)+

lemma parse_string_escape:
  assumes "simple_escape e = Some x" and "e \<noteq> CHR ''u''"
  shows "parse_string (CHR 92 # e # u) = map_option (apfst ((@) x)) (parse_string u)"
  using assms by (subst parse_string.simps) simp

lemma parse_string_unicode:
  assumes "hex4 a b c d = Some n" and "n < 55296"
  shows "parse_string (CHR 92 # CHR ''u'' # a # b # c # d # v) = map_option (apfst ((@) (utf8 n))) (parse_string v)"
  using assms by (subst parse_string.simps) simp

lemma parse_string_plain:
  assumes "c \<noteq> CHR 34" "c \<noteq> CHR 92" "32 \<le> (of_char c :: int)"
  shows "parse_string (c # t) = map_option (apfst (Cons c)) (parse_string t)"
  using assms by (subst parse_string.simps) simp

lemma parse_esc_char: "parse_string (esc_char c @ t) = map_option (apfst (Cons c)) (parse_string t)"
proof -
  have app: "(@) [x] = Cons x" for x :: char by auto
  let ?n = "of_char c :: int"
  consider (simple) "?n \<in> {34, 92, 8, 12, 10, 13, 9}"
    | (unicode) "?n \<notin> {34, 92, 8, 12, 10, 13, 9}" "?n < 32 \<or> ?n = 60 \<or> ?n = 62 \<or> ?n = 38"
    | (plain) "?n \<notin> {34, 92, 8, 12, 10, 13, 9}" "\<not> (?n < 32 \<or> ?n = 60 \<or> ?n = 62 \<or> ?n = 38)"
    by blast
  then show ?thesis
  proof cases
    case simple
    then have "\<exists>e. esc_char c = [CHR 92, e] \<and> simple_escape e = Some [c] \<and> e \<noteq> CHR ''u''"
      by (auto simp: esc_char_def Let_def simple_escape_def dest: char_code_eqD)
    then show ?thesis by (auto simp: parse_string_escape app)
  next
    case unicode
    then have "esc_char c = [CHR 92, CHR ''u'', CHR ''0'', CHR ''0'', hex_digit (?n div 16), hex_digit (?n mod 16)]"
      by (simp add: esc_char_def Let_def)
    moreover have "hex4 (CHR ''0'') (CHR ''0'') (hex_digit (?n div 16)) (hex_digit (?n mod 16)) = Some ?n"
      by (rule hex4_byte) (simp_all add: of_char_bounds)
    moreover have "utf8 ?n = [c]" using unicode by (subst utf8_byte) auto
    ultimately show ?thesis using unicode by (auto simp: parse_string_unicode app)
  next
    case plain
    then have "c \<noteq> CHR 34" "c \<noteq> CHR 92" "esc_char c = [c]"
      by (auto simp: esc_char_def Let_def)
    with plain show ?thesis by (simp add: parse_string_plain)
  qed
qed

lemma parse_string_quote: "parse_string (CHR 34 # r) = Some ([], r)"
  by (subst parse_string.simps) simp

lemma parse_print_string:
  "parse_string (concat (map esc_char s) @ CHR 34 # r) = Some (s, r)"
  by (induction s) (simp_all add: parse_esc_char parse_string_quote)

text \<open>
  The documents the printer produces: every number is a JSON number literal. What follows a
  value in a document never continues a number.
\<close>

fun wf_json :: "json \<Rightarrow> bool" where
  "wf_json JNull = True"
| "wf_json (JBool b) = True"
| "wf_json (JNum s) = (valid_number s \<and> list_all is_num_char s)"
| "wf_json (JStr s) = True"
| "wf_json (JArr xs) = list_all wf_json xs"
| "wf_json (JObj kvs) = list_all (\<lambda>(k, v). wf_json v) kvs"

definition delimits :: "string \<Rightarrow> bool" where
  "delimits r \<longleftrightarrow> (case r of [] \<Rightarrow> True | c # t \<Rightarrow> \<not> is_num_char c)"

lemma skip_ws_nonspace [simp]: "\<not> is_ws c \<Longrightarrow> skip_ws (c # t) = c # t"
  by (simp add: skip_ws_def)

lemma is_ws_syntax [simp]:
  "\<not> is_ws (CHR 34)" "\<not> is_ws (CHR ''['')" "\<not> is_ws (CHR '']'')" "\<not> is_ws (CHR 123)" "\<not> is_ws (CHR 125)"
  "\<not> is_ws (CHR '','')" "\<not> is_ws (CHR '':'')" "\<not> is_ws (CHR ''n'')" "\<not> is_ws (CHR ''t'')" "\<not> is_ws (CHR ''f'')"
  by (simp_all add: is_ws_def)

lemma num_char_not_ws: "is_num_char c \<Longrightarrow> \<not> is_ws c"
  by (auto simp: is_num_char_def is_digit_def is_ws_def)

lemma num_char_not_syntax:
  "is_num_char c \<Longrightarrow> c \<notin> {CHR 34, CHR ''['', CHR '']'', CHR 123, CHR 125, CHR ''n'', CHR ''t'', CHR ''f''}"
  by (auto simp: is_num_char_def is_digit_def)

lemma delimits_simps [simp]:
  "delimits []" "delimits (CHR '','' # r)" "delimits (CHR '']'' # r)" "delimits (CHR 125 # r)"
  by (simp_all add: delimits_def is_num_char_def is_digit_def)

lemma takeWhile_num: "list_all is_num_char l \<Longrightarrow> delimits r \<Longrightarrow>
    takeWhile is_num_char (l @ r) = l \<and> dropWhile is_num_char (l @ r) = r"
  by (induction l) (auto simp: delimits_def split: list.splits)

lemma valid_number_nonempty: "valid_number l \<Longrightarrow> l \<noteq> []"
  by (auto simp: valid_number_def scan_sign_def)

lemma parse_literal_number:
  assumes "valid_number l" "list_all is_num_char l" "delimits r"
  shows "parse_literal (l @ r) = Some (JNum l, r)"
proof -
  from assms valid_number_nonempty obtain c l' where l: "l = c # l'" by (cases l) auto
  with assms have "c \<noteq> CHR ''n''" "c \<noteq> CHR ''t''" "c \<noteq> CHR ''f''"
    using num_char_not_syntax [of c] by auto
  with assms l show ?thesis
    using takeWhile_num [OF assms(2,3)] by (simp add: parse_literal_def has_prefix_def Let_def)
qed

definition parses :: "json \<Rightarrow> bool" where
  "parses j \<longleftrightarrow> (\<forall>n r. length (json_print j) < n \<longrightarrow> delimits r \<longrightarrow>
     parse_value n (json_print j @ r) = Some (j, r))"

lemma join_with_Cons:
  "join_with d (x # xs) = x @ (if xs = [] then [] else d @ join_with d xs)"
  by (cases xs) simp_all

lemma json_print_first:
  "wf_json j \<Longrightarrow> \<exists>c t. json_print j = c # t \<and> \<not> is_ws c \<and> c \<noteq> CHR '']'' \<and> c \<noteq> CHR 125"
proof (cases j)
  case (JNum l)
  moreover assume "wf_json j"
  ultimately show ?thesis
    using valid_number_nonempty [of l] num_char_not_ws num_char_not_syntax by (cases l) fastforce+
qed (auto simp: print_string_def)

lemma parse_elems_print:
  assumes "\<forall>j \<in> set js. parses j \<and> wf_json j" and "js \<noteq> []"
    and "length (join_with '','' (map json_print js)) + 1 < n"
  shows "parse_elems n (join_with '','' (map json_print js) @ CHR '']'' # r) = Some (js, r)"
  using assms
proof (induction js arbitrary: n)
  case Nil
  then show ?case by simp
next
  case (Cons j js)
  from Cons.prems(3) obtain m where n: "n = Suc m" by (cases n) auto
  show ?case
  proof (cases "js = []")
    case True
    with Cons.prems n have "parse_value m (json_print j @ CHR '']'' # r) = Some (j, CHR '']'' # r)"
      by (auto simp: parses_def)
    with True n show ?thesis by simp
  next
    case False
    let ?rest = "join_with '','' (map json_print js) @ CHR '']'' # r"
    from Cons.prems n False
    have "parse_value m (json_print j @ CHR '','' # ?rest) = Some (j, CHR '','' # ?rest)"
      by (auto simp: parses_def join_with_Cons)
    moreover have "parse_elems m ?rest = Some (js, r)"
      using Cons.prems n False by (intro Cons.IH) (auto simp: join_with_Cons)
    ultimately show ?thesis using n False by (simp add: join_with_Cons)
  qed
qed

lemma parse_member_step:
  assumes "parses v" and "length (json_print v) < n" and "delimits r"
  shows "parse_members (Suc n) (print_string k @ CHR '':'' # json_print v @ r)
    = (case skip_ws r of [] \<Rightarrow> None
       | d # u \<Rightarrow> if d = CHR '','' then map_option (apfst (Cons (k, v))) (parse_members n u)
                  else if d = CHR 125 then Some ([(k, v)], u) else None)"
  using assms parse_print_string [of k "CHR '':'' # json_print v @ r"]
  by (simp add: print_string_def parses_def)

definition print_member :: "string \<times> json \<Rightarrow> string" where
  "print_member kv = (case kv of (k, v) \<Rightarrow> print_string k @ '':'' @ json_print v)"

lemma print_member_pair: "print_member (k, v) = print_string k @ '':'' @ json_print v"
  by (simp add: print_member_def)

lemma json_print_JObj: "json_print (JObj kvs) = CHR 123 # join_with '','' (map print_member kvs) @ [CHR 125]"
proof -
  have "(\<lambda>(k, v). print_string k @ '':'' @ json_print v) = print_member"
    by (auto simp: print_member_def fun_eq_iff)
  then show ?thesis by simp
qed

lemma parse_members_print:
  assumes "\<forall>(k, v) \<in> set kvs. parses v" and "kvs \<noteq> []"
    and "length (join_with '','' (map print_member kvs)) + 1 < n"
  shows "parse_members n (join_with '','' (map print_member kvs) @ CHR 125 # r) = Some (kvs, r)"
  using assms
proof (induction kvs arbitrary: n)
  case Nil
  then show ?case by simp
next
  case (Cons kv kvs)
  obtain k v where kv: "kv = (k, v)" by (cases kv)
  from Cons.prems(3) obtain m where n: "n = Suc m" by (cases n) auto
  have v: "parses v" "length (json_print v) < m"
    using Cons.prems kv n by (auto simp: join_with_Cons print_member_pair)
  show ?case
  proof (cases "kvs = []")
    case True
    then show ?thesis using n kv parse_member_step [OF v, of "CHR 125 # r" k]
      by (simp add: print_member_pair)
  next
    case False
    let ?rest = "join_with '','' (map print_member kvs) @ CHR 125 # r"
    have "parse_members m ?rest = Some (kvs, r)"
      using Cons.prems n False by (intro Cons.IH) (auto simp: join_with_Cons)
    then show ?thesis using n kv False parse_member_step [OF v, of "CHR '','' # ?rest" k]
      by (simp add: join_with_Cons print_member_pair)
  qed
qed

lemma has_prefix_Cons: "has_prefix (c # s) [d] \<longleftrightarrow> c = d"
  by (simp add: has_prefix_def)

lemma join_first:
  assumes "xs \<noteq> []" and "hd xs = c # t"
  shows "\<exists>u. join_with d xs = c # u"
  using assms by (cases xs) (auto simp: join_with_Cons)

lemma wf_json_parses: "wf_json j \<Longrightarrow> parses j"
proof (induction j)
  case JNull
  then show ?case
    by (auto simp: parses_def gr0_conv_Suc parse_literal_def has_prefix_def dest!: less_imp_Suc_add)
next
  case (JBool b)
  then show ?case
    by (auto simp: parses_def parse_literal_def has_prefix_def dest!: less_imp_Suc_add)
next
  case (JNum l)
  show ?case unfolding parses_def
  proof (intro allI impI)
    fix n r assume n: "length (json_print (JNum l)) < n" and r: "delimits r"
    from JNum have l: "valid_number l" "list_all is_num_char l" by simp_all
    then obtain c l' where c: "l = c # l'" using valid_number_nonempty by (cases l) auto
    with l have "\<not> is_ws c" "c \<notin> {CHR 34, CHR ''['', CHR 123}"
      using num_char_not_ws num_char_not_syntax [of c] by auto
    with c n parse_literal_number [OF l r] show "parse_value n (json_print (JNum l) @ r) = Some (JNum l, r)"
      by (auto dest!: less_imp_Suc_add)
  qed
next
  case (JStr s)
  then show ?case using parse_print_string [of s]
    by (auto simp: parses_def print_string_def dest!: less_imp_Suc_add)
next
  case (JArr xs)
  then have xs: "\<forall>j \<in> set xs. parses j \<and> wf_json j" by (auto simp: list_all_iff)
  show ?case unfolding parses_def
  proof (intro allI impI)
    fix n r assume n: "length (json_print (JArr xs)) < n"
    then obtain m where m: "n = Suc m" by (cases n) auto
    show "parse_value n (json_print (JArr xs) @ r) = Some (JArr xs, r)"
    proof (cases "xs = []")
      case True
      with m show ?thesis by (simp add: has_prefix_Cons)
    next
      case False
      then obtain c t u where c: "join_with '','' (map json_print xs) = c # u"
        "json_print (hd xs) = c # t" "\<not> is_ws c" "c \<noteq> CHR '']''"
        using json_print_first [of "hd xs"] xs join_first [of "map json_print xs"]
        by (metis hd_in_set hd_map map_is_Nil_conv)
      have "parse_elems m (join_with '','' (map json_print xs) @ CHR '']'' # r) = Some (xs, r)"
        using n m False xs by (intro parse_elems_print) auto
      with m c show ?thesis by (simp add: has_prefix_Cons)
    qed
  qed
next
  case (JObj kvs)
  then have kvs: "\<forall>(k, v) \<in> set kvs. parses v"
    by (fastforce simp: list_all_iff)
  show ?case unfolding parses_def
  proof (intro allI impI)
    fix n r assume n: "length (json_print (JObj kvs)) < n"
    then obtain m where m: "n = Suc m" by (cases n) auto
    show "parse_value n (json_print (JObj kvs) @ r) = Some (JObj kvs, r)"
    proof (cases "kvs = []")
      case True
      with m show ?thesis by (simp add: has_prefix_Cons)
    next
      case False
      then obtain u where u: "join_with '','' (map print_member kvs) = CHR 34 # u"
        using join_first [of "map print_member kvs" "CHR 34"]
        by (cases kvs) (auto simp: print_member_def print_string_def)
      have "parse_members m (join_with '','' (map print_member kvs) @ CHR 125 # r) = Some (kvs, r)"
        using n m False kvs by (intro parse_members_print) (auto simp: json_print_JObj simp del: json_print.simps)
      with m u show ?thesis by (simp add: json_print_JObj has_prefix_Cons del: json_print.simps)
    qed
  qed
qed

lemma json_parse_print: "wf_json j \<Longrightarrow> json_parse (json_print j) = Some j"
  using wf_json_parses [of j] by (auto simp: parses_def json_parse_def skip_ws_def dest!: spec [of _ "Suc (length (json_print j))"] spec [of _ "[]"])

section \<open>Reading and writing scalars\<close>

text \<open>An integer field: the literal of a Go \<open>int\<close>, without fraction or exponent.\<close>

definition json_int :: "string \<Rightarrow> go_int option" where
  "json_int s = (let (neg, t) = scan_sign s; v = (if neg then - digits_val t else digits_val t) in
     if t \<noteq> [] \<and> list_all is_digit t \<and> - (2 ^ 63) \<le> v \<and> v < 2 ^ 63 then Some (word_of_int v) else None)"

lemma digit_char:
  "0 \<le> d \<Longrightarrow> d < 10 \<Longrightarrow> is_digit (char_of (48 + d :: int)) \<and> digit_val (char_of (48 + d)) = d"
  by (simp add: is_digit_def digit_val_def of_char_of)

lemma digits_val_append: "digits_val (s @ [c]) = 10 * digits_val s + digit_val c"
  by (simp add: digits_val_def)

lemma nat_digits_props:
  "0 \<le> n \<Longrightarrow> list_all is_digit (nat_digits n) \<and> digits_val (nat_digits n) = n
     \<and> nat_digits n \<noteq> [] \<and> (hd (nat_digits n) = CHR ''0'' \<longrightarrow> length (nat_digits n) = 1)
     \<and> (0 < n \<longrightarrow> hd (nat_digits n) \<noteq> CHR ''0'')"
proof (induction n rule: nat_digits.induct)
  case (1 n)
  show ?case
  proof (cases "n < 10")
    case True
    have "n \<noteq> 0 \<Longrightarrow> char_of (48 + n) \<noteq> CHR ''0''"
    proof
      assume "n \<noteq> 0" "char_of (48 + n) = CHR ''0''"
      then have "(of_char (char_of (48 + n)) :: int) = 48" by simp
      with True 1 \<open>n \<noteq> 0\<close> show False by (simp add: of_char_of)
    qed
    with True 1 show ?thesis
      by (subst (1 2 3 4 5 6) nat_digits.simps) (auto simp: digits_val_def digit_char)
  next
    case False
    with 1 have IH: "list_all is_digit (nat_digits (n div 10))" "digits_val (nat_digits (n div 10)) = n div 10"
      "nat_digits (n div 10) \<noteq> []" "hd (nat_digits (n div 10)) \<noteq> CHR ''0''"
      by (auto simp: pos_imp_zdiv_pos_iff)
    have eq: "nat_digits n = nat_digits (n div 10) @ [char_of (48 + n mod 10)]"
      using False by (subst nat_digits.simps) simp
    from IH False 1(2) show ?thesis
      by (simp add: eq digits_val_append digit_char)
  qed
qed

lemma is_digit_not_minus: "is_digit c \<Longrightarrow> c \<noteq> CHR ''-''"
  by (auto simp: is_digit_def)

lemma scan_sign_digits:
  "list_all is_digit t \<Longrightarrow> t \<noteq> [] \<Longrightarrow> scan_sign t = (False, t)"
  by (cases t) (auto simp: scan_sign_def is_digit_not_minus)

lemma scan_sign_minus: "scan_sign (CHR ''-'' # t) = (True, t)"
  by (simp add: scan_sign_def)

lemma valid_number_digits:
  assumes "list_all is_digit t" "t \<noteq> []" "hd t = CHR ''0'' \<longrightarrow> length t = 1"
  shows "valid_number t \<and> valid_number (CHR ''-'' # t)"
proof -
  have tw: "takeWhile is_digit t = t" and dw: "dropWhile is_digit t = []"
    using assms(1) by (simp_all add: list_all_iff)
  show ?thesis using assms
    by (simp add: valid_number_def scan_sign_digits scan_sign_minus scan_frac_def scan_exp_def tw dw)
qed

lemma digits_num_char: "list_all is_digit t \<Longrightarrow> list_all is_num_char t"
  by (auto simp: list_all_iff is_num_char_def)

lemma itoa_wf: "wf_json (JNum (itoa i))"
proof (cases "sint i < 0")
  case True
  then show ?thesis
    using nat_digits_props [of "- sint i"] valid_number_digits [of "nat_digits (- sint i)"]
    by (auto simp: itoa_def int_digits_def digits_num_char is_num_char_def)
next
  case False
  then show ?thesis
    using nat_digits_props [of "sint i"] valid_number_digits [of "nat_digits (sint i)"]
    by (auto simp: itoa_def int_digits_def digits_num_char)
qed

lemma json_int_itoa: "json_int (itoa i) = Some i"
proof -
  have range: "- (2 ^ 63) \<le> sint i" "sint i < 2 ^ 63"
    using sint_ge [of i] sint_lt [of i] by simp_all
  show ?thesis
  proof (cases "sint i < 0")
    case True
    then show ?thesis using nat_digits_props [of "- sint i"] range
      by (simp add: itoa_def int_digits_def json_int_def scan_sign_minus)
  next
    case False
    then show ?thesis using nat_digits_props [of "sint i"] range
      by (simp add: itoa_def int_digits_def json_int_def scan_sign_digits)
  qed
qed

text \<open>A float whose shortest text reads back as the same float.\<close>

definition float_text_ok :: "f64 \<Rightarrow> bool" where
  "float_text_ok x \<longleftrightarrow> (case format_float x of
     None \<Rightarrow> False | Some s \<Rightarrow> wf_json (JNum s) \<and> parse_decimal s = Some x)"

end
