(* ===== verification/Go_Time.thy ===== *)
theory Go_Time
  imports Go_Json
begin

text \<open>
  The text forms of \<open>time.Time\<close> the code uses: the date layout \<open>2006-01-02\<close> of the rate
  limiter's daily key and the RFC 3339 form \<open>encoding/json\<close> writes. Times are instants;
  they are written in UTC.
\<close>

definition days_per_era :: int where "days_per_era = 146097"

text \<open>The civil date of a day number (day 0 is 1970-01-01), proleptic Gregorian.\<close>

definition civil_from_days :: "int \<Rightarrow> int \<times> int \<times> int" where
  "civil_from_days z0 =
     (let z = z0 + 719468; era = z div days_per_era; doe = z mod days_per_era;
          yoe = (doe - doe div 1460 + doe div 36524 - doe div 146096) div 365;
          doy = doe - (365 * yoe + yoe div 4 - yoe div 100);
          mp = (5 * doy + 2) div 153;
          d = doy - (153 * mp + 2) div 5 + 1;
          m = (if mp < 10 then mp + 3 else mp - 9)
      in (yoe + era * 400 + (if m \<le> 2 then 1 else 0), m, d))"

definition days_from_civil :: "int \<Rightarrow> int \<Rightarrow> int \<Rightarrow> int" where
  "days_from_civil y0 m d =
     (let y = (if m \<le> 2 then y0 - 1 else y0); era = y div 400; yoe = y mod 400;
          doy = (153 * (if m > 2 then m - 3 else m + 9) + 2) div 5 + d - 1;
          doe = yoe * 365 + yoe div 4 - yoe div 100 + doy
      in era * days_per_era + doe - 719468)"

definition pad :: "nat \<Rightarrow> int \<Rightarrow> string" where
  "pad n i = (let s = nat_digits i in replicate (n - length s) (CHR ''0'') @ s)"

definition ns_per_day :: int where "ns_per_day = 24 * hour"

definition format_date :: "time \<Rightarrow> string" where
  "format_date t = (case civil_from_days (t div ns_per_day) of (y, m, d) \<Rightarrow>
     pad 4 y @ ''-'' @ pad 2 m @ ''-'' @ pad 2 d)"

definition format_fraction :: "int \<Rightarrow> string" where
  "format_fraction ns = (if ns = 0 then [] else
     ''.'' @ rev (dropWhile (\<lambda>c. c = CHR ''0'') (rev (pad 9 ns))))"

definition format_time :: "time \<Rightarrow> string" where
  "format_time t = (let s = t mod ns_per_day in
     format_date t @ ''T'' @ pad 2 (s div hour) @ '':'' @ pad 2 (s mod hour div minute) @ '':''
       @ pad 2 (s mod minute div second) @ format_fraction (s mod second) @ ''Z'')"

text \<open>Reading the UTC form back.\<close>

definition parse_fraction :: "string \<Rightarrow> int" where
  "parse_fraction f = digits_val (take 9 (f @ replicate 9 (CHR ''0'')))"

definition parse_time :: "string \<Rightarrow> time option" where
  "parse_time s =
     (let y = take 4 s; m = take 2 (drop 5 s); d = take 2 (drop 8 s);
          hh = take 2 (drop 11 s); mm = take 2 (drop 14 s); ss = take 2 (drop 17 s);
          rest = drop 19 s;
          frac = (case rest of c # t \<Rightarrow> if c = CHR ''.'' then takeWhile is_digit t else [] | [] \<Rightarrow> [])
      in if list_all is_digit (y @ m @ d @ hh @ mm @ ss) \<and> 20 \<le> length s
            \<and> take 1 (drop 4 s) = ''-'' \<and> take 1 (drop 7 s) = ''-'' \<and> take 1 (drop 10 s) = ''T''
            \<and> take 1 (drop 13 s) = '':'' \<and> take 1 (drop 16 s) = '':''
            \<and> rest = (if frac = [] then ''Z'' else ''.'' @ frac @ ''Z'')
         then Some (days_from_civil (digits_val y) (digits_val m) (digits_val d) * ns_per_day
                + digits_val hh * hour + digits_val mm * minute + digits_val ss * second
                + parse_fraction frac)
         else None)"

definition time_text_ok :: "time \<Rightarrow> bool" where
  "time_text_ok t \<longleftrightarrow> parse_time (format_time t) = Some t"

end
