(* ===== verification/Toolspec.thy ===== *)
theory Toolspec
  imports Go_Time "HOL-Library.List_Lexorder" "HOL-Library.Char_ord"
begin

text \<open>
  \<open>pkg/toolspec/openai_format.go\<close>: the tool-calling wire format, its constructors and
  \<open>ParseArguments\<close>, with the dynamic values (\<open>any\<close>) that tool arguments and results are
  made of and their JSON encoding.
\<close>

section \<open>Tool calls and dynamic values\<close>

record function_call =
  fc_Name :: string
  fc_Arguments :: string

record tool_call =
  tc_ID :: string
  tc_Type :: string
  tc_Function :: function_call

text \<open>
  The values an \<open>any\<close> of the program holds. A map is an association list with distinct
  keys; \<open>ACall\<close> is a \<open>toolspec.ToolCall\<close> stored in a map.
\<close>

datatype any = ANil | ABool bool | AInt go_int | AFloat f64 | AStr string | ATime time
  | AList "any list" | AMap "(string \<times> any) list" | ACall tool_call

type_synonym gomap = "(string \<times> any) list"

definition any_string :: "any option \<Rightarrow> string option" where
  "any_string v = (case v of Some (AStr s) \<Rightarrow> Some s | _ \<Rightarrow> None)"

section \<open>JSON encoding of values\<close>

definition function_call_json :: "function_call \<Rightarrow> json" where
  "function_call_json f = JObj [(''name'', JStr (fc_Name f)), (''arguments'', JStr (fc_Arguments f))]"

definition tool_call_json :: "tool_call \<Rightarrow> json" where
  "tool_call_json c = JObj [(''id'', JStr (tc_ID c)), (''type'', JStr (tc_Type c)),
     (''function'', function_call_json (tc_Function c))]"

fun sequence_opt :: "'a option list \<Rightarrow> 'a list option" where
  "sequence_opt [] = Some []"
| "sequence_opt (None # xs) = None"
| "sequence_opt (Some x # xs) = map_option (Cons x) (sequence_opt xs)"

lemma sequence_opt_Some: "sequence_opt (map Some xs) = Some xs"
  by (induction xs) auto

lemma sequence_opt_map: "(\<And>x. x \<in> set xs \<Longrightarrow> f x = Some (g x)) \<Longrightarrow> sequence_opt (map f xs) = Some (map g xs)"
  by (induction xs) auto

text \<open>
  \<open>json.Marshal\<close> of a dynamic value: keys in byte order, no result for a NaN or an
  infinity (\<open>UnsupportedValueError\<close>).
\<close>

fun any_json :: "any \<Rightarrow> json option" where
  "any_json ANil = Some JNull"
| "any_json (ABool b) = Some (JBool b)"
| "any_json (AInt i) = Some (JNum (itoa i))"
| "any_json (AFloat x) = map_option JNum (format_float x)"
| "any_json (AStr s) = Some (JStr s)"
| "any_json (ATime t) = Some (JStr (format_time t))"
| "any_json (AList xs) = map_option JArr (sequence_opt (map any_json xs))"
| "any_json (AMap kvs) =
     map_option JObj (map_option (sort_key fst)
       (sequence_opt (map (\<lambda>(k, v). map_option (Pair k) (any_json v)) kvs)))"
| "any_json (ACall c) = Some (tool_call_json c)"

definition marshal_any :: "any \<Rightarrow> string option" where
  "marshal_any v = map_option json_print (any_json v)"

text \<open>\<open>json.Unmarshal\<close> into an \<open>any\<close>: numbers become \<open>float64\<close>, a repeated key keeps its
  last value.\<close>

fun json_any :: "json \<Rightarrow> any option" where
  "json_any JNull = Some ANil"
| "json_any (JBool b) = Some (ABool b)"
| "json_any (JNum s) = map_option AFloat (parse_decimal s)"
| "json_any (JStr s) = Some (AStr s)"
| "json_any (JArr xs) = map_option AList (sequence_opt (map json_any xs))"
| "json_any (JObj kvs) =
     map_option (\<lambda>l. AMap (foldl (\<lambda>m (k, v). AList.update k v m) [] l))
       (sequence_opt (map (\<lambda>(k, v). map_option (Pair k) (json_any v)) kvs))"

section \<open>ParseArguments\<close>

text \<open>
  Unmarshalling into \<open>map[string]any\<close>: an object gives its map, \<open>null\<close> the nil map,
  anything else an error. The texts of the library's errors are not modelled.
\<close>

definition ParseArguments :: "tool_call \<Rightarrow> goerror + gomap" where
  "ParseArguments c = (case json_parse (fc_Arguments (tc_Function c)) of
     None \<Rightarrow> Inl (Errorf ''invalid JSON'')
   | Some JNull \<Rightarrow> Inr []
   | Some (JObj kvs) \<Rightarrow> (case json_any (JObj kvs) of
        Some (AMap m) \<Rightarrow> Inr m
      | _ \<Rightarrow> Inl (Errorf ''cannot unmarshal number''))
   | Some j \<Rightarrow> Inl (Errorf ''cannot unmarshal into map''))"

section \<open>Tool definitions\<close>

datatype property_schema = PropertySchema
  (ps_Type: string) (ps_Description: string) (ps_Enum: "string list")
  (ps_Items: "property_schema option") (ps_Default: any)
  (ps_Minimum: "f64 option") (ps_Maximum: "f64 option")

record json_schema =
  js_Type :: string
  js_Description :: string
  js_Properties :: "(string \<times> property_schema) list"
  js_Required :: "string list"
  js_AdditionalProperties :: "bool option"

record function_spec =
  fs_Name :: string
  fs_Description :: string
  fs_Parameters :: "json_schema option"
  fs_Strict :: bool

record tool_spec =
  ts_Type :: string
  ts_Function :: function_spec

text \<open>\<open>ToolMessage\<close>, the wire form of a result.\<close>

record tool_message =
  tm_Role :: string
  tm_Content :: string
  tm_ToolCallID :: string
  tm_Name :: string

definition NewTool :: "string \<Rightarrow> string \<Rightarrow> json_schema option \<Rightarrow> tool_spec" where
  "NewTool name description params =
     \<lparr>ts_Type = ''function'', ts_Function =
        \<lparr>fs_Name = name, fs_Description = description, fs_Parameters = params, fs_Strict = False\<rparr>\<rparr>"

text \<open>
  \<open>NewStrictTool\<close> writes through the pointer it is given: the caller's schema changes too,
  so the new schema is returned beside the tool.
\<close>

definition NewStrictTool :: "string \<Rightarrow> string \<Rightarrow> json_schema option \<Rightarrow> tool_spec \<times> json_schema option" where
  "NewStrictTool name description params =
     (let params' = map_option (\<lambda>p. p\<lparr>js_AdditionalProperties := Some False\<rparr>) params
      in (\<lparr>ts_Type = ''function'', ts_Function =
             \<lparr>fs_Name = name, fs_Description = description, fs_Parameters = params', fs_Strict = True\<rparr>\<rparr>,
          params'))"

end
