(* ===== verification/Ports.thy ===== *)
theory Ports
  imports Toolspec
begin

text \<open>
  \<open>internal/application/port\<close>: the messages and requests exchanged with a language model,
  and the interfaces the application layer calls. An interface is a record of its methods;
  a method that has effects is a function of the world, so any provider can be plugged in.
  \<open>runtime\<close> collects what the Go runtime supplies: the clock, fresh UUIDs, and the order in
  which a \<open>range\<close> over a map visits the keys, which the language leaves open.
\<close>

section \<open>Messages, requests, responses\<close>

record chat_message =
  cm_Role :: string
  cm_Content :: string
  cm_Name :: string
  cm_ToolCalls :: "tool_call list"
  cm_ToolCallID :: string

definition chat_message_of :: "string \<Rightarrow> string \<Rightarrow> chat_message" where
  "chat_message_of role content =
     \<lparr>cm_Role = role, cm_Content = content, cm_Name = [], cm_ToolCalls = [], cm_ToolCallID = []\<rparr>"

record chat_request =
  rq_Model :: string
  rq_Messages :: "chat_message list"
  rq_Tools :: "tool_spec list"
  rq_ToolChoice :: any
  rq_Temperature :: f64
  rq_MaxTokens :: go_int
  rq_Stream :: bool
  rq_User :: string

definition chat_request0 :: chat_request where
  "chat_request0 = \<lparr>rq_Model = [], rq_Messages = [], rq_Tools = [], rq_ToolChoice = ANil,
     rq_Temperature = FZero False, rq_MaxTokens = 0, rq_Stream = False, rq_User = []\<rparr>"

record usage_info =
  us_PromptTokens :: go_int
  us_CompletionTokens :: go_int
  us_TotalTokens :: go_int

record choice =
  ch_Index :: go_int
  ch_Message :: chat_message
  ch_FinishReason :: string

record chat_response =
  rs_ID :: string
  rs_Object :: string
  rs_Created :: go_int
  rs_Model :: string
  rs_Choices :: "choice list"
  rs_Usage :: usage_info

record stream_event =
  se_Type :: string
  se_Delta :: string
  se_ToolCall :: "tool_call option"
  se_Usage :: "usage_info option"
  se_Error :: "goerror option"
  se_Done :: bool

definition stream_event0 :: stream_event where
  "stream_event0 = \<lparr>se_Type = [], se_Delta = [], se_ToolCall = None, se_Usage = None, se_Error = None, se_Done = False\<rparr>"

section \<open>Interfaces\<close>

record 'w runtime =
  rt_now :: "'w \<Rightarrow> time \<times> 'w"
  rt_uuid :: "'w \<Rightarrow> uuid \<times> 'w"
  rt_range :: "string list \<Rightarrow> 'w \<Rightarrow> string list \<times> 'w"

text \<open>
  A channel of stream events is the list of the events the producer sends before it closes
  the channel.
\<close>

record 'w llm_provider =
  llm_Chat :: "chat_request \<Rightarrow> ('w, chat_response) go"
  llm_ChatStream :: "chat_request \<Rightarrow> ('w, stream_event list) go"

record workflow_input =
  wi_ConversationID :: uuid
  wi_UserID :: uuid
  wi_Content :: string
  wi_Model :: string
  wi_Messages :: "chat_message list"
  wi_Temperature :: f64

record workflow_output =
  wo_Response :: string
  wo_TokensUsed :: go_int
  wo_ToolCallsCount :: go_int
  wo_AgentType :: string
  wo_RequiresApproval :: bool
  wo_ApprovalReason :: string
  wo_PausedStateJSON :: string

record 'w workflow_engine =
  we_Run :: "workflow_input \<Rightarrow> ('w, workflow_output) go"
  we_Resume :: "string \<Rightarrow> bool \<Rightarrow> ('w, workflow_output) go"

record 'w cache =
  ca_Get :: "string \<Rightarrow> ('w, string) go"
  ca_Set :: "string \<Rightarrow> string \<Rightarrow> duration \<Rightarrow> ('w, unit) go"
  ca_Delete :: "string \<Rightarrow> ('w, unit) go"
  ca_Exists :: "string \<Rightarrow> ('w, bool) go"

section \<open>JSON of messages\<close>

text \<open>The struct tags of \<open>ChatMessage\<close>: everything but the role is \<open>omitempty\<close>.\<close>

definition omit_string :: "string \<Rightarrow> string \<Rightarrow> (string \<times> json) list" where
  "omit_string k s = (if s = [] then [] else [(k, JStr s)])"

definition chat_message_json :: "chat_message \<Rightarrow> json" where
  "chat_message_json m = JObj ([(''role'', JStr (cm_Role m))] @ omit_string ''content'' (cm_Content m)
     @ omit_string ''name'' (cm_Name m)
     @ (if cm_ToolCalls m = [] then [] else [(''tool_calls'', JArr (map tool_call_json (cm_ToolCalls m)))])
     @ omit_string ''tool_call_id'' (cm_ToolCallID m))"

text \<open>
  Decoding into a struct: a key matches a field without regard to case, the last matching
  key wins, \<open>null\<close> leaves the field alone, and a value of the wrong kind is an error.
\<close>

definition obj_field :: "string \<Rightarrow> (string \<times> json) list \<Rightarrow> json" where
  "obj_field name kvs = (case find (\<lambda>(k, v). to_lower k = name) (rev kvs) of None \<Rightarrow> JNull | Some (k, v) \<Rightarrow> v)"

definition dec_string :: "json \<Rightarrow> string option" where
  "dec_string j = (case j of JNull \<Rightarrow> Some [] | JStr s \<Rightarrow> Some s | _ \<Rightarrow> None)"

definition dec_bool :: "json \<Rightarrow> bool option" where
  "dec_bool j = (case j of JNull \<Rightarrow> Some False | JBool b \<Rightarrow> Some b | _ \<Rightarrow> None)"

definition dec_int :: "json \<Rightarrow> go_int option" where
  "dec_int j = (case j of JNull \<Rightarrow> Some 0 | JNum s \<Rightarrow> json_int s | _ \<Rightarrow> None)"

definition dec_float :: "json \<Rightarrow> f64 option" where
  "dec_float j = (case j of JNull \<Rightarrow> Some (FZero False) | JNum s \<Rightarrow> parse_decimal s | _ \<Rightarrow> None)"

definition dec_list :: "(json \<Rightarrow> 'a option) \<Rightarrow> json \<Rightarrow> 'a list option" where
  "dec_list f j = (case j of JNull \<Rightarrow> Some [] | JArr xs \<Rightarrow> sequence_opt (map f xs) | _ \<Rightarrow> None)"

definition dec_obj :: "json \<Rightarrow> (string \<times> json) list option" where
  "dec_obj j = (case j of JNull \<Rightarrow> Some [] | JObj kvs \<Rightarrow> Some kvs | _ \<Rightarrow> None)"

definition dec_function_call :: "json \<Rightarrow> function_call option" where
  "dec_function_call j = Option.bind (dec_obj j) (\<lambda>o1.
     Option.bind (dec_string (obj_field ''name'' o1)) (\<lambda>n.
     Option.bind (dec_string (obj_field ''arguments'' o1)) (\<lambda>a.
     Some \<lparr>fc_Name = n, fc_Arguments = a\<rparr>)))"

definition dec_tool_call :: "json \<Rightarrow> tool_call option" where
  "dec_tool_call j = Option.bind (dec_obj j) (\<lambda>o1.
     Option.bind (dec_string (obj_field ''id'' o1)) (\<lambda>i.
     Option.bind (dec_string (obj_field ''type'' o1)) (\<lambda>t.
     Option.bind (dec_function_call (obj_field ''function'' o1)) (\<lambda>f.
     Some \<lparr>tc_ID = i, tc_Type = t, tc_Function = f\<rparr>))))"

definition dec_chat_message :: "json \<Rightarrow> chat_message option" where
  "dec_chat_message j = Option.bind (dec_obj j) (\<lambda>o1.
     Option.bind (dec_string (obj_field ''role'' o1)) (\<lambda>r.
     Option.bind (dec_string (obj_field ''content'' o1)) (\<lambda>c.
     Option.bind (dec_string (obj_field ''name'' o1)) (\<lambda>n.
     Option.bind (dec_list dec_tool_call (obj_field ''tool_calls'' o1)) (\<lambda>ts.
     Option.bind (dec_string (obj_field ''tool_call_id'' o1)) (\<lambda>i.
     Some \<lparr>cm_Role = r, cm_Content = c, cm_Name = n, cm_ToolCalls = ts, cm_ToolCallID = i\<rparr>))))))"

lemma obj_field_Nil: "obj_field n [] = JNull"
  by (simp add: obj_field_def)

lemma obj_field_snoc: "obj_field n (kvs @ [(k, v)]) = (if to_lower k = n then v else obj_field n kvs)"
  by (simp add: obj_field_def)

lemma find_append: "find P (xs @ ys) = (case find P xs of None \<Rightarrow> find P ys | Some x \<Rightarrow> Some x)"
  by (induction xs) auto

lemma obj_field_append:
  "obj_field n (xs @ ys) =
     (if \<exists>(k, v) \<in> set ys. to_lower k = n then obj_field n ys else obj_field n xs)"
proof -
  have "find (\<lambda>(k, v). to_lower k = n) (rev ys) = None \<longleftrightarrow> \<not> (\<exists>(k, v) \<in> set ys. to_lower k = n)"
    by (auto simp: find_None_iff)
  then show ?thesis
    by (auto simp: obj_field_def find_append split: option.splits)
qed

lemma obj_field_Cons:
  "obj_field n ((k, v) # ys) =
     (if \<exists>(k, v) \<in> set ys. to_lower k = n then obj_field n ys else if to_lower k = n then v else JNull)"
  using obj_field_append [of n "[(k, v)]" ys] by (simp add: obj_field_def)

text \<open>The keys of the wire format are lower case.\<close>

lemma wire_keys [simp]:
  "to_lower ''role'' = ''role''" "to_lower ''content'' = ''content''" "to_lower ''name'' = ''name''"
  "to_lower ''arguments'' = ''arguments''" "to_lower ''id'' = ''id''" "to_lower ''type'' = ''type''"
  "to_lower ''function'' = ''function''" "to_lower ''tool_calls'' = ''tool_calls''"
  "to_lower ''tool_call_id'' = ''tool_call_id''"
  by code_simp+

lemma dec_tool_call_json: "dec_tool_call (tool_call_json c) = Some c"
  by (simp add: dec_tool_call_def tool_call_json_def function_call_json_def dec_function_call_def
      dec_obj_def dec_string_def obj_field_Cons obj_field_Nil)

text \<open>Decoding a list that was encoded element by element.\<close>

lemma sequence_opt_decode: "(\<And>x. dec (enc x) = Some x) \<Longrightarrow> sequence_opt (map (dec \<circ> enc) xs) = Some xs"
  by (induction xs) auto

lemma dec_list_encoded: "(\<And>x. dec (enc x) = Some x) \<Longrightarrow> dec_list dec (JArr (map enc xs)) = Some xs"
  by (simp add: dec_list_def sequence_opt_decode)

lemma dec_list_null: "dec_list dec JNull = Some []"
  by (simp add: dec_list_def)

lemmas dec_list_tool_calls = dec_list_encoded [of dec_tool_call tool_call_json, OF dec_tool_call_json]

lemma dec_chat_message_json: "dec_chat_message (chat_message_json m) = Some m"
  by (simp add: dec_chat_message_def chat_message_json_def omit_string_def dec_obj_def dec_string_def
      obj_field_Cons obj_field_append obj_field_Nil dec_list_tool_calls dec_list_null)

lemmas dec_list_messages = dec_list_encoded [of dec_chat_message chat_message_json, OF dec_chat_message_json]

end
