(* ===== verification/Entities.thy ===== *)
theory Entities
  imports Toolspec
begin

text \<open>
  The domain layer's data: \<open>internal/domain/entity\<close>, \<open>internal/domain/valueobject\<close> and
  \<open>internal/domain/event\<close>. A method that reads the clock takes the reading as its first
  argument, a constructor also the UUID it draws. A map field is \<open>None\<close> when the Go map is
  nil: reading a nil map finds nothing, writing to one panics.
\<close>

section \<open>Users (\<open>entity/user.go\<close>)\<close>

datatype user_role = UserRoleAdmin | UserRoleUser | UserRoleAgent

fun user_role_text :: "user_role \<Rightarrow> string" where
  "user_role_text UserRoleAdmin = ''admin''"
| "user_role_text UserRoleUser = ''user''"
| "user_role_text UserRoleAgent = ''agent''"

record user =
  u_ID :: uuid
  u_Email :: string
  u_PasswordHash :: string
  u_Name :: string
  u_Role :: user_role
  u_IsActive :: bool
  u_Metadata :: "gomap option"
  u_CreatedAt :: time
  u_UpdatedAt :: time

definition NewUser :: "uuid \<Rightarrow> time \<Rightarrow> time \<Rightarrow> string \<Rightarrow> string \<Rightarrow> string \<Rightarrow> user" where
  "NewUser uid now now' email passwordHash name =
     \<lparr>u_ID = uid, u_Email = email, u_PasswordHash = passwordHash, u_Name = name,
      u_Role = UserRoleUser, u_IsActive = True, u_Metadata = Some [],
      u_CreatedAt = now, u_UpdatedAt = now'\<rparr>"

definition User_CanUseTools :: "user \<Rightarrow> bool" where
  "User_CanUseTools u \<longleftrightarrow> u_IsActive u \<and> (u_Role u = UserRoleAdmin \<or> u_Role u = UserRoleUser)"

definition User_IsAdmin :: "user \<Rightarrow> bool" where
  "User_IsAdmin u \<longleftrightarrow> u_Role u = UserRoleAdmin"

section \<open>Tokens (\<open>entity/token.go\<close>)\<close>

datatype token_type = TokenTypeAPIKey | TokenTypeAccess | TokenTypeRefresh

fun token_type_text :: "token_type \<Rightarrow> string" where
  "token_type_text TokenTypeAPIKey = ''api_key''"
| "token_type_text TokenTypeAccess = ''access''"
| "token_type_text TokenTypeRefresh = ''refresh''"

record token =
  t_ID :: uuid
  t_UserID :: uuid
  t_TokenHash :: string
  t_TokenType :: token_type
  t_Name :: string
  t_ExpiresAt :: time
  t_LastUsedAt :: "time option"
  t_RateLimitPerMinute :: go_int
  t_RateLimitPerDay :: go_int
  t_AllowedTools :: "string list"
  t_AllowedModels :: "string list"
  t_IsRevoked :: bool
  t_Metadata :: "gomap option"
  t_CreatedAt :: time
  t_UpdatedAt :: time

definition NewAPIKey :: "uuid \<Rightarrow> time \<Rightarrow> time \<Rightarrow> uuid \<Rightarrow> string \<Rightarrow> string \<Rightarrow> time \<Rightarrow> token" where
  "NewAPIKey tid now now' userID tokenHash name expiresAt =
     \<lparr>t_ID = tid, t_UserID = userID, t_TokenHash = tokenHash, t_TokenType = TokenTypeAPIKey,
      t_Name = name, t_ExpiresAt = expiresAt, t_LastUsedAt = None,
      t_RateLimitPerMinute = 60, t_RateLimitPerDay = 10000, t_AllowedTools = [], t_AllowedModels = [],
      t_IsRevoked = False, t_Metadata = Some [], t_CreatedAt = now, t_UpdatedAt = now'\<rparr>"

definition Token_IsExpired :: "time \<Rightarrow> token \<Rightarrow> bool" where
  "Token_IsExpired now t \<longleftrightarrow> t_ExpiresAt t < now"

definition Token_IsValid :: "time \<Rightarrow> token \<Rightarrow> bool" where
  "Token_IsValid now t \<longleftrightarrow> \<not> t_IsRevoked t \<and> \<not> Token_IsExpired now t"

text \<open>The loop \<open>for _, allowed := range ...\<close> of \<open>CanUseTool\<close> and \<open>CanUseModel\<close>.\<close>

fun allowed_loop :: "string list \<Rightarrow> string \<Rightarrow> bool" where
  "allowed_loop [] name = False"
| "allowed_loop (allowed # rest) name =
     (if allowed = name \<or> allowed = ''*'' then True else allowed_loop rest name)"

definition Token_CanUseTool :: "token \<Rightarrow> string \<Rightarrow> bool" where
  "Token_CanUseTool t toolName =
     (if length (t_AllowedTools t) = 0 then True else allowed_loop (t_AllowedTools t) toolName)"

definition Token_CanUseModel :: "token \<Rightarrow> string \<Rightarrow> bool" where
  "Token_CanUseModel t modelName =
     (if length (t_AllowedModels t) = 0 then True else allowed_loop (t_AllowedModels t) modelName)"

definition Token_UpdateLastUsed :: "time \<Rightarrow> token \<Rightarrow> token" where
  "Token_UpdateLastUsed now t = t\<lparr>t_LastUsedAt := Some now\<rparr>"

lemma allowed_loop_iff: "allowed_loop xs n \<longleftrightarrow> n \<in> set xs \<or> ''*'' \<in> set xs"
  by (induction xs) auto

lemma Token_CanUseTool_iff:
  "Token_CanUseTool t n \<longleftrightarrow> t_AllowedTools t = [] \<or> n \<in> set (t_AllowedTools t) \<or> ''*'' \<in> set (t_AllowedTools t)"
  by (simp add: Token_CanUseTool_def allowed_loop_iff)

lemma Token_CanUseModel_iff:
  "Token_CanUseModel t n \<longleftrightarrow> t_AllowedModels t = [] \<or> n \<in> set (t_AllowedModels t) \<or> ''*'' \<in> set (t_AllowedModels t)"
  by (simp add: Token_CanUseModel_def allowed_loop_iff)

section \<open>Conversations (\<open>entity/conversation.go\<close>)\<close>

datatype conversation_status = ConversationStatusActive | ConversationStatusPending
  | ConversationStatusCompleted | ConversationStatusFailed | ConversationStatusArchived

fun conversation_status_text :: "conversation_status \<Rightarrow> string" where
  "conversation_status_text ConversationStatusActive = ''active''"
| "conversation_status_text ConversationStatusPending = ''pending_approval''"
| "conversation_status_text ConversationStatusCompleted = ''completed''"
| "conversation_status_text ConversationStatusFailed = ''failed''"
| "conversation_status_text ConversationStatusArchived = ''archived''"

record conversation =
  c_ID :: uuid
  c_UserID :: uuid
  c_Title :: string
  c_Status :: conversation_status
  c_AgentType :: string
  c_SystemPrompt :: string
  c_Model :: string
  c_Temperature :: f64
  c_CurrentNode :: string
  c_WorkflowState :: "gomap option"
  c_MessageCount :: go_int
  c_ToolCallCount :: go_int
  c_TotalTokens :: go_int
  c_TotalCost :: f64
  c_Metadata :: "gomap option"
  c_Tags :: "string list"
  c_CreatedAt :: time
  c_UpdatedAt :: time
  c_LastMessageAt :: "time option"
  c_CompletedAt :: "time option"

definition NewConversation :: "uuid \<Rightarrow> time \<Rightarrow> time \<Rightarrow> uuid \<Rightarrow> string \<Rightarrow> conversation" where
  "NewConversation cid now now' userID agentType =
     \<lparr>c_ID = cid, c_UserID = userID, c_Title = [], c_Status = ConversationStatusActive,
      c_AgentType = agentType, c_SystemPrompt = [], c_Model = [], c_Temperature = float_of_rat (7 / 10),
      c_CurrentNode = [], c_WorkflowState = Some [],
      c_MessageCount = 0, c_ToolCallCount = 0, c_TotalTokens = 0, c_TotalCost = FZero False,
      c_Metadata = Some [], c_Tags = [], c_CreatedAt = now, c_UpdatedAt = now',
      c_LastMessageAt = None, c_CompletedAt = None\<rparr>"

definition Conversation_IsActive :: "conversation \<Rightarrow> bool" where
  "Conversation_IsActive c \<longleftrightarrow> c_Status c = ConversationStatusActive"

definition Conversation_IsPendingApproval :: "conversation \<Rightarrow> bool" where
  "Conversation_IsPendingApproval c \<longleftrightarrow> c_Status c = ConversationStatusPending"

text \<open>A map assignment \<open>m[k] = v\<close>: a nil map panics.\<close>

definition map_assign :: "string \<Rightarrow> any \<Rightarrow> gomap option \<Rightarrow> gomap option outcome" where
  "map_assign k v m = (case m of
     None \<Rightarrow> Panic ''assignment to entry in nil map''
   | Some kvs \<Rightarrow> Ret (Some (AList.update k v kvs)))"

definition Conversation_RequestApproval ::
    "time \<Rightarrow> string \<Rightarrow> gomap \<Rightarrow> conversation \<Rightarrow> conversation outcome" where
  "Conversation_RequestApproval now node data c =
     (case map_assign ''pending_approval'' (AMap data) (c_Metadata c) of
        Ret m \<Rightarrow> Ret (c\<lparr>c_Status := ConversationStatusPending, c_CurrentNode := node,
                        c_Metadata := m, c_UpdatedAt := now\<rparr>)
      | Err e \<Rightarrow> Err e
      | Panic p \<Rightarrow> Panic p)"

definition Conversation_Approve :: "time \<Rightarrow> conversation \<Rightarrow> conversation" where
  "Conversation_Approve now c =
     c\<lparr>c_Status := ConversationStatusActive,
       c_Metadata := map_option (AList.delete ''pending_approval'') (c_Metadata c), c_UpdatedAt := now\<rparr>"

definition Conversation_Reject :: "time \<Rightarrow> time \<Rightarrow> string \<Rightarrow> conversation \<Rightarrow> conversation outcome" where
  "Conversation_Reject rejectedAt now reason c =
     (case map_assign ''last_rejection'' (AMap [(''reason'', AStr reason), (''at'', ATime rejectedAt)]) (c_Metadata c) of
        Ret m \<Rightarrow> Ret (c\<lparr>c_Status := ConversationStatusActive, c_Metadata := m, c_UpdatedAt := now\<rparr>)
      | Err e \<Rightarrow> Err e
      | Panic p \<Rightarrow> Panic p)"

definition Conversation_Complete :: "time \<Rightarrow> conversation \<Rightarrow> conversation" where
  "Conversation_Complete now c =
     c\<lparr>c_Status := ConversationStatusCompleted, c_CompletedAt := Some now, c_UpdatedAt := now\<rparr>"

definition Conversation_AddMessageStats :: "time \<Rightarrow> go_int \<Rightarrow> go_int \<Rightarrow> conversation \<Rightarrow> conversation" where
  "Conversation_AddMessageStats now tokens toolCalls c =
     c\<lparr>c_MessageCount := c_MessageCount c + 1, c_TotalTokens := c_TotalTokens c + tokens,
       c_ToolCallCount := c_ToolCallCount c + toolCalls, c_LastMessageAt := Some now, c_UpdatedAt := now\<rparr>"

definition Conversation_SetTitle :: "time \<Rightarrow> string \<Rightarrow> conversation \<Rightarrow> conversation" where
  "Conversation_SetTitle now title c =
     (if c_Title c = [] \<and> title \<noteq> [] then c\<lparr>c_Title := title, c_UpdatedAt := now\<rparr> else c)"

lemmas conversation_op_defs [entity_defs] =
  Conversation_RequestApproval_def Conversation_Approve_def Conversation_Reject_def
  Conversation_Complete_def Conversation_AddMessageStats_def Conversation_SetTitle_def map_assign_def

section \<open>Messages (\<open>entity/message.go\<close>)\<close>

datatype message_role = RoleSystem | RoleUser | RoleAssistant | RoleTool

fun message_role_text :: "message_role \<Rightarrow> string" where
  "message_role_text RoleSystem = ''system''"
| "message_role_text RoleUser = ''user''"
| "message_role_text RoleAssistant = ''assistant''"
| "message_role_text RoleTool = ''tool''"

record message =
  m_ID :: uuid
  m_ConversationID :: uuid
  m_Role :: message_role
  m_Content :: string
  m_Name :: string
  m_ToolCalls :: "tool_call list"
  m_ToolCallID :: string
  m_Model :: string
  m_PromptTokens :: go_int
  m_CompletionTokens :: go_int
  m_Latency :: duration
  m_IsStreaming :: bool
  m_StreamComplete :: bool
  m_SequenceNumber :: go_int
  m_CreatedAt :: time

text \<open>A message with the fields every constructor sets; the others have their zero values.\<close>

definition message_base :: "uuid \<Rightarrow> time \<Rightarrow> uuid \<Rightarrow> message_role \<Rightarrow> string \<Rightarrow> message" where
  "message_base mid now conversationID role content =
     \<lparr>m_ID = mid, m_ConversationID = conversationID, m_Role = role, m_Content = content, m_Name = [],
      m_ToolCalls = [], m_ToolCallID = [], m_Model = [], m_PromptTokens = 0, m_CompletionTokens = 0,
      m_Latency = 0, m_IsStreaming = False, m_StreamComplete = False, m_SequenceNumber = 0, m_CreatedAt = now\<rparr>"

definition NewUserMessage :: "uuid \<Rightarrow> time \<Rightarrow> uuid \<Rightarrow> string \<Rightarrow> message" where
  "NewUserMessage mid now conversationID content = message_base mid now conversationID RoleUser content"

definition NewAssistantMessage :: "uuid \<Rightarrow> time \<Rightarrow> uuid \<Rightarrow> string \<Rightarrow> tool_call list \<Rightarrow> string \<Rightarrow> message" where
  "NewAssistantMessage mid now conversationID content toolCalls model =
     (message_base mid now conversationID RoleAssistant content)\<lparr>m_ToolCalls := toolCalls, m_Model := model\<rparr>"

definition NewSystemMessage :: "uuid \<Rightarrow> time \<Rightarrow> uuid \<Rightarrow> string \<Rightarrow> message" where
  "NewSystemMessage mid now conversationID content = message_base mid now conversationID RoleSystem content"

text \<open>\<open>content, _ := json.Marshal(result)\<close>: the error is dropped and the content is empty.\<close>

definition marshal_or_empty :: "any \<Rightarrow> string" where
  "marshal_or_empty v = (case marshal_any v of None \<Rightarrow> [] | Some s \<Rightarrow> s)"

definition NewToolMessage :: "uuid \<Rightarrow> time \<Rightarrow> uuid \<Rightarrow> string \<Rightarrow> string \<Rightarrow> any \<Rightarrow> message" where
  "NewToolMessage mid now conversationID toolCallID name result =
     (message_base mid now conversationID RoleTool (marshal_or_empty result))\<lparr>m_Name := name, m_ToolCallID := toolCallID\<rparr>"

definition Message_ToOpenAIFormat :: "message \<Rightarrow> gomap" where
  "Message_ToOpenAIFormat m =
     (let msg0 = [(''role'', AStr (message_role_text (m_Role m))), (''content'', AStr (m_Content m))];
          msg1 = (if length (m_ToolCalls m) > 0 then AList.update ''tool_calls'' (AList (map ACall (m_ToolCalls m))) msg0 else msg0);
          msg2 = (if m_ToolCallID m \<noteq> [] then AList.update ''tool_call_id'' (AStr (m_ToolCallID m)) msg1 else msg1);
          msg3 = (if m_Name m \<noteq> [] then AList.update ''name'' (AStr (m_Name m)) msg2 else msg2)
      in msg3)"

section \<open>Tool executions (\<open>entity/tool_execution.go\<close>)\<close>

datatype tool_execution_status = ToolExecStatusPending | ToolExecStatusRunning | ToolExecStatusSuccess
  | ToolExecStatusFailed | ToolExecStatusCancelled | ToolExecStatusRequiresApproval

record tool_execution =
  x_ID :: uuid
  x_ConversationID :: "uuid option"
  x_MessageID :: "uuid option"
  x_UserID :: uuid
  x_TokenID :: "uuid option"
  x_ToolName :: string
  x_ToolCallID :: string
  x_Input :: "gomap option"
  x_Output :: "gomap option"
  x_Status :: tool_execution_status
  x_ErrorMessage :: string
  x_DurationMs :: "go_int option"
  x_QueuedAt :: time
  x_StartedAt :: "time option"
  x_CompletedAt :: "time option"
  x_RequiresApproval :: bool
  x_ApprovedBy :: "uuid option"
  x_ApprovedAt :: "time option"
  x_CreatedAt :: time

definition NewToolExecution :: "uuid \<Rightarrow> time \<Rightarrow> uuid \<Rightarrow> string \<Rightarrow> string \<Rightarrow> gomap option \<Rightarrow> tool_execution" where
  "NewToolExecution xid now userID toolName toolCallID input =
     \<lparr>x_ID = xid, x_ConversationID = None, x_MessageID = None, x_UserID = userID, x_TokenID = None,
      x_ToolName = toolName, x_ToolCallID = toolCallID, x_Input = input, x_Output = None,
      x_Status = ToolExecStatusPending, x_ErrorMessage = [], x_DurationMs = None, x_QueuedAt = now,
      x_StartedAt = None, x_CompletedAt = None, x_RequiresApproval = False, x_ApprovedBy = None,
      x_ApprovedAt = None, x_CreatedAt = now\<rparr>"

definition ToolExecution_MarkRunning :: "time \<Rightarrow> tool_execution \<Rightarrow> tool_execution" where
  "ToolExecution_MarkRunning now e = e\<lparr>x_Status := ToolExecStatusRunning, x_StartedAt := Some now\<rparr>"

definition ToolExecution_MarkSuccess :: "time \<Rightarrow> gomap option \<Rightarrow> go_int \<Rightarrow> tool_execution \<Rightarrow> tool_execution" where
  "ToolExecution_MarkSuccess now output durationMs e =
     e\<lparr>x_Status := ToolExecStatusSuccess, x_Output := output, x_DurationMs := Some durationMs,
       x_CompletedAt := Some now\<rparr>"

definition ToolExecution_MarkFailed :: "time \<Rightarrow> string \<Rightarrow> go_int \<Rightarrow> tool_execution \<Rightarrow> tool_execution" where
  "ToolExecution_MarkFailed now errMsg durationMs e =
     e\<lparr>x_Status := ToolExecStatusFailed, x_ErrorMessage := errMsg, x_DurationMs := Some durationMs,
       x_CompletedAt := Some now\<rparr>"

lemmas tool_execution_op_defs [entity_defs] =
  ToolExecution_MarkRunning_def ToolExecution_MarkSuccess_def ToolExecution_MarkFailed_def

end
