(* ===== verification/Tool_Registry.thy ===== *)
theory Tool_Registry
  imports Ports Entities
begin

text \<open>
  \<open>internal/application/usecase/tool\<close>: the \<open>Tool\<close> interface, the registry and the
  execution use case. The registry is a Go map from names to tools; each call holds the
  registry's lock for its whole body, so a call is one atomic step here.
\<close>

section \<open>The registry (\<open>tool_registry.go\<close>)\<close>

record 'w tool =
  tl_Name :: string
  tl_Description :: string
  tl_Definition :: tool_spec
  tl_Execute :: "gomap \<Rightarrow> ('w, any) go"
  tl_RequiresApproval :: bool
  tl_Validate :: "gomap \<Rightarrow> goerror option"

text \<open>The methods a tool inherits from \<open>BaseTool\<close>.\<close>

definition BaseTool_RequiresApproval :: bool where
  "BaseTool_RequiresApproval = False"

definition BaseTool_Validate :: "gomap \<Rightarrow> goerror option" where
  "BaseTool_Validate args = None"

record 'w tool_registry =
  tr_tools :: "(string \<times> 'w tool) list"

definition NewToolRegistry :: "'w tool_registry" where
  "NewToolRegistry = \<lparr>tr_tools = []\<rparr>"

definition Register :: "'w tool \<Rightarrow> 'w tool_registry \<Rightarrow> 'w tool_registry" where
  "Register t r = r\<lparr>tr_tools := AList.update (tl_Name t) t (tr_tools r)\<rparr>"

fun RegisterAll :: "'w tool list \<Rightarrow> 'w tool_registry \<Rightarrow> 'w tool_registry" where
  "RegisterAll [] r = r"
| "RegisterAll (t # ts) r = RegisterAll ts (Register t r)"

definition Registry_Get :: "'w tool_registry \<Rightarrow> string \<Rightarrow> 'w tool option" where
  "Registry_Get r name = map_of (tr_tools r) name"

text \<open>\<open>range\<close> over the map: the runtime picks the order of the keys.\<close>

definition range_tools :: "'w runtime \<Rightarrow> 'w tool_registry \<Rightarrow> ('w, (string \<times> 'w tool) list) go" where
  "range_tools rt r =
     bindG (stateG (rt_range rt (map fst (tr_tools r)))) (\<lambda>names.
     returnG (List.map_filter (\<lambda>n. map_option (Pair n) (Registry_Get r n)) names))"

definition Registry_List :: "'w runtime \<Rightarrow> 'w tool_registry \<Rightarrow> ('w, tool_spec list) go" where
  "Registry_List rt r =
     bindG (range_tools rt r) (\<lambda>entries.
     returnG (map (\<lambda>(name, t). tl_Definition t) entries))"

definition Registry_ListNames :: "'w runtime \<Rightarrow> 'w tool_registry \<Rightarrow> ('w, string list) go" where
  "Registry_ListNames rt r =
     bindG (range_tools rt r) (\<lambda>entries.
     returnG (map (\<lambda>(name, t). name) entries))"

text \<open>
  The loop over \<open>allowedTools\<close> returns the whole list at the first wildcard and otherwise
  collects the names.
\<close>

fun allowed_map :: "string list \<Rightarrow> string set \<Rightarrow> string set option" where
  "allowed_map [] acc = Some acc"
| "allowed_map (t # ts) acc = (if t = ''*'' then None else allowed_map ts (insert t acc))"

definition ListForToken :: "'w runtime \<Rightarrow> 'w tool_registry \<Rightarrow> string list \<Rightarrow> ('w, tool_spec list) go" where
  "ListForToken rt r allowedTools =
     (if length allowedTools = 0 then Registry_List rt r
      else (case allowed_map allowedTools {} of
         None \<Rightarrow> Registry_List rt r
       | Some allowed \<Rightarrow>
           bindG (range_tools rt r) (\<lambda>entries.
           returnG (map (\<lambda>(name, t). tl_Definition t) (filter (\<lambda>(name, t). name \<in> allowed) entries)))))"

section \<open>Executing one tool call (\<open>execute_tool.go\<close>)\<close>

record execute_tool_output =
  eo_ToolCallID :: string
  eo_ToolName :: string
  eo_Result :: any
  eo_Duration :: duration

definition ExecuteTool_Execute ::
    "'w runtime \<Rightarrow> 'w tool_registry \<Rightarrow> tool_call \<Rightarrow> user option \<Rightarrow> token option \<Rightarrow> ('w, execute_tool_output) go" where
  "ExecuteTool_Execute rt registry call user tok =
     (let name = fc_Name (tc_Function call) in
      if (case tok of None \<Rightarrow> False | Some t \<Rightarrow> \<not> Token_CanUseTool t name) then
        failG (Errorf (''token does not have access to tool: '' @ name))
      else (case Registry_Get registry name of
        None \<Rightarrow> failG (Errorf (''tool not found: '' @ name))
      | Some t \<Rightarrow>
        (case ParseArguments call of
           Inl e \<Rightarrow> failG (Wrapf ''parse arguments'' e)
         | Inr args \<Rightarrow>
           (case tl_Validate t args of
              Some e \<Rightarrow> failG (Wrapf ''validate arguments'' e)
            | None \<Rightarrow>
              bindG (stateG (rt_now rt)) (\<lambda>start.
              bindG (attemptG (tl_Execute t args)) (\<lambda>res.
              bindG (stateG (rt_now rt)) (\<lambda>stop.
              (case res of
                 Inl e \<Rightarrow> failG (Wrapf (''execute tool '' @ name) e)
               | Inr result \<Rightarrow> returnG \<lparr>eo_ToolCallID = tc_ID call, eo_ToolName = name,
                                       eo_Result = result, eo_Duration = stop - start\<rparr>))))))))"

section \<open>Lemmas\<close>

text \<open>The registry invariant: each key is the name of its tool, and keys are distinct.\<close>

definition registry_wf :: "'w tool_registry \<Rightarrow> bool" where
  "registry_wf r \<longleftrightarrow> distinct (map fst (tr_tools r)) \<and> (\<forall>n t. Registry_Get r n = Some t \<longrightarrow> tl_Name t = n)"

lemma registry_wf_New [simp]: "registry_wf NewToolRegistry"
  by (simp add: registry_wf_def NewToolRegistry_def Registry_Get_def)

lemma Get_Register: "Registry_Get (Register t r) n = (if n = tl_Name t then Some t else Registry_Get r n)"
  by (simp add: Registry_Get_def Register_def)

lemma registry_wf_Register: "registry_wf r \<Longrightarrow> registry_wf (Register t r)"
  by (auto simp: registry_wf_def Get_Register) (simp add: Register_def distinct_update)

lemma registry_wf_RegisterAll: "registry_wf r \<Longrightarrow> registry_wf (RegisterAll ts r)"
  by (induction ts r rule: RegisterAll.induct) (simp_all add: registry_wf_Register)

text \<open>After registering a list of tools a name yields the last tool with that name.\<close>

lemma Get_RegisterAll:
  "Registry_Get (RegisterAll ts r) n =
     (case find (\<lambda>t. tl_Name t = n) (rev ts) of Some t \<Rightarrow> Some t | None \<Rightarrow> Registry_Get r n)"
  by (induction ts r rule: RegisterAll.induct) (auto simp: Get_Register find_append split: option.splits)

lemma allowed_map_eq: "allowed_map ts acc = (if ''*'' \<in> set ts then None else Some (set ts \<union> acc))"
  by (induction ts acc rule: allowed_map.induct) auto

text \<open>A runtime whose \<open>range\<close> visits every key once.\<close>

definition fair_range :: "'w runtime \<Rightarrow> bool" where
  "fair_range rt \<longleftrightarrow> (\<forall>ks w. distinct ks \<longrightarrow> distinct (fst (rt_range rt ks w)) \<and> set (fst (rt_range rt ks w)) = set ks)"

lemma map_fst_map_filter:
  "map fst (List.map_filter (\<lambda>n. map_option (Pair n) (f n)) ks) = filter (\<lambda>n. f n \<noteq> None) ks"
  by (induction ks) (auto simp: List.map_filter_def)

lemma set_map_filter_Pair:
  "set (List.map_filter (\<lambda>n. map_option (Pair n) (f n)) ks) = {(n, t). n \<in> set ks \<and> f n = Some t}"
  by (induction ks) (auto simp: List.map_filter_def split: option.splits)

lemma range_tools_Ret:
  assumes "registry_wf r" and "fair_range rt"
  shows "\<exists>es. range_tools rt r w = (Ret es, snd (rt_range rt (map fst (tr_tools r)) w))
     \<and> distinct (map fst es) \<and> set es = {(n, t). Registry_Get r n = Some t}"
proof -
  let ?ks = "fst (rt_range rt (map fst (tr_tools r)) w)"
  let ?es = "List.map_filter (\<lambda>n. map_option (Pair n) (Registry_Get r n)) ?ks"
  have ks: "distinct ?ks" "set ?ks = fst ` set (tr_tools r)"
    using assms by (auto simp: fair_range_def registry_wf_def)
  have dom: "Registry_Get r n = Some t \<Longrightarrow> n \<in> fst ` set (tr_tools r)" for n t
    by (force simp: Registry_Get_def dest: map_of_SomeD)
  have "range_tools rt r w = (Ret ?es, snd (rt_range rt (map fst (tr_tools r)) w))"
    by (simp add: range_tools_def bindG_def)
  moreover have "distinct (map fst ?es)"
    using ks(1) by (simp add: map_fst_map_filter)
  moreover have "set ?es = {(n, t). Registry_Get r n = Some t}"
    by (auto simp: set_map_filter_Pair ks(2) dest: dom)
  ultimately show ?thesis by blast
qed

end
