(* ===== verification/Builtin_Tools.thy ===== *)
theory Builtin_Tools
  imports Tool_Registry
begin

text \<open>
  \<open>internal/application/usecase/tool/builtin\<close>: the calculator and the web search.
  Parameters stand for what is not in the repository: Go's expression parser
  (\<open>parser.ParseExpr\<close>), the literal reader \<open>strconv.ParseFloat\<close> and the HTTP client.
\<close>

section \<open>The calculator (\<open>calculator.go\<close>)\<close>

text \<open>The operators and the expression forms of \<open>go/ast\<close> that \<open>eval\<close> distinguishes.\<close>

datatype go_token = ADD | SUB | MUL | QUO | OtherToken string

datatype go_expr = BasicLit string | BinaryExpr go_expr go_token go_expr | ParenExpr go_expr
  | UnaryExpr go_token go_expr | OtherExpr

fun token_text :: "go_token \<Rightarrow> string" where
  "token_text ADD = ''+''"
| "token_text SUB = ''-''"
| "token_text MUL = ''*''"
| "token_text QUO = ''/''"
| "token_text (OtherToken s) = s"

fun calc_eval :: "(string \<Rightarrow> goerror + f64) \<Rightarrow> go_expr \<Rightarrow> goerror + f64" where
  "calc_eval pf (BasicLit v) = pf v"
| "calc_eval pf (BinaryExpr x op y) =
     (case calc_eval pf x of
        Inl e \<Rightarrow> Inl e
      | Inr left \<Rightarrow>
        (case calc_eval pf y of
           Inl e \<Rightarrow> Inl e
         | Inr right \<Rightarrow>
           (case op of
              ADD \<Rightarrow> Inr (fadd left right)
            | SUB \<Rightarrow> Inr (fsub left right)
            | MUL \<Rightarrow> Inr (fmul left right)
            | QUO \<Rightarrow> (if f_is_zero right then Inl (Errorf ''division by zero'') else Inr (fdiv left right))
            | OtherToken t \<Rightarrow> Inl (Errorf (''unsupported operator: '' @ t)))))"
| "calc_eval pf (ParenExpr x) = calc_eval pf x"
| "calc_eval pf (UnaryExpr op x) =
     (case calc_eval pf x of
        Inl e \<Rightarrow> Inl e
      | Inr val \<Rightarrow> if op = SUB then Inr (fneg val) else Inr val)"
| "calc_eval pf OtherExpr = Inl (Errorf ''unsupported expression type'')"

definition calc_evaluate ::
    "(string \<Rightarrow> goerror + go_expr) \<Rightarrow> (string \<Rightarrow> goerror + f64) \<Rightarrow> string \<Rightarrow> goerror + f64" where
  "calc_evaluate parse_expr pf expr =
     (case parse_expr expr of
        Inl e \<Rightarrow> Inl (Wrapf ''invalid expression'' e)
      | Inr node \<Rightarrow> calc_eval pf node)"

text \<open>
  \<open>expr, _ := args["expression"].(string)\<close> is the empty string when the key is missing or
  holds another type. An evaluation error is reported inside a successful result.
\<close>

definition calc_Execute ::
    "(string \<Rightarrow> goerror + go_expr) \<Rightarrow> (string \<Rightarrow> goerror + f64) \<Rightarrow> gomap \<Rightarrow> ('w, any) go" where
  "calc_Execute parse_expr pf args =
     (let expr = (case any_string (map_of args ''expression'') of Some s \<Rightarrow> s | None \<Rightarrow> []) in
      if expr = [] then failG (Errorf ''expression is required'')
      else (case calc_evaluate parse_expr pf expr of
         Inl err \<Rightarrow> returnG (AMap [(''error'', AStr (error_msg err)), (''expression'', AStr expr)])
       | Inr result \<Rightarrow> returnG (AMap [(''expression'', AStr expr), (''result'', AFloat result)])))"

definition calc_description :: string where
  "calc_description = ''Perform mathematical calculations. Supports basic arithmetic (+, -, *, /), parentheses, and common functions.''"

definition string_property :: "string \<Rightarrow> property_schema" where
  "string_property d = PropertySchema ''string'' d [] None ANil None None"

definition calc_Definition :: tool_spec where
  "calc_Definition = NewTool ''calculator'' calc_description
     (Some \<lparr>js_Type = ''object'', js_Description = [],
        js_Properties = [(''expression'', string_property
          (''Mathematical expression to evaluate. Example: '(2 + 3) * 4' or '15 / 3'' @ [CHR 39]))],
        js_Required = [''expression''], js_AdditionalProperties = None\<rparr>)"

definition CalculatorTool ::
    "(string \<Rightarrow> goerror + go_expr) \<Rightarrow> (string \<Rightarrow> goerror + f64) \<Rightarrow> 'w tool" where
  "CalculatorTool parse_expr pf =
     \<lparr>tl_Name = ''calculator'', tl_Description = calc_description, tl_Definition = calc_Definition,
      tl_Execute = calc_Execute parse_expr pf,
      tl_RequiresApproval = BaseTool_RequiresApproval, tl_Validate = BaseTool_Validate\<rparr>"

section \<open>Web search (\<open>web_search.go\<close>)\<close>

record http_request =
  hr_Method :: string
  hr_URL :: string
  hr_Headers :: "(string \<times> string) list"
  hr_Body :: string

record http_response =
  hp_StatusCode :: int
  hp_Body :: string

text \<open>\<open>url.QueryEscape\<close>.\<close>

definition upper_hex :: "int \<Rightarrow> char" where
  "upper_hex n = (if n < 10 then char_of (48 + n) else char_of (55 + n))"

definition unreserved :: "char \<Rightarrow> bool" where
  "unreserved c \<longleftrightarrow> (let n = (of_char c :: int) in
     (48 \<le> n \<and> n \<le> 57) \<or> (65 \<le> n \<and> n \<le> 90) \<or> (97 \<le> n \<and> n \<le> 122) \<or> n \<in> {45, 46, 95, 126})"

definition query_escape :: "string \<Rightarrow> string" where
  "query_escape s = concat (map (\<lambda>c.
     if unreserved c then [c] else if c = CHR '' '' then ''+''
     else [CHR ''%'', upper_hex ((of_char c :: int) div 16), upper_hex ((of_char c :: int) mod 16)]) s)"

definition getString :: "gomap \<Rightarrow> string \<Rightarrow> string" where
  "getString m key = (case any_string (map_of m key) of Some v \<Rightarrow> v | None \<Rightarrow> [])"

fun format_items :: "any list \<Rightarrow> any list" where
  "format_items [] = []"
| "format_items (AMap r # items) =
     AMap [(''title'', AStr (getString r ''title'')), (''url'', AStr (getString r ''url'')),
           (''description'', AStr (getString r ''description''))] # format_items items"
| "format_items (_ # items) = format_items items"

definition formatResults :: "gomap \<Rightarrow> any" where
  "formatResults raw =
     (let results = (case map_of raw ''web'' of
          Some (AMap web) \<Rightarrow> (case map_of web ''results'' of
              Some (AList items) \<Rightarrow> format_items items
            | _ \<Rightarrow> [])
        | _ \<Rightarrow> [])
      in AMap [(''results'', AList results), (''count'', AInt (of_nat (length results)))])"

text \<open>\<open>json.NewDecoder(r).Decode\<close> reads the first JSON value of the stream.\<close>

definition decode_first :: "string \<Rightarrow> json option" where
  "decode_first s = map_option fst (parse_value (Suc (length s)) s)"

definition decode_map :: "string \<Rightarrow> goerror + gomap" where
  "decode_map s = (case decode_first s of
     Some (JObj kvs) \<Rightarrow> (case json_any (JObj kvs) of Some (AMap m) \<Rightarrow> Inr m | _ \<Rightarrow> Inl (Errorf ''json''))
   | Some JNull \<Rightarrow> Inr []
   | _ \<Rightarrow> Inl (Errorf ''json''))"

definition web_num_results :: "gomap \<Rightarrow> go_int" where
  "web_num_results args = (case map_of args ''num_results'' of
     Some (AFloat n) \<Rightarrow> if fle (float_of_rat 1) n \<and> fle n (float_of_rat 10) then f_to_int n else 5
   | _ \<Rightarrow> 5)"

text \<open>\<open>url.Values.Encode\<close> sorts by key, so \<open>count\<close> comes before \<open>q\<close>.\<close>

definition web_url :: "string \<Rightarrow> string \<Rightarrow> go_int \<Rightarrow> string" where
  "web_url baseURL query numResults = baseURL @ ''?count='' @ itoa numResults @ ''&q='' @ query_escape query"

definition web_baseURL :: string where
  "web_baseURL = ''https://api.search.brave.com/res/v1/web/search''"

definition web_Execute ::
    "(http_request \<Rightarrow> ('w, http_response) go) \<Rightarrow> string \<Rightarrow> gomap \<Rightarrow> ('w, any) go" where
  "web_Execute http_do apiKey args =
     (let query = (case any_string (map_of args ''query'') of Some s \<Rightarrow> s | None \<Rightarrow> []) in
      if query = [] then failG (Errorf ''query is required'')
      else
        bindG (wrapG ''search request failed'' (http_do
          \<lparr>hr_Method = ''GET'', hr_URL = web_url web_baseURL query (web_num_results args),
           hr_Headers = [(''X-Subscription-Token'', apiKey), (''Accept'', ''application/json'')], hr_Body = []\<rparr>)) (\<lambda>resp.
        if hp_StatusCode resp \<noteq> 200 then
          failG (Errorf (''search API returned status '' @ int_digits (hp_StatusCode resp)))
        else (case decode_map (hp_Body resp) of
           Inl e \<Rightarrow> failG (Wrapf ''decode response'' e)
         | Inr result \<Rightarrow> returnG (formatResults result))))"

definition web_description :: string where
  "web_description = ''Search the web for current information. Use this when you need up-to-date information, facts you're unsure about, or to verify claims.''"

definition web_Definition :: tool_spec where
  "web_Definition = NewTool ''web_search'' web_description
     (Some \<lparr>js_Type = ''object'', js_Description = [],
        js_Properties = [(''query'', string_property ''The search query. Be specific and use relevant keywords.''),
          (''num_results'', PropertySchema ''integer'' ''Number of results to return (1-10). Default is 5.'' [] None (AInt 5) None None)],
        js_Required = [''query''], js_AdditionalProperties = None\<rparr>)"

definition WebSearchTool :: "(http_request \<Rightarrow> ('w, http_response) go) \<Rightarrow> string \<Rightarrow> 'w tool" where
  "WebSearchTool http_do apiKey =
     \<lparr>tl_Name = ''web_search'', tl_Description = web_description, tl_Definition = web_Definition,
      tl_Execute = web_Execute http_do apiKey,
      tl_RequiresApproval = BaseTool_RequiresApproval, tl_Validate = BaseTool_Validate\<rparr>"

section \<open>Exactness of integer arithmetic\<close>

text \<open>Integers of magnitude below \<open>2^53\<close> are floats, so sums, differences and products that stay there are exact.\<close>

lemma int_bits_bounds: "0 < n \<Longrightarrow> 1 \<le> int_bits n \<and> 2 ^ nat (int_bits n - 1) \<le> n \<and> n < 2 ^ nat (int_bits n)"
proof (induction n rule: int_bits.induct)
  case (1 n)
  show ?case
  proof (cases "n = 1")
    case True
    then show ?thesis by (simp add: int_bits.simps [of 1] int_bits.simps [of 0])
  next
    case False
    with 1 have IH: "1 \<le> int_bits (n div 2)" "2 ^ nat (int_bits (n div 2) - 1) \<le> n div 2"
      "n div 2 < 2 ^ nat (int_bits (n div 2))" by (auto simp: pos_imp_zdiv_pos_iff)
    define b where "b = nat (int_bits (n div 2) - 1)"
    have b: "int_bits (n div 2) = int b + 1" using IH(1) by (simp add: b_def)
    have eq: "int_bits n = int b + 2" using b 1(2) by (simp add: int_bits.simps [of n])
    from IH b have "2 ^ b \<le> n div 2" "n div 2 < 2 ^ Suc b" by (simp_all add: nat_add_distrib)
    then have "2 ^ Suc b \<le> n" "n < 2 ^ Suc (Suc b)" by auto
    then show ?thesis by (simp add: eq nat_add_distrib)
  qed
qed

lemma quotient_of_of_int: "quotient_of (of_int n) = (n, 1)"
  by (metis Rat.of_int_def quotient_of_int)

lemma ilog2_int:
  assumes "0 < n" "n < 2 ^ 53"
  shows "0 \<le> ilog2 (of_int n) \<and> ilog2 (of_int n) \<le> 52"
proof -
  have b: "1 \<le> int_bits n" "2 ^ nat (int_bits n - 1) \<le> n" using int_bits_bounds [OF assms(1)] by auto
  have one: "int_bits 1 = 1" by (simp add: int_bits.simps [of 1] int_bits.simps [of 0])
  have "pow2 (int_bits n - 1) \<le> of_int n"
    using b by (simp add: pow2_def)
  then have eq: "ilog2 (of_int n) = int_bits n - 1"
    by (simp add: ilog2_def quotient_of_of_int one Let_def)
  have "(2::int) ^ nat (int_bits n - 1) < 2 ^ 53" using b(2) assms(2) by linarith
  then have "nat (int_bits n - 1) < 53" by (rule power_less_imp_less_exp [rotated]) simp
  with b(1) eq show ?thesis by linarith
qed

lemma round_even_int: "round_even (of_int k) = k"
  by (simp add: round_even_def)

lemma round64_int:
  assumes "0 < n" "n < 2 ^ 53"
  shows "round64 s (of_int n) = FNum (if s then - of_int n else of_int n)"
proof -
  let ?e = "max (ilog2 (of_int n) - 52) (- 1074)"
  have e: "?e \<le> 0" using ilog2_int [OF assms] by auto
  define k where "k = nat (- ?e)"
  have p: "pow2 ?e = 1 / 2 ^ k"
    using e by (cases "?e = 0") (simp_all add: pow2_def k_def)
  have "(of_int n :: rat) / pow2 ?e = of_int (n * 2 ^ k)" by (simp add: p)
  then have v: "of_int (round_even (of_int n / pow2 ?e)) * pow2 ?e = (of_int n :: rat)"
    by (simp only: round_even_int) (simp add: p)
  have "(of_int n :: rat) < 2 ^ 1024"
  proof -
    have "n < 2 ^ 1024" using assms(2) by (rule less_trans) (rule power_strict_increasing, simp_all)
    then have "(of_int n :: rat) < of_int (2 ^ 1024)" by (simp only: of_int_less_iff)
    then show ?thesis by simp
  qed
  with v assms show ?thesis unfolding round64_def Let_def v by simp
qed

definition f_of_int :: "int \<Rightarrow> f64" where
  "f_of_int n = (if n = 0 then FZero False else FNum (of_int n))"

lemma float_of_rat_int:
  assumes "\<bar>n\<bar> < 2 ^ 53"
  shows "float_of_rat (of_int n) = f_of_int n"
proof (cases "n = 0")
  case False
  have "\<bar>of_int n :: rat\<bar> = of_int \<bar>n\<bar>" by simp
  then show ?thesis
    using False assms round64_int [of "\<bar>n\<bar>" "(of_int n :: rat) < 0"]
    by (auto simp: float_of_rat_def f_of_int_def abs_if split: if_splits)
qed (simp add: float_of_rat_def f_of_int_def)

text \<open>Expressions over integer literals with \<open>+\<close>, \<open>-\<close>, \<open>*\<close>, and their exact value.\<close>

fun int_expr :: "(string \<Rightarrow> int option) \<Rightarrow> go_expr \<Rightarrow> int option" where
  "int_expr lit (BasicLit v) = lit v"
| "int_expr lit (BinaryExpr x op y) =
     (case (int_expr lit x, int_expr lit y) of
        (Some a, Some b) \<Rightarrow> (case op of
             ADD \<Rightarrow> Some (a + b) | SUB \<Rightarrow> Some (a - b) | MUL \<Rightarrow> Some (a * b) | _ \<Rightarrow> None)
      | _ \<Rightarrow> None)"
| "int_expr lit (ParenExpr x) = int_expr lit x"
| "int_expr lit (UnaryExpr op x) = map_option (\<lambda>a. if op = SUB then - a else a) (int_expr lit x)"
| "int_expr lit OtherExpr = None"

text \<open>Every subexpression stays in the range where integers are exact.\<close>

fun in_range :: "(string \<Rightarrow> int option) \<Rightarrow> go_expr \<Rightarrow> bool" where
  "in_range lit (BasicLit v) = (case lit v of Some a \<Rightarrow> \<bar>a\<bar> < 2 ^ 53 | None \<Rightarrow> False)"
| "in_range lit (BinaryExpr x op y) =
     (in_range lit x \<and> in_range lit y \<and> (case int_expr lit (BinaryExpr x op y) of Some a \<Rightarrow> \<bar>a\<bar> < 2 ^ 53 | None \<Rightarrow> False))"
| "in_range lit (ParenExpr x) = in_range lit x"
| "in_range lit (UnaryExpr op x) = in_range lit x"
| "in_range lit OtherExpr = False"

text \<open>A float that represents the integer \<open>n\<close>; a zero may carry either sign.\<close>

definition f_is_int :: "f64 \<Rightarrow> int \<Rightarrow> bool" where
  "f_is_int x n \<longleftrightarrow> (if n = 0 then f_is_zero x else x = FNum (of_int n))"

lemma f_is_intE:
  assumes "f_is_int x n"
  obtains s where "x = FZero s" "n = 0" | "x = FNum (of_int n)" "n \<noteq> 0"
  using assms by (auto simp: f_is_int_def f_is_zero_def split: if_splits f64.splits)

lemma f_is_int_float: "\<bar>n\<bar> < 2 ^ 53 \<Longrightarrow> f_is_int (float_of_rat (of_int n)) n"
  by (simp add: float_of_rat_int f_of_int_def f_is_int_def f_is_zero_def)

lemma fadd_int:
  assumes "f_is_int x a" "f_is_int y b" "\<bar>a + b\<bar> < 2 ^ 53"
  shows "f_is_int (fadd x y) (a + b)"
  using assms(1)
proof (cases rule: f_is_intE)
  case (1 s)
  with assms(2) show ?thesis
    by (cases rule: f_is_intE [OF assms(2)]) (auto simp: f_is_int_def f_is_zero_def)
next
  case 2
  then show ?thesis
    using f_is_int_float [OF assms(3)]
    by (cases rule: f_is_intE [OF assms(2)]) (auto simp: f_is_int_def)
qed

lemma fneg_int: "f_is_int x a \<Longrightarrow> f_is_int (fneg x) (- a)"
  by (erule f_is_intE) (auto simp: f_is_int_def fneg_def f_is_zero_def)

lemma fmul_int:
  assumes "f_is_int x a" "f_is_int y b" "\<bar>a * b\<bar> < 2 ^ 53"
  shows "f_is_int (fmul x y) (a * b)"
proof -
  have pos: "\<bar>of_int a * of_int b :: rat\<bar> = of_int \<bar>a * b\<bar>" by simp
  show ?thesis
    using assms(1)
  proof (cases rule: f_is_intE)
    case (1 s)
    with assms(2) show ?thesis
      by (cases rule: f_is_intE [OF assms(2)]) (auto simp: f_is_int_def f_is_zero_def)
  next
    case x: 2
    show ?thesis
      using assms(2)
    proof (cases rule: f_is_intE)
      case (1 s)
      with x show ?thesis by (simp add: f_is_int_def f_is_zero_def)
    next
      case 2
      with x have "0 < \<bar>a * b\<bar>" by simp
      from round64_int [OF this assms(3)] x 2 show ?thesis
        by (auto simp: f_is_int_def pos abs_if mult_less_0_iff zero_less_mult_iff split: if_splits)
    qed
  qed
qed

lemma calc_eval_int:
  assumes "\<And>v a. lit v = Some a \<Longrightarrow> \<bar>a\<bar> < 2 ^ 53 \<Longrightarrow> \<exists>x. pf v = Inr x \<and> f_is_int x a"
    and "in_range lit e"
  shows "\<exists>x a. calc_eval pf e = Inr x \<and> int_expr lit e = Some a \<and> f_is_int x a"
  using assms(2)
proof (induction e)
  case (BasicLit v)
  then show ?case using assms(1) by (auto split: option.splits)
next
  case (BinaryExpr x op y)
  then obtain fx a fy b where x: "calc_eval pf x = Inr fx" "int_expr lit x = Some a" "f_is_int fx a"
    and y: "calc_eval pf y = Inr fy" "int_expr lit y = Some b" "f_is_int fy b" by auto
  then show ?case
    using BinaryExpr.prems fadd_int [OF x(3) y(3)] fadd_int [OF x(3) fneg_int [OF y(3)]] fmul_int [OF x(3) y(3)]
    by (cases op) (auto simp: fsub_def)
next
  case (UnaryExpr op x)
  then show ?case by (auto intro: fneg_int)
qed auto

end
