(* ===== verification/Agent_State.thy ===== *)
theory Agent_State
  imports Builtin_Tools
begin

text \<open>
  \<open>internal/infrastructure/eino/state/agent_state.go\<close>: the state a workflow run passes from
  node to node, its methods, and its JSON form, which is how a paused run is kept in the
  database. Nil and empty slices are not distinguished.
\<close>

section \<open>The state and its methods\<close>

record agent_state =
  a_ConversationID :: uuid
  a_UserID :: uuid
  a_RequestID :: string
  a_Messages :: "chat_message list"
  a_SystemPrompt :: string
  a_UserInput :: string
  a_CurrentOutput :: string
  a_Model :: string
  a_Temperature :: f64
  a_MaxTokens :: go_int
  a_AvailableTools :: "tool_spec list"
  a_PendingTools :: "tool_call list"
  a_ToolResults :: "chat_message list"
  a_CurrentAgent :: string
  a_NextAgent :: string
  a_AgentHistory :: "string list"
  a_RequiresApproval :: bool
  a_ApprovalReason :: string
  a_ApprovalData :: gomap
  a_IsApproved :: "bool option"
  a_Iteration :: go_int
  a_MaxIterations :: go_int
  a_ShouldStop :: bool
  a_Error :: string
  a_StartTime :: time
  a_TokensUsed :: go_int
  a_ToolCallsCount :: go_int

text \<open>The canonical text form of a UUID: 32 hexadecimal digits in groups 8-4-4-4-12.\<close>

fun hex_digits :: "nat \<Rightarrow> int \<Rightarrow> string" where
  "hex_digits 0 i = []"
| "hex_digits (Suc n) i = hex_digits n (i div 16) @ [hex_digit (i mod 16)]"

definition format_uuid :: "uuid \<Rightarrow> string" where
  "format_uuid u = (let h = hex_digits 32 (uint u) in
     take 8 h @ ''-'' @ take 4 (drop 8 h) @ ''-'' @ take 4 (drop 12 h) @ ''-'' @ take 4 (drop 16 h) @ ''-'' @ drop 20 h)"

definition hex_value :: "string \<Rightarrow> int option" where
  "hex_value s = foldl (\<lambda>acc c. case (acc, hex_val c) of (Some n, Some d) \<Rightarrow> Some (16 * n + d) | _ \<Rightarrow> None) (Some 0) s"

definition parse_uuid :: "string \<Rightarrow> uuid option" where
  "parse_uuid s =
     (let dash = (\<lambda>i. take 1 (drop i s)); h = take 8 s @ take 4 (drop 9 s) @ take 4 (drop 14 s) @ take 4 (drop 19 s) @ drop 24 s
      in if length s = 36 \<and> dash 8 = ''-'' \<and> dash 13 = ''-'' \<and> dash 18 = ''-'' \<and> dash 23 = ''-''
         then map_option word_of_int (hex_value h) else None)"

definition NewAgentState :: "uuid \<Rightarrow> time \<Rightarrow> uuid \<Rightarrow> uuid \<Rightarrow> string \<Rightarrow> agent_state" where
  "NewAgentState reqID now convID userID input =
     \<lparr>a_ConversationID = convID, a_UserID = userID, a_RequestID = format_uuid reqID,
      a_Messages = [], a_SystemPrompt = [], a_UserInput = input, a_CurrentOutput = [],
      a_Model = ''gpt-4o-mini'', a_Temperature = float_of_rat (7 / 10), a_MaxTokens = 4096,
      a_AvailableTools = [], a_PendingTools = [], a_ToolResults = [],
      a_CurrentAgent = [], a_NextAgent = [], a_AgentHistory = [],
      a_RequiresApproval = False, a_ApprovalReason = [], a_ApprovalData = [], a_IsApproved = None,
      a_Iteration = 0, a_MaxIterations = 10, a_ShouldStop = False, a_Error = [],
      a_StartTime = now, a_TokensUsed = 0, a_ToolCallsCount = 0\<rparr>"

definition AddMessage :: "chat_message \<Rightarrow> agent_state \<Rightarrow> agent_state" where
  "AddMessage msg s = s\<lparr>a_Messages := a_Messages s @ [msg]\<rparr>"

definition AddUserMessage :: "string \<Rightarrow> agent_state \<Rightarrow> agent_state" where
  "AddUserMessage content s = s\<lparr>a_Messages := a_Messages s @ [chat_message_of ''user'' content]\<rparr>"

definition AddAssistantMessage :: "string \<Rightarrow> tool_call list \<Rightarrow> agent_state \<Rightarrow> agent_state" where
  "AddAssistantMessage content toolCalls s =
     (let msg = chat_message_of ''assistant'' content;
          msg' = (if length toolCalls > 0 then msg\<lparr>cm_ToolCalls := toolCalls\<rparr> else msg)
      in s\<lparr>a_Messages := a_Messages s @ [msg']\<rparr>)"

definition tool_result_message :: "string \<Rightarrow> string \<Rightarrow> any \<Rightarrow> chat_message" where
  "tool_result_message toolCallID name result =
     \<lparr>cm_Role = ''tool'', cm_Content = marshal_or_empty result, cm_Name = name, cm_ToolCalls = [],
      cm_ToolCallID = toolCallID\<rparr>"

definition AddToolResult :: "string \<Rightarrow> string \<Rightarrow> any \<Rightarrow> agent_state \<Rightarrow> agent_state" where
  "AddToolResult toolCallID name result s =
     s\<lparr>a_ToolResults := a_ToolResults s @ [tool_result_message toolCallID name result]\<rparr>"

definition FlushToolResults :: "agent_state \<Rightarrow> agent_state" where
  "FlushToolResults s = s\<lparr>a_Messages := a_Messages s @ a_ToolResults s, a_ToolResults := []\<rparr>"

lemmas agent_state_op_defs [entity_defs] =
  AddMessage_def AddUserMessage_def AddAssistantMessage_def AddToolResult_def FlushToolResults_def

section \<open>JSON: tool definitions\<close>

definition omit_list :: "string \<Rightarrow> json list \<Rightarrow> (string \<times> json) list" where
  "omit_list k xs = (if xs = [] then [] else [(k, JArr xs)])"

definition omit_opt :: "string \<Rightarrow> ('a \<Rightarrow> json) \<Rightarrow> 'a option \<Rightarrow> (string \<times> json) list" where
  "omit_opt k f x = (case x of None \<Rightarrow> [] | Some v \<Rightarrow> [(k, f v)])"

text \<open>Floats and dynamic values inside a definition may have no JSON form; then marshalling fails.\<close>

definition float_member :: "string \<Rightarrow> f64 option \<Rightarrow> (string \<times> json) list option" where
  "float_member k x = (case x of None \<Rightarrow> Some [] | Some v \<Rightarrow> map_option (\<lambda>t. [(k, JNum t)]) (format_float v))"

definition any_member :: "string \<Rightarrow> any \<Rightarrow> (string \<times> json) list option" where
  "any_member k v = (if v = ANil then Some [] else map_option (\<lambda>j. [(k, j)]) (any_json v))"

fun property_json :: "property_schema \<Rightarrow> json option" where
  "property_json (PropertySchema t d en items def mn mx) =
     (case (any_member ''default'' def, float_member ''minimum'' mn, float_member ''maximum'' mx,
            (case items of None \<Rightarrow> Some [] | Some p \<Rightarrow> map_option (\<lambda>j. [(''items'', j)]) (property_json p))) of
        (Some df, Some mnm, Some mxm, Some it) \<Rightarrow>
          Some (JObj ([(''type'', JStr t)] @ omit_string ''description'' d @ omit_list ''enum'' (map JStr en)
            @ it @ df @ mnm @ mxm))
      | _ \<Rightarrow> None)"

definition schema_json :: "json_schema \<Rightarrow> json option" where
  "schema_json s =
     map_option (\<lambda>props. JObj ([(''type'', JStr (js_Type s))] @ omit_string ''description'' (js_Description s)
         @ (if props = [] then [] else [(''properties'', JObj (sort_key fst props))])
         @ omit_list ''required'' (map JStr (js_Required s))
         @ omit_opt ''additionalProperties'' JBool (js_AdditionalProperties s)))
       (sequence_opt (map (\<lambda>(k, p). map_option (Pair k) (property_json p)) (js_Properties s)))"

definition function_spec_json :: "function_spec \<Rightarrow> json option" where
  "function_spec_json f =
     map_option (\<lambda>ps. JObj ([(''name'', JStr (fs_Name f)), (''description'', JStr (fs_Description f))] @ ps
         @ (if fs_Strict f then [(''strict'', JBool True)] else [])))
       (case fs_Parameters f of None \<Rightarrow> Some [] | Some s \<Rightarrow> map_option (\<lambda>j. [(''parameters'', j)]) (schema_json s))"

definition tool_spec_json :: "tool_spec \<Rightarrow> json option" where
  "tool_spec_json t =
     map_option (\<lambda>f. JObj [(''type'', JStr (ts_Type t)), (''function'', f)]) (function_spec_json (ts_Function t))"

section \<open>JSON: the state\<close>

definition agent_state_json :: "agent_state \<Rightarrow> json option" where
  "agent_state_json s =
     (case (sequence_opt (map tool_spec_json (a_AvailableTools s)), format_float (a_Temperature s),
            any_json (AMap (a_ApprovalData s))) of
        (Some tools, Some temp, Some data) \<Rightarrow> Some (JObj
         ([(''conversation_id'', JStr (format_uuid (a_ConversationID s))),
           (''user_id'', JStr (format_uuid (a_UserID s))),
           (''request_id'', JStr (a_RequestID s)),
           (''messages'', JArr (map chat_message_json (a_Messages s))),
           (''system_prompt'', JStr (a_SystemPrompt s)),
           (''user_input'', JStr (a_UserInput s)),
           (''current_output'', JStr (a_CurrentOutput s)),
           (''model'', JStr (a_Model s)),
           (''temperature'', JNum temp),
           (''max_tokens'', JNum (itoa (a_MaxTokens s))),
           (''available_tools'', JArr tools),
           (''pending_tools'', JArr (map tool_call_json (a_PendingTools s))),
           (''tool_results'', JArr (map chat_message_json (a_ToolResults s))),
           (''current_agent'', JStr (a_CurrentAgent s)),
           (''next_agent'', JStr (a_NextAgent s)),
           (''agent_history'', JArr (map JStr (a_AgentHistory s))),
           (''requires_approval'', JBool (a_RequiresApproval s)),
           (''approval_reason'', JStr (a_ApprovalReason s)),
           (''approval_data'', data)]
          @ omit_opt ''is_approved'' JBool (a_IsApproved s)
          @ [(''iteration'', JNum (itoa (a_Iteration s))),
             (''max_iterations'', JNum (itoa (a_MaxIterations s))),
             (''should_stop'', JBool (a_ShouldStop s))]
          @ omit_string ''error'' (a_Error s)
          @ [(''start_time'', JStr (format_time (a_StartTime s))),
             (''tokens_used'', JNum (itoa (a_TokensUsed s))),
             (''tool_calls_count'', JNum (itoa (a_ToolCallsCount s)))]))
      | _ \<Rightarrow> None)"

definition AgentState_ToJSON :: "agent_state \<Rightarrow> goerror + string" where
  "AgentState_ToJSON s = (case agent_state_json s of
     Some j \<Rightarrow> Inr (json_print j)
   | None \<Rightarrow> Inl (Errorf ''json: unsupported value''))"

section \<open>Reading a paused state back\<close>

definition dec_uuid :: "json \<Rightarrow> uuid option" where
  "dec_uuid j = (case j of JNull \<Rightarrow> Some 0 | JStr s \<Rightarrow> parse_uuid s | _ \<Rightarrow> None)"

text \<open>The zero \<open>time.Time\<close> is the first of January of year 1.\<close>

definition zero_time :: time where
  "zero_time = - 62135596800 * second"

definition dec_time :: "json \<Rightarrow> time option" where
  "dec_time j = (case j of JNull \<Rightarrow> Some zero_time | JStr s \<Rightarrow> parse_time s | _ \<Rightarrow> None)"

definition dec_opt :: "(json \<Rightarrow> 'a option) \<Rightarrow> json \<Rightarrow> 'a option option" where
  "dec_opt f j = (case j of JNull \<Rightarrow> Some None | _ \<Rightarrow> map_option Some (f j))"

definition dec_map :: "json \<Rightarrow> gomap option" where
  "dec_map j = (case j of JNull \<Rightarrow> Some []
     | JObj kvs \<Rightarrow> (case json_any j of Some (AMap m) \<Rightarrow> Some m | _ \<Rightarrow> None)
     | _ \<Rightarrow> None)"

lemma obj_field_size: "obj_field n kvs \<noteq> JNull \<Longrightarrow> size (obj_field n kvs) < size (JObj kvs)"
proof -
  assume nn: "obj_field n kvs \<noteq> JNull"
  then obtain k v where kv: "find (\<lambda>(k, v). to_lower k = n) (rev kvs) = Some (k, v)" "obj_field n kvs = v"
    by (auto simp: obj_field_def split: option.splits)
  then have "(k, v) \<in> set kvs" by (metis (no_types, lifting) find_Some_iff nth_mem set_rev)
  then have "size v < size (JObj kvs)"
    by (induction kvs) auto
  with kv(2) show ?thesis by simp
qed

text \<open>A schema nests only through \<open>items\<close>.\<close>

function dec_property :: "json \<Rightarrow> property_schema option" where
  "dec_property j = (case j of
     JNull \<Rightarrow> Some (PropertySchema [] [] [] None ANil None None)
   | JObj kvs \<Rightarrow>
       Option.bind (dec_string (obj_field ''type'' kvs)) (\<lambda>t.
       Option.bind (dec_string (obj_field ''description'' kvs)) (\<lambda>d.
       Option.bind (dec_list dec_string (obj_field ''enum'' kvs)) (\<lambda>en.
       Option.bind (if obj_field ''items'' kvs = JNull then Some None
                    else map_option Some (dec_property (obj_field ''items'' kvs))) (\<lambda>it.
       Option.bind (json_any (obj_field ''default'' kvs)) (\<lambda>df.
       Option.bind (dec_opt dec_float (obj_field ''minimum'' kvs)) (\<lambda>mn.
       Option.bind (dec_opt dec_float (obj_field ''maximum'' kvs)) (\<lambda>mx.
       Some (PropertySchema t d en it df mn mx))))))))
   | _ \<Rightarrow> None)"
  by pat_completeness auto
termination
  by (relation "measure size") (use obj_field_size in force)+

declare dec_property.simps [simp del]

definition dec_schema :: "json \<Rightarrow> json_schema option" where
  "dec_schema j = Option.bind (dec_obj j) (\<lambda>kvs.
     Option.bind (dec_string (obj_field ''type'' kvs)) (\<lambda>t.
     Option.bind (dec_string (obj_field ''description'' kvs)) (\<lambda>d.
     Option.bind (dec_obj (obj_field ''properties'' kvs)) (\<lambda>ps.
     Option.bind (sequence_opt (map (\<lambda>(k, v). map_option (Pair k) (dec_property v)) ps)) (\<lambda>props.
     Option.bind (dec_list dec_string (obj_field ''required'' kvs)) (\<lambda>rq.
     Option.bind (dec_opt dec_bool (obj_field ''additionalproperties'' kvs)) (\<lambda>ap.
     Some \<lparr>js_Type = t, js_Description = d, js_Properties = foldl (\<lambda>m (k, v). AList.update k v m) [] props,
           js_Required = rq, js_AdditionalProperties = ap\<rparr>)))))))"

definition dec_function_spec :: "json \<Rightarrow> function_spec option" where
  "dec_function_spec j = Option.bind (dec_obj j) (\<lambda>kvs.
     Option.bind (dec_string (obj_field ''name'' kvs)) (\<lambda>n.
     Option.bind (dec_string (obj_field ''description'' kvs)) (\<lambda>d.
     Option.bind (dec_opt dec_schema (obj_field ''parameters'' kvs)) (\<lambda>p.
     Option.bind (dec_bool (obj_field ''strict'' kvs)) (\<lambda>st.
     Some \<lparr>fs_Name = n, fs_Description = d, fs_Parameters = p, fs_Strict = st\<rparr>)))))"

definition dec_tool_spec :: "json \<Rightarrow> tool_spec option" where
  "dec_tool_spec j = Option.bind (dec_obj j) (\<lambda>kvs.
     Option.bind (dec_string (obj_field ''type'' kvs)) (\<lambda>t.
     Option.bind (dec_function_spec (obj_field ''function'' kvs)) (\<lambda>f.
     Some \<lparr>ts_Type = t, ts_Function = f\<rparr>)))"

definition dec_agent_state :: "json \<Rightarrow> agent_state option" where
  "dec_agent_state j = Option.bind (dec_obj j) (\<lambda>kvs. let fld = (\<lambda>n. obj_field n kvs) in
     Option.bind (dec_uuid (fld ''conversation_id'')) (\<lambda>cid.
     Option.bind (dec_uuid (fld ''user_id'')) (\<lambda>uid.
     Option.bind (dec_string (fld ''request_id'')) (\<lambda>rid.
     Option.bind (dec_list dec_chat_message (fld ''messages'')) (\<lambda>ms.
     Option.bind (dec_string (fld ''system_prompt'')) (\<lambda>sp.
     Option.bind (dec_string (fld ''user_input'')) (\<lambda>ui.
     Option.bind (dec_string (fld ''current_output'')) (\<lambda>co.
     Option.bind (dec_string (fld ''model'')) (\<lambda>mo.
     Option.bind (dec_float (fld ''temperature'')) (\<lambda>te.
     Option.bind (dec_int (fld ''max_tokens'')) (\<lambda>mt.
     Option.bind (dec_list dec_tool_spec (fld ''available_tools'')) (\<lambda>av.
     Option.bind (dec_list dec_tool_call (fld ''pending_tools'')) (\<lambda>pt.
     Option.bind (dec_list dec_chat_message (fld ''tool_results'')) (\<lambda>tr.
     Option.bind (dec_string (fld ''current_agent'')) (\<lambda>ca.
     Option.bind (dec_string (fld ''next_agent'')) (\<lambda>na.
     Option.bind (dec_list dec_string (fld ''agent_history'')) (\<lambda>ah.
     Option.bind (dec_bool (fld ''requires_approval'')) (\<lambda>ra.
     Option.bind (dec_string (fld ''approval_reason'')) (\<lambda>ar.
     Option.bind (dec_map (fld ''approval_data'')) (\<lambda>ad.
     Option.bind (dec_opt dec_bool (fld ''is_approved'')) (\<lambda>ia.
     Option.bind (dec_int (fld ''iteration'')) (\<lambda>it.
     Option.bind (dec_int (fld ''max_iterations'')) (\<lambda>mi.
     Option.bind (dec_bool (fld ''should_stop'')) (\<lambda>ss.
     Option.bind (dec_string (fld ''error'')) (\<lambda>er.
     Option.bind (dec_time (fld ''start_time'')) (\<lambda>st.
     Option.bind (dec_int (fld ''tokens_used'')) (\<lambda>tu.
     Option.bind (dec_int (fld ''tool_calls_count'')) (\<lambda>tc.
     Some \<lparr>a_ConversationID = cid, a_UserID = uid, a_RequestID = rid, a_Messages = ms,
       a_SystemPrompt = sp, a_UserInput = ui, a_CurrentOutput = co, a_Model = mo, a_Temperature = te,
       a_MaxTokens = mt, a_AvailableTools = av, a_PendingTools = pt, a_ToolResults = tr,
       a_CurrentAgent = ca, a_NextAgent = na, a_AgentHistory = ah, a_RequiresApproval = ra,
       a_ApprovalReason = ar, a_ApprovalData = ad, a_IsApproved = ia, a_Iteration = it,
       a_MaxIterations = mi, a_ShouldStop = ss, a_Error = er, a_StartTime = st, a_TokensUsed = tu,
       a_ToolCallsCount = tc\<rparr>))))))))))))))))))))))))))))"

definition AgentState_FromJSON :: "string \<Rightarrow> goerror + agent_state" where
  "AgentState_FromJSON data =
     (case Option.bind (json_parse data) dec_agent_state of
        Some s \<Rightarrow> Inr s
      | None \<Rightarrow> Inl (Errorf ''invalid state JSON''))"

end
