(* ===== verification/State_Codec.thy ===== *)
theory State_Codec
  imports Agent_State
begin

text \<open>
  Why a paused run can be resumed: \<open>FromJSON\<close> reads back what \<open>ToJSON\<close> wrote. Every field
  returns unchanged, except that numbers inside dynamic values come back as \<open>float64\<close>
  (in \<open>ApprovalData\<close> and in the \<open>Default\<close> of a tool's parameter), as \<open>encoding/json\<close> has it.
\<close>

section \<open>UUIDs\<close>

lemma length_hex_digits [simp]: "length (hex_digits n i) = n"
  by (induction n i rule: hex_digits.induct) auto

lemma hex_value_snoc:
  "0 \<le> d \<Longrightarrow> d < 16 \<Longrightarrow> hex_value (s @ [hex_digit d]) = map_option (\<lambda>n. 16 * n + d) (hex_value s)"
  by (simp add: hex_value_def hex_val_digit split: option.splits)

lemma hex_value_digits: "0 \<le> i \<Longrightarrow> hex_value (hex_digits n i) = Some (i mod 16 ^ n)"
proof (induction n i rule: hex_digits.induct)
  case (1 i)
  then show ?case by (simp add: hex_value_def)
next
  case (2 n i)
  then have "hex_value (hex_digits n (i div 16)) = Some (i div 16 mod 16 ^ n)"
    by (simp add: pos_imp_zdiv_nonneg_iff)
  then show ?case
    by (simp add: hex_value_snoc zmod_zmult2_eq)
qed

lemma parse_format_uuid: "parse_uuid (format_uuid u) = Some u"
proof -
  define h where "h = hex_digits 32 (uint u)"
  have len: "length h = 32" by (simp add: h_def)
  have split: "take 8 h @ take 4 (drop 8 h) @ take 4 (drop 12 h) @ take 4 (drop 16 h) @ drop 20 h = h"
    using append_take_drop_id [of 8 h] append_take_drop_id [of 4 "drop 8 h"]
      append_take_drop_id [of 4 "drop 12 h"] append_take_drop_id [of 4 "drop 16 h"]
    by (simp add: drop_drop del: append_take_drop_id)
  have val: "hex_value h = Some (uint u)"
  proof -
    have "uint u < 16 ^ 32" using uint_lt2p [of u] by simp
    then show ?thesis by (simp add: h_def hex_value_digits)
  qed
  show ?thesis
    using len val split by (simp add: parse_uuid_def format_uuid_def flip: h_def)
qed

section \<open>Dynamic values\<close>

fun any_text_ok :: "any \<Rightarrow> bool" where
  "any_text_ok (AFloat x) = float_text_ok x"
| "any_text_ok (AList xs) = list_all any_text_ok xs"
| "any_text_ok (AMap kvs) = list_all (\<lambda>(k, v). any_text_ok v) kvs"
| "any_text_ok _ = True"

lemma pow2_pos: "0 < pow2 e"
  by (simp add: pow2_def)

lemma pow2_mono: "e \<le> 11 \<Longrightarrow> pow2 e \<le> pow2 11"
proof (cases "0 \<le> e")
  case True
  moreover assume "e \<le> 11"
  ultimately have "(2::rat) ^ nat e \<le> 2 ^ 11" by (intro power_increasing) auto
  with True show ?thesis by (simp add: pow2_def)
next
  case False
  have "(1::rat) \<le> 2 ^ nat (- e)" by simp
  then have "1 / (2::rat) ^ nat (- e) \<le> 1" by (simp add: field_simps)
  moreover have "(1::rat) \<le> 2048" by simp
  ultimately have "1 / (2::rat) ^ nat (- e) \<le> 2048" by (rule order_trans)
  with False show ?thesis by (simp add: pow2_def)
qed

lemma round_even_le: "of_int (round_even x) \<le> x + 1"
  by (simp add: round_even_def Let_def) linarith

lemma int_bits_le: "0 < n \<Longrightarrow> n < 2 ^ k \<Longrightarrow> int_bits n \<le> int k"
proof -
  assume n: "0 < n" "n < 2 ^ k"
  then have b: "1 \<le> int_bits n" "2 ^ nat (int_bits n - 1) \<le> n" using int_bits_bounds by auto
  then have "(2::int) ^ nat (int_bits n - 1) < 2 ^ k" using n by linarith
  then have "nat (int_bits n - 1) < k" by (rule power_less_imp_less_exp [rotated]) simp
  with b show ?thesis by linarith
qed

lemma round64_int_finite:
  assumes "0 < n" "n < 2 ^ 64"
  shows "round64 s (of_int n) \<noteq> FInf b"
proof -
  let ?e = "max (ilog2 (of_int n) - 52) (- 1074)"
  have "ilog2 (of_int n) \<le> 63"
    using int_bits_le [OF assms] by (simp add: ilog2_def quotient_of_of_int Let_def int_bits.simps [of 1] int_bits.simps [of 0])
  then have "pow2 ?e \<le> pow2 11" by (intro pow2_mono) simp
  moreover have "pow2 11 = 2048" by (simp add: pow2_def)
  ultimately have p: "0 < pow2 ?e" "pow2 ?e \<le> 2048" by (simp_all add: pow2_pos)
  have "of_int (round_even (of_int n / pow2 ?e)) * pow2 ?e \<le> (of_int n / pow2 ?e + 1) * pow2 ?e"
    using p(1) round_even_le by (intro mult_right_mono) auto
  also have "\<dots> = of_int n + pow2 ?e" using p(1) by (simp add: field_simps)
  also have "\<dots> \<le> of_int (2 ^ 64) + 2048" using p(2) assms(2) by (intro add_mono) (auto simp del: of_int_power)
  also have "\<dots> < 2 ^ 1024" by simp
  finally show ?thesis unfolding round64_def Let_def by auto
qed

lemma parse_decimal_digits:
  assumes "list_all is_digit t" "t \<noteq> []" "digits_val t < 2 ^ 64" "0 \<le> digits_val t"
  shows "parse_decimal t \<noteq> None \<and> parse_decimal (CHR ''-'' # t) \<noteq> None"
proof -
  have tw: "takeWhile is_digit t = t" and dw: "dropWhile is_digit t = []"
    using assms(1) by (simp_all add: list_all_iff)
  have "round64 s (of_int (digits_val t)) \<noteq> FInf b" if "digits_val t \<noteq> 0" for s b
    using that assms round64_int_finite by auto
  then show ?thesis using assms(2)
    by (auto simp: parse_decimal_def scan_sign_digits [OF assms(1,2)] scan_sign_minus tw dw scan_frac_def scan_exp_def
        pow10_def Let_def split: f64.splits)
qed

lemma parse_decimal_itoa: "parse_decimal (itoa i) \<noteq> None"
proof -
  have range: "- (2 ^ 63) \<le> sint i" "sint i < 2 ^ 63"
    using sint_ge [of i] sint_lt [of i] by simp_all
  show ?thesis
    using nat_digits_props [of "- sint i"] nat_digits_props [of "sint i"] range
      parse_decimal_digits [of "nat_digits (- sint i)"] parse_decimal_digits [of "nat_digits (sint i)"]
    by (cases "sint i < 0") (auto simp: itoa_def int_digits_def)
qed

lemma sequence_opt_all:
  "(\<And>x. x \<in> set xs \<Longrightarrow> f x \<noteq> None) \<Longrightarrow> sequence_opt (map f xs) = Some (map (the \<circ> f) xs)"
proof (induction xs)
  case (Cons x xs)
  then obtain y where "f x = Some y" by fastforce
  with Cons show ?case by simp
qed simp

lemma sequence_opt_ne: "(\<And>x. x \<in> set xs \<Longrightarrow> f x \<noteq> None) \<Longrightarrow> sequence_opt (map f xs) \<noteq> None"
  by (simp add: sequence_opt_all)

definition encodes :: "any \<Rightarrow> bool" where
  "encodes v \<longleftrightarrow> (\<exists>j. any_json v = Some j \<and> wf_json j \<and> json_any j \<noteq> None)"

lemma encodesE: "encodes v \<Longrightarrow> \<exists>j. any_json v = Some j \<and> wf_json j \<and> json_any j \<noteq> None"
  by (simp add: encodes_def)

lemma any_json_map:
  assumes "\<forall>kv \<in> set kvs. encodes (snd kv)"
  shows "any_json (AMap kvs) = Some (JObj (sort_key fst (map (\<lambda>(k, v). (k, the (any_json v))) kvs)))"
proof -
  have *: "map_option (Pair (fst kv)) (any_json (snd kv)) = Some (fst kv, the (any_json (snd kv)))" if "kv \<in> set kvs" for kv
    using assms that encodesE [of "snd kv"] by auto
  have "sequence_opt (map (\<lambda>(k, v). map_option (Pair k) (any_json v)) kvs)
      = Some (map (the \<circ> (\<lambda>(k, v). map_option (Pair k) (any_json v))) kvs)"
    by (rule sequence_opt_all) (unfold case_prod_beta, subst *, auto)
  also have "map (the \<circ> (\<lambda>(k, v). map_option (Pair k) (any_json v))) kvs = map (\<lambda>(k, v). (k, the (any_json v))) kvs"
    by (intro map_cong refl) (simp add: case_prod_beta *)
  finally show ?thesis by simp
qed

lemma encodes_map:
  assumes "\<forall>kv \<in> set kvs. encodes (snd kv)"
  shows "\<exists>l m. any_json (AMap kvs) = Some (JObj l) \<and> wf_json (JObj l) \<and> json_any (JObj l) = Some (AMap m)"
proof -
  define l where "l = sort_key fst (map (\<lambda>(k, v). (k, the (any_json v))) kvs)"
  have mem: "wf_json (snd kj) \<and> json_any (snd kj) \<noteq> None" if "kj \<in> set l" for kj
  proof -
    from that obtain kv where "kv \<in> set kvs" "snd kj = the (any_json (snd kv))" by (auto simp: l_def)
    then show ?thesis using assms encodesE by fastforce
  qed
  then have "wf_json (JObj l)" by (simp add: list_all_iff case_prod_beta)
  moreover have "sequence_opt (map (\<lambda>(k, v). map_option (Pair k) (json_any v)) l) \<noteq> None"
    using mem by (intro sequence_opt_ne) (simp add: case_prod_beta)
  then have "\<exists>m. json_any (JObj l) = Some (AMap m)" by auto
  ultimately show ?thesis using any_json_map [OF assms] unfolding l_def by blast
qed

lemma any_text_ok_encodes: "any_text_ok v \<Longrightarrow> encodes v"
proof (induction v)
  case (AInt i)
  then show ?case using itoa_wf [of i] parse_decimal_itoa [of i] by (auto simp: encodes_def)
next
  case (AFloat x)
  then show ?case by (auto simp: encodes_def float_text_ok_def split: option.splits)
next
  case (AList xs)
  then have *: "\<And>v. v \<in> set xs \<Longrightarrow> encodes v" by (auto simp: list_all_iff)
  then have "sequence_opt (map any_json xs) = Some (map (the \<circ> any_json) xs)"
    by (intro sequence_opt_all) (auto simp: encodes_def)
  moreover have "\<And>j. j \<in> set (map (the \<circ> any_json) xs) \<Longrightarrow> wf_json j \<and> json_any j \<noteq> None"
    using * by (fastforce simp: encodes_def)
  moreover from this have "sequence_opt (map json_any (map (the \<circ> any_json) xs)) \<noteq> None"
    by (intro sequence_opt_ne) auto
  ultimately show ?case by (auto simp: encodes_def list_all_iff)
next
  case (AMap kvs)
  then have "\<forall>kv \<in> set kvs. encodes (snd kv)" by (fastforce simp: list_all_iff)
  from encodes_map [OF this] obtain l m where
    "any_json (AMap kvs) = Some (JObj l)" "wf_json (JObj l)" "json_any (JObj l) = Some (AMap m)"
    by blast
  then show ?case unfolding encodes_def by (intro exI [of _ "JObj l"]) (simp del: any_json.simps json_any.simps)
next
  case (ACall c)
  then show ?case by (simp add: encodes_def tool_call_json_def function_call_json_def)
qed (auto simp: encodes_def)

section \<open>Tool definitions\<close>

lemma state_keys [simp]:
  "to_lower ''description'' = ''description''" "to_lower ''enum'' = ''enum''" "to_lower ''items'' = ''items''"
  "to_lower ''default'' = ''default''" "to_lower ''minimum'' = ''minimum''" "to_lower ''maximum'' = ''maximum''"
  "to_lower ''properties'' = ''properties''" "to_lower ''required'' = ''required''"
  "to_lower ''additionalProperties'' = ''additionalproperties''" "to_lower ''parameters'' = ''parameters''"
  "to_lower ''strict'' = ''strict''"
  by code_simp+

definition float_opt_ok :: "f64 option \<Rightarrow> bool" where
  "float_opt_ok x = (case x of None \<Rightarrow> True | Some v \<Rightarrow> float_text_ok v)"

fun property_text_ok :: "property_schema \<Rightarrow> bool" where
  "property_text_ok (PropertySchema t d en items df mn mx) =
     (any_text_ok df \<and> float_opt_ok mn \<and> float_opt_ok mx
      \<and> (case items of None \<Rightarrow> True | Some p \<Rightarrow> property_text_ok p))"

definition schema_text_ok :: "json_schema \<Rightarrow> bool" where
  "schema_text_ok s = list_all (\<lambda>(k, p). property_text_ok p) (js_Properties s)"

definition tool_text_ok :: "tool_spec \<Rightarrow> bool" where
  "tool_text_ok t = (case fs_Parameters (ts_Function t) of None \<Rightarrow> True | Some s \<Rightarrow> schema_text_ok s)"

text \<open>A decoded member, when it was written and when it was left out.\<close>

definition lacks :: "string \<Rightarrow> (string \<times> json) list \<Rightarrow> bool" where
  "lacks n kvs = list_all (\<lambda>kv. to_lower (fst kv) \<noteq> n) kvs"

definition only :: "string \<Rightarrow> (string \<times> json) list \<Rightarrow> bool" where
  "only k kvs = list_all (\<lambda>kv. fst kv = k) kvs"

lemma lacks_simps [simp]:
  "lacks n []" "lacks n ((k, v) # kvs) \<longleftrightarrow> to_lower k \<noteq> n \<and> lacks n kvs"
  "lacks n (xs @ ys) \<longleftrightarrow> lacks n xs \<and> lacks n ys"
  by (auto simp: lacks_def)

lemma only_lacks: "only k kvs \<Longrightarrow> to_lower k \<noteq> n \<Longrightarrow> lacks n kvs"
  by (auto simp: only_def lacks_def list_all_iff)

lemma obj_field_lacks: "lacks n kvs \<Longrightarrow> obj_field n kvs = JNull"
  by (induction kvs rule: rev_induct) (auto simp: obj_field_Nil obj_field_snoc)

lemma obj_field_lacks_right: "lacks n ys \<Longrightarrow> obj_field n (xs @ ys) = obj_field n xs"
  by (auto simp: lacks_def list_all_iff obj_field_append)

lemma obj_field_lacks_left: "lacks n xs \<Longrightarrow> obj_field n (xs @ ys) = obj_field n ys"
  by (cases "lacks n ys") (auto simp: obj_field_lacks obj_field_append lacks_def list_all_iff)

lemma obj_field_here: "to_lower k = n \<Longrightarrow> lacks n ys \<Longrightarrow> obj_field n ((k, v) # ys) = v"
  by (auto simp: obj_field_Cons lacks_def list_all_iff)

lemma obj_field_skip: "to_lower k \<noteq> n \<Longrightarrow> obj_field n ((k, v) # ys) = obj_field n ys"
  using obj_field_lacks_left [of n "[(k, v)]" ys] by simp

lemma omit_lacks [simp]:
  "to_lower k \<noteq> n \<Longrightarrow> lacks n (omit_string k s)"
  "to_lower k \<noteq> n \<Longrightarrow> lacks n (omit_list k xs)"
  "to_lower k \<noteq> n \<Longrightarrow> lacks n (omit_opt k f x)"
  by (auto simp: omit_string_def omit_list_def omit_opt_def split: option.splits)

lemma obj_field_omit:
  "to_lower k = n \<Longrightarrow> dec_string (obj_field n (omit_string k s)) = Some s"
  "to_lower k = n \<Longrightarrow> dec_list dec_string (obj_field n (omit_list k (map JStr xs))) = Some xs"
  "to_lower k = n \<Longrightarrow> dec_opt dec_bool (obj_field n (omit_opt k JBool x)) = Some x"
  using dec_list_encoded [of dec_string JStr xs]
  by (auto simp: omit_string_def omit_list_def omit_opt_def obj_field_def dec_string_def dec_list_def dec_opt_def
      dec_bool_def split: option.splits)

lemmas obj_field_simps = obj_field_lacks obj_field_lacks_right obj_field_lacks_left obj_field_here obj_field_skip

lemma wf_omit [simp]:
  "wf_json (JObj (omit_string k s))" "wf_json (JObj (omit_list k (map JStr xs)))" "wf_json (JObj (omit_opt k JBool x))"
  by (auto simp: omit_string_def omit_list_def omit_opt_def list_all_iff split: option.splits)

lemma wf_members:
  "wf_json (JObj (xs @ ys)) \<longleftrightarrow> wf_json (JObj xs) \<and> wf_json (JObj ys)"
  "wf_json (JObj ((k, v) # ys)) \<longleftrightarrow> wf_json v \<and> wf_json (JObj ys)"
  by simp_all

lemma float_member_ok:
  assumes "float_opt_ok x" "to_lower k = k"
  shows "\<exists>l. float_member k x = Some l \<and> wf_json (JObj l) \<and> only k l \<and> dec_opt dec_float (obj_field k l) = Some x"
proof (cases x)
  case None
  then show ?thesis by (simp add: float_member_def only_def obj_field_Nil dec_opt_def)
next
  case (Some v)
  with assms(1) obtain t where "format_float v = Some t" "wf_json (JNum t)" "parse_decimal t = Some v"
    by (auto simp: float_opt_ok_def float_text_ok_def split: option.splits)
  with Some assms(2) show ?thesis
    by (intro exI [of _ "[(k, JNum t)]"]) (simp add: float_member_def only_def obj_field_def dec_opt_def dec_float_def)
qed

lemma any_member_ok:
  assumes "any_text_ok v" "to_lower k = k"
  shows "\<exists>l v'. any_member k v = Some l \<and> wf_json (JObj l) \<and> only k l \<and> json_any (obj_field k l) = Some v'"
  using encodesE [OF any_text_ok_encodes [OF assms(1)]] assms(2)
  by (auto simp: any_member_def obj_field_def only_def)

lemma property_codec:
  "property_text_ok p \<Longrightarrow> \<exists>l. property_json p = Some (JObj l) \<and> wf_json (JObj l) \<and> dec_property (JObj l) \<noteq> None"
proof (induction p)
  case (PropertySchema t d en items df mn mx)
  then have ok: "any_text_ok df" "float_opt_ok mn" "float_opt_ok mx" by auto
  obtain ld v where ld: "any_member ''default'' df = Some ld" "wf_json (JObj ld)" "only ''default'' ld"
      "json_any (obj_field ''default'' ld) = Some v"
    using any_member_ok [OF ok(1), of "''default''"] by auto
  obtain ln where ln: "float_member ''minimum'' mn = Some ln" "wf_json (JObj ln)" "only ''minimum'' ln"
      "dec_opt dec_float (obj_field ''minimum'' ln) = Some mn"
    using float_member_ok [OF ok(2), of "''minimum''"] by auto
  obtain lx where lx: "float_member ''maximum'' mx = Some lx" "wf_json (JObj lx)" "only ''maximum'' lx"
      "dec_opt dec_float (obj_field ''maximum'' lx) = Some mx"
    using float_member_ok [OF ok(3), of "''maximum''"] by auto
  define item where "item = (\<lambda>l. if obj_field ''items'' l = JNull then Some None
      else map_option Some (dec_property (obj_field ''items'' l)))"
  obtain li where li: "(case items of None \<Rightarrow> Some [] | Some p \<Rightarrow> map_option (\<lambda>j. [(''items'', j)]) (property_json p)) = Some li"
      "wf_json (JObj li)" "only ''items'' li" "item li \<noteq> None"
  proof (cases items)
    case None
    then show ?thesis using that [of "[]"] by (simp add: only_def obj_field_Nil item_def)
  next
    case (Some q)
    then obtain lq where "property_json q = Some (JObj lq)" "wf_json (JObj lq)" "dec_property (JObj lq) \<noteq> None"
      using PropertySchema by auto
    then show ?thesis using Some that [of "[(''items'', JObj lq)]"] by (simp add: only_def obj_field_def item_def)
  qed
  have lk: "lacks n li" if "n \<noteq> ''items''" for n using only_lacks [OF li(3)] that by simp
  have lkd: "lacks n ld" if "n \<noteq> ''default''" for n using only_lacks [OF ld(3)] that by simp
  have lkn: "lacks n ln" if "n \<noteq> ''minimum''" for n using only_lacks [OF ln(3)] that by simp
  have lkx: "lacks n lx" if "n \<noteq> ''maximum''" for n using only_lacks [OF lx(3)] that by simp
  define l where "l = (''type'', JStr t) # omit_string ''description'' d @ omit_list ''enum'' (map JStr en) @ li @ ld @ ln @ lx"
  have "property_json (PropertySchema t d en items df mn mx) = Some (JObj l)"
    using ld(1) ln(1) lx(1) li(1) by (simp add: l_def)
  moreover have "wf_json (JObj l)"
    using ld(2) ln(2) lx(2) li(2) wf_omit by (simp only: l_def wf_members wf_json.simps(4))
  moreover have f: "obj_field ''type'' l = JStr t"
      "obj_field ''description'' l = obj_field ''description'' (omit_string ''description'' d)"
      "obj_field ''enum'' l = obj_field ''enum'' (omit_list ''enum'' (map JStr en))"
      "obj_field ''items'' l = obj_field ''items'' li" "obj_field ''default'' l = obj_field ''default'' ld"
      "obj_field ''minimum'' l = obj_field ''minimum'' ln" "obj_field ''maximum'' l = obj_field ''maximum'' lx"
    by (simp_all add: l_def obj_field_simps lk lkd lkn lkx)
  have "dec_property (JObj l) \<noteq> None"
    using li(4) ld(4) ln(4) lx(4)
    by (subst dec_property.simps) (auto simp: f obj_field_omit dec_string_def [of "JStr _"] item_def split: if_splits)
  ultimately show ?case by blast
qed

lemma sequence_opt_choice:
  "(\<And>x. x \<in> set xs \<Longrightarrow> \<exists>y. f x = Some y \<and> P y) \<Longrightarrow> \<exists>ys. sequence_opt (map f xs) = Some ys \<and> (\<forall>y \<in> set ys. P y)"
proof (induction xs)
  case (Cons x xs)
  obtain y where "f x = Some y" "P y" using Cons.prems [of x] by auto
  moreover obtain ys where "sequence_opt (map f xs) = Some ys" "\<forall>y \<in> set ys. P y" using Cons by (auto simp del: sequence_opt.simps)
  ultimately show ?case by simp
qed simp

lemma schema_codec:
  assumes "schema_text_ok s"
  shows "\<exists>l. schema_json s = Some (JObj l) \<and> wf_json (JObj l) \<and> dec_schema (JObj l) \<noteq> None"
proof -
  let ?good = "\<lambda>(k, j). wf_json j \<and> dec_property j \<noteq> None"
  have "\<exists>y. (\<lambda>(k, p). map_option (Pair k) (property_json p)) kp = Some y \<and> ?good y" if "kp \<in> set (js_Properties s)" for kp
    using that assms property_codec [of "snd kp"] by (auto simp: schema_text_ok_def list_all_iff case_prod_beta)
  then obtain props where props:
    "sequence_opt (map (\<lambda>(k, p). map_option (Pair k) (property_json p)) (js_Properties s)) = Some props"
    "\<forall>kj \<in> set props. ?good kj"
    using sequence_opt_choice [of "js_Properties s" _ ?good] by blast
  define ps where "ps = (if props = [] then [] else [(''properties'', JObj (sort_key fst props))])"
  define l where "l = (''type'', JStr (js_Type s)) # omit_string ''description'' (js_Description s) @ ps
      @ omit_list ''required'' (map JStr (js_Required s))
      @ omit_opt ''additionalProperties'' JBool (js_AdditionalProperties s)"
  have lk: "lacks n ps" if "n \<noteq> ''properties''" for n using that by (simp add: ps_def)
  have f: "obj_field ''type'' l = JStr (js_Type s)"
      "obj_field ''description'' l = obj_field ''description'' (omit_string ''description'' (js_Description s))"
      "obj_field ''properties'' l = obj_field ''properties'' ps"
      "obj_field ''required'' l = obj_field ''required'' (omit_list ''required'' (map JStr (js_Required s)))"
      "obj_field ''additionalproperties'' l
        = obj_field ''additionalproperties'' (omit_opt ''additionalProperties'' JBool (js_AdditionalProperties s))"
    by (simp_all add: l_def obj_field_simps lk)
  have "wf_json (JObj ps)" using props(2) by (auto simp: ps_def list_all_iff)
  then have "wf_json (JObj l)" using wf_omit by (simp only: l_def wf_members wf_json.simps(4))
  moreover have "sequence_opt (map (\<lambda>(k, v). map_option (Pair k) (dec_property v)) (sort_key fst props)) \<noteq> None"
    using props(2) by (intro sequence_opt_ne) auto
  moreover have "dec_obj (obj_field ''properties'' ps) = Some (sort_key fst props)"
    by (simp add: ps_def obj_field_def dec_obj_def)
  ultimately have "dec_schema (JObj l) \<noteq> None"
    by (auto simp: dec_schema_def dec_obj_def [of "JObj _"] f obj_field_omit dec_string_def [of "JStr _"])
  moreover note \<open>wf_json (JObj l)\<close>
  moreover have "schema_json s = Some (JObj l)" using props(1) by (simp add: schema_json_def l_def ps_def)
  ultimately show ?thesis by blast
qed

lemma tool_codec:
  assumes "tool_text_ok t"
  shows "\<exists>j. tool_spec_json t = Some j \<and> wf_json j \<and> dec_tool_spec j \<noteq> None"
proof -
  let ?f = "ts_Function t"
  obtain ps where ps: "(case fs_Parameters ?f of None \<Rightarrow> Some [] | Some s \<Rightarrow> map_option (\<lambda>j. [(''parameters'', j)]) (schema_json s)) = Some ps"
      "wf_json (JObj ps)" "only ''parameters'' ps" "dec_opt dec_schema (obj_field ''parameters'' ps) \<noteq> None"
  proof (cases "fs_Parameters ?f")
    case None
    then show ?thesis using that [of "[]"] by (simp add: only_def obj_field_Nil dec_opt_def)
  next
    case (Some s)
    then obtain l where "schema_json s = Some (JObj l)" "wf_json (JObj l)" "dec_schema (JObj l) \<noteq> None"
      using assms schema_codec [of s] unfolding tool_text_ok_def by (metis option.simps(5))
    then show ?thesis
      using Some that [of "[(''parameters'', JObj l)]"] by (simp add: only_def obj_field_def dec_opt_def)
  qed
  have lk: "lacks n ps" if "n \<noteq> ''parameters''" for n using only_lacks [OF ps(3)] that by simp
  define st where "st = (if fs_Strict ?f then [(''strict'', JBool True)] else [])"
  define l where "l = (''name'', JStr (fs_Name ?f)) # (''description'', JStr (fs_Description ?f)) # ps @ st"
  have ls: "lacks n st" if "n \<noteq> ''strict''" for n using that by (simp add: st_def)
  have f: "obj_field ''name'' l = JStr (fs_Name ?f)" "obj_field ''description'' l = JStr (fs_Description ?f)"
      "obj_field ''parameters'' l = obj_field ''parameters'' ps" "obj_field ''strict'' l = obj_field ''strict'' st"
    by (simp_all add: l_def obj_field_simps lk ls)
  have "dec_bool (obj_field ''strict'' st) = Some (fs_Strict ?f)" by (simp add: st_def obj_field_def dec_bool_def)
  then have "dec_function_spec (JObj l) \<noteq> None"
    using ps(4) by (auto simp: dec_function_spec_def dec_obj_def f dec_string_def)
  moreover have "wf_json (JObj st)" by (simp add: st_def)
  then have "wf_json (JObj l)" using ps(2) by (simp only: l_def wf_members wf_json.simps(4))
  moreover have "function_spec_json ?f = Some (JObj l)" using ps(1) by (simp add: function_spec_json_def l_def st_def)
  ultimately show ?thesis
    by (auto simp: tool_spec_json_def dec_tool_spec_def dec_obj_def obj_field_Cons obj_field_Nil dec_string_def [of "JStr _"])
qed

section \<open>The whole state\<close>

text \<open>What the text form can carry: finite numbers and instants with a calendar date.\<close>

definition state_text_ok :: "agent_state \<Rightarrow> bool" where
  "state_text_ok s \<longleftrightarrow> float_text_ok (a_Temperature s) \<and> time_text_ok (a_StartTime s)
     \<and> any_text_ok (AMap (a_ApprovalData s)) \<and> list_all tool_text_ok (a_AvailableTools s)"

lemma state_field_keys [simp]:
  "to_lower ''conversation_id'' = ''conversation_id''" "to_lower ''user_id'' = ''user_id''"
  "to_lower ''request_id'' = ''request_id''" "to_lower ''messages'' = ''messages''"
  "to_lower ''system_prompt'' = ''system_prompt''" "to_lower ''user_input'' = ''user_input''"
  "to_lower ''current_output'' = ''current_output''" "to_lower ''model'' = ''model''"
  "to_lower ''temperature'' = ''temperature''" "to_lower ''max_tokens'' = ''max_tokens''"
  "to_lower ''available_tools'' = ''available_tools''" "to_lower ''pending_tools'' = ''pending_tools''"
  "to_lower ''tool_results'' = ''tool_results''" "to_lower ''current_agent'' = ''current_agent''"
  "to_lower ''next_agent'' = ''next_agent''" "to_lower ''agent_history'' = ''agent_history''"
  "to_lower ''requires_approval'' = ''requires_approval''" "to_lower ''approval_reason'' = ''approval_reason''"
  "to_lower ''approval_data'' = ''approval_data''" "to_lower ''is_approved'' = ''is_approved''"
  "to_lower ''iteration'' = ''iteration''" "to_lower ''max_iterations'' = ''max_iterations''"
  "to_lower ''should_stop'' = ''should_stop''" "to_lower ''error'' = ''error''"
  "to_lower ''start_time'' = ''start_time''" "to_lower ''tokens_used'' = ''tokens_used''"
  "to_lower ''tool_calls_count'' = ''tool_calls_count''"
  by code_simp+

lemma dec_itoa: "dec_int (JNum (itoa i)) = Some i"
  by (simp add: dec_int_def json_int_itoa)

lemma dec_format_uuid: "dec_uuid (JStr (format_uuid u)) = Some u"
  by (simp add: dec_uuid_def parse_format_uuid)

lemma wf_tool_call_json: "wf_json (tool_call_json c)"
  by (simp add: tool_call_json_def function_call_json_def)

lemma wf_chat_message_json: "wf_json (chat_message_json m)"
  by (simp add: chat_message_json_def wf_tool_call_json omit_string_def list_all_iff)

lemma wf_list: "(\<And>x. wf_json (f x)) \<Longrightarrow> wf_json (JArr (map f xs))"
  by (simp add: list_all_iff)

definition same_fields :: "agent_state \<Rightarrow> agent_state \<Rightarrow> bool" where
  "same_fields s t \<longleftrightarrow> t = s\<lparr>a_AvailableTools := a_AvailableTools t, a_ApprovalData := a_ApprovalData t\<rparr>"

lemma state_codec:
  assumes "state_text_ok s"
  shows "\<exists>j t. agent_state_json s = Some j \<and> wf_json j \<and> dec_agent_state j = Some t \<and> same_fields s t"
proof -
  have "\<exists>j. tool_spec_json t = Some j \<and> wf_json j \<and> dec_tool_spec j \<noteq> None" if "t \<in> set (a_AvailableTools s)" for t
    using assms that by (intro tool_codec) (simp add: state_text_ok_def list_all_iff)
  then have "\<exists>ys. sequence_opt (map tool_spec_json (a_AvailableTools s)) = Some ys
      \<and> (\<forall>j \<in> set ys. wf_json j \<and> dec_tool_spec j \<noteq> None)"
    by (rule sequence_opt_choice)
  then obtain tools where tools: "sequence_opt (map tool_spec_json (a_AvailableTools s)) = Some tools"
      "\<forall>j \<in> set tools. wf_json j \<and> dec_tool_spec j \<noteq> None"
    by auto
  then obtain av where av: "dec_list dec_tool_spec (JArr tools) = Some av"
    using sequence_opt_ne [of tools dec_tool_spec] by (auto simp: dec_list_def)
  obtain temp where temp: "format_float (a_Temperature s) = Some temp" "wf_json (JNum temp)" "parse_decimal temp = Some (a_Temperature s)"
    using assms by (auto simp: state_text_ok_def float_text_ok_def split: option.splits)
  have "\<forall>kv \<in> set (a_ApprovalData s). encodes (snd kv)"
    using assms any_text_ok_encodes by (fastforce simp: state_text_ok_def list_all_iff)
  from encodes_map [OF this] obtain d m where
    data: "any_json (AMap (a_ApprovalData s)) = Some (JObj d)" "wf_json (JObj d)" "json_any (JObj d) = Some (AMap m)"
    by blast
  then have dmap: "dec_map (JObj d) = Some m" by (simp add: dec_map_def del: json_any.simps)
  define l3 where "l3 =
     [(''start_time'', JStr (format_time (a_StartTime s))),
      (''tokens_used'', JNum (itoa (a_TokensUsed s))),
      (''tool_calls_count'', JNum (itoa (a_ToolCallsCount s)))]"
  define l2 where "l2 =
     [(''iteration'', JNum (itoa (a_Iteration s))),
      (''max_iterations'', JNum (itoa (a_MaxIterations s))),
      (''should_stop'', JBool (a_ShouldStop s))]"
  define l1 where "l1 =
     [(''conversation_id'', JStr (format_uuid (a_ConversationID s))),
      (''user_id'', JStr (format_uuid (a_UserID s))),
      (''request_id'', JStr (a_RequestID s)),
      (''messages'', JArr (map chat_message_json (a_Messages s))),
      (''system_prompt'', JStr (a_SystemPrompt s)),
      (''user_input'', JStr (a_UserInput s)),
      (''current_output'', JStr (a_CurrentOutput s)),
      (''model'', JStr (a_Model s)),
      (''temperature'', JNum temp),
      (''max_tokens'', JNum (itoa (a_MaxTokens s))),
      (''available_tools'', JArr tools),
      (''pending_tools'', JArr (map tool_call_json (a_PendingTools s))),
      (''tool_results'', JArr (map chat_message_json (a_ToolResults s))),
      (''current_agent'', JStr (a_CurrentAgent s)),
      (''next_agent'', JStr (a_NextAgent s)),
      (''agent_history'', JArr (map JStr (a_AgentHistory s))),
      (''requires_approval'', JBool (a_RequiresApproval s)),
      (''approval_reason'', JStr (a_ApprovalReason s)),
      (''approval_data'', JObj d)]"
  define l where "l = l1 @ omit_opt ''is_approved'' JBool (a_IsApproved s) @ l2 @ omit_string ''error'' (a_Error s) @ l3"
  have js: "agent_state_json s = Some (JObj l)"
    unfolding agent_state_json_def tools(1) temp(1) data(1) option.case prod.case l_def l1_def l2_def l3_def by (rule refl)
  have "wf_json (JObj l1)"
    using temp(2) data(2) tools(2)
    by (simp add: l1_def itoa_wf wf_list wf_chat_message_json wf_tool_call_json list_all_iff del: wf_json.simps(3))
  moreover have "wf_json (JObj l2)" "wf_json (JObj l3)"
    by (simp_all add: l2_def l3_def itoa_wf del: wf_json.simps(3))
  ultimately have wf: "wf_json (JObj l)"
    by (simp only: l_def wf_members wf_omit)
  have f:
    "obj_field ''conversation_id'' l = JStr (format_uuid (a_ConversationID s))"
    "obj_field ''user_id'' l = JStr (format_uuid (a_UserID s))"
    "obj_field ''request_id'' l = JStr (a_RequestID s)"
    "obj_field ''messages'' l = JArr (map chat_message_json (a_Messages s))"
    "obj_field ''system_prompt'' l = JStr (a_SystemPrompt s)"
    "obj_field ''user_input'' l = JStr (a_UserInput s)"
    "obj_field ''current_output'' l = JStr (a_CurrentOutput s)"
    "obj_field ''model'' l = JStr (a_Model s)"
    "obj_field ''temperature'' l = JNum temp"
    "obj_field ''max_tokens'' l = JNum (itoa (a_MaxTokens s))"
    "obj_field ''available_tools'' l = JArr tools"
    "obj_field ''pending_tools'' l = JArr (map tool_call_json (a_PendingTools s))"
    "obj_field ''tool_results'' l = JArr (map chat_message_json (a_ToolResults s))"
    "obj_field ''current_agent'' l = JStr (a_CurrentAgent s)"
    "obj_field ''next_agent'' l = JStr (a_NextAgent s)"
    "obj_field ''agent_history'' l = JArr (map JStr (a_AgentHistory s))"
    "obj_field ''requires_approval'' l = JBool (a_RequiresApproval s)"
    "obj_field ''approval_reason'' l = JStr (a_ApprovalReason s)"
    "obj_field ''approval_data'' l = JObj d"
    "obj_field ''iteration'' l = JNum (itoa (a_Iteration s))"
    "obj_field ''max_iterations'' l = JNum (itoa (a_MaxIterations s))"
    "obj_field ''should_stop'' l = JBool (a_ShouldStop s)"
    "obj_field ''start_time'' l = JStr (format_time (a_StartTime s))"
    "obj_field ''tokens_used'' l = JNum (itoa (a_TokensUsed s))"
    "obj_field ''tool_calls_count'' l = JNum (itoa (a_ToolCallsCount s))"
    "obj_field ''is_approved'' l = obj_field ''is_approved'' (omit_opt ''is_approved'' JBool (a_IsApproved s))"
    "obj_field ''error'' l = obj_field ''error'' (omit_string ''error'' (a_Error s))"
    by (simp_all add: l_def l1_def l2_def l3_def obj_field_simps)
  have time: "dec_time (JStr (format_time (a_StartTime s))) = Some (a_StartTime s)"
    using assms by (simp add: state_text_ok_def time_text_ok_def dec_time_def)
  have "dec_agent_state (JObj l) = Some (s\<lparr>a_AvailableTools := av, a_ApprovalData := m\<rparr>)"
    using dec_list_encoded [of dec_string JStr]
    by (simp add: dec_agent_state_def dec_obj_def f obj_field_omit dec_format_uuid dec_itoa dec_list_messages
        dec_list_tool_calls av dmap time dec_string_def [of "JStr _"] dec_bool_def [of "JBool _"]
        dec_float_def [of "JNum _"] temp(3))
  with js wf show ?thesis by (auto simp: same_fields_def)
qed

lemma FromJSON_ToJSON:
  assumes "state_text_ok s"
  shows "\<exists>text t. AgentState_ToJSON s = Inr text \<and> AgentState_FromJSON text = Inr t \<and> same_fields s t"
  using state_codec [OF assms] json_parse_print by (auto simp: AgentState_ToJSON_def AgentState_FromJSON_def)

end
