(* ===== verification/Chatbot_Graph.thy ===== *)
theory Chatbot_Graph
  imports State_Codec Tool_Registry
begin

text \<open>
  \<open>internal/infrastructure/eino/graphs/chatbot_graph.go\<close>: the agent's workflow. The graph is
  data (nodes, edges, branches), as \<open>build\<close> hands it to the Eino library. The library is not
  part of the repository; what it may do with a graph is the relation \<open>graph_run\<close>, and a
  compiled graph is any function whose results that relation allows.
\<close>

section \<open>Graphs\<close>

type_synonym 'w node = "agent_state \<Rightarrow> ('w, agent_state) go"

record 'w state_graph =
  sg_nodes :: "(string \<times> 'w node) list"
  sg_edges :: "(string \<times> string) list"
  sg_branches :: "(string \<times> (agent_state \<Rightarrow> string) \<times> string list) list"

definition START :: string where "START = ''start''"
definition END :: string where "END = ''end''"

text \<open>Where control goes after a node: along its edge, or to the target its branch picks.\<close>

definition next_node :: "'w state_graph \<Rightarrow> string \<Rightarrow> agent_state \<Rightarrow> string option" where
  "next_node sg n s = (case map_of (sg_edges sg) n of
     Some m \<Rightarrow> Some m
   | None \<Rightarrow> (case map_of (sg_branches sg) n of
        Some (route, targets) \<Rightarrow> if route s \<in> set targets then Some (route s) else None
      | None \<Rightarrow> None))"

section \<open>The chatbot\<close>

record 'w chatbot_graph =
  cg_llm :: "'w llm_provider"
  cg_toolRegistry :: "'w tool_registry"
  cg_runnable :: "(agent_state \<Rightarrow> ('w, agent_state) go) option"
  cg_systemPrompts :: "(string \<times> string) list"
  cg_modelConfig :: "(string \<times> string) list"

abbreviation newline :: string where "newline \<equiv> [CHR 10]"

definition system_prompts :: "(string \<times> string) list" where
  "system_prompts =
     [(''general'', ''You are a helpful AI assistant. Be concise, accurate, and helpful.'' @ newline
         @ ''When you need current information, use the web_search tool.'' @ newline
         @ ''When asked to calculate something, use the calculator tool.''),
      (''coder'', ''You are an expert programmer. Write clean, efficient, well-documented code.'' @ newline
         @ ''Always explain your code and consider edge cases.'' @ newline
         @ ''Use appropriate tools to validate or test code when available.''),
      (''researcher'', ''You are a research assistant. Search for accurate, up-to-date information.'' @ newline
         @ ''Always cite your sources and verify claims using the web_search tool.'' @ newline
         @ ''Present balanced perspectives on controversial topics.'')]"

definition model_config :: "(string \<times> string) list" where
  "model_config = [(''general'', ''gpt-4o-mini''), (''coder'', ''gpt-4o''), (''researcher'', ''gpt-4o-mini'')]"

definition NewChatbotGraph :: "'w llm_provider \<Rightarrow> 'w tool_registry \<Rightarrow> 'w chatbot_graph" where
  "NewChatbotGraph llm registry =
     \<lparr>cg_llm = llm, cg_toolRegistry = registry, cg_runnable = None,
      cg_systemPrompts = system_prompts, cg_modelConfig = model_config\<rparr>"

section \<open>Helpers and nodes\<close>

definition containsIgnoreCase :: "string \<Rightarrow> string \<Rightarrow> bool" where
  "containsIgnoreCase s substr = contains (to_lower s) (to_lower substr)"

text \<open>Both loops stop at the first keyword found; the second overrides the first.\<close>

definition code_keywords :: "string list" where
  "code_keywords = [''code'', ''function'', ''program'', ''debug'', ''fix'', ''implement'', ''class'', ''api'']"

definition research_keywords :: "string list" where
  "research_keywords = [''search'', ''find'', ''research'', ''what is'', ''who is'', ''latest'', ''news'', ''current'']"

definition pick_agent :: "string \<Rightarrow> string" where
  "pick_agent input =
     (let agent = (if list_ex (containsIgnoreCase input) code_keywords then ''coder'' else ''general'')
      in if list_ex (containsIgnoreCase input) research_keywords then ''researcher'' else agent)"

definition routerNode :: "'w chatbot_graph \<Rightarrow> 'w node" where
  "routerNode g s =
     (let agent = pick_agent (a_UserInput s);
          s1 = s\<lparr>a_CurrentAgent := agent, a_AgentHistory := a_AgentHistory s @ [agent]\<rparr>;
          s2 = (case map_of (cg_modelConfig g) agent of
                  Some model \<Rightarrow> if a_Model s1 = [] then s1\<lparr>a_Model := model\<rparr> else s1
                | None \<Rightarrow> s1);
          s3 = (case map_of (cg_systemPrompts g) agent of
                  Some prompt \<Rightarrow> s2\<lparr>a_SystemPrompt := prompt\<rparr>
                | None \<Rightarrow> s2)
      in returnG s3)"

definition buildMessages :: "agent_state \<Rightarrow> chat_message list" where
  "buildMessages s =
     (if a_SystemPrompt s \<noteq> [] then [chat_message_of ''system'' (a_SystemPrompt s)] else [])
     @ a_Messages s
     @ (if a_UserInput s \<noteq> [] \<and> (a_Messages s = [] \<or> cm_Content (last (a_Messages s)) \<noteq> a_UserInput s)
        then [chat_message_of ''user'' (a_UserInput s)] else [])"

text \<open>\<open>resp.Choices[0]\<close> panics when the provider sends no choice.\<close>

definition think_request :: "agent_state \<Rightarrow> tool_spec list \<Rightarrow> chat_request" where
  "think_request s tools = chat_request0
     \<lparr>rq_Model := a_Model s, rq_Messages := buildMessages s, rq_Tools := tools,
      rq_Temperature := a_Temperature s, rq_MaxTokens := a_MaxTokens s\<rparr>"

definition think_reply :: "tool_spec list \<Rightarrow> chat_response \<Rightarrow> 'w node" where
  "think_reply tools resp s = (case rs_Choices resp of
     [] \<Rightarrow> panicG ''runtime error: index out of range [0] with length 0''
   | ch # _ \<Rightarrow>
     (let content = cm_Content (ch_Message ch); calls = cm_ToolCalls (ch_Message ch)
      in returnG (AddAssistantMessage content calls
           (s\<lparr>a_AvailableTools := tools,
              a_TokensUsed := a_TokensUsed s + us_TotalTokens (rs_Usage resp),
              a_CurrentOutput := content, a_PendingTools := calls\<rparr>))))"

definition thinkNode :: "'w runtime \<Rightarrow> 'w chatbot_graph \<Rightarrow> 'w node" where
  "thinkNode rt g s =
     bindG (Registry_List rt (cg_toolRegistry g)) (\<lambda>tools.
     bindG (llm_Chat (cg_llm g) (think_request s tools)) (\<lambda>resp.
     think_reply tools resp s))"

definition error_result :: "string \<Rightarrow> any" where
  "error_result e = AMap [(''error'', AStr e)]"

definition tool_outcome :: "goerror + any \<Rightarrow> any" where
  "tool_outcome res = (case res of Inl e \<Rightarrow> error_result (error_msg e) | Inr result \<Rightarrow> result)"

fun act_loop :: "'w tool_registry \<Rightarrow> tool_call list \<Rightarrow> 'w node" where
  "act_loop r [] s = returnG (s\<lparr>a_PendingTools := []\<rparr>)"
| "act_loop r (tc # tcs) s =
     (let name = fc_Name (tc_Function tc) in
      case ParseArguments tc of
        Inl e \<Rightarrow> act_loop r tcs (AddToolResult (tc_ID tc) name
                  (error_result (''failed to parse arguments: '' @ error_msg e)) s)
      | Inr args \<Rightarrow>
        (case Registry_Get r name of
           None \<Rightarrow> act_loop r tcs (AddToolResult (tc_ID tc) name (error_result (''tool not found: '' @ name)) s)
         | Some t \<Rightarrow>
           if tl_RequiresApproval t then
             returnG (s\<lparr>a_RequiresApproval := True,
                        a_ApprovalReason := ''Tool '' @ [CHR 39] @ name @ [CHR 39] @ '' requires approval'',
                        a_ApprovalData := [(''tool'', AStr name), (''arguments'', AMap args), (''tool_call'', ACall tc)]\<rparr>)
           else
             bindG (attemptG (tl_Execute t args)) (\<lambda>res.
             (let s' = AddToolResult (tc_ID tc) name (tool_outcome res) s
              in act_loop r tcs (s'\<lparr>a_ToolCallsCount := a_ToolCallsCount s' + 1\<rparr>)))))"

definition actNode :: "'w chatbot_graph \<Rightarrow> 'w node" where
  "actNode g s = act_loop (cg_toolRegistry g) (a_PendingTools s) (s\<lparr>a_ToolResults := []\<rparr>)"

definition observeNode :: "'w node" where
  "observeNode s =
     (let s1 = FlushToolResults s; s2 = s1\<lparr>a_Iteration := a_Iteration s1 + 1\<rparr>
      in returnG (if a_MaxIterations s2 \<le>s a_Iteration s2 then s2\<lparr>a_ShouldStop := True\<rparr> else s2))"

definition humanApprovalNode :: "'w node" where
  "humanApprovalNode s = returnG s"

definition responseNode :: "'w node" where
  "responseNode s =
     (let s1 = (if a_CurrentOutput s = [] \<and> length (a_Messages s) > 0 then
                  (case find (\<lambda>m. cm_Role m = ''assistant'' \<and> cm_Content m \<noteq> []) (rev (a_Messages s)) of
                     Some m \<Rightarrow> s\<lparr>a_CurrentOutput := cm_Content m\<rparr>
                   | None \<Rightarrow> s)
                else s)
      in returnG (s1\<lparr>a_ShouldStop := True\<rparr>))"

section \<open>Routing\<close>

definition routeAfterThink :: "agent_state \<Rightarrow> string" where
  "routeAfterThink s =
     (if length (a_PendingTools s) > 0 then ''act''
      else if a_RequiresApproval s then ''human_approval'' else ''response'')"

definition routeAfterObserve :: "agent_state \<Rightarrow> string" where
  "routeAfterObserve s =
     (if a_ShouldStop s then ''response''
      else if a_RequiresApproval s then ''human_approval'' else ''think'')"

definition routeAfterApproval :: "agent_state \<Rightarrow> string" where
  "routeAfterApproval s = (case a_IsApproved s of
     None \<Rightarrow> END
   | Some approved \<Rightarrow> if approved then ''act'' else ''response'')"

definition build :: "'w runtime \<Rightarrow> 'w chatbot_graph \<Rightarrow> 'w state_graph" where
  "build rt g =
     \<lparr>sg_nodes = [(''router'', routerNode g), (''think'', thinkNode rt g), (''act'', actNode g),
        (''observe'', observeNode), (''human_approval'', humanApprovalNode), (''response'', responseNode)],
      sg_edges = [(START, ''router''), (''router'', ''think''), (''act'', ''observe''), (''response'', END)],
      sg_branches =
        [(''think'', routeAfterThink, [''act'', ''response'', ''human_approval'']),
         (''observe'', routeAfterObserve, [''think'', ''response'', ''human_approval'']),
         (''human_approval'', routeAfterApproval, [''act'', ''response'', END])]\<rparr>"

text \<open>\<open>compile\<close> stands for the library: it accepts or refuses the graph.\<close>

definition BuildRunnable ::
    "('w state_graph \<Rightarrow> goerror + (agent_state \<Rightarrow> ('w, agent_state) go)) \<Rightarrow> 'w runtime \<Rightarrow> 'w chatbot_graph
      \<Rightarrow> goerror + 'w chatbot_graph" where
  "BuildRunnable compile rt g = (case compile (build rt g) of
     Inl e \<Rightarrow> Inl e
   | Inr runnable \<Rightarrow> Inr (g\<lparr>cg_runnable := Some runnable\<rparr>))"

section \<open>Run and Resume\<close>

text \<open>The output both functions make of the final state.\<close>

definition workflow_result :: "agent_state \<Rightarrow> ('w, workflow_output) go" where
  "workflow_result s =
     (let out = \<lparr>wo_Response = a_CurrentOutput s, wo_TokensUsed = a_TokensUsed s,
                 wo_ToolCallsCount = a_ToolCallsCount s, wo_AgentType = a_CurrentAgent s,
                 wo_RequiresApproval = False, wo_ApprovalReason = [], wo_PausedStateJSON = []\<rparr>
      in if a_RequiresApproval s then
           (case AgentState_ToJSON s of
              Inl e \<Rightarrow> failG (Wrapf ''serialise paused state'' e)
            | Inr stateJSON \<Rightarrow> returnG (out\<lparr>wo_RequiresApproval := True,
                wo_ApprovalReason := a_ApprovalReason s, wo_PausedStateJSON := stateJSON\<rparr>))
         else returnG out)"

definition initial_state :: "uuid \<Rightarrow> time \<Rightarrow> workflow_input \<Rightarrow> agent_state" where
  "initial_state reqID now inp =
     (let s = NewAgentState reqID now (wi_ConversationID inp) (wi_UserID inp) (wi_Content inp);
          s1 = s\<lparr>a_Messages := wi_Messages inp\<rparr>;
          s2 = (if wi_Model inp \<noteq> [] then s1\<lparr>a_Model := wi_Model inp\<rparr> else s1)
      in if flt (FZero False) (wi_Temperature inp) then s2\<lparr>a_Temperature := wi_Temperature inp\<rparr> else s2)"

definition Graph_Run :: "'w runtime \<Rightarrow> 'w chatbot_graph \<Rightarrow> workflow_input \<Rightarrow> ('w, workflow_output) go" where
  "Graph_Run rt g inp = (case cg_runnable g of
     None \<Rightarrow> failG (Errorf ''graph not built: call BuildRunnable first'')
   | Some invoke \<Rightarrow>
       bindG (stateG (rt_uuid rt)) (\<lambda>reqID.
       bindG (stateG (rt_now rt)) (\<lambda>now.
       bindG (wrapG ''graph invoke'' (invoke (initial_state reqID now inp))) (\<lambda>finalState.
       workflow_result finalState))))"

definition Graph_Resume :: "'w chatbot_graph \<Rightarrow> string \<Rightarrow> bool \<Rightarrow> ('w, workflow_output) go" where
  "Graph_Resume g pausedStateJSON approved = (case cg_runnable g of
     None \<Rightarrow> failG (Errorf ''graph not built: call BuildRunnable first'')
   | Some invoke \<Rightarrow>
     (case AgentState_FromJSON pausedStateJSON of
        Inl e \<Rightarrow> failG (Wrapf ''deserialise paused state'' e)
      | Inr s0 \<Rightarrow>
        (let s1 = s0\<lparr>a_IsApproved := Some approved, a_RequiresApproval := False\<rparr> in
         if \<not> approved then
           (let s2 = (if a_CurrentOutput s1 = [] then s1\<lparr>a_CurrentOutput := ''The requested action was rejected.''\<rparr> else s1)
            in returnG \<lparr>wo_Response = a_CurrentOutput s2, wo_TokensUsed = a_TokensUsed s2,
                 wo_ToolCallsCount = a_ToolCallsCount s2, wo_AgentType = a_CurrentAgent s2,
                 wo_RequiresApproval = False, wo_ApprovalReason = [], wo_PausedStateJSON = []\<rparr>)
         else
           bindG (wrapG ''resume act'' (actNode g s1)) (\<lambda>s2.
           bindG (wrapG ''resume observe'' (observeNode s2)) (\<lambda>s3.
           bindG (wrapG ''resume graph invoke''
             (invoke (s3\<lparr>a_IsApproved := None, a_RequiresApproval := False\<rparr>))) (\<lambda>finalState.
           workflow_result finalState))))))"

definition chatbot_engine :: "'w runtime \<Rightarrow> 'w chatbot_graph \<Rightarrow> 'w workflow_engine" where
  "chatbot_engine rt g = \<lparr>we_Run = Graph_Run rt g, we_Resume = Graph_Resume g\<rparr>"

end
