(* ===== verification/Graph_Engine.thy ===== *)
theory Graph_Engine
  imports Chatbot_Graph
begin

text \<open>
  What the code relies on in the Eino library (\<open>compose.Graph\<close>, not part of the repository):
  an invocation starts at the target of \<open>START\<close>, runs a node, follows its edge or branch, and
  returns the state at \<open>END\<close>; it may give up with an error at any point (step limit, cancelled
  context), and a failing or panicking node ends it. The relation also records the nodes
  visited, each with the state it was entered in. \<open>run_steps\<close> is an executor with a step
  limit that satisfies the relation.
\<close>

type_synonym trace = "(string \<times> agent_state) list"

inductive graph_run :: "'w state_graph \<Rightarrow> string \<Rightarrow> agent_state \<Rightarrow> 'w \<Rightarrow> trace \<Rightarrow> agent_state outcome \<Rightarrow> 'w \<Rightarrow> bool"
  for sg :: "'w state_graph"
where
  finish: "graph_run sg END s w [] (Ret s) w"
| give_up: "graph_run sg n s w [] (Err e) w"
| node_err: "map_of (sg_nodes sg) n = Some f \<Longrightarrow> f s w = (Err e, w') \<Longrightarrow> graph_run sg n s w [(n, s)] (Err e') w'"
| node_panic: "map_of (sg_nodes sg) n = Some f \<Longrightarrow> f s w = (Panic p, w') \<Longrightarrow> graph_run sg n s w [(n, s)] (Panic p) w'"
| node_recover: "map_of (sg_nodes sg) n = Some f \<Longrightarrow> f s w = (Panic p, w') \<Longrightarrow> graph_run sg n s w [(n, s)] (Err e') w'"
| node_stop: "map_of (sg_nodes sg) n = Some f \<Longrightarrow> f s w = (Ret s', w') \<Longrightarrow> graph_run sg n s w [(n, s)] (Err e') w'"
| step: "map_of (sg_nodes sg) n = Some f \<Longrightarrow> f s w = (Ret s', w') \<Longrightarrow> next_node sg n s' = Some m
    \<Longrightarrow> graph_run sg m s' w' tr r w'' \<Longrightarrow> graph_run sg n s w ((n, s) # tr) r w''"

definition graph_start :: "'w state_graph \<Rightarrow> string option" where
  "graph_start sg = map_of (sg_edges sg) START"

section \<open>The contract of a compiled graph\<close>

locale compiled_graph =
  fixes sg :: "'w state_graph"
    and invoke :: "agent_state \<Rightarrow> ('w, agent_state) go"
  assumes follows: "invoke s w = (r, w') \<Longrightarrow> \<exists>n tr. graph_start sg = Some n \<and> graph_run sg n s w tr r w'"

text \<open>
  A node invariant: \<open>J n s\<close> holds whenever node \<open>n\<close> is entered in state \<open>s\<close>. It holds along
  a run when every successful node step establishes it for the next node.
\<close>

definition node_invariant :: "'w state_graph \<Rightarrow> (string \<Rightarrow> agent_state \<Rightarrow> bool) \<Rightarrow> bool" where
  "node_invariant sg J \<longleftrightarrow>
     (\<forall>n f s w s' w' m. map_of (sg_nodes sg) n = Some f \<and> J n s \<and> f s w = (Ret s', w') \<and> next_node sg n s' = Some m
        \<longrightarrow> J m s')"

lemma node_invariantD:
  "node_invariant sg J \<Longrightarrow> map_of (sg_nodes sg) n = Some f \<Longrightarrow> J n s \<Longrightarrow> f s w = (Ret s', w')
    \<Longrightarrow> next_node sg n s' = Some m \<Longrightarrow> J m s'"
  unfolding node_invariant_def by blast

lemma graph_run_invariant:
  assumes "graph_run sg n s w tr r w'" "node_invariant sg J" "J n s"
  shows "(\<forall>(m, t) \<in> set tr. J m t) \<and> (\<forall>t. r = Ret t \<longrightarrow> J END t)"
  using assms(1,3)
proof induction
  case (step n f s w s' w' m tr r w'')
  then have "J m s'" using node_invariantD [OF assms(2)] by blast
  with step show ?case by auto
qed auto

text \<open>
  A cost function bounds the weight of a run when every successful node step pays for the
  node's weight.
\<close>

definition pays :: "'w state_graph \<Rightarrow> (string \<Rightarrow> agent_state \<Rightarrow> bool) \<Rightarrow> (string \<Rightarrow> nat) \<Rightarrow> (string \<Rightarrow> agent_state \<Rightarrow> nat) \<Rightarrow> bool" where
  "pays sg J wt cost \<longleftrightarrow>
     (\<forall>n f s. map_of (sg_nodes sg) n = Some f \<and> J n s \<longrightarrow> wt n \<le> cost n s \<and>
        (\<forall>w s' w' m. f s w = (Ret s', w') \<and> next_node sg n s' = Some m \<longrightarrow> wt n + cost m s' \<le> cost n s))"

lemma paysD:
  assumes "pays sg J wt cost" "map_of (sg_nodes sg) n = Some f" "J n s"
  shows "wt n \<le> cost n s" "f s w = (Ret s', w') \<Longrightarrow> next_node sg n s' = Some m \<Longrightarrow> wt n + cost m s' \<le> cost n s"
  using assms unfolding pays_def by blast+

lemma graph_run_cost:
  assumes "graph_run sg n s w tr r w'" "node_invariant sg J" "pays sg J wt cost" "J n s"
  shows "(\<Sum>(m, t) \<leftarrow> tr. wt m) \<le> cost n s"
  using assms(1,4)
proof induction
  case (step n f s w s' w' m tr r w'')
  have "J m s'" using node_invariantD [OF assms(2)] step by blast
  then have "(\<Sum>(m, t) \<leftarrow> tr. wt m) \<le> cost m s'" using step by blast
  moreover have "wt n + cost m s' \<le> cost n s" using paysD(2) [OF assms(3)] step by blast
  ultimately show ?case by simp
qed (use paysD(1) [OF assms(3)] in auto)

section \<open>An executor with a step limit\<close>

text \<open>\<open>None\<close>: the step limit was reached.\<close>

fun run_steps :: "nat \<Rightarrow> 'w state_graph \<Rightarrow> string \<Rightarrow> agent_state \<Rightarrow> 'w \<Rightarrow> (agent_state outcome \<times> 'w) option" where
  "run_steps k sg n s w =
     (if n = END then Some (Ret s, w)
      else (case k of
        0 \<Rightarrow> None
      | Suc k' \<Rightarrow> (case map_of (sg_nodes sg) n of
          None \<Rightarrow> Some (Err (Errorf ''unknown node''), w)
        | Some f \<Rightarrow> (case f s w of
            (Ret s', w') \<Rightarrow> (case next_node sg n s' of
               None \<Rightarrow> Some (Err (Errorf ''branch returned an unintended end node''), w')
             | Some m \<Rightarrow> run_steps k' sg m s' w')
          | (Err e, w') \<Rightarrow> Some (Err e, w')
          | (Panic p, w') \<Rightarrow> Some (Panic p, w')))))"

declare run_steps.simps [simp del]

definition run_limited :: "nat \<Rightarrow> 'w state_graph \<Rightarrow> agent_state \<Rightarrow> ('w, agent_state) go" where
  "run_limited k sg s w = (case graph_start sg of
     None \<Rightarrow> (Err (Errorf ''start node not set''), w)
   | Some n \<Rightarrow> (case run_steps k sg n s w of
        Some rw \<Rightarrow> rw
      | None \<Rightarrow> (Err (Errorf ''exceeds max steps''), w)))"

text \<open>
  A graph is well formed when no node is called \<open>END\<close>, every node has a successor in every
  state, and every successor is a node or \<open>END\<close>.
\<close>

definition graph_wf :: "'w state_graph \<Rightarrow> bool" where
  "graph_wf sg \<longleftrightarrow>
     map_of (sg_nodes sg) END = None
     \<and> (\<exists>n. graph_start sg = Some n \<and> map_of (sg_nodes sg) n \<noteq> None)
     \<and> (\<forall>n s. map_of (sg_nodes sg) n \<noteq> None \<longrightarrow>
          (\<exists>m. next_node sg n s = Some m \<and> (m = END \<or> map_of (sg_nodes sg) m \<noteq> None)))"

text \<open>One unfolding of the executor, by the outcome of the node.\<close>

lemma run_steps_END [simp]: "run_steps k sg END s w = Some (Ret s, w)"
  by (simp add: run_steps.simps)

lemma run_steps_0: "n \<noteq> END \<Longrightarrow> run_steps 0 sg n s w = None"
  by (simp add: run_steps.simps)

lemma run_steps_node:
  assumes "n \<noteq> END" "map_of (sg_nodes sg) n = Some f"
  shows "run_steps (Suc k) sg n s w = (case f s w of
            (Ret s', w') \<Rightarrow> (case next_node sg n s' of
               None \<Rightarrow> Some (Err (Errorf ''branch returned an unintended end node''), w')
             | Some m \<Rightarrow> run_steps k sg m s' w')
          | (Err e, w') \<Rightarrow> Some (Err e, w')
          | (Panic p, w') \<Rightarrow> Some (Panic p, w'))"
  using assms by (simp add: run_steps.simps)

lemma run_steps_graph_run:
  "run_steps k sg n s w = Some (r, w') \<Longrightarrow> \<exists>tr. graph_run sg n s w tr r w'"
proof (induction k arbitrary: n s w)
  case 0
  then show ?case
    by (cases "n = END") (auto simp: run_steps_0 intro: graph_run.finish)
next
  case (Suc k)
  show ?case
  proof (cases "n = END \<or> map_of (sg_nodes sg) n = None")
    case True
    with Suc.prems show ?thesis
      by (cases "n = END") (auto simp: run_steps.simps [of "Suc k"] intro: graph_run.finish graph_run.give_up)
  next
    case False
    then obtain f where f: "n \<noteq> END" "map_of (sg_nodes sg) n = Some f" by auto
    obtain r1 w1 where fw: "f s w = (r1, w1)" by fastforce
    show ?thesis
    proof (cases r1)
      case (Ret s')
      show ?thesis
      proof (cases "next_node sg n s'")
        case None
        with Suc.prems f fw Ret show ?thesis
          by (auto simp: run_steps_node intro: graph_run.node_stop)
      next
        case (Some m)
        with Suc.prems f fw Ret have "run_steps k sg m s' w1 = Some (r, w')" by (simp add: run_steps_node)
        from Suc.IH [OF this] Some f fw Ret show ?thesis by (blast intro: graph_run.step)
      qed
    qed (use Suc.prems f fw in \<open>auto simp: run_steps_node intro: graph_run.node_err graph_run.node_panic\<close>)
  qed
qed

lemma run_limited_follows:
  assumes "\<exists>n. graph_start sg = Some n" "run_limited k sg s w = (r, w')"
  shows "\<exists>n tr. graph_start sg = Some n \<and> graph_run sg n s w tr r w'"
  using assms run_steps_graph_run [of k sg]
  by (fastforce simp: run_limited_def split: option.splits intro: graph_run.give_up)

text \<open>With enough steps the limit is not reached: the cost counts node executions.\<close>

lemma run_steps_enough:
  assumes "graph_wf sg" "node_invariant sg J" "pays sg J (\<lambda>_. 1) cost"
  shows "J n s \<Longrightarrow> n = END \<or> map_of (sg_nodes sg) n \<noteq> None \<Longrightarrow> cost n s \<le> k \<Longrightarrow> run_steps k sg n s w \<noteq> None"
proof (induction k arbitrary: n s w)
  case 0
  then have "n = END" using paysD(1) [OF assms(3)] by fastforce
  then show ?case by simp
next
  case (Suc k)
  show ?case
  proof (cases "n = END")
    case False
    then obtain f where f: "map_of (sg_nodes sg) n = Some f" using Suc by auto
    obtain r1 w1 where fw: "f s w = (r1, w1)" by fastforce
    show ?thesis
    proof (cases r1)
      case (Ret s')
      obtain m where m: "next_node sg n s' = Some m" "m = END \<or> map_of (sg_nodes sg) m \<noteq> None"
        using assms(1) f unfolding graph_wf_def by (metis option.distinct(1))
      have "J m s'" using node_invariantD [OF assms(2) f] Suc.prems(1) fw Ret m(1) by blast
      moreover have "1 + cost m s' \<le> cost n s"
        using paysD(2) [OF assms(3) f Suc.prems(1)] fw Ret m(1) by blast
      ultimately have "run_steps k sg m s' w1 \<noteq> None" using Suc.IH Suc.prems(3) m(2) by simp
      then show ?thesis using False f fw Ret m(1) by (simp add: run_steps_node)
    qed (use False f fw in \<open>auto simp: run_steps_node\<close>)
  qed simp
qed

end
