(* ===== verification/Chatbot_Correct.thy ===== *)
theory Chatbot_Correct
  imports Graph_Engine "HOL-Library.Sublist"
begin

text \<open>
  What the agent's workflow guarantees: the graph is well formed, each node's effect on the
  state, the invariants of a run, the bounds on its length, and what \<open>Run\<close> and \<open>Resume\<close>
  make of it.
\<close>

section \<open>The graph\<close>

lemma node_names [simp]:
  "START \<noteq> ''router''" "START \<noteq> ''think''" "START \<noteq> ''act''" "START \<noteq> ''observe''" "START \<noteq> ''human_approval''"
  "START \<noteq> ''response''" "START \<noteq> END"
  "END \<noteq> ''router''" "END \<noteq> ''think''" "END \<noteq> ''act''" "END \<noteq> ''observe''" "END \<noteq> ''human_approval''"
  "END \<noteq> ''response''" "END \<noteq> START"
  by (simp_all add: START_def END_def)

lemma build_start [simp]: "graph_start (build rt g) = Some ''router''"
  by (simp add: graph_start_def build_def)

lemma build_nodes [simp]:
  "map_of (sg_nodes (build rt g)) ''router'' = Some (routerNode g)"
  "map_of (sg_nodes (build rt g)) ''think'' = Some (thinkNode rt g)"
  "map_of (sg_nodes (build rt g)) ''act'' = Some (actNode g)"
  "map_of (sg_nodes (build rt g)) ''observe'' = Some observeNode"
  "map_of (sg_nodes (build rt g)) ''human_approval'' = Some humanApprovalNode"
  "map_of (sg_nodes (build rt g)) ''response'' = Some responseNode"
  by (simp_all add: build_def)

lemma build_dom:
  "map_of (sg_nodes (build rt g)) n \<noteq> None \<longleftrightarrow>
     n \<in> set [''router'', ''think'', ''act'', ''observe'', ''human_approval'', ''response'']"
  by (simp add: build_def)

lemma build_node_cases:
  assumes "map_of (sg_nodes (build rt g)) n = Some f"
  obtains "n = ''router''" "f = routerNode g" | "n = ''think''" "f = thinkNode rt g" | "n = ''act''" "f = actNode g"
    | "n = ''observe''" "f = observeNode" | "n = ''human_approval''" "f = humanApprovalNode"
    | "n = ''response''" "f = responseNode"
proof -
  from assms have "n \<in> set [''router'', ''think'', ''act'', ''observe'', ''human_approval'', ''response'']"
    using build_dom [of rt g n] by simp
  then consider "n = ''router''" | "n = ''think''" | "n = ''act''" | "n = ''observe''" | "n = ''human_approval''" | "n = ''response''"
    unfolding list.set insert_iff empty_iff by (elim disjE FalseE)
  then show ?thesis
  proof cases
    case 1 with assms have "f = routerNode g" by simp with 1 show ?thesis by (rule that(1))
  next
    case 2 with assms have "f = thinkNode rt g" by simp with 2 show ?thesis by (rule that(2))
  next
    case 3 with assms have "f = actNode g" by simp with 3 show ?thesis by (rule that(3))
  next
    case 4 with assms have "f = observeNode" by simp with 4 show ?thesis by (rule that(4))
  next
    case 5 with assms have "f = humanApprovalNode" by simp with 5 show ?thesis by (rule that(5))
  next
    case 6 with assms have "f = responseNode" by simp with 6 show ?thesis by (rule that(6))
  qed
qed

lemma routes:
  "routeAfterThink s \<in> {''act'', ''response'', ''human_approval''}"
  "routeAfterObserve s \<in> {''think'', ''response'', ''human_approval''}"
  "routeAfterApproval s \<in> {''act'', ''response'', END}"
  by (auto simp: routeAfterThink_def routeAfterObserve_def routeAfterApproval_def split: option.splits)

lemma build_next:
  "next_node (build rt g) ''router'' s = Some ''think''"
  "next_node (build rt g) ''think'' s = Some (routeAfterThink s)"
  "next_node (build rt g) ''act'' s = Some ''observe''"
  "next_node (build rt g) ''observe'' s = Some (routeAfterObserve s)"
  "next_node (build rt g) ''human_approval'' s = Some (routeAfterApproval s)"
  "next_node (build rt g) ''response'' s = Some END"
  using routes [of s] by (simp_all add: next_node_def build_def START_def END_def)

lemma build_wf: "graph_wf (build rt g)"
proof -
  have "\<exists>m. next_node (build rt g) n s = Some m \<and> (m = END \<or> map_of (sg_nodes (build rt g)) m \<noteq> None)"
    if n: "map_of (sg_nodes (build rt g)) n \<noteq> None" for n s
  proof -
    from n obtain f where "map_of (sg_nodes (build rt g)) n = Some f" by blast
    then show ?thesis
      by (cases rule: build_node_cases) (use routes [of s] in \<open>auto simp: build_next\<close>)
  qed
  moreover have "map_of (sg_nodes (build rt g)) END = None" by (simp add: build_def)
  ultimately show ?thesis unfolding graph_wf_def by simp
qed

text \<open>An invariant of the workflow, one obligation per node.\<close>

lemma build_invariantI:
  fixes g :: "'w chatbot_graph"
  assumes "\<And>s (w :: 'w) s' w'. J ''router'' s \<Longrightarrow> routerNode g s w = (Ret s', w') \<Longrightarrow> J ''think'' s'"
    and "\<And>s (w :: 'w) s' w'. J ''think'' s \<Longrightarrow> thinkNode rt g s w = (Ret s', w') \<Longrightarrow> J (routeAfterThink s') s'"
    and "\<And>s (w :: 'w) s' w'. J ''act'' s \<Longrightarrow> actNode g s w = (Ret s', w') \<Longrightarrow> J ''observe'' s'"
    and "\<And>s (w :: 'w) s' w'. J ''observe'' s \<Longrightarrow> observeNode s w = (Ret s', w') \<Longrightarrow> J (routeAfterObserve s') s'"
    and "\<And>s. J ''human_approval'' s \<Longrightarrow> J (routeAfterApproval s) s"
    and "\<And>s (w :: 'w) s' w'. J ''response'' s \<Longrightarrow> responseNode s w = (Ret s', w') \<Longrightarrow> J END s'"
  shows "node_invariant (build rt g) J"
  unfolding node_invariant_def
proof (intro allI impI, elim conjE)
  fix n f s w s' w' m
  assume n: "map_of (sg_nodes (build rt g)) n = Some f" and *: "J n s" "f s w = (Ret s', w')" "next_node (build rt g) n s' = Some m"
  from n show "J m s'"
  proof (cases rule: build_node_cases)
    case 1 then show ?thesis using * assms(1) [of s w s' w'] by (simp add: build_next)
  next
    case 2 then show ?thesis using * assms(2) [of s w s' w'] by (simp add: build_next)
  next
    case 3 then show ?thesis using * assms(3) [of s w s' w'] by (simp add: build_next)
  next
    case 4 then show ?thesis using * assms(4) [of s w s' w'] by (simp add: build_next)
  next
    case 5 then show ?thesis using * assms(5) [of s] by (simp add: build_next humanApprovalNode_def)
  next
    case 6 then show ?thesis using * assms(6) [of s w s' w'] by (simp add: build_next)
  qed
qed

section \<open>The effect of each node\<close>

lemma routerNode_Ret:
  assumes "routerNode g s w = (Ret s', w')"
  obtains m p where "w' = w" "s' = s\<lparr>a_CurrentAgent := pick_agent (a_UserInput s),
    a_AgentHistory := a_AgentHistory s @ [pick_agent (a_UserInput s)], a_Model := m, a_SystemPrompt := p\<rparr>"
proof
  let ?a = "pick_agent (a_UserInput s)"
  show "w' = w" using assms by (simp add: routerNode_def Let_def)
  show "s' = s\<lparr>a_CurrentAgent := ?a, a_AgentHistory := a_AgentHistory s @ [?a], a_Model := a_Model s', a_SystemPrompt := a_SystemPrompt s'\<rparr>"
    using assms by (auto simp: routerNode_def Let_def split: option.splits)
qed

lemma thinkNode_Ret:
  assumes "thinkNode rt g s w = (Ret s', w')"
  obtains tools tokens content calls where
    "s' = AddAssistantMessage content calls (s\<lparr>a_AvailableTools := tools, a_TokensUsed := tokens,
       a_CurrentOutput := content, a_PendingTools := calls\<rparr>)"
proof -
  from assms obtain tools resp w1 where "think_reply tools resp s w1 = (Ret s', w')"
    unfolding thinkNode_def ret_iffs by blast
  then show ?thesis by (cases "rs_Choices resp") (auto simp: think_reply_def Let_def intro: that)
qed

text \<open>
  \<open>runnable\<close>: the arguments parse and the tool is registered; \<open>gated\<close>: it also requires
  approval. \<open>actNode\<close> stops at the first gated call.
\<close>

definition call_tool :: "'w tool_registry \<Rightarrow> tool_call \<Rightarrow> 'w tool option" where
  "call_tool r tc = (case ParseArguments tc of
     Inl _ \<Rightarrow> None
   | Inr _ \<Rightarrow> Registry_Get r (fc_Name (tc_Function tc)))"

definition gated :: "'w tool_registry \<Rightarrow> tool_call \<Rightarrow> bool" where
  "gated r tc = (case call_tool r tc of None \<Rightarrow> False | Some t \<Rightarrow> tl_RequiresApproval t)"

definition approval_reason_of :: "tool_call \<Rightarrow> string" where
  "approval_reason_of tc = ''Tool '' @ [CHR 39] @ fc_Name (tc_Function tc) @ [CHR 39] @ '' requires approval''"

definition is_result_of :: "tool_call \<Rightarrow> chat_message \<Rightarrow> bool" where
  "is_result_of tc m \<longleftrightarrow> cm_Role m = ''tool'' \<and> cm_ToolCallID m = tc_ID tc \<and> cm_Name m = fc_Name (tc_Function tc)
     \<and> cm_ToolCalls m = []"

definition answered_calls :: "'w tool_registry \<Rightarrow> tool_call list \<Rightarrow> tool_call list" where
  "answered_calls r tcs = takeWhile (\<lambda>tc. \<not> gated r tc) tcs"

definition blocking_calls :: "'w tool_registry \<Rightarrow> tool_call list \<Rightarrow> tool_call list" where
  "blocking_calls r tcs = dropWhile (\<lambda>tc. \<not> gated r tc) tcs"

lemma tool_result_is_result: "is_result_of tc (tool_result_message (tc_ID tc) (fc_Name (tc_Function tc)) v)"
  by (simp add: is_result_of_def tool_result_message_def)

definition call_args :: "tool_call \<Rightarrow> gomap" where
  "call_args tc = (case ParseArguments tc of Inl _ \<Rightarrow> [] | Inr args \<Rightarrow> args)"

text \<open>
  The results are those of the calls before the first gated one, in order; without a gated
  call the pending calls are cleared, with one they stay and the approval fields are set.
\<close>

definition act_final :: "'w tool_registry \<Rightarrow> tool_call list \<Rightarrow> chat_message list \<Rightarrow> agent_state \<Rightarrow> agent_state" where
  "act_final r tcs res s =
     (let s1 = s\<lparr>a_ToolResults := a_ToolResults s @ res, a_ToolCallsCount := a_ToolCallsCount s
                 + of_nat (length (filter (\<lambda>tc. call_tool r tc \<noteq> None) (answered_calls r tcs)))\<rparr>
      in case blocking_calls r tcs of
           [] \<Rightarrow> s1\<lparr>a_PendingTools := []\<rparr>
         | tc # _ \<Rightarrow> s1\<lparr>a_RequiresApproval := True, a_ApprovalReason := approval_reason_of tc,
             a_ApprovalData := [(''tool'', AStr (fc_Name (tc_Function tc))), (''arguments'', AMap (call_args tc)),
               (''tool_call'', ACall tc)]\<rparr>)"

definition act_effect :: "'w tool_registry \<Rightarrow> tool_call list \<Rightarrow> agent_state \<Rightarrow> agent_state \<Rightarrow> bool" where
  "act_effect r tcs s s' \<longleftrightarrow>
     (\<exists>res. list_all2 is_result_of (answered_calls r tcs) res \<and> s' = act_final r tcs res s)"

lemma act_effect_skip:
  assumes "\<not> gated r tc"
    and "act_effect r tcs (s\<lparr>a_ToolResults := a_ToolResults s @ [tool_result_message (tc_ID tc) (fc_Name (tc_Function tc)) v],
      a_ToolCallsCount := a_ToolCallsCount s + (if call_tool r tc = None then 0 else 1)\<rparr>) s'"
  shows "act_effect r (tc # tcs) s s'"
proof -
  let ?m = "tool_result_message (tc_ID tc) (fc_Name (tc_Function tc)) v"
  from assms(2) obtain res where res: "list_all2 is_result_of (answered_calls r tcs) res"
    "s' = act_final r tcs res (s\<lparr>a_ToolResults := a_ToolResults s @ [?m],
      a_ToolCallsCount := a_ToolCallsCount s + (if call_tool r tc = None then 0 else 1)\<rparr>)"
    unfolding act_effect_def by blast
  have "list_all2 is_result_of (answered_calls r (tc # tcs)) (?m # res)"
    using assms(1) res(1) tool_result_is_result by (simp add: answered_calls_def)
  moreover have "s' = act_final r (tc # tcs) (?m # res) s"
    using assms(1) res(2) by (simp add: act_final_def answered_calls_def blocking_calls_def add_ac)
  ultimately show ?thesis unfolding act_effect_def by blast
qed

lemma act_loop_effect: "act_loop r tcs s w = (Ret s', w') \<Longrightarrow> act_effect r tcs s s'"
proof (induction tcs arbitrary: s w)
  case Nil
  then show ?case by (auto simp: act_effect_def act_final_def answered_calls_def blocking_calls_def)
next
  case (Cons tc tcs)
  let ?name = "fc_Name (tc_Function tc)"
  show ?case
  proof (cases "call_tool r tc")
    case None
    then have ng: "\<not> gated r tc" by (simp add: gated_def)
    from None Cons.prems obtain v where
      "act_loop r tcs (AddToolResult (tc_ID tc) ?name v s) w = (Ret s', w')"
      by (auto simp: call_tool_def Let_def split: sum.splits option.splits)
    from Cons.IH [OF this] show ?thesis
      using None by (intro act_effect_skip [OF ng]) (simp add: AddToolResult_def)
  next
    case (Some t)
    then obtain args where args: "ParseArguments tc = Inr args" "Registry_Get r ?name = Some t"
      by (auto simp: call_tool_def split: sum.splits)
    show ?thesis
    proof (cases "tl_RequiresApproval t")
      case True
      then have "gated r tc" using Some by (simp add: gated_def)
      then show ?thesis using Cons.prems True args
        by (auto simp: act_effect_def act_final_def answered_calls_def blocking_calls_def call_args_def approval_reason_of_def Let_def)
    next
      case False
      then have ng: "\<not> gated r tc" using Some by (simp add: gated_def)
      from False args Cons.prems obtain v w1 where
        "act_loop r tcs (s\<lparr>a_ToolResults := a_ToolResults s @ [tool_result_message (tc_ID tc) ?name v],
           a_ToolCallsCount := a_ToolCallsCount s + 1\<rparr>) w1 = (Ret s', w')"
        by (auto simp: bindG_eq_Ret Let_def AddToolResult_def)
      from Cons.IH [OF this] show ?thesis
        using Some by (intro act_effect_skip [OF ng]) simp
    qed
  qed
qed

lemma actNode_Ret:
  assumes "actNode g s w = (Ret s', w')"
  obtains res where "list_all2 is_result_of (answered_calls (cg_toolRegistry g) (a_PendingTools s)) res"
    "s' = act_final (cg_toolRegistry g) (a_PendingTools s) res (s\<lparr>a_ToolResults := []\<rparr>)"
  using act_loop_effect [of "cg_toolRegistry g"] assms unfolding actNode_def act_effect_def by blast

lemma observeNode_Ret:
  assumes "observeNode s w = (Ret s', w')"
  shows "w' = w" "s' = s\<lparr>a_Messages := a_Messages s @ a_ToolResults s, a_ToolResults := [], a_Iteration := a_Iteration s + 1,
    a_ShouldStop := (a_ShouldStop s \<or> a_MaxIterations s \<le>s a_Iteration s + 1)\<rparr>"
  using assms by (auto simp: observeNode_def FlushToolResults_def Let_def split: if_splits)

lemma responseNode_Ret:
  assumes "responseNode s w = (Ret s', w')"
  obtains out where "w' = w" "s' = s\<lparr>a_CurrentOutput := out, a_ShouldStop := True\<rparr>"
proof
  show "w' = w" using assms by (simp add: responseNode_def Let_def)
  show "s' = s\<lparr>a_CurrentOutput := a_CurrentOutput s', a_ShouldStop := True\<rparr>"
    using assms by (auto simp: responseNode_def Let_def split: option.splits if_splits)
qed

lemma act_final_fields [simp]:
  "a_Messages (act_final r tcs res s) = a_Messages s"
  "a_ToolResults (act_final r tcs res s) = a_ToolResults s @ res"
  "a_IsApproved (act_final r tcs res s) = a_IsApproved s"
  "a_Iteration (act_final r tcs res s) = a_Iteration s"
  "a_MaxIterations (act_final r tcs res s) = a_MaxIterations s"
  "a_ShouldStop (act_final r tcs res s) = a_ShouldStop s"
  "a_UserInput (act_final r tcs res s) = a_UserInput s"
  "a_SystemPrompt (act_final r tcs res s) = a_SystemPrompt s"
  "a_RequiresApproval (act_final r tcs res s) = (a_RequiresApproval s \<or> blocking_calls r tcs \<noteq> [])"
  "a_PendingTools (act_final r tcs res s) = (if blocking_calls r tcs = [] then [] else a_PendingTools s)"
  by (simp_all add: act_final_def Let_def split: list.splits)

lemma AddAssistantMessage_fields [simp]:
  "a_ToolResults (AddAssistantMessage c tcs s) = a_ToolResults s"
  "a_IsApproved (AddAssistantMessage c tcs s) = a_IsApproved s"
  "a_Iteration (AddAssistantMessage c tcs s) = a_Iteration s"
  "a_MaxIterations (AddAssistantMessage c tcs s) = a_MaxIterations s"
  "a_ShouldStop (AddAssistantMessage c tcs s) = a_ShouldStop s"
  "a_RequiresApproval (AddAssistantMessage c tcs s) = a_RequiresApproval s"
  "a_ApprovalReason (AddAssistantMessage c tcs s) = a_ApprovalReason s"
  "a_ApprovalData (AddAssistantMessage c tcs s) = a_ApprovalData s"
  "a_PendingTools (AddAssistantMessage c tcs s) = a_PendingTools s"
  "a_UserInput (AddAssistantMessage c tcs s) = a_UserInput s"
  "a_Messages (AddAssistantMessage c tcs s) = a_Messages s @ [(chat_message_of ''assistant'' c)\<lparr>cm_ToolCalls := tcs\<rparr>]"
  by (simp_all add: AddAssistantMessage_def chat_message_of_def Let_def)

text \<open>The rules a proof about a run uses on the nodes.\<close>

lemmas node_Rets = routerNode_Ret thinkNode_Ret actNode_Ret responseNode_Ret

section \<open>Invariants of a run\<close>

text \<open>The conversation only grows.\<close>

definition extends_history :: "chat_message list \<Rightarrow> string \<Rightarrow> agent_state \<Rightarrow> bool" where
  "extends_history ms n s \<longleftrightarrow> prefix ms (a_Messages s)"

lemma history_invariant: "node_invariant (build rt g) (extends_history ms)"
  by (rule build_invariantI)
    (auto simp: extends_history_def dest: observeNode_Ret(2) elim!: node_Rets intro: prefix_prefix)

text \<open>
  A run is at rest for approval exactly when a gated call waits: the approval flag is clear
  until \<open>act\<close> meets one, and from then on the pending calls still hold it.
\<close>

definition awaits :: "'w tool_registry \<Rightarrow> agent_state \<Rightarrow> bool" where
  "awaits r s \<longleftrightarrow> (\<exists>tc rest. blocking_calls r (a_PendingTools s) = tc # rest \<and> a_ApprovalReason s = approval_reason_of tc
     \<and> a_ApprovalData s = [(''tool'', AStr (fc_Name (tc_Function tc))), (''arguments'', AMap (call_args tc)), (''tool_call'', ACall tc)])"

definition approval_inv :: "'w tool_registry \<Rightarrow> string \<Rightarrow> agent_state \<Rightarrow> bool" where
  "approval_inv r n s \<longleftrightarrow> a_IsApproved s = None
     \<and> (n \<in> {''router'', ''think'', ''act''} \<longrightarrow> \<not> a_RequiresApproval s)
     \<and> (n \<notin> {''router'', ''think'', ''act''} \<longrightarrow>
          (if a_RequiresApproval s then awaits r s else a_PendingTools s = []))"

lemma awaits_act_final:
  assumes "blocking_calls r (a_PendingTools s) \<noteq> []"
  shows "awaits r (act_final r (a_PendingTools s) res (s\<lparr>a_ToolResults := trs\<rparr>))"
  using assms by (auto simp: awaits_def act_final_def Let_def neq_Nil_conv)

lemma approval_invariant: "node_invariant (build rt g) (approval_inv (cg_toolRegistry g))"
proof (rule build_invariantI)
  fix s s' :: agent_state and w w' :: 'a
  show "approval_inv (cg_toolRegistry g) ''think'' s'"
    if "approval_inv (cg_toolRegistry g) ''router'' s" "routerNode g s w = (Ret s', w')"
    by (rule routerNode_Ret [OF that(2)], insert that(1), simp add: approval_inv_def)
  show "approval_inv (cg_toolRegistry g) (routeAfterThink s') s'"
    if "approval_inv (cg_toolRegistry g) ''think'' s" "thinkNode rt g s w = (Ret s', w')"
    by (rule thinkNode_Ret [OF that(2)], insert that(1), simp add: approval_inv_def routeAfterThink_def)
  show "approval_inv (cg_toolRegistry g) ''observe'' s'"
    if "approval_inv (cg_toolRegistry g) ''act'' s" "actNode g s w = (Ret s', w')"
    by (rule actNode_Ret [OF that(2)], insert that(1), simp add: approval_inv_def awaits_act_final)
  show "approval_inv (cg_toolRegistry g) (routeAfterObserve s') s'"
    if "approval_inv (cg_toolRegistry g) ''observe'' s" "observeNode s w = (Ret s', w')"
    using that(1) unfolding observeNode_Ret(2) [OF that(2)]
    by (auto simp: approval_inv_def routeAfterObserve_def awaits_def)
  show "approval_inv (cg_toolRegistry g) (routeAfterApproval s) s" if "approval_inv (cg_toolRegistry g) ''human_approval'' s"
    using that by (simp add: approval_inv_def routeAfterApproval_def END_def)
  show "approval_inv (cg_toolRegistry g) END s'"
    if "approval_inv (cg_toolRegistry g) ''response'' s" "responseNode s w = (Ret s', w')"
    by (rule responseNode_Ret [OF that(2)], insert that(1), auto simp: approval_inv_def awaits_def END_def)
qed

section \<open>Bounds on a run\<close>

lemma sint_inc: "sint (i :: go_int) < 2 ^ 63 - 1 \<Longrightarrow> sint (i + 1) = sint i + 1"
  using sint_ge [of i] by (simp add: sint_word_ariths signed_take_bit_int_eq_self)

text \<open>Turns left before the iteration limit; the last one is always granted.\<close>

definition turns_left :: "agent_state \<Rightarrow> nat" where
  "turns_left s = max 1 (nat (sint (a_MaxIterations s) - sint (a_Iteration s)))"

definition bounded :: "string \<Rightarrow> agent_state \<Rightarrow> bool" where
  "bounded n s \<longleftrightarrow> a_IsApproved s = None
     \<and> (n \<in> {''router'', ''think'', ''act'', ''observe''} \<longrightarrow> sint (a_Iteration s) < 2 ^ 63 - 1)"

text \<open>The executions still possible from a node, and the model calls among them.\<close>

definition nodes_left :: "string \<Rightarrow> agent_state \<Rightarrow> nat" where
  "nodes_left n s =
     (if n = ''router'' then 3 * turns_left s + 2 else if n = ''think'' then 3 * turns_left s + 1
      else if n = ''act'' then 3 * turns_left s else if n = ''observe'' then 3 * turns_left s - 1
      else if n = END then 0 else 1)"

definition thinks_left :: "string \<Rightarrow> agent_state \<Rightarrow> nat" where
  "thinks_left n s = (if n \<in> {''router'', ''think''} then turns_left s
     else if n \<in> {''act'', ''observe''} then turns_left s - 1 else 0)"

lemma turns_left_pos: "1 \<le> turns_left s"
  by (simp add: turns_left_def)

lemma observe_turns:
  assumes "bounded ''observe'' s" "observeNode s w = (Ret s', w')" "routeAfterObserve s' = ''think''"
  shows "Suc (turns_left s') = turns_left s" "sint (a_Iteration s') < 2 ^ 63 - 1"
proof -
  have s': "a_Iteration s' = a_Iteration s + 1" "a_MaxIterations s' = a_MaxIterations s"
    using observeNode_Ret(2) [OF assms(2)] by simp_all
  have "\<not> a_ShouldStop s'" using assms(3) by (auto simp: routeAfterObserve_def split: if_splits)
  then have "\<not> a_MaxIterations s' \<le>s a_Iteration s'"
    using observeNode_Ret(2) [OF assms(2)] by auto
  then have less: "sint (a_Iteration s') < sint (a_MaxIterations s')" by (simp add: word_sle_eq)
  moreover have inc: "sint (a_Iteration s') = sint (a_Iteration s) + 1"
    using assms(1) s'(1) sint_inc by (simp add: bounded_def)
  ultimately show "Suc (turns_left s') = turns_left s" by (simp add: turns_left_def s'(2))
  show "sint (a_Iteration s') < 2 ^ 63 - 1" using less sint_lt [of "a_MaxIterations s'"] by simp
qed

lemma bounded_invariant: "node_invariant (build rt g) bounded"
proof (rule build_invariantI)
  fix s s' :: agent_state and w w' :: 'a
  show "bounded ''think'' s'" if "bounded ''router'' s" "routerNode g s w = (Ret s', w')"
    by (rule routerNode_Ret [OF that(2)], insert that(1), simp add: bounded_def)
  show "bounded (routeAfterThink s') s'" if "bounded ''think'' s" "thinkNode rt g s w = (Ret s', w')"
    by (rule thinkNode_Ret [OF that(2)], insert that(1), simp add: bounded_def)
  show "bounded ''observe'' s'" if "bounded ''act'' s" "actNode g s w = (Ret s', w')"
    by (rule actNode_Ret [OF that(2)], insert that(1), simp add: bounded_def)
  show "bounded (routeAfterObserve s') s'" if "bounded ''observe'' s" "observeNode s w = (Ret s', w')"
    using that(1) observe_turns(2) [OF that] observeNode_Ret(2) [OF that(2)] routes(2) [of s']
    by (auto simp: bounded_def)
  show "bounded (routeAfterApproval s) s" if "bounded ''human_approval'' s"
    using that by (simp add: bounded_def routeAfterApproval_def END_def)
  show "bounded END s'" if "bounded ''response'' s" "responseNode s w = (Ret s', w')"
    by (rule responseNode_Ret [OF that(2)], insert that(1), simp add: bounded_def END_def)
qed

lemma build_paysI:
  fixes g :: "'w chatbot_graph"
  assumes "\<And>n s. n \<noteq> END \<Longrightarrow> wt n \<le> cost n s"
    and "\<And>s (w :: 'w) s' w'. J ''router'' s \<Longrightarrow> routerNode g s w = (Ret s', w') \<Longrightarrow> wt ''router'' + cost ''think'' s' \<le> cost ''router'' s"
    and "\<And>s (w :: 'w) s' w'. J ''think'' s \<Longrightarrow> thinkNode rt g s w = (Ret s', w')
      \<Longrightarrow> wt ''think'' + cost (routeAfterThink s') s' \<le> cost ''think'' s"
    and "\<And>s (w :: 'w) s' w'. J ''act'' s \<Longrightarrow> actNode g s w = (Ret s', w') \<Longrightarrow> wt ''act'' + cost ''observe'' s' \<le> cost ''act'' s"
    and "\<And>s (w :: 'w) s' w'. J ''observe'' s \<Longrightarrow> observeNode s w = (Ret s', w')
      \<Longrightarrow> wt ''observe'' + cost (routeAfterObserve s') s' \<le> cost ''observe'' s"
    and "\<And>s. J ''human_approval'' s \<Longrightarrow> wt ''human_approval'' + cost (routeAfterApproval s) s \<le> cost ''human_approval'' s"
    and "\<And>s (w :: 'w) s' w'. J ''response'' s \<Longrightarrow> responseNode s w = (Ret s', w') \<Longrightarrow> wt ''response'' + cost END s' \<le> cost ''response'' s"
  shows "pays (build rt g) J wt cost"
  unfolding pays_def
proof (intro allI impI conjI)
  fix n f s
  assume n: "map_of (sg_nodes (build rt g)) n = Some f \<and> J n s"
  then have "n \<noteq> END" by (auto simp: build_def)
  then show "wt n \<le> cost n s" by (rule assms(1))
next
  fix n f s w s' w' m
  assume "map_of (sg_nodes (build rt g)) n = Some f \<and> J n s"
    and *: "f s w = (Ret s', w') \<and> next_node (build rt g) n s' = Some m"
  then have n: "map_of (sg_nodes (build rt g)) n = Some f" and J: "J n s" by simp_all
  from n show "wt n + cost m s' \<le> cost n s"
  proof (cases rule: build_node_cases)
    case 1 then show ?thesis using J * assms(2) [of s w s' w'] by (simp add: build_next)
  next
    case 2 then show ?thesis using J * assms(3) [of s w s' w'] by (simp add: build_next)
  next
    case 3 then show ?thesis using J * assms(4) [of s w s' w'] by (simp add: build_next)
  next
    case 4 then show ?thesis using J * assms(5) [of s w s' w'] by (simp add: build_next)
  next
    case 5 then show ?thesis using J * assms(6) [of s] by (simp add: build_next humanApprovalNode_def)
  next
    case 6 then show ?thesis using J * assms(7) [of s w s' w'] by (simp add: build_next)
  qed
qed

text \<open>Both costs pay, by the same node facts.\<close>

lemma cost_values:
  "nodes_left ''router'' s = 3 * turns_left s + 2" "nodes_left ''think'' s = 3 * turns_left s + 1"
  "nodes_left ''act'' s = 3 * turns_left s" "nodes_left ''observe'' s = 3 * turns_left s - 1"
  "nodes_left ''human_approval'' s = 1" "nodes_left ''response'' s = 1" "nodes_left END s = 0"
  "thinks_left ''router'' s = turns_left s" "thinks_left ''think'' s = turns_left s"
  "thinks_left ''act'' s = turns_left s - 1" "thinks_left ''observe'' s = turns_left s - 1"
  "thinks_left ''human_approval'' s = 0" "thinks_left ''response'' s = 0" "thinks_left END s = 0"
  by (simp_all add: nodes_left_def thinks_left_def END_def)

lemma turns_left_router: "routerNode g s w = (Ret s', w') \<Longrightarrow> turns_left s' = turns_left s"
  by (erule routerNode_Ret) (simp add: turns_left_def)

lemma turns_left_think: "thinkNode rt g s w = (Ret s', w') \<Longrightarrow> turns_left s' = turns_left s"
  by (erule thinkNode_Ret) (simp add: turns_left_def)

lemma turns_left_act: "actNode g s w = (Ret s', w') \<Longrightarrow> turns_left s' = turns_left s"
  by (erule actNode_Ret) (simp add: turns_left_def)

lemma pays_nodes: "pays (build rt g) bounded (\<lambda>_. 1) nodes_left"
proof (rule build_paysI)
  show "1 \<le> nodes_left n s" if "n \<noteq> END" for n s
    using that turns_left_pos [of s] by (auto simp: nodes_left_def)
  fix s s' :: agent_state and w w' :: 'a
  show "1 + nodes_left (routeAfterThink s') s' \<le> nodes_left ''think'' s" if "thinkNode rt g s w = (Ret s', w')"
    using turns_left_think [OF that] routes(1) [of s'] turns_left_pos [of s] by (auto simp: cost_values)
  show "1 + nodes_left (routeAfterObserve s') s' \<le> nodes_left ''observe'' s"
    if "bounded ''observe'' s" "observeNode s w = (Ret s', w')"
    using observe_turns(1) [OF that] routes(2) [of s'] turns_left_pos [of s] by (auto simp: cost_values)
  show "1 + nodes_left (routeAfterApproval s) s \<le> nodes_left ''human_approval'' s" if "bounded ''human_approval'' s"
    using that by (simp add: cost_values bounded_def routeAfterApproval_def)
qed (use turns_left_pos in \<open>auto simp: cost_values turns_left_router turns_left_act Suc_le_eq Suc_diff_Suc numeral_eq_Suc\<close>)

lemma pays_thinks: "pays (build rt g) bounded (\<lambda>n. if n = ''think'' then 1 else 0) thinks_left"
proof (rule build_paysI)
  show "(if n = ''think'' then 1 else 0) \<le> thinks_left n s" if "n \<noteq> END" for n s
    using turns_left_pos [of s] by (auto simp: cost_values)
  fix s s' :: agent_state and w w' :: 'a
  show "(if ''think'' = ''think'' then 1 else 0) + thinks_left (routeAfterThink s') s' \<le> thinks_left ''think'' s"
    if "thinkNode rt g s w = (Ret s', w')"
    using turns_left_think [OF that] routes(1) [of s'] turns_left_pos [of s] by (auto simp: cost_values)
  show "(if ''observe'' = ''think'' then 1 else 0) + thinks_left (routeAfterObserve s') s' \<le> thinks_left ''observe'' s"
    if "bounded ''observe'' s" "observeNode s w = (Ret s', w')"
    using observe_turns(1) [OF that] routes(2) [of s'] by (auto simp: cost_values)
  show "(if ''human_approval'' = ''think'' then 1 else 0) + thinks_left (routeAfterApproval s) s \<le> thinks_left ''human_approval'' s"
    if "bounded ''human_approval'' s"
    using that by (simp add: cost_values bounded_def routeAfterApproval_def)
qed (auto simp: cost_values turns_left_router turns_left_act)

lemma length_as_sum: "(\<Sum>(m, t) \<leftarrow> tr. 1) = length (tr :: trace)"
  by (induction tr) auto

lemma thinks_as_sum: "(\<Sum>(m, t) \<leftarrow> tr. if m = ''think'' then 1 else 0) = length (filter (\<lambda>(m, t). m = ''think'') (tr :: trace))"
  by (induction tr) auto

lemma run_bounds:
  assumes "graph_run (build rt g) ''router'' s w tr r w'" "a_IsApproved s = None" "sint (a_Iteration s) < 2 ^ 63 - 1"
  shows "length tr \<le> 3 * turns_left s + 2" "length (filter (\<lambda>(m, t). m = ''think'') tr) \<le> turns_left s"
proof -
  have b: "bounded ''router'' s" using assms(2,3) by (simp add: bounded_def)
  show "length tr \<le> 3 * turns_left s + 2"
    using graph_run_cost [OF assms(1) bounded_invariant pays_nodes b] by (simp only: length_as_sum cost_values)
  show "length (filter (\<lambda>(m, t). m = ''think'') tr) \<le> turns_left s"
    using graph_run_cost [OF assms(1) bounded_invariant pays_thinks b] by (simp only: thinks_as_sum cost_values)
qed

lemma run_terminates:
  assumes "a_IsApproved s = None" "sint (a_Iteration s) < 2 ^ 63 - 1" "3 * turns_left s + 2 \<le> k"
  shows "run_steps k (build rt g) ''router'' s w \<noteq> None"
  by (rule run_steps_enough [OF build_wf bounded_invariant pays_nodes])
    (use assms in \<open>simp_all add: bounded_def cost_values\<close>)

interpretation limited: compiled_graph "build rt g" "run_limited k (build rt g)" for rt g k
  by unfold_locales (rule run_limited_follows, simp_all)

section \<open>The tool-call protocol\<close>

text \<open>
  The wire protocol of the model: an assistant message with tool calls is followed by one
  \<open>tool\<close> message per call, in order, before anything else. \<open>open_calls ids ms\<close> reads \<open>ms\<close>
  with the calls \<open>ids\<close> waiting and gives those waiting at the end, \<open>None\<close> on a violation.
\<close>

fun open_calls :: "string list \<Rightarrow> chat_message list \<Rightarrow> string list option" where
  "open_calls ids [] = Some ids"
| "open_calls ids (m # ms) =
     (if cm_Role m = ''tool'' then
        (case ids of [] \<Rightarrow> None | i # is \<Rightarrow> if cm_ToolCallID m = i then open_calls is ms else None)
      else if ids = [] then open_calls (map tc_ID (cm_ToolCalls m)) ms else None)"

lemma open_calls_append: "open_calls ids (xs @ ys) = Option.bind (open_calls ids xs) (\<lambda>is. open_calls is ys)"
  by (induction ids xs rule: open_calls.induct) (auto split: list.splits)

lemma open_calls_results:
  "list_all2 is_result_of tcs res \<Longrightarrow> open_calls (map tc_ID tcs @ ids) res = Some ids"
  by (induction rule: list_all2_induct) (simp_all add: is_result_of_def)

lemma open_calls_buildMessages:
  assumes "open_calls [] (a_Messages s) = Some ids"
  shows "open_calls [] (buildMessages s) = Some [] \<longleftrightarrow> ids = []"
  using assms by (auto simp: buildMessages_def open_calls_append chat_message_of_def split: if_splits)

definition ungated :: "'w tool_registry \<Rightarrow> bool" where
  "ungated r \<longleftrightarrow> (\<forall>n t. Registry_Get r n = Some t \<longrightarrow> \<not> tl_RequiresApproval t)"

lemma ungated_calls: "ungated r \<Longrightarrow> answered_calls r tcs = tcs \<and> blocking_calls r tcs = []"
  by (auto simp: ungated_def answered_calls_def blocking_calls_def gated_def call_tool_def takeWhile_eq_all_conv
      split: option.splits sum.splits)

definition protocol_inv :: "string \<Rightarrow> agent_state \<Rightarrow> bool" where
  "protocol_inv n s \<longleftrightarrow> a_IsApproved s = None \<and>
     (if n = ''act'' then open_calls [] (a_Messages s) = Some (map tc_ID (a_PendingTools s))
      else if n = ''observe'' then open_calls [] (a_Messages s @ a_ToolResults s) = Some []
      else open_calls [] (a_Messages s) = Some [])"

lemma protocol_invariant:
  assumes "ungated (cg_toolRegistry g)"
  shows "node_invariant (build rt g) protocol_inv"
proof (rule build_invariantI)
  fix s s' :: agent_state and w w' :: 'a
  show "protocol_inv ''think'' s'" if "protocol_inv ''router'' s" "routerNode g s w = (Ret s', w')"
    by (rule routerNode_Ret [OF that(2)], insert that(1), simp add: protocol_inv_def)
  show "protocol_inv (routeAfterThink s') s'" if "protocol_inv ''think'' s" "thinkNode rt g s w = (Ret s', w')"
    by (rule thinkNode_Ret [OF that(2)], insert that(1))
      (simp add: protocol_inv_def routeAfterThink_def open_calls_append chat_message_of_def)
  show "protocol_inv ''observe'' s'" if "protocol_inv ''act'' s" "actNode g s w = (Ret s', w')"
    by (rule actNode_Ret [OF that(2)], insert that(1))
      (simp add: protocol_inv_def open_calls_append ungated_calls [OF assms] open_calls_results [of _ _ "[]", simplified])
  show "protocol_inv (routeAfterObserve s') s'" if "protocol_inv ''observe'' s" "observeNode s w = (Ret s', w')"
    using that(1) observeNode_Ret(2) [OF that(2)] routes(2) [of s'] by (auto simp: protocol_inv_def)
  show "protocol_inv (routeAfterApproval s) s" if "protocol_inv ''human_approval'' s"
    using that by (simp add: protocol_inv_def routeAfterApproval_def END_def)
  show "protocol_inv END s'" if "protocol_inv ''response'' s" "responseNode s w = (Ret s', w')"
    by (rule responseNode_Ret [OF that(2)], insert that(1), simp add: protocol_inv_def END_def)
qed

section \<open>Gated tools\<close>

text \<open>
  Two registries that agree on everything but what the tools that require approval do when
  they are executed.
\<close>

definition tool_face :: "'w tool \<Rightarrow> tool_spec \<times> bool" where
  "tool_face t = (tl_Definition t, tl_RequiresApproval t)"

definition same_but_gated :: "'w tool_registry \<Rightarrow> 'w tool_registry \<Rightarrow> bool" where
  "same_but_gated r1 r2 \<longleftrightarrow>
     map (\<lambda>(n, t). (n, tool_face t)) (tr_tools r1) = map (\<lambda>(n, t). (n, tool_face t)) (tr_tools r2)
     \<and> (\<forall>n t1 t2. Registry_Get r1 n = Some t1 \<and> Registry_Get r2 n = Some t2 \<and> \<not> tl_RequiresApproval t1
          \<longrightarrow> tl_Execute t1 = tl_Execute t2)"

lemma map_of_eq_by:
  assumes "map (\<lambda>(n, t). (n, f t)) xs = map (\<lambda>(n, t). (n, f t)) ys"
  shows "map_option f (map_of xs n) = map_option f (map_of ys n)"
  using arg_cong [where f = "\<lambda>l. map_of l n", OF assms] by (simp add: map_of_map)

lemma same_but_gated_Get:
  assumes "same_but_gated r1 r2"
  shows "map_option tool_face (Registry_Get r1 n) = map_option tool_face (Registry_Get r2 n)"
  using map_of_eq_by [of tool_face "tr_tools r1" "tr_tools r2" n] assms by (simp add: same_but_gated_def Registry_Get_def)

lemma act_loop_same: "same_but_gated r1 r2 \<Longrightarrow> act_loop r1 tcs s = act_loop r2 tcs s"
proof (induction tcs arbitrary: s)
  case (Cons tc tcs)
  show ?case
  proof (cases "ParseArguments tc")
    case (Inr args)
    note get = same_but_gated_Get [OF Cons.prems, of "fc_Name (tc_Function tc)"]
    show ?thesis
    proof (cases "Registry_Get r1 (fc_Name (tc_Function tc))")
      case None
      then show ?thesis using get Inr Cons by (simp add: Let_def)
    next
      case (Some t1)
      then obtain t2 where t2: "Registry_Get r2 (fc_Name (tc_Function tc)) = Some t2" "tl_RequiresApproval t2 = tl_RequiresApproval t1"
        using get by (cases "Registry_Get r2 (fc_Name (tc_Function tc))") (auto simp: tool_face_def)
      then have "\<not> tl_RequiresApproval t1 \<Longrightarrow> tl_Execute t2 = tl_Execute t1"
        using Some Cons.prems unfolding same_but_gated_def by metis
      then show ?thesis using Some t2 Inr Cons by (intro ext) (simp add: Let_def)
    qed
  qed (use Cons in \<open>simp add: Let_def\<close>)
qed simp

lemma Registry_List_same:
  assumes "same_but_gated r1 r2"
  shows "Registry_List rt r1 = Registry_List rt r2"
proof -
  have ks: "map fst (tr_tools r1) = map fst (tr_tools r2)"
  proof -
    have "map fst (map (\<lambda>(n, t). (n, tool_face t)) (tr_tools r1)) = map fst (map (\<lambda>(n, t). (n, tool_face t)) (tr_tools r2))"
      using assms unfolding same_but_gated_def by (simp del: map_map)
    then show ?thesis by (simp add: case_prod_unfold comp_def)
  qed
  have "map (\<lambda>(n, t). tl_Definition t) (List.map_filter (\<lambda>n. map_option (Pair n) (Registry_Get r1 n)) names)
      = map (\<lambda>(n, t). tl_Definition t) (List.map_filter (\<lambda>n. map_option (Pair n) (Registry_Get r2 n)) names)" for names
  proof (induction names)
    case (Cons n names)
    then show ?case using same_but_gated_Get [OF assms, of n]
      by (cases "Registry_Get r1 n"; cases "Registry_Get r2 n") (auto simp: List.map_filter_def tool_face_def)
  qed (simp add: List.map_filter_def)
  then show ?thesis
    by (simp add: Registry_List_def range_tools_def ks bindG_def fun_eq_iff split: prod.splits)
qed

lemma build_same:
  assumes "same_but_gated r1 r2"
  shows "build rt (g\<lparr>cg_toolRegistry := r1\<rparr>) = build rt (g\<lparr>cg_toolRegistry := r2\<rparr>)"
    "actNode (g\<lparr>cg_toolRegistry := r1\<rparr>) = actNode (g\<lparr>cg_toolRegistry := r2\<rparr>)"
proof -
  show act: "actNode (g\<lparr>cg_toolRegistry := r1\<rparr>) = actNode (g\<lparr>cg_toolRegistry := r2\<rparr>)"
    using act_loop_same [OF assms] by (simp add: actNode_def fun_eq_iff)
  have "thinkNode rt (g\<lparr>cg_toolRegistry := r1\<rparr>) = thinkNode rt (g\<lparr>cg_toolRegistry := r2\<rparr>)"
    by (intro ext) (simp add: thinkNode_def Registry_List_same [OF assms])
  moreover have "routerNode (g\<lparr>cg_toolRegistry := r1\<rparr>) = routerNode (g\<lparr>cg_toolRegistry := r2\<rparr>)"
    by (simp add: routerNode_def fun_eq_iff)
  ultimately show "build rt (g\<lparr>cg_toolRegistry := r1\<rparr>) = build rt (g\<lparr>cg_toolRegistry := r2\<rparr>)"
    using act by (simp add: build_def)
qed

lemma build_runnable [simp]: "build rt (g\<lparr>cg_runnable := x\<rparr>) = build rt g"
  by (simp add: build_def routerNode_def thinkNode_def actNode_def fun_eq_iff)

section \<open>Run and Resume\<close>

text \<open>How the output reports the final state.\<close>

definition reports :: "workflow_output \<Rightarrow> agent_state \<Rightarrow> bool" where
  "reports out s \<longleftrightarrow> wo_Response out = a_CurrentOutput s \<and> wo_TokensUsed out = a_TokensUsed s
     \<and> wo_ToolCallsCount out = a_ToolCallsCount s \<and> wo_AgentType out = a_CurrentAgent s
     \<and> (if a_RequiresApproval s
        then wo_RequiresApproval out \<and> wo_ApprovalReason out = a_ApprovalReason s \<and> AgentState_ToJSON s = Inr (wo_PausedStateJSON out)
        else \<not> wo_RequiresApproval out \<and> wo_ApprovalReason out = [] \<and> wo_PausedStateJSON out = [])"

lemma workflow_result_Ret: "workflow_result s w = (Ret out, w') \<Longrightarrow> reports out s \<and> w' = w"
  by (auto simp: workflow_result_def reports_def Let_def split: if_splits sum.splits)

lemma initial_state_fields [simp]:
  "a_Messages (initial_state reqID now inp) = wi_Messages inp" "a_UserInput (initial_state reqID now inp) = wi_Content inp"
  "a_IsApproved (initial_state reqID now inp) = None" "a_RequiresApproval (initial_state reqID now inp) = False"
  "a_Iteration (initial_state reqID now inp) = 0" "a_MaxIterations (initial_state reqID now inp) = 10"
  "a_PendingTools (initial_state reqID now inp) = []"
  by (simp_all add: initial_state_def NewAgentState_def Let_def)

context compiled_graph
begin

lemma invoke_invariant:
  assumes "invoke s w = (Ret t, w')" "node_invariant sg J" "\<And>n. graph_start sg = Some n \<Longrightarrow> J n s"
  shows "J END t"
proof -
  obtain n tr where n: "graph_start sg = Some n" and run: "graph_run sg n s w tr (Ret t) w'"
    using follows [OF assms(1)] by blast
  show ?thesis using graph_run_invariant [OF run assms(2) assms(3) [OF n]] by simp
qed

end

lemma run_trace:
  assumes "compiled_graph (build rt g) invoke" "cg_runnable g = Some invoke" "Graph_Run rt g inp w = (Ret out, w')"
  obtains reqID now s tr w1 where
    "graph_run (build rt g) ''router'' (initial_state reqID now inp) w1 tr (Ret s) w'" "reports out s"
proof -
  from assms(2,3) obtain reqID now w1 s w2 where
    "invoke (initial_state reqID now inp) w1 = (Ret s, w2)" "workflow_result s w2 = (Ret out, w')"
    by (auto simp: Graph_Run_def ret_iffs)
  moreover from this have "w' = w2" "reports out s" using workflow_result_Ret [of s w2 out w'] by simp_all
  ultimately show ?thesis
    using compiled_graph.follows [OF assms(1)] that by fastforce
qed

text \<open>
  The state with which \<open>Resume\<close> re-enters the graph when the first pending call is the
  gated one: nothing was executed, the calls are still pending, and only the counters moved.
\<close>

definition replayed_state :: "'w tool_registry \<Rightarrow> agent_state \<Rightarrow> agent_state" where
  "replayed_state r t =
     (case a_PendingTools t of
        tc # _ \<Rightarrow> t\<lparr>a_ToolResults := [], a_Iteration := a_Iteration t + 1,
          a_ShouldStop := (a_ShouldStop t \<or> a_MaxIterations t \<le>s a_Iteration t + 1),
          a_IsApproved := None, a_RequiresApproval := False, a_ApprovalReason := approval_reason_of tc,
          a_ApprovalData := [(''tool'', AStr (fc_Name (tc_Function tc))), (''arguments'', AMap (call_args tc)), (''tool_call'', ACall tc)]\<rparr>
      | [] \<Rightarrow> t)"

lemma Resume_replays:
  assumes "cg_runnable g = Some invoke" "AgentState_FromJSON text = Inr t"
    and "a_PendingTools t = tc # tcs" "gated (cg_toolRegistry g) tc"
  shows "Graph_Resume g text True w =
     bindG (wrapG ''resume graph invoke'' (invoke (replayed_state (cg_toolRegistry g) t))) workflow_result w"
proof -
  obtain args tl where *: "ParseArguments tc = Inr args" "Registry_Get (cg_toolRegistry g) (fc_Name (tc_Function tc)) = Some tl"
      "tl_RequiresApproval tl"
    using assms(4) by (auto simp: gated_def call_tool_def split: sum.splits option.splits)
  let ?t = "t\<lparr>a_IsApproved := Some True, a_RequiresApproval := False\<rparr>"
  let ?t1 = "?t\<lparr>a_ToolResults := [], a_RequiresApproval := True, a_ApprovalReason := approval_reason_of tc,
      a_ApprovalData := [(''tool'', AStr (fc_Name (tc_Function tc))), (''arguments'', AMap args), (''tool_call'', ACall tc)]\<rparr>"
  have act: "actNode g ?t w = (Ret ?t1, w)"
    using * assms(3) by (simp add: actNode_def approval_reason_of_def Let_def)
  let ?t2 = "?t1\<lparr>a_Iteration := a_Iteration t + 1,
      a_ShouldStop := (a_ShouldStop t \<or> a_MaxIterations t \<le>s a_Iteration t + 1)\<rparr>"
  have obs: "observeNode ?t1 w = (Ret ?t2, w)"
    by (simp add: observeNode_def FlushToolResults_def Let_def)
  have "?t2\<lparr>a_IsApproved := None, a_RequiresApproval := False\<rparr> = replayed_state (cg_toolRegistry g) t"
    using assms(3) *(1) by (cases t) (simp add: replayed_state_def call_args_def)
  then show ?thesis
    using assms(1,2) act obs
    by (simp add: Graph_Resume_def)
qed

text \<open>The request the model then gets still has the gated call open.\<close>

lemma replayed_request:
  assumes "a_PendingTools t = tc # tcs" "open_calls [] (a_Messages t) = Some (map tc_ID (a_PendingTools t))"
    and "routerNode g (replayed_state r t) w = (Ret s, w')"
  shows "open_calls [] (buildMessages s) \<noteq> Some []"
proof -
  have "a_Messages s = a_Messages t"
    by (rule routerNode_Ret [OF assms(3)]) (simp add: replayed_state_def assms(1))
  then show ?thesis using open_calls_buildMessages [of s] assms(1,2) by simp
qed

lemma Resume_rejected:
  assumes "cg_runnable g = Some invoke" "AgentState_FromJSON text = Inr t"
  shows "Graph_Resume g text False w =
    (Ret \<lparr>wo_Response = (if a_CurrentOutput t = [] then ''The requested action was rejected.'' else a_CurrentOutput t),
       wo_TokensUsed = a_TokensUsed t, wo_ToolCallsCount = a_ToolCallsCount t, wo_AgentType = a_CurrentAgent t,
       wo_RequiresApproval = False, wo_ApprovalReason = [], wo_PausedStateJSON = []\<rparr>, w)"
  using assms by (simp add: Graph_Resume_def Let_def)

end
