(* ===== verification/Repositories.thy ===== *)
theory Repositories
  imports Ports Entities
begin

text \<open>
  \<open>internal/domain/repository\<close>: the repository interfaces, as records of their methods. The
  contracts the use cases rely on are the locales at the end; the Postgres theory proves
  that the SQL implementations meet them.
\<close>

section \<open>Interfaces\<close>

record conversation_filter =
  cf_UserID :: "uuid option"
  cf_Status :: "conversation_status option"
  cf_Limit :: go_int
  cf_Offset :: go_int
  cf_OrderBy :: string
  cf_Order :: string

definition conversation_filter0 :: conversation_filter where
  "conversation_filter0 = \<lparr>cf_UserID = None, cf_Status = None, cf_Limit = 0, cf_Offset = 0, cf_OrderBy = [], cf_Order = []\<rparr>"

record 'w conversation_repository =
  cr_Create :: "conversation \<Rightarrow> ('w, unit) go"
  cr_FindByID :: "uuid \<Rightarrow> ('w, conversation) go"
  cr_FindByUserID :: "uuid \<Rightarrow> conversation_filter \<Rightarrow> ('w, conversation list) go"
  cr_Update :: "conversation \<Rightarrow> ('w, unit) go"
  cr_UpdateWorkflowState :: "uuid \<Rightarrow> gomap \<Rightarrow> ('w, unit) go"
  cr_Delete :: "uuid \<Rightarrow> ('w, unit) go"
  cr_CountByUserID :: "uuid \<Rightarrow> ('w, int) go"

record 'w message_repository =
  mr_Create :: "message \<Rightarrow> ('w, unit) go"
  mr_CreateBatch :: "message list \<Rightarrow> ('w, unit) go"
  mr_FindByConversationID :: "uuid \<Rightarrow> ('w, message list) go"
  mr_FindByConversationIDPaginated :: "uuid \<Rightarrow> go_int \<Rightarrow> go_int \<Rightarrow> ('w, message list) go"
  mr_FindLastN :: "uuid \<Rightarrow> go_int \<Rightarrow> ('w, message list) go"
  mr_CountByConversationID :: "uuid \<Rightarrow> ('w, int) go"
  mr_Delete :: "uuid \<Rightarrow> ('w, unit) go"
  mr_DeleteByConversationID :: "uuid \<Rightarrow> ('w, unit) go"

record 'w token_repository =
  kr_Create :: "token \<Rightarrow> ('w, unit) go"
  kr_FindByHash :: "string \<Rightarrow> ('w, token) go"
  kr_FindByID :: "uuid \<Rightarrow> ('w, token) go"
  kr_FindByUserID :: "uuid \<Rightarrow> ('w, token list) go"
  kr_UpdateLastUsed :: "uuid \<Rightarrow> ('w, unit) go"
  kr_Revoke :: "uuid \<Rightarrow> ('w, unit) go"
  kr_RevokeAllForUser :: "uuid \<Rightarrow> ('w, unit) go"
  kr_DeleteExpired :: "('w, int) go"

record 'w user_repository =
  ur_Create :: "user \<Rightarrow> ('w, unit) go"
  ur_FindByID :: "uuid \<Rightarrow> ('w, user) go"
  ur_FindByEmail :: "string \<Rightarrow> ('w, user) go"
  ur_Update :: "user \<Rightarrow> ('w, unit) go"
  ur_Delete :: "uuid \<Rightarrow> ('w, unit) go"

record 'w tool_execution_repository =
  xr_Create :: "tool_execution \<Rightarrow> ('w, unit) go"
  xr_FindByID :: "uuid \<Rightarrow> ('w, tool_execution) go"
  xr_FindByConversationID :: "uuid \<Rightarrow> ('w, tool_execution list) go"
  xr_UpdateStatus :: "uuid \<Rightarrow> tool_execution_status \<Rightarrow> gomap option \<Rightarrow> string \<Rightarrow> go_int option \<Rightarrow> ('w, unit) go"

section \<open>Contracts\<close>

text \<open>
  A row written for the conversation \<open>c\<close> over the row \<open>c0\<close>: the owner and the time of creation
  stay, the JSON columns pass through the codec \<open>col\<close>, the database sets the update time.
\<close>

definition written_over :: "(gomap option \<Rightarrow> gomap option) \<Rightarrow> conversation \<Rightarrow> conversation \<Rightarrow> conversation \<Rightarrow> bool" where
  "written_over col c0 c c1 \<longleftrightarrow> (\<exists>t. c1 = c\<lparr>c_WorkflowState := col (c_WorkflowState c), c_Metadata := col (c_Metadata c),
     c_UserID := c_UserID c0, c_CreatedAt := c_CreatedAt c0, c_UpdatedAt := t\<rparr>)"

text \<open>What the use cases rely on: \<open>conv_of\<close> is the view of the stored conversations.\<close>

locale conversation_store =
  fixes convs :: "'w conversation_repository"
    and conv_of :: "'w \<Rightarrow> uuid \<Rightarrow> conversation option"
    and col :: "gomap option \<Rightarrow> gomap option"
  assumes find_Ret: "cr_FindByID convs i w = (Ret c, w') \<Longrightarrow> conv_of w i = Some c \<and> c_ID c = i"
    and find_no_panic: "cr_FindByID convs i w \<noteq> (Panic p, w')"
    and find_keeps: "keeps conv_of (cr_FindByID convs i)"
    and update_Ret: "cr_Update convs c w = (Ret (), w') \<Longrightarrow>
      (\<forall>j. j \<noteq> c_ID c \<longrightarrow> conv_of w' j = conv_of w j)
      \<and> (case conv_of w (c_ID c) of None \<Rightarrow> conv_of w' (c_ID c) = None
         | Some c0 \<Rightarrow> \<exists>c1. conv_of w' (c_ID c) = Some c1 \<and> written_over col c0 c c1)"
    and update_Err: "cr_Update convs c w = (Err e, w') \<Longrightarrow> conv_of w' = conv_of w"
    and state_Ret: "cr_UpdateWorkflowState convs i st w = (Ret (), w') \<Longrightarrow>
      (\<forall>j. j \<noteq> i \<longrightarrow> conv_of w' j = conv_of w j)
      \<and> (case conv_of w i of None \<Rightarrow> conv_of w' i = None
         | Some c0 \<Rightarrow> \<exists>t. conv_of w' i = Some (c0\<lparr>c_WorkflowState := col (Some st), c_UpdatedAt := t\<rparr>))"
    and state_Err: "cr_UpdateWorkflowState convs i st w = (Err e, w') \<Longrightarrow> conv_of w' = conv_of w"
    and create_Ret: "cr_Create convs c w = (Ret (), w') \<Longrightarrow> conv_of w (c_ID c) = None
      \<and> (\<exists>c1. conv_of w' = (conv_of w)(c_ID c \<mapsto> c1) \<and> c_ID c1 = c_ID c \<and> c_UserID c1 = c_UserID c \<and> c_Status c1 = c_Status c
          \<and> c_WorkflowState c1 = col (c_WorkflowState c) \<and> c_Metadata c1 = col (c_Metadata c))"
    and create_Err: "cr_Create convs c w = (Err e, w') \<Longrightarrow> conv_of w' = conv_of w"
    and col_None: "col None = None"
    and col_dom: "col (Some m) = Some m' \<Longrightarrow> dom (map_of m') = dom (map_of m)"

text \<open>\<open>msgs_of\<close> is the view of the stored messages; \<open>ok\<close> is what the store needs of the world.\<close>

definition stored_message :: "message \<Rightarrow> message \<Rightarrow> bool" where
  "stored_message m m' \<longleftrightarrow> m_ID m' = m_ID m \<and> m_ConversationID m' = m_ConversationID m \<and> m_Role m' = m_Role m
     \<and> m_Content m' = m_Content m \<and> m_Name m' = m_Name m \<and> m_ToolCalls m' = m_ToolCalls m
     \<and> m_ToolCallID m' = m_ToolCallID m \<and> m_Model m' = m_Model m"

locale message_store =
  fixes msgs :: "'w message_repository"
    and msgs_of :: "'w \<Rightarrow> uuid \<Rightarrow> message list"
    and ok :: "'w \<Rightarrow> bool"
  assumes list_Ret: "mr_FindByConversationID msgs i w = (Ret ms, w') \<Longrightarrow> ms = msgs_of w i"
    and list_keeps: "keeps msgs_of (mr_FindByConversationID msgs i)"
    and list_ok: "maintains ok (mr_FindByConversationID msgs i)"
    and append_Ret: "ok w \<Longrightarrow> mr_Create msgs m w = (Ret (), w') \<Longrightarrow>
      \<exists>m'. stored_message m m' \<and> msgs_of w' = (msgs_of w)(m_ConversationID m := msgs_of w (m_ConversationID m) @ [m'])"
    and append_Err: "mr_Create msgs m w = (Err e, w') \<Longrightarrow> msgs_of w' = msgs_of w"
    and append_ok: "maintains ok (mr_Create msgs m)"

text \<open>Both stores in one world, with the clock and the UUIDs: no operation of one changes the other.\<close>

locale chat_store = conversation_store convs conv_of col + message_store msgs msgs_of ok
  for convs :: "'w conversation_repository" and conv_of col and msgs :: "'w message_repository" and msgs_of ok +
  fixes rt :: "'w runtime"
  assumes conv_frame: "keeps conv_of (mr_Create msgs m)" "keeps conv_of (mr_FindByConversationID msgs i)"
    and msg_frame: "keeps msgs_of (cr_FindByID convs i)" "keeps msgs_of (cr_Update convs c)"
      "keeps msgs_of (cr_UpdateWorkflowState convs i st)" "keeps msgs_of (cr_Create convs c)"
    and ok_frame: "maintains ok (cr_FindByID convs i)" "maintains ok (cr_Update convs c)"
      "maintains ok (cr_UpdateWorkflowState convs i st)" "maintains ok (cr_Create convs c)"
    and clock_frame: "conv_of (snd (rt_now rt w)) = conv_of w" "msgs_of (snd (rt_now rt w)) = msgs_of w"
      "ok w \<Longrightarrow> ok (snd (rt_now rt w))"
    and uuid_frame: "conv_of (snd (rt_uuid rt w)) = conv_of w" "msgs_of (snd (rt_uuid rt w)) = msgs_of w"
      "ok w \<Longrightarrow> ok (snd (rt_uuid rt w))"

text \<open>The stores of the authentication use cases: the rows of the tokens and of the users.\<close>

locale identity_store =
  fixes toks :: "'w token_repository"
    and users :: "'w user_repository"
    and tokens_of :: "'w \<Rightarrow> token list"
    and users_of :: "'w \<Rightarrow> user list"
    and rt :: "'w runtime"
  assumes token_by_id: "kr_FindByID toks i w = (Ret t, w') \<Longrightarrow> t \<in> set (tokens_of w) \<and> t_ID t = i"
    and token_by_hash: "kr_FindByHash toks h w = (Ret t, w') \<Longrightarrow> t \<in> set (tokens_of w) \<and> t_TokenHash t = h"
    and user_by_id: "ur_FindByID users i w = (Ret u, w') \<Longrightarrow> u \<in> set (users_of w) \<and> u_ID u = i"
    and user_by_email: "ur_FindByEmail users s w = (Ret u, w') \<Longrightarrow> u \<in> set (users_of w) \<and> u_Email u = s"
    and reads_keep_tokens: "keeps tokens_of (kr_FindByID toks i)" "keeps tokens_of (kr_FindByHash toks h)"
      "keeps tokens_of (ur_FindByID users i)" "keeps tokens_of (ur_FindByEmail users s)"
    and reads_keep_users: "keeps users_of (kr_FindByID toks i)" "keeps users_of (kr_FindByHash toks h)"
      "keeps users_of (ur_FindByID users i)" "keeps users_of (ur_FindByEmail users s)"
    and clock_keeps: "tokens_of (snd (rt_now rt w)) = tokens_of w" "users_of (snd (rt_now rt w)) = users_of w"
    and uuid_keeps: "tokens_of (snd (rt_uuid rt w)) = tokens_of w" "users_of (snd (rt_uuid rt w)) = users_of w"
    and create_token_Ret: "kr_Create toks t w = (Ret (), w') \<Longrightarrow> users_of w' = users_of w \<and> t_TokenHash t \<notin> t_TokenHash ` set (tokens_of w)
      \<and> (\<exists>m. tokens_of w' = tokens_of w @ [t\<lparr>t_LastUsedAt := None, t_Metadata := m\<rparr>])"
    and create_user_Ret: "ur_Create users u w = (Ret (), w') \<Longrightarrow> tokens_of w' = tokens_of w \<and> u_Email u \<notin> u_Email ` set (users_of w)
      \<and> (\<exists>m. users_of w' = users_of w @ [u\<lparr>u_Metadata := m\<rparr>])"
    and revoke_Ret: "kr_Revoke toks i w = (Ret (), w') \<Longrightarrow> t \<in> set (tokens_of w') \<Longrightarrow> t_ID t = i \<Longrightarrow> t_IsRevoked t"

end
