(* ===== verification/Postgres.thy ===== *)
theory Postgres
  imports Repositories Ports "HOL-Library.Sublist"
begin

text \<open>
  \<open>internal/infrastructure/persistence/postgres\<close>: the SQL repositories over the tables of
  \<open>migrations/*.up.sql\<close>. A table is the list of its rows; the constraints of the migrations
  (primary and unique keys, foreign keys with their cascades, the length of \<open>VARCHAR\<close>, the
  range of \<open>INT\<close>, the \<open>updated_at\<close> trigger) are checked by each statement. Any statement may
  also fail as the connection does: \<open>w_fault\<close> says at which tick. Not modelled: the rounding
  of \<open>DECIMAL\<close> and of timestamps to microseconds, and blanks at the end of a \<open>VARCHAR\<close>.
\<close>

section \<open>The world\<close>

text \<open>
  The clock, the UUID generator and the failures are sequences read at the tick, which
  every reading and every statement advances.
\<close>

record world =
  w_users :: "user list"
  w_tokens :: "token list"
  w_conversations :: "(conversation \<times> time option) list"
  w_messages :: "message list"
  w_executions :: "tool_execution list"
  w_seq :: int
  w_tick :: nat
  w_clock :: "nat \<Rightarrow> time"
  w_uuids :: "nat \<Rightarrow> uuid"
  w_order :: "nat \<Rightarrow> string list \<Rightarrow> string list"
  w_fault :: "nat \<Rightarrow> goerror option"

definition tick :: "'x world_scheme \<Rightarrow> 'x world_scheme" where
  "tick w = w\<lparr>w_tick := Suc (w_tick w)\<rparr>"

definition world_runtime :: "'x world_scheme runtime" where
  "world_runtime = \<lparr>rt_now = (\<lambda>w. (w_clock w (w_tick w), tick w)), rt_uuid = (\<lambda>w. (w_uuids w (w_tick w), tick w)),
     rt_range = (\<lambda>ks w. (w_order w (w_tick w) ks, tick w))\<rparr>"

section \<open>Statements\<close>

type_synonym ('x, 'a) stmt = "time \<Rightarrow> 'x world_scheme \<Rightarrow> goerror + 'a \<times> 'x world_scheme"

text \<open>A statement sees the time \<open>NOW()\<close> and the tables; a statement that fails changes nothing.\<close>

definition run_sql :: "('x, 'a) stmt \<Rightarrow> ('x world_scheme, 'a) go" where
  "run_sql st w = (case w_fault w (w_tick w) of
     Some e \<Rightarrow> (Err e, tick w)
   | None \<Rightarrow> (case st (w_clock w (w_tick w)) (tick w) of
        Inl e \<Rightarrow> (Err e, tick w)
      | Inr (x, w') \<Rightarrow> (Ret x, w')))"

definition query :: "('x world_scheme \<Rightarrow> 'a) \<Rightarrow> ('x, 'a) stmt" where
  "query f now w = Inr (f w, w)"

definition ErrNoRows :: goerror where
  "ErrNoRows = Errorf ''no rows in result set''"

definition query_row :: "('x world_scheme \<Rightarrow> 'a option) \<Rightarrow> ('x, 'a) stmt" where
  "query_row f now w = (case f w of None \<Rightarrow> Inl ErrNoRows | Some r \<Rightarrow> Inr (r, w))"

definition command :: "('x world_scheme \<Rightarrow> goerror option) \<Rightarrow> (time \<Rightarrow> 'x world_scheme \<Rightarrow> 'x world_scheme) \<Rightarrow> ('x, unit) stmt" where
  "command violation f now w = (case violation w of Some e \<Rightarrow> Inl e | None \<Rightarrow> Inr ((), f now w))"

text \<open>\<open>if err == pgx.ErrNoRows { ... }; return fmt.Errorf("s: %w", err)\<close>\<close>

definition no_rows_or :: "string \<Rightarrow> string \<Rightarrow> ('w, 'a) go \<Rightarrow> ('w, 'a) go" where
  "no_rows_or missing s m = bindG (attemptG m) (\<lambda>r. case r of
     Inr x \<Rightarrow> returnG x
   | Inl e \<Rightarrow> if e = ErrNoRows then failG (Errorf missing) else failG (Wrapf s e))"

text \<open>The first violated constraint of a list.\<close>

fun violation_of :: "(bool \<times> string) list \<Rightarrow> goerror option" where
  "violation_of [] = None"
| "violation_of ((ok, msg) # cs) = (if ok then violation_of cs else Some (Errorf msg))"

text \<open>A \<open>VARCHAR(n)\<close> counts characters: the bytes that do not continue a UTF-8 sequence.\<close>

definition char_length :: "string \<Rightarrow> nat" where
  "char_length s = length (filter (\<lambda>c. \<not> (128 \<le> (of_char c :: int) \<and> (of_char c :: int) < 192)) s)"

definition varchar :: "nat \<Rightarrow> string \<Rightarrow> bool \<times> string" where
  "varchar n s = (char_length s \<le> n, ''value too long for type character varying'')"

definition int4 :: "go_int \<Rightarrow> bool \<times> string" where
  "int4 i = (- (2 ^ 31) \<le> sint i \<and> sint i < 2 ^ 31, ''value out of range for int4'')"

text \<open>
  A \<open>JSONB\<close> column: the map is marshalled on the way in (an error when it holds a number
  without JSON form) and read back as \<open>encoding/json\<close> reads it; a nil map is \<open>NULL\<close>.
\<close>

definition jsonb :: "gomap \<Rightarrow> gomap option" where
  "jsonb m = Option.bind (any_json (AMap m)) (\<lambda>j. case json_any j of Some (AMap m') \<Rightarrow> Some m' | _ \<Rightarrow> None)"

definition jsonb_ok :: "gomap option \<Rightarrow> bool \<times> string" where
  "jsonb_ok m = (case m of None \<Rightarrow> True | Some kvs \<Rightarrow> jsonb kvs \<noteq> None, ''json: unsupported value'')"

definition jsonb_col :: "gomap option \<Rightarrow> gomap option" where
  "jsonb_col m = Option.bind m jsonb"

definition unique :: "bool \<Rightarrow> bool \<times> string" where
  "unique b = (b, ''duplicate key value violates unique constraint'')"

definition references :: "bool \<Rightarrow> bool \<times> string" where
  "references b = (b, ''insert or update violates foreign key constraint'')"

definition update_rows :: "('r \<Rightarrow> bool) \<Rightarrow> ('r \<Rightarrow> 'r) \<Rightarrow> 'r list \<Rightarrow> 'r list" where
  "update_rows P f rows = map (\<lambda>r. if P r then f r else r) rows"

text \<open>\<open>ORDER BY\<close>: ties stay in table order, \<open>NULL\<close> is greater than every value.\<close>

definition order_rows :: "('r \<Rightarrow> int option) \<Rightarrow> bool \<Rightarrow> 'r list \<Rightarrow> 'r list" where
  "order_rows key desc rows =
     (let known = sort_key (\<lambda>r. the (key r)) (filter (\<lambda>r. key r \<noteq> None) rows);
          nulls = filter (\<lambda>r. key r = None) rows
      in if desc then nulls @ rev known else known @ nulls)"

section \<open>\<open>user_repository.go\<close>\<close>

definition user_columns :: "user \<Rightarrow> user" where
  "user_columns u = u\<lparr>u_Metadata := jsonb_col (u_Metadata u)\<rparr>"

definition user_checks :: "user \<Rightarrow> (bool \<times> string) list" where
  "user_checks u = [varchar 255 (u_Email u), varchar 255 (u_PasswordHash u), varchar 255 (u_Name u), jsonb_ok (u_Metadata u)]"

definition UserRepository_Create :: "user \<Rightarrow> ('x world_scheme, unit) go" where
  "UserRepository_Create u = wrapG ''create user'' (run_sql (command
     (\<lambda>w. violation_of (user_checks u @
        [unique (u_ID u \<notin> u_ID ` set (w_users w)), unique (u_Email u \<notin> u_Email ` set (w_users w))]))
     (\<lambda>now w. w\<lparr>w_users := w_users w @ [user_columns u]\<rparr>)))"

definition UserRepository_FindByID :: "uuid \<Rightarrow> ('x world_scheme, user) go" where
  "UserRepository_FindByID i = no_rows_or ''user not found'' ''find user by id''
     (run_sql (query_row (\<lambda>w. find (\<lambda>u. u_ID u = i) (w_users w))))"

definition UserRepository_FindByEmail :: "string \<Rightarrow> ('x world_scheme, user) go" where
  "UserRepository_FindByEmail email = no_rows_or ''user not found'' ''find user by email''
     (run_sql (query_row (\<lambda>w. find (\<lambda>u. u_Email u = email) (w_users w))))"

definition UserRepository_Update :: "user \<Rightarrow> ('x world_scheme, unit) go" where
  "UserRepository_Update u = wrapG ''update user'' (run_sql (command
     (\<lambda>w. violation_of (user_checks u @
        [unique (u_ID u \<notin> u_ID ` set (w_users w) \<or> (\<forall>v \<in> set (w_users w). u_ID v \<noteq> u_ID u \<longrightarrow> u_Email v \<noteq> u_Email u))]))
     (\<lambda>now w. w\<lparr>w_users := update_rows (\<lambda>v. u_ID v = u_ID u)
        (\<lambda>v. (user_columns u)\<lparr>u_CreatedAt := u_CreatedAt v, u_UpdatedAt := now\<rparr>) (w_users w)\<rparr>)))"

text \<open>
  Deleting a user deletes the tokens, conversations (with their messages) and executions,
  and clears the references of other users' executions to them; an execution the user
  approved for someone else forbids it.
\<close>

definition cascade_user :: "uuid \<Rightarrow> 'x world_scheme \<Rightarrow> 'x world_scheme" where
  "cascade_user i w =
     (let convs = c_ID ` fst ` {r \<in> set (w_conversations w). c_UserID (fst r) = i};
          toks = t_ID ` {t \<in> set (w_tokens w). t_UserID t = i};
          msgs = m_ID ` {m \<in> set (w_messages w). m_ConversationID m \<in> convs};
          clear = (\<lambda>ids r. case r of Some j \<Rightarrow> if j \<in> ids then None else Some j | None \<Rightarrow> None)
      in w\<lparr>w_users := filter (\<lambda>u. u_ID u \<noteq> i) (w_users w),
           w_tokens := filter (\<lambda>t. t_UserID t \<noteq> i) (w_tokens w),
           w_conversations := filter (\<lambda>r. c_UserID (fst r) \<noteq> i) (w_conversations w),
           w_messages := filter (\<lambda>m. m_ConversationID m \<notin> convs) (w_messages w),
           w_executions := map (\<lambda>e. e\<lparr>x_ConversationID := clear convs (x_ConversationID e),
                x_MessageID := clear msgs (x_MessageID e), x_TokenID := clear toks (x_TokenID e)\<rparr>)
              (filter (\<lambda>e. x_UserID e \<noteq> i) (w_executions w))\<rparr>)"

definition UserRepository_Delete :: "uuid \<Rightarrow> ('x world_scheme, unit) go" where
  "UserRepository_Delete i = wrapG ''delete user'' (run_sql (command
     (\<lambda>w. violation_of [references (\<forall>e \<in> set (w_executions w). x_ApprovedBy e = Some i \<longrightarrow> x_UserID e = i)])
     (\<lambda>now w. cascade_user i w)))"

definition UserRepository :: "'x world_scheme user_repository" where
  "UserRepository = \<lparr>ur_Create = UserRepository_Create, ur_FindByID = UserRepository_FindByID,
     ur_FindByEmail = UserRepository_FindByEmail, ur_Update = UserRepository_Update, ur_Delete = UserRepository_Delete\<rparr>"

section \<open>\<open>token_repository.go\<close>\<close>

text \<open>\<open>last_used_at\<close> is not among the inserted columns.\<close>

definition TokenRepository_Create :: "token \<Rightarrow> ('x world_scheme, unit) go" where
  "TokenRepository_Create t = wrapG ''create token'' (run_sql (command
     (\<lambda>w. violation_of [varchar 255 (t_TokenHash t), varchar 255 (t_Name t), int4 (t_RateLimitPerMinute t),
        int4 (t_RateLimitPerDay t), jsonb_ok (t_Metadata t), unique (t_ID t \<notin> t_ID ` set (w_tokens w)),
        unique (t_TokenHash t \<notin> t_TokenHash ` set (w_tokens w)), references (t_UserID t \<in> u_ID ` set (w_users w))])
     (\<lambda>now w. w\<lparr>w_tokens := w_tokens w @ [t\<lparr>t_LastUsedAt := None, t_Metadata := jsonb_col (t_Metadata t)\<rparr>]\<rparr>)))"

definition scanToken :: "('x world_scheme \<Rightarrow> token option) \<Rightarrow> ('x world_scheme, token) go" where
  "scanToken f = no_rows_or ''token not found'' ''scan token'' (run_sql (query_row f))"

definition TokenRepository_FindByHash :: "string \<Rightarrow> ('x world_scheme, token) go" where
  "TokenRepository_FindByHash tokenHash = scanToken (\<lambda>w. find (\<lambda>t. t_TokenHash t = tokenHash) (w_tokens w))"

definition TokenRepository_FindByID :: "uuid \<Rightarrow> ('x world_scheme, token) go" where
  "TokenRepository_FindByID i = scanToken (\<lambda>w. find (\<lambda>t. t_ID t = i) (w_tokens w))"

definition TokenRepository_FindByUserID :: "uuid \<Rightarrow> ('x world_scheme, token list) go" where
  "TokenRepository_FindByUserID userID = wrapG ''find tokens by user id'' (run_sql (query
     (\<lambda>w. order_rows (\<lambda>t. Some (t_CreatedAt t)) True (filter (\<lambda>t. t_UserID t = userID) (w_tokens w)))))"

definition update_tokens :: "(token \<Rightarrow> bool) \<Rightarrow> (token \<Rightarrow> token) \<Rightarrow> ('x, unit) stmt" where
  "update_tokens P f = command (\<lambda>w. None) (\<lambda>now w.
     w\<lparr>w_tokens := update_rows P (\<lambda>t. (f t)\<lparr>t_UpdatedAt := now\<rparr>) (w_tokens w)\<rparr>)"

definition TokenRepository_UpdateLastUsed :: "uuid \<Rightarrow> ('x world_scheme, unit) go" where
  "TokenRepository_UpdateLastUsed tokenID = bindG (stateG (rt_now world_runtime)) (\<lambda>t0.
     wrapG ''update last used'' (run_sql (update_tokens (\<lambda>t. t_ID t = tokenID) (\<lambda>t. t\<lparr>t_LastUsedAt := Some t0\<rparr>))))"

definition TokenRepository_Revoke :: "uuid \<Rightarrow> ('x world_scheme, unit) go" where
  "TokenRepository_Revoke tokenID = wrapG ''revoke token''
     (run_sql (update_tokens (\<lambda>t. t_ID t = tokenID) (\<lambda>t. t\<lparr>t_IsRevoked := True\<rparr>)))"

definition TokenRepository_RevokeAllForUser :: "uuid \<Rightarrow> ('x world_scheme, unit) go" where
  "TokenRepository_RevokeAllForUser userID = wrapG ''revoke all tokens for user''
     (run_sql (update_tokens (\<lambda>t. t_UserID t = userID) (\<lambda>t. t\<lparr>t_IsRevoked := True\<rparr>)))"

definition TokenRepository_DeleteExpired :: "('x world_scheme, int) go" where
  "TokenRepository_DeleteExpired = wrapG ''delete expired tokens'' (run_sql (\<lambda>now w.
     (let expired = (\<lambda>t. t_ExpiresAt t < now); gone = t_ID ` set (filter expired (w_tokens w)) in
      Inr (int (length (filter expired (w_tokens w))),
           w\<lparr>w_tokens := filter (\<lambda>t. \<not> expired t) (w_tokens w),
             w_executions := map (\<lambda>e. if (\<exists>j \<in> gone. x_TokenID e = Some j) then e\<lparr>x_TokenID := None\<rparr> else e)
               (w_executions w)\<rparr>))))"

definition TokenRepository :: "'x world_scheme token_repository" where
  "TokenRepository = \<lparr>kr_Create = TokenRepository_Create, kr_FindByHash = TokenRepository_FindByHash,
     kr_FindByID = TokenRepository_FindByID, kr_FindByUserID = TokenRepository_FindByUserID,
     kr_UpdateLastUsed = TokenRepository_UpdateLastUsed, kr_Revoke = TokenRepository_Revoke,
     kr_RevokeAllForUser = TokenRepository_RevokeAllForUser, kr_DeleteExpired = TokenRepository_DeleteExpired\<rparr>"

section \<open>\<open>conversation_repository.go\<close>\<close>

definition conversation_checks :: "conversation \<Rightarrow> (bool \<times> string) list" where
  "conversation_checks c =
     [varchar 500 (c_Title c), varchar 100 (c_AgentType c), varchar 100 (c_Model c), varchar 100 (c_CurrentNode c),
      int4 (c_MessageCount c), int4 (c_ToolCallCount c), int4 (c_TotalTokens c),
      jsonb_ok (c_WorkflowState c), jsonb_ok (c_Metadata c)]"

definition conversation_columns :: "conversation \<Rightarrow> conversation" where
  "conversation_columns c = c\<lparr>c_WorkflowState := jsonb_col (c_WorkflowState c), c_Metadata := jsonb_col (c_Metadata c)\<rparr>"

text \<open>\<open>last_message_at\<close> and \<open>completed_at\<close> are not among the inserted columns.\<close>

definition ConversationRepository_Create :: "conversation \<Rightarrow> ('x world_scheme, unit) go" where
  "ConversationRepository_Create c = wrapG ''create conversation'' (run_sql (command
     (\<lambda>w. violation_of (conversation_checks c @
        [unique (c_ID c \<notin> (\<lambda>r. c_ID (fst r)) ` set (w_conversations w)), references (c_UserID c \<in> u_ID ` set (w_users w))]))
     (\<lambda>now w. w\<lparr>w_conversations := w_conversations w
        @ [((conversation_columns c)\<lparr>c_LastMessageAt := None, c_CompletedAt := None\<rparr>, None)]\<rparr>)))"

definition live_conversations :: "'x world_scheme \<Rightarrow> conversation list" where
  "live_conversations w = map fst (filter (\<lambda>r. snd r = None) (w_conversations w))"

definition ConversationRepository_FindByID :: "uuid \<Rightarrow> ('x world_scheme, conversation) go" where
  "ConversationRepository_FindByID i = no_rows_or ''conversation not found'' ''find conversation by id''
     (run_sql (query_row (\<lambda>w. find (\<lambda>c. c_ID c = i) (live_conversations w))))"

text \<open>
  The filter's \<open>OrderBy\<close> and \<open>Order\<close> go into the SQL text as they are. The three columns the
  filter's comment names are modelled; any other text is answered with an error here.
\<close>

definition order_column :: "string \<Rightarrow> (conversation \<Rightarrow> int option) option" where
  "order_column col =
     (if col = ''updated_at'' then Some (\<lambda>c. Some (c_UpdatedAt c))
      else if col = ''created_at'' then Some (\<lambda>c. Some (c_CreatedAt c))
      else if col = ''last_message_at'' then Some c_LastMessageAt
      else None)"

definition order_direction :: "string \<Rightarrow> bool option" where
  "order_direction ord = (if to_lower ord = ''desc'' then Some True else if to_lower ord = ''asc'' then Some False else None)"

definition ConversationRepository_FindByUserID :: "uuid \<Rightarrow> conversation_filter \<Rightarrow> ('x world_scheme, conversation list) go" where
  "ConversationRepository_FindByUserID userID filt = wrapG ''find conversations by user id'' (run_sql (\<lambda>now w.
     (let orderBy = (if cf_OrderBy filt \<noteq> [] then cf_OrderBy filt else ''updated_at'');
          order = (if cf_Order filt \<noteq> [] then cf_Order filt else ''DESC'')
      in case (order_column orderBy, order_direction order) of
           (Some key, Some desc) \<Rightarrow>
             (let rows = filter (\<lambda>c. c_UserID c = userID \<and> (case cf_Status filt of None \<Rightarrow> True | Some s \<Rightarrow> c_Status c = s))
                    (live_conversations w);
                  sorted = order_rows key desc rows;
                  skipped = (if 0 <s cf_Offset filt then drop (nat (sint (cf_Offset filt))) sorted else sorted)
              in Inr (if 0 <s cf_Limit filt then take (nat (sint (cf_Limit filt))) skipped else skipped, w))
         | _ \<Rightarrow> Inl (Errorf ''syntax error or unknown column in ORDER BY''))))"

text \<open>An \<open>UPDATE\<close> of the row with the id, whether deleted or not; no row is no error.\<close>

definition update_conversation :: "uuid \<Rightarrow> (time \<Rightarrow> conversation \<Rightarrow> conversation) \<Rightarrow> time \<Rightarrow> 'x world_scheme \<Rightarrow> 'x world_scheme" where
  "update_conversation i f now w = w\<lparr>w_conversations :=
     update_rows (\<lambda>r. c_ID (fst r) = i) (\<lambda>r. ((f now (fst r))\<lparr>c_UpdatedAt := now\<rparr>, snd r)) (w_conversations w)\<rparr>"

definition ConversationRepository_Update :: "conversation \<Rightarrow> ('x world_scheme, unit) go" where
  "ConversationRepository_Update c = wrapG ''update conversation'' (run_sql (command
     (\<lambda>w. violation_of (conversation_checks c))
     (update_conversation (c_ID c) (\<lambda>now r. (conversation_columns c)\<lparr>c_UserID := c_UserID r, c_CreatedAt := c_CreatedAt r\<rparr>))))"

definition ConversationRepository_UpdateWorkflowState :: "uuid \<Rightarrow> gomap \<Rightarrow> ('x world_scheme, unit) go" where
  "ConversationRepository_UpdateWorkflowState i st = wrapG ''update workflow state'' (run_sql (command
     (\<lambda>w. violation_of [jsonb_ok (Some st)])
     (update_conversation i (\<lambda>now r. r\<lparr>c_WorkflowState := jsonb st\<rparr>))))"

text \<open>A soft delete.\<close>

definition ConversationRepository_Delete :: "uuid \<Rightarrow> ('x world_scheme, unit) go" where
  "ConversationRepository_Delete i = wrapG ''delete conversation'' (run_sql (command (\<lambda>w. None)
     (\<lambda>now w. w\<lparr>w_conversations := update_rows (\<lambda>r. c_ID (fst r) = i)
        (\<lambda>r. ((fst r)\<lparr>c_UpdatedAt := now\<rparr>, Some now)) (w_conversations w)\<rparr>)))"

definition ConversationRepository_CountByUserID :: "uuid \<Rightarrow> ('x world_scheme, int) go" where
  "ConversationRepository_CountByUserID userID = wrapG ''count conversations'' (run_sql (query
     (\<lambda>w. int (length (filter (\<lambda>c. c_UserID c = userID) (live_conversations w))))))"

definition ConversationRepository :: "'x world_scheme conversation_repository" where
  "ConversationRepository = \<lparr>cr_Create = ConversationRepository_Create, cr_FindByID = ConversationRepository_FindByID,
     cr_FindByUserID = ConversationRepository_FindByUserID, cr_Update = ConversationRepository_Update,
     cr_UpdateWorkflowState = ConversationRepository_UpdateWorkflowState, cr_Delete = ConversationRepository_Delete,
     cr_CountByUserID = ConversationRepository_CountByUserID\<rparr>"

section \<open>\<open>message_repository.go\<close>\<close>

text \<open>
  The tool calls travel as JSON, the latency as whole milliseconds (\<open>NULL\<close> when it is not
  positive); the database numbers the messages.
\<close>

definition tool_calls_column :: "tool_call list \<Rightarrow> tool_call list" where
  "tool_calls_column calls = (if calls = [] then [] else
     (case dec_list dec_tool_call (JArr (map tool_call_json calls)) of Some cs \<Rightarrow> cs | None \<Rightarrow> []))"

definition millisecond :: duration where "millisecond = 1000000"

definition latency_column :: "duration \<Rightarrow> duration" where
  "latency_column l = (if 0 < l then (l div millisecond) * millisecond else 0)"

definition message_checks :: "message \<Rightarrow> 'x world_scheme \<Rightarrow> (bool \<times> string) list" where
  "message_checks m w =
     [varchar 100 (m_Name m), varchar 100 (m_ToolCallID m), varchar 100 (m_Model m),
      int4 (m_PromptTokens m), int4 (m_CompletionTokens m),
      (0 < m_Latency m \<longrightarrow> m_Latency m div millisecond < 2 ^ 31, ''value out of range for int4''),
      (w_seq w < 2 ^ 31, ''nextval: reached maximum value of sequence''),
      unique (m_ID m \<notin> m_ID ` set (w_messages w)),
      references (m_ConversationID m \<in> (\<lambda>r. c_ID (fst r)) ` set (w_conversations w))]"

definition insert_message :: "message \<Rightarrow> 'x world_scheme \<Rightarrow> 'x world_scheme" where
  "insert_message m w = w\<lparr>w_seq := w_seq w + 1, w_messages := w_messages w @
     [m\<lparr>m_ToolCalls := tool_calls_column (m_ToolCalls m), m_Latency := latency_column (m_Latency m),
        m_SequenceNumber := of_int (w_seq w)\<rparr>]\<rparr>"

definition MessageRepository_Create :: "message \<Rightarrow> ('x world_scheme, unit) go" where
  "MessageRepository_Create m = wrapG ''create message'' (run_sql (command
     (\<lambda>w. violation_of (message_checks m w)) (\<lambda>now w. insert_message m w)))"

text \<open>The loop of the batch: it stops at the first insert that fails.\<close>

fun insert_all :: "message list \<Rightarrow> ('x world_scheme, unit) go" where
  "insert_all [] = returnG ()"
| "insert_all (m # ms) =
     bindG (wrapG ''create batch message'' (run_sql (command
       (\<lambda>w. violation_of (message_checks m w)) (\<lambda>now w. insert_message m w)))) (\<lambda>_. insert_all ms)"

text \<open>
  A transaction: after an error the deferred rollback restores the tables; what a sequence
  has handed out stays consumed.
\<close>

definition rollback :: "'x world_scheme \<Rightarrow> 'x world_scheme \<Rightarrow> 'x world_scheme" where
  "rollback w w' = w'\<lparr>w_users := w_users w, w_tokens := w_tokens w, w_conversations := w_conversations w,
     w_messages := w_messages w, w_executions := w_executions w\<rparr>"

definition transaction :: "('x world_scheme, 'a) go \<Rightarrow> ('x world_scheme, 'a) go" where
  "transaction m w = (case m w of
     (Ret x, w') \<Rightarrow> (Ret x, w')
   | (Err e, w') \<Rightarrow> (Err e, rollback w w')
   | (Panic p, w') \<Rightarrow> (Panic p, rollback w w'))"

definition sql_unit :: "('x world_scheme, unit) go" where
  "sql_unit = run_sql (command (\<lambda>w. None) (\<lambda>now w. w))"

definition MessageRepository_CreateBatch :: "message list \<Rightarrow> ('x world_scheme, unit) go" where
  "MessageRepository_CreateBatch msgs =
     bindG (wrapG ''begin tx'' sql_unit) (\<lambda>_. transaction (bindG (insert_all msgs) (\<lambda>_. sql_unit)))"

definition conversation_messages :: "uuid \<Rightarrow> 'x world_scheme \<Rightarrow> message list" where
  "conversation_messages i w =
     order_rows (\<lambda>m. Some (sint (m_SequenceNumber m))) False (filter (\<lambda>m. m_ConversationID m = i) (w_messages w))"

definition queryMessages :: "('x, message list) stmt \<Rightarrow> ('x world_scheme, message list) go" where
  "queryMessages st = wrapG ''query messages'' (run_sql st)"

definition MessageRepository_FindByConversationID :: "uuid \<Rightarrow> ('x world_scheme, message list) go" where
  "MessageRepository_FindByConversationID i = queryMessages (query (conversation_messages i))"

definition MessageRepository_FindByConversationIDPaginated ::
    "uuid \<Rightarrow> go_int \<Rightarrow> go_int \<Rightarrow> ('x world_scheme, message list) go" where
  "MessageRepository_FindByConversationIDPaginated i lmt offset = queryMessages (\<lambda>now w.
     if lmt <s 0 \<or> offset <s 0 then Inl (Errorf ''LIMIT and OFFSET must not be negative'')
     else Inr (take (nat (sint lmt)) (drop (nat (sint offset)) (conversation_messages i w)), w))"

definition MessageRepository_FindLastN :: "uuid \<Rightarrow> go_int \<Rightarrow> ('x world_scheme, message list) go" where
  "MessageRepository_FindLastN i n = queryMessages (\<lambda>now w.
     if n <s 0 then Inl (Errorf ''LIMIT must not be negative'')
     else Inr (order_rows (\<lambda>m. Some (sint (m_SequenceNumber m))) False
       (take (nat (sint n)) (order_rows (\<lambda>m. Some (sint (m_SequenceNumber m))) True
          (filter (\<lambda>m. m_ConversationID m = i) (w_messages w)))), w))"

definition MessageRepository_CountByConversationID :: "uuid \<Rightarrow> ('x world_scheme, int) go" where
  "MessageRepository_CountByConversationID i = wrapG ''count messages'' (run_sql (query
     (\<lambda>w. int (length (filter (\<lambda>m. m_ConversationID m = i) (w_messages w))))))"

definition delete_messages :: "(message \<Rightarrow> bool) \<Rightarrow> 'x world_scheme \<Rightarrow> 'x world_scheme" where
  "delete_messages P w =
     (let gone = m_ID ` set (filter P (w_messages w)) in
      w\<lparr>w_messages := filter (\<lambda>m. \<not> P m) (w_messages w),
        w_executions := map (\<lambda>e. if (\<exists>j \<in> gone. x_MessageID e = Some j) then e\<lparr>x_MessageID := None\<rparr> else e)
          (w_executions w)\<rparr>)"

definition MessageRepository_Delete :: "uuid \<Rightarrow> ('x world_scheme, unit) go" where
  "MessageRepository_Delete i = wrapG ''delete message'' (run_sql (command (\<lambda>w. None)
     (\<lambda>now w. delete_messages (\<lambda>m. m_ID m = i) w)))"

definition MessageRepository_DeleteByConversationID :: "uuid \<Rightarrow> ('x world_scheme, unit) go" where
  "MessageRepository_DeleteByConversationID i = wrapG ''delete messages by conversation'' (run_sql (command (\<lambda>w. None)
     (\<lambda>now w. delete_messages (\<lambda>m. m_ConversationID m = i) w)))"

definition MessageRepository :: "'x world_scheme message_repository" where
  "MessageRepository = \<lparr>mr_Create = MessageRepository_Create, mr_CreateBatch = MessageRepository_CreateBatch,
     mr_FindByConversationID = MessageRepository_FindByConversationID,
     mr_FindByConversationIDPaginated = MessageRepository_FindByConversationIDPaginated,
     mr_FindLastN = MessageRepository_FindLastN, mr_CountByConversationID = MessageRepository_CountByConversationID,
     mr_Delete = MessageRepository_Delete, mr_DeleteByConversationID = MessageRepository_DeleteByConversationID\<rparr>"

section \<open>\<open>tool_execution_repository.go\<close>\<close>

definition optional_ref :: "'k option \<Rightarrow> 'k set \<Rightarrow> bool \<times> string" where
  "optional_ref r ks = references (case r of None \<Rightarrow> True | Some k \<Rightarrow> k \<in> ks)"

definition optional_int4 :: "go_int option \<Rightarrow> bool \<times> string" where
  "optional_int4 i = (case i of None \<Rightarrow> (True, []) | Some n \<Rightarrow> int4 n)"

definition ToolExecutionRepository_Create :: "tool_execution \<Rightarrow> ('x world_scheme, unit) go" where
  "ToolExecutionRepository_Create e = wrapG ''create tool execution'' (run_sql (command
     (\<lambda>w. violation_of [(x_Input e \<noteq> None, ''null value violates not-null constraint''), jsonb_ok (x_Input e), jsonb_ok (x_Output e),
        varchar 255 (x_ToolName e), varchar 100 (x_ToolCallID e), optional_int4 (x_DurationMs e),
        unique (x_ID e \<notin> x_ID ` set (w_executions w)),
        optional_ref (x_ConversationID e) ((\<lambda>r. c_ID (fst r)) ` set (w_conversations w)),
        optional_ref (x_MessageID e) (m_ID ` set (w_messages w)),
        references (x_UserID e \<in> u_ID ` set (w_users w)),
        optional_ref (x_TokenID e) (t_ID ` set (w_tokens w)),
        optional_ref (x_ApprovedBy e) (u_ID ` set (w_users w))])
     (\<lambda>now w. w\<lparr>w_executions := w_executions w @
        [e\<lparr>x_Input := jsonb_col (x_Input e), x_Output := jsonb_col (x_Output e)\<rparr>]\<rparr>)))"

definition ToolExecutionRepository_FindByID :: "uuid \<Rightarrow> ('x world_scheme, tool_execution) go" where
  "ToolExecutionRepository_FindByID i = no_rows_or ''tool execution not found'' ''find tool execution by id''
     (run_sql (query_row (\<lambda>w. find (\<lambda>e. x_ID e = i) (w_executions w))))"

definition ToolExecutionRepository_FindByConversationID :: "uuid \<Rightarrow> ('x world_scheme, tool_execution list) go" where
  "ToolExecutionRepository_FindByConversationID i = wrapG ''find tool executions by conversation id'' (run_sql (query
     (\<lambda>w. order_rows (\<lambda>e. Some (x_CreatedAt e)) False (filter (\<lambda>e. x_ConversationID e = Some i) (w_executions w)))))"

definition ToolExecutionRepository_UpdateStatus ::
    "uuid \<Rightarrow> tool_execution_status \<Rightarrow> gomap option \<Rightarrow> string \<Rightarrow> go_int option \<Rightarrow> ('x world_scheme, unit) go" where
  "ToolExecutionRepository_UpdateStatus i status output errMsg durationMs = wrapG ''update tool execution status''
     (run_sql (command (\<lambda>w. violation_of [jsonb_ok output, optional_int4 durationMs])
     (\<lambda>now w. w\<lparr>w_executions := update_rows (\<lambda>e. x_ID e = i)
        (\<lambda>e. e\<lparr>x_Status := status, x_Output := jsonb_col output, x_ErrorMessage := errMsg, x_DurationMs := durationMs,
              x_CompletedAt := Some now\<rparr>) (w_executions w)\<rparr>)))"

definition ToolExecutionRepository :: "'x world_scheme tool_execution_repository" where
  "ToolExecutionRepository = \<lparr>xr_Create = ToolExecutionRepository_Create, xr_FindByID = ToolExecutionRepository_FindByID,
     xr_FindByConversationID = ToolExecutionRepository_FindByConversationID,
     xr_UpdateStatus = ToolExecutionRepository_UpdateStatus\<rparr>"

end
