(* ===== verification/Chat_Usecases.thy ===== *)
theory Chat_Usecases
  imports Repositories Ports
begin

text \<open>
  \<open>internal/application/usecase/chat\<close>: sending a message, deciding an approval, reading
  conversations. The repositories, the model and the workflow engine are the records of
  their interfaces; \<open>rt\<close> supplies clock and UUIDs.
\<close>

definition outcomeG :: "'a outcome \<Rightarrow> ('w, 'a) go" where
  "outcomeG x w = (x, w)"

lemma outcomeG_apply [simp]: "outcomeG x w = (x, w)"
  by (simp add: outcomeG_def)

section \<open>Constructors that draw a UUID and read the clock\<close>

definition new_conversation :: "'w runtime \<Rightarrow> uuid \<Rightarrow> string \<Rightarrow> ('w, conversation) go" where
  "new_conversation rt userID agentType =
     bindG (stateG (rt_uuid rt)) (\<lambda>cid. bindG (stateG (rt_now rt)) (\<lambda>t. bindG (stateG (rt_now rt)) (\<lambda>t'.
     returnG (NewConversation cid t t' userID agentType))))"

definition new_user_message :: "'w runtime \<Rightarrow> uuid \<Rightarrow> string \<Rightarrow> ('w, message) go" where
  "new_user_message rt convID content =
     bindG (stateG (rt_uuid rt)) (\<lambda>mid. bindG (stateG (rt_now rt)) (\<lambda>t.
     returnG (NewUserMessage mid t convID content)))"

definition new_assistant_message :: "'w runtime \<Rightarrow> uuid \<Rightarrow> string \<Rightarrow> tool_call list \<Rightarrow> string \<Rightarrow> ('w, message) go" where
  "new_assistant_message rt convID content calls model =
     bindG (stateG (rt_uuid rt)) (\<lambda>mid. bindG (stateG (rt_now rt)) (\<lambda>t.
     returnG (NewAssistantMessage mid t convID content calls model)))"

section \<open>\<open>send_message.go\<close>\<close>

record send_message_input =
  si_ConversationID :: "uuid option"
  si_UserID :: uuid
  si_Content :: string
  si_AgentType :: string
  si_Messages :: "chat_message list"
  si_Model :: string
  si_Tools :: "tool_spec list"

record send_message_output =
  so_ConversationID :: uuid
  so_Message :: "message option"
  so_Response :: string

record 'w send_message_usecase =
  su_convRepo :: "'w conversation_repository"
  su_msgRepo :: "'w message_repository"
  su_llm :: "'w llm_provider"
  su_engine :: "'w workflow_engine"
  su_defaultModel :: string

definition NewSendMessageUseCase ::
    "'w conversation_repository \<Rightarrow> 'w message_repository \<Rightarrow> 'w llm_provider \<Rightarrow> 'w workflow_engine \<Rightarrow> string \<Rightarrow> 'w send_message_usecase" where
  "NewSendMessageUseCase convRepo msgRepo llm engine defaultModel =
     \<lparr>su_convRepo = convRepo, su_msgRepo = msgRepo, su_llm = llm, su_engine = engine,
      su_defaultModel = (if defaultModel = [] then ''gpt-4o-mini'' else defaultModel)\<rparr>"

definition chosen_model :: "'w send_message_usecase \<Rightarrow> send_message_input \<Rightarrow> string" where
  "chosen_model uc input = (if si_Model input = [] then su_defaultModel uc else si_Model input)"

text \<open>The stateless path: the caller's messages go to the model, the database is not touched.\<close>

definition send_stateless :: "'w send_message_usecase \<Rightarrow> send_message_input \<Rightarrow> ('w, send_message_output) go" where
  "send_stateless uc input =
     bindG (wrapG ''LLM call'' (llm_Chat (su_llm uc) (chat_request0
       \<lparr>rq_Model := chosen_model uc input, rq_Messages := si_Messages input, rq_Tools := si_Tools input\<rparr>))) (\<lambda>resp.
     (case rs_Choices resp of
        [] \<Rightarrow> failG (Errorf ''no response from LLM'')
      | ch # _ \<Rightarrow> returnG \<lparr>so_ConversationID = 0, so_Message = None, so_Response = cm_Content (ch_Message ch)\<rparr>))"

definition send_conversation :: "'w runtime \<Rightarrow> 'w send_message_usecase \<Rightarrow> send_message_input \<Rightarrow> ('w, conversation) go" where
  "send_conversation rt uc input = (case si_ConversationID input of
     Some i \<Rightarrow>
       bindG (wrapG ''conversation not found'' (cr_FindByID (su_convRepo uc) i)) (\<lambda>conv.
       if c_UserID conv \<noteq> si_UserID input then failG (Errorf ''unauthorized access to conversation'')
       else returnG conv)
   | None \<Rightarrow>
       (let agentType = (if si_AgentType input = [] then ''general'' else si_AgentType input) in
        bindG (new_conversation rt (si_UserID input) agentType) (\<lambda>conv.
        bindG (wrapG ''create conversation'' (cr_Create (su_convRepo uc) conv)) (\<lambda>_.
        returnG conv))))"

definition to_chat_message :: "message \<Rightarrow> chat_message" where
  "to_chat_message m = \<lparr>cm_Role = message_role_text (m_Role m), cm_Content = m_Content m, cm_Name = m_Name m,
     cm_ToolCalls = [], cm_ToolCallID = m_ToolCallID m\<rparr>"

text \<open>A workflow that paused: its state is written, then the conversation as it is in memory.\<close>

definition send_paused :: "'w runtime \<Rightarrow> 'w send_message_usecase \<Rightarrow> conversation \<Rightarrow> workflow_output \<Rightarrow> ('w, send_message_output) go" where
  "send_paused rt uc conv result =
     bindG (wrapG ''persist paused state'' (cr_UpdateWorkflowState (su_convRepo uc) (c_ID conv)
       [(''paused_state'', AStr (wo_PausedStateJSON result))])) (\<lambda>_.
     bindG (stateG (rt_now rt)) (\<lambda>now.
     bindG (outcomeG (Conversation_RequestApproval now (wo_AgentType result)
       [(''reason'', AStr (wo_ApprovalReason result))] conv)) (\<lambda>conv'.
     bindG (wrapG ''update conversation status'' (cr_Update (su_convRepo uc) conv')) (\<lambda>_.
     returnG \<lparr>so_ConversationID = c_ID conv, so_Message = None, so_Response = ''pending_approval''\<rparr>))))"

definition send_finished ::
    "'w runtime \<Rightarrow> 'w send_message_usecase \<Rightarrow> send_message_input \<Rightarrow> conversation \<Rightarrow> workflow_output \<Rightarrow> ('w, send_message_output) go" where
  "send_finished rt uc input conv result =
     bindG (new_assistant_message rt (c_ID conv) (wo_Response result) [] (chosen_model uc input)) (\<lambda>assistantMsg.
     bindG (wrapG ''save assistant message'' (mr_Create (su_msgRepo uc) assistantMsg)) (\<lambda>_.
     bindG (stateG (rt_now rt)) (\<lambda>t.
     bindG (stateG (rt_now rt)) (\<lambda>t'.
     (let conv' = Conversation_SetTitle t' (si_Content input)
                    (Conversation_AddMessageStats t (wo_TokensUsed result) (wo_ToolCallsCount result) conv) in
      bindG (wrapG ''update conversation'' (cr_Update (su_convRepo uc) conv')) (\<lambda>_.
      returnG \<lparr>so_ConversationID = c_ID conv, so_Message = Some assistantMsg, so_Response = wo_Response result\<rparr>))))))"

definition SendMessage_Execute :: "'w runtime \<Rightarrow> 'w send_message_usecase \<Rightarrow> send_message_input \<Rightarrow> ('w, send_message_output) go" where
  "SendMessage_Execute rt uc input =
     (if length (si_Messages input) > 0 then send_stateless uc input
      else
        bindG (send_conversation rt uc input) (\<lambda>conv.
        bindG (new_user_message rt (c_ID conv) (si_Content input)) (\<lambda>userMsg.
        bindG (wrapG ''save user message'' (mr_Create (su_msgRepo uc) userMsg)) (\<lambda>_.
        bindG (wrapG ''get messages'' (mr_FindByConversationID (su_msgRepo uc) (c_ID conv))) (\<lambda>messages.
        bindG (wrapG ''workflow run'' (we_Run (su_engine uc)
          \<lparr>wi_ConversationID = c_ID conv, wi_UserID = si_UserID input, wi_Content = si_Content input,
           wi_Model = chosen_model uc input, wi_Messages = map to_chat_message messages,
           wi_Temperature = c_Temperature conv\<rparr>)) (\<lambda>result.
        if wo_RequiresApproval result then send_paused rt uc conv result
        else send_finished rt uc input conv result))))))"

definition SendMessage_ExecuteStream :: "'w send_message_usecase \<Rightarrow> send_message_input \<Rightarrow> ('w, stream_event list) go" where
  "SendMessage_ExecuteStream uc input = llm_ChatStream (su_llm uc) (chat_request0
     \<lparr>rq_Model := chosen_model uc input, rq_Messages := si_Messages input, rq_Tools := si_Tools input, rq_Stream := True\<rparr>)"

section \<open>\<open>approve_action.go\<close>\<close>

record approve_input =
  ai_ConversationID :: uuid
  ai_UserID :: uuid
  ai_Approved :: bool
  ai_Reason :: string

record approve_output =
  ao_Conversation :: conversation
  ao_Status :: string
  ao_Response :: string

record 'w approve_usecase =
  au_convRepo :: "'w conversation_repository"
  au_msgRepo :: "'w message_repository"
  au_engine :: "'w workflow_engine"

definition NewApproveActionUseCase :: "'w conversation_repository \<Rightarrow> 'w message_repository \<Rightarrow> 'w workflow_engine \<Rightarrow> 'w approve_usecase" where
  [simp]: "NewApproveActionUseCase convRepo msgRepo engine = \<lparr>au_convRepo = convRepo, au_msgRepo = msgRepo, au_engine = engine\<rparr>"

text \<open>\<open>conv.WorkflowState["paused_state"].(string)\<close>; reading a nil map finds nothing.\<close>

definition paused_state :: "conversation \<Rightarrow> goerror + string" where
  "paused_state conv = (case (case c_WorkflowState conv of None \<Rightarrow> None | Some m \<Rightarrow> map_of m ''paused_state'') of
     None \<Rightarrow> Inl (Errorf ''no paused workflow state found in conversation'')
   | Some (AStr s) \<Rightarrow> Inr s
   | Some _ \<Rightarrow> Inl (Errorf ''invalid paused workflow state format''))"

definition approve_message :: "'w runtime \<Rightarrow> 'w approve_usecase \<Rightarrow> conversation \<Rightarrow> workflow_output \<Rightarrow> ('w, unit) go" where
  "approve_message rt uc conv result =
     (if wo_Response result \<noteq> [] then
        bindG (new_assistant_message rt (c_ID conv) (wo_Response result) [] []) (\<lambda>msg.
        wrapG ''save assistant message'' (mr_Create (au_msgRepo uc) msg))
      else returnG ())"

text \<open>The conversation after the decision, when the workflow paused again and when it did not.\<close>

definition approve_decision ::
    "'w runtime \<Rightarrow> 'w approve_usecase \<Rightarrow> approve_input \<Rightarrow> conversation \<Rightarrow> workflow_output \<Rightarrow> ('w, conversation) go" where
  "approve_decision rt uc input conv result =
     (if wo_RequiresApproval result then
        bindG (wrapG ''persist next paused state'' (cr_UpdateWorkflowState (au_convRepo uc) (c_ID conv)
          [(''paused_state'', AStr (wo_PausedStateJSON result))])) (\<lambda>_.
        bindG (stateG (rt_now rt)) (\<lambda>now.
        outcomeG (Conversation_RequestApproval now (wo_AgentType result) [(''reason'', AStr (wo_ApprovalReason result))] conv)))
      else if ai_Approved input then
        bindG (stateG (rt_now rt)) (\<lambda>now. returnG (Conversation_Approve now conv))
      else
        bindG (stateG (rt_now rt)) (\<lambda>t. bindG (stateG (rt_now rt)) (\<lambda>t'.
        outcomeG (Conversation_Reject t t' (ai_Reason input) conv))))"

definition approve_status :: "approve_input \<Rightarrow> workflow_output \<Rightarrow> string" where
  "approve_status input result =
     (let status = (if ai_Approved input then ''approved'' else ''rejected'')
      in if wo_RequiresApproval result then ''pending_approval'' else status)"

definition ApproveAction_Execute :: "'w runtime \<Rightarrow> 'w approve_usecase \<Rightarrow> approve_input \<Rightarrow> ('w, approve_output) go" where
  "ApproveAction_Execute rt uc input =
     bindG (wrapG ''conversation not found'' (cr_FindByID (au_convRepo uc) (ai_ConversationID input))) (\<lambda>conv.
     if c_UserID conv \<noteq> ai_UserID input then failG (Errorf ''unauthorized access to conversation'')
     else if \<not> Conversation_IsPendingApproval conv then failG (Errorf ''conversation is not pending approval'')
     else (case paused_state conv of
       Inl e \<Rightarrow> failG e
     | Inr stateJSON \<Rightarrow>
       bindG (wrapG ''resume workflow'' (we_Resume (au_engine uc) stateJSON (ai_Approved input))) (\<lambda>result.
       bindG (approve_message rt uc conv result) (\<lambda>_.
       bindG (stateG (rt_now rt)) (\<lambda>now.
       (let conv1 = Conversation_AddMessageStats now (wo_TokensUsed result) (wo_ToolCallsCount result) conv in
        bindG (approve_decision rt uc input conv1 result) (\<lambda>conv2.
        bindG (wrapG ''update conversation'' (cr_Update (au_convRepo uc) conv2)) (\<lambda>_.
        returnG \<lparr>ao_Conversation = conv2, ao_Status = approve_status input result, ao_Response = wo_Response result\<rparr>))))))))"

section \<open>\<open>get_conversation.go\<close>, \<open>list_conversations.go\<close>\<close>

record get_conversation_output =
  go_Conversation :: conversation
  go_Messages :: "message list"

definition GetConversation_Execute ::
    "'w conversation_repository \<Rightarrow> 'w message_repository \<Rightarrow> uuid \<Rightarrow> uuid \<Rightarrow> ('w, get_conversation_output) go" where
  "GetConversation_Execute convRepo msgRepo convID userID =
     bindG (wrapG ''conversation not found'' (cr_FindByID convRepo convID)) (\<lambda>conv.
     if c_UserID conv \<noteq> userID then failG (Errorf ''unauthorized access to conversation'')
     else
       bindG (wrapG ''get messages'' (mr_FindByConversationID msgRepo convID)) (\<lambda>messages.
       returnG \<lparr>go_Conversation = conv, go_Messages = messages\<rparr>))"

record list_conversations_output =
  lo_Conversations :: "conversation list"
  lo_Total :: int

definition ListConversations_Execute :: "'w conversation_repository \<Rightarrow> uuid \<Rightarrow> ('w, list_conversations_output) go" where
  "ListConversations_Execute convRepo userID =
     bindG (wrapG ''list conversations'' (cr_FindByUserID convRepo userID
       (conversation_filter0\<lparr>cf_Limit := 50, cf_OrderBy := ''updated_at'', cf_Order := ''DESC''\<rparr>))) (\<lambda>conversations.
     bindG (wrapG ''count conversations'' (cr_CountByUserID convRepo userID)) (\<lambda>total.
     returnG \<lparr>lo_Conversations = conversations, lo_Total = total\<rparr>))"

end
