(* ===== verification/Value_Objects.thy ===== *)
theory Value_Objects
  imports Entities
begin

text \<open>
  \<open>internal/domain/valueobject\<close>, \<open>internal/domain/event\<close> and \<open>internal/pkg/errors\<close>.
  The RFC 5322 address parser of \<open>net/mail\<close> is the parameter \<open>parse_address\<close>: the code
  only asks whether it accepts.
\<close>

section \<open>Email (\<open>valueobject/email.go\<close>)\<close>

record email = e_value :: string

definition NewEmail :: "(string \<Rightarrow> bool) \<Rightarrow> string \<Rightarrow> goerror + email" where
  "NewEmail parse_address address0 =
     (let address = trim_space (to_lower address0) in
      if address = [] then Inl (Errorf ''email cannot be empty'')
      else if \<not> parse_address address then Inl (Errorf (''invalid email format: '' @ address))
      else Inr \<lparr>e_value = address\<rparr>)"

definition Email_String :: "email \<Rightarrow> string" where
  "Email_String e = e_value e"

text \<open>\<open>strings.SplitN(s, "@", 2)\<close>: one part without a separator, else the text around the first.\<close>

definition split_at_first :: "char \<Rightarrow> string \<Rightarrow> string list" where
  "split_at_first c s = (if c \<in> set s then [takeWhile (\<lambda>x. x \<noteq> c) s, drop 1 (dropWhile (\<lambda>x. x \<noteq> c) s)] else [s])"

definition Email_Domain :: "email \<Rightarrow> string" where
  "Email_Domain e = (let parts = split_at_first (CHR ''@'') (e_value e) in
     if length parts \<noteq> 2 then [] else parts ! 1)"

definition Email_Equals :: "email \<Rightarrow> email \<Rightarrow> bool" where
  "Email_Equals e other \<longleftrightarrow> e_value e = e_value other"

lemma lower_char_idem [simp]: "lower_char (lower_char c) = lower_char c"
  by (auto simp: lower_char_def of_char_of)

lemma to_lower_idem: "to_lower (to_lower s) = to_lower s"
  by (simp add: to_lower_def)

lemma dropWhile_rev_trim:
  "dropWhile P (rev (dropWhile P (rev (dropWhile P s)))) = rev (dropWhile P (rev (dropWhile P s)))"
proof (cases "dropWhile P s")
  case (Cons c t)
  then have c: "\<not> P c" by (metis dropWhile_eq_Cons_conv)
  then have "dropWhile P (rev (c # t)) = dropWhile P (rev t) @ [c]"
    by (simp add: dropWhile_append3)
  with Cons c show ?thesis by simp
next
  case Nil
  show ?thesis unfolding Nil by simp
qed

lemma trim_space_idem: "trim_space (trim_space s) = trim_space s"
  by (simp add: trim_space_def dropWhile_rev_trim)

lemma map_dropWhile_comm: "(\<And>x. P (f x) = P x) \<Longrightarrow> map f (dropWhile P s) = dropWhile P (map f s)"
  by (induction s) auto

lemma is_space_lower: "is_space (lower_char c) = is_space c"
  by (auto simp: is_space_def lower_char_def of_char_of)

lemma to_lower_trim: "to_lower (trim_space s) = trim_space (to_lower s)"
  by (simp add: to_lower_def trim_space_def rev_map map_dropWhile_comm is_space_lower flip: rev_map)

section \<open>Message roles (\<open>valueobject/message_role.go\<close>)\<close>

definition NewMessageRole :: "string \<Rightarrow> goerror + message_role" where
  "NewMessageRole role =
     (if role = ''system'' then Inr RoleSystem else if role = ''user'' then Inr RoleUser
      else if role = ''assistant'' then Inr RoleAssistant else if role = ''tool'' then Inr RoleTool
      else Inl (Errorf (''invalid message role: '' @ role)))"

definition MessageRole_String :: "message_role \<Rightarrow> string" where
  "MessageRole_String r = message_role_text r"

definition MessageRole_IsAssistant :: "message_role \<Rightarrow> bool" where
  "MessageRole_IsAssistant r \<longleftrightarrow> r = RoleAssistant"

definition MessageRole_IsTool :: "message_role \<Rightarrow> bool" where
  "MessageRole_IsTool r \<longleftrightarrow> r = RoleTool"

text \<open>The text of a role is parsed back, and nothing else is.\<close>

lemma NewMessageRole_iff: "NewMessageRole s = Inr r \<longleftrightarrow> s = MessageRole_String r"
  by (cases r) (auto simp: NewMessageRole_def MessageRole_String_def)

section \<open>Tool calls (\<open>valueobject/tool_call.go\<close>)\<close>

record value_tool_function =
  vf_Name :: string
  vf_Arguments :: string

record value_tool_call =
  vt_ID :: string
  vt_Type :: string
  vt_Function :: value_tool_function

text \<open>\<open>json.Valid\<close> is the parser's acceptance.\<close>

definition NewToolCall :: "string \<Rightarrow> string \<Rightarrow> string \<Rightarrow> goerror + value_tool_call" where
  "NewToolCall cid name arguments =
     (if cid = [] then Inl (Errorf ''tool call id cannot be empty'')
      else if name = [] then Inl (Errorf ''tool call function name cannot be empty'')
      else if json_parse arguments = None then Inl (Errorf ''tool call arguments must be valid JSON'')
      else Inr \<lparr>vt_ID = cid, vt_Type = ''function'',
                vt_Function = \<lparr>vf_Name = name, vf_Arguments = arguments\<rparr>\<rparr>)"

text \<open>\<open>dec\<close> is what \<open>json.Unmarshal\<close> makes of a document for the type of its target.\<close>

definition ToolCall_ParseArguments :: "(json \<Rightarrow> goerror + 'v) \<Rightarrow> value_tool_call \<Rightarrow> goerror + 'v" where
  "ToolCall_ParseArguments dec tc = (case json_parse (vf_Arguments (vt_Function tc)) of
     None \<Rightarrow> Inl (Errorf ''invalid JSON'')
   | Some j \<Rightarrow> dec j)"

text \<open>The arguments of a constructed call are a document: only its type can be wrong.\<close>

lemma NewToolCall_parses:
  assumes "NewToolCall cid name arguments = Inr tc"
  shows "\<exists>j. json_parse arguments = Some j \<and> ToolCall_ParseArguments dec tc = dec j"
  using assms by (auto simp: NewToolCall_def ToolCall_ParseArguments_def split: if_splits)

section \<open>Domain events (\<open>internal/domain/event\<close>)\<close>

record base_event =
  ev_ID :: uuid
  ev_Type :: string
  ev_Timestamp :: time

definition newBaseEvent :: "uuid \<Rightarrow> time \<Rightarrow> string \<Rightarrow> base_event" where
  "newBaseEvent eid now eventType = \<lparr>ev_ID = eid, ev_Type = eventType, ev_Timestamp = now\<rparr>"

text \<open>The interface \<open>DomainEvent\<close>, what every event with a \<open>baseEvent\<close> answers, and who publishes it.\<close>

record domain_event =
  de_EventID :: uuid
  de_EventType :: string
  de_OccurredAt :: time

definition as_domain_event :: "'e base_event_scheme \<Rightarrow> domain_event" where
  "as_domain_event e = \<lparr>de_EventID = ev_ID e, de_EventType = ev_Type e, de_OccurredAt = ev_Timestamp e\<rparr>"

record 'w event_publisher =
  ep_Publish :: "domain_event \<Rightarrow> ('w, unit) go"

definition MessageCreatedType :: string where
  "MessageCreatedType = ''message.created''"

definition ToolExecutedType :: string where
  "ToolExecutedType = ''tool.executed''"

definition ConversationCompletedType :: string where
  "ConversationCompletedType = ''conversation.completed''"

record message_created = base_event +
  mc_ConversationID :: uuid
  mc_MessageID :: uuid
  mc_Role :: message_role
  mc_HasToolCalls :: bool

definition NewMessageCreated :: "uuid \<Rightarrow> time \<Rightarrow> uuid \<Rightarrow> uuid \<Rightarrow> message_role \<Rightarrow> bool \<Rightarrow> message_created" where
  "NewMessageCreated eid now conversationID messageID role hasToolCalls =
     base_event.extend (newBaseEvent eid now MessageCreatedType)
       (message_created.fields conversationID messageID role hasToolCalls)"

record tool_executed = base_event +
  te_ConversationID :: uuid
  te_UserID :: uuid
  te_ToolName :: string
  te_ToolCallID :: string
  te_Success :: bool
  te_Duration :: duration
  te_ErrorMessage :: string

definition NewToolExecuted ::
    "uuid \<Rightarrow> time \<Rightarrow> uuid \<Rightarrow> uuid \<Rightarrow> string \<Rightarrow> string \<Rightarrow> bool \<Rightarrow> duration \<Rightarrow> string \<Rightarrow> tool_executed" where
  "NewToolExecuted eid now conversationID userID toolName toolCallID success dur errMsg =
     base_event.extend (newBaseEvent eid now ToolExecutedType)
       (tool_executed.fields conversationID userID toolName toolCallID success dur errMsg)"

record conversation_completed = base_event +
  cc_ConversationID :: uuid
  cc_UserID :: uuid
  cc_MessageCount :: go_int
  cc_ToolCallCount :: go_int
  cc_TotalTokens :: go_int
  cc_TotalCost :: f64

definition NewConversationCompleted ::
    "uuid \<Rightarrow> time \<Rightarrow> uuid \<Rightarrow> uuid \<Rightarrow> go_int \<Rightarrow> go_int \<Rightarrow> go_int \<Rightarrow> f64 \<Rightarrow> conversation_completed" where
  "NewConversationCompleted eid now conversationID userID messageCount toolCallCount totalTokens totalCost =
     base_event.extend (newBaseEvent eid now ConversationCompletedType)
       (conversation_completed.fields conversationID userID messageCount toolCallCount totalTokens totalCost)"

text \<open>Events of different kinds are told apart by their type.\<close>

lemma event_types:
  "de_EventType (as_domain_event (NewMessageCreated i t cv mi r b)) = MessageCreatedType"
  "de_EventType (as_domain_event (NewToolExecuted i t cv u n tid b d e)) = ToolExecutedType"
  "de_EventType (as_domain_event (NewConversationCompleted i t cv u mc tcc tt cost)) = ConversationCompletedType"
  "distinct [MessageCreatedType, ToolExecutedType, ConversationCompletedType]"
  by (simp_all add: as_domain_event_def NewMessageCreated_def NewToolExecuted_def NewConversationCompleted_def newBaseEvent_def
      base_event.defs message_created.defs tool_executed.defs conversation_completed.defs
      MessageCreatedType_def ToolExecutedType_def ConversationCompletedType_def)

section \<open>Application errors (\<open>internal/pkg/errors/errors.go\<close>)\<close>

record app_error =
  ae_Code :: string
  ae_Message :: string
  ae_StatusCode :: go_int
  ae_Err :: "goerror option"

definition AppError_Error :: "app_error \<Rightarrow> string" where
  "AppError_Error e = (case ae_Err e of
     Some err \<Rightarrow> ae_Message e @ '': '' @ error_msg err
   | None \<Rightarrow> ae_Message e)"

definition AppError_Wrap :: "app_error \<Rightarrow> goerror option \<Rightarrow> app_error" where
  "AppError_Wrap e err = \<lparr>ae_Code = ae_Code e, ae_Message = ae_Message e, ae_StatusCode = ae_StatusCode e, ae_Err = err\<rparr>"

definition AppError_Unwrap :: "app_error \<Rightarrow> goerror option" where
  "AppError_Unwrap e = ae_Err e"

text \<open>The \<open>var\<close> block: code, message and HTTP status of each application error.\<close>

definition app_errors :: "app_error list" where
  "app_errors = map (\<lambda>(c, m, s). \<lparr>ae_Code = c, ae_Message = m, ae_StatusCode = s, ae_Err = None\<rparr>)
     [(''NOT_FOUND'', ''Resource not found'', 404),
      (''UNAUTHORIZED'', ''Unauthorized'', 401),
      (''FORBIDDEN'', ''Forbidden'', 403),
      (''TOKEN_EXPIRED'', ''Token has expired'', 401),
      (''INVALID_TOKEN'', ''Invalid token'', 401),
      (''RATE_LIMIT'', ''Rate limit exceeded'', 429),
      (''TOOL_EXEC_FAILED'', ''Tool execution failed'', 500),
      (''TOOL_NOT_ALLOWED'', ''Tool not allowed for this token'', 403),
      (''PENDING_APPROVAL'', ''Action pending approval'', 202),
      (''VALIDATION_ERROR'', ''Validation failed'', 400),
      (''INTERNAL_ERROR'', ''Internal server error'', 500)]"

end
