(* ===== verification/Auth_Usecases.thy ===== *)
theory Auth_Usecases
  imports Repositories Value_Objects
begin

text \<open>
  \<open>internal/pkg/jwt\<close>, \<open>internal/application/usecase/auth\<close> and \<open>usecase/user\<close>. Three libraries
  are parameters: the JWT library (\<open>jwt_library\<close>), SHA-256 in hexadecimal (\<open>sha256_hex\<close>) and
  bcrypt (\<open>bcrypt_library\<close>, whose hashing draws a salt and may fail).
\<close>

section \<open>\<open>internal/pkg/jwt/jwt.go\<close>\<close>

record claims =
  cl_UserID :: uuid
  cl_TokenID :: uuid
  cl_TokenType :: string
  cl_ExpiresAt :: time
  cl_IssuedAt :: time
  cl_Issuer :: string

text \<open>
  \<open>jl_Sign secret claims\<close> is the HS256 signature; \<open>jl_Parse keyfunc now text\<close> decodes the text,
  asks \<open>keyfunc\<close> for the key (its argument says whether the token's method is HMAC), checks the
  signature and the expiry, and gives the claims, if they have the type asked for, and the
  token's validity.
\<close>

record jwt_library =
  jl_Sign :: "string \<Rightarrow> claims \<Rightarrow> goerror + string"
  jl_Parse :: "(bool \<Rightarrow> goerror + string) \<Rightarrow> time \<Rightarrow> string \<Rightarrow> goerror + (claims option \<times> bool)"
  jl_NewNumericDate :: "time \<Rightarrow> time"

record jwt_manager =
  jm_secret :: string
  jm_accessTokenTTL :: duration
  jm_refreshTokenTTL :: duration
  jm_issuer :: string

definition NewJWTManager :: "string \<Rightarrow> duration \<Rightarrow> duration \<Rightarrow> jwt_manager" where
  "NewJWTManager secret accessTTL refreshTTL =
     \<lparr>jm_secret = secret, jm_accessTokenTTL = accessTTL, jm_refreshTokenTTL = refreshTTL, jm_issuer = ''go-agent-api''\<rparr>"

definition resultG :: "goerror + 'a \<Rightarrow> ('w, 'a) go" where
  "resultG r = (case r of Inl e \<Rightarrow> failG e | Inr x \<Rightarrow> returnG x)"

definition generate_token :: "'w runtime \<Rightarrow> jwt_library \<Rightarrow> jwt_manager \<Rightarrow> string \<Rightarrow> duration \<Rightarrow> uuid \<Rightarrow> uuid \<Rightarrow> ('w, string) go" where
  "generate_token rt lib m typ ttl userID tokenID =
     bindG (stateG (rt_now rt)) (\<lambda>t. bindG (stateG (rt_now rt)) (\<lambda>t'.
     resultG (jl_Sign lib (jm_secret m)
       \<lparr>cl_UserID = userID, cl_TokenID = tokenID, cl_TokenType = typ,
        cl_ExpiresAt = jl_NewNumericDate lib (t + ttl), cl_IssuedAt = jl_NewNumericDate lib t', cl_Issuer = jm_issuer m\<rparr>)))"

definition GenerateAccessToken :: "'w runtime \<Rightarrow> jwt_library \<Rightarrow> jwt_manager \<Rightarrow> uuid \<Rightarrow> uuid \<Rightarrow> ('w, string) go" where
  "GenerateAccessToken rt lib m = generate_token rt lib m ''access'' (jm_accessTokenTTL m)"

definition GenerateRefreshToken :: "'w runtime \<Rightarrow> jwt_library \<Rightarrow> jwt_manager \<Rightarrow> uuid \<Rightarrow> uuid \<Rightarrow> ('w, string) go" where
  "GenerateRefreshToken rt lib m = generate_token rt lib m ''refresh'' (jm_refreshTokenTTL m)"

definition key_func :: "jwt_manager \<Rightarrow> bool \<Rightarrow> goerror + string" where
  "key_func m hmac = (if hmac then Inr (jm_secret m) else Inl (Errorf ''unexpected signing method''))"

definition validate_claims :: "jwt_library \<Rightarrow> jwt_manager \<Rightarrow> time \<Rightarrow> string \<Rightarrow> goerror + claims" where
  "validate_claims lib m now tokenString = (case jl_Parse lib (key_func m) now tokenString of
     Inl e \<Rightarrow> Inl e
   | Inr (Some c, True) \<Rightarrow> Inr c
   | Inr _ \<Rightarrow> Inl (Errorf ''invalid token''))"

definition ValidateToken :: "'w runtime \<Rightarrow> jwt_library \<Rightarrow> jwt_manager \<Rightarrow> string \<Rightarrow> ('w, claims) go" where
  "ValidateToken rt lib m tokenString =
     bindG (stateG (rt_now rt)) (\<lambda>now. resultG (validate_claims lib m now tokenString))"

definition HashToken :: "(string \<Rightarrow> string) \<Rightarrow> string \<Rightarrow> string" where
  "HashToken sha256_hex rawToken = sha256_hex rawToken"

definition GenerateAPIKey :: "'w runtime \<Rightarrow> (uuid \<Rightarrow> string) \<Rightarrow> ('w, string) go" where
  "GenerateAPIKey rt uuid_text = bindG (stateG (rt_uuid rt)) (\<lambda>u. returnG (''sk-'' @ uuid_text u))"

section \<open>\<open>validate_token.go\<close>\<close>

record validate_token_result =
  vr_User :: user
  vr_Token :: token

record 'w auth_usecase =
  vu_tokenRepo :: "'w token_repository"
  vu_userRepo :: "'w user_repository"
  vu_jwtMgr :: jwt_manager

text \<open>The three use cases hold the same two stores and the manager of the tokens.\<close>

definition NewValidateTokenUseCase :: "'w token_repository \<Rightarrow> 'w user_repository \<Rightarrow> jwt_manager \<Rightarrow> 'w auth_usecase" where
  [simp]: "NewValidateTokenUseCase tokenRepo userRepo jwtMgr = \<lparr>vu_tokenRepo = tokenRepo, vu_userRepo = userRepo, vu_jwtMgr = jwtMgr\<rparr>"

definition NewLoginUseCase :: "'w user_repository \<Rightarrow> 'w token_repository \<Rightarrow> jwt_manager \<Rightarrow> 'w auth_usecase" where
  [simp]: "NewLoginUseCase userRepo tokenRepo jwtMgr = \<lparr>vu_tokenRepo = tokenRepo, vu_userRepo = userRepo, vu_jwtMgr = jwtMgr\<rparr>"

definition NewRefreshTokenUseCase :: "'w token_repository \<Rightarrow> 'w user_repository \<Rightarrow> jwt_manager \<Rightarrow> 'w auth_usecase" where
  [simp]: "NewRefreshTokenUseCase tokenRepo userRepo jwtMgr = \<lparr>vu_tokenRepo = tokenRepo, vu_userRepo = userRepo, vu_jwtMgr = jwtMgr\<rparr>"

text \<open>\<open>go f()\<close> with the result dropped: here it runs at once.\<close>

definition spawnG :: "('w, 'a) go \<Rightarrow> ('w, unit) go" where
  "spawnG m w = (case m w of (Panic p, w') \<Rightarrow> (Panic p, w') | (_, w') \<Rightarrow> (Ret (), w'))"

text \<open>The checks \<open>validateAPIKey\<close> and \<open>validateJWT\<close> share, after the token was found.\<close>

definition check_token :: "'w runtime \<Rightarrow> 'w auth_usecase \<Rightarrow> string \<Rightarrow> token \<Rightarrow> uuid \<Rightarrow> ('w, validate_token_result) go" where
  "check_token rt uc invalid token userID =
     bindG (stateG (rt_now rt)) (\<lambda>now.
     if \<not> Token_IsValid now token then failG (Errorf invalid)
     else
       bindG (maskG ''user not found'' (ur_FindByID (vu_userRepo uc) userID)) (\<lambda>user.
       if \<not> u_IsActive user then failG (Errorf ''user account is inactive'')
       else
         bindG (spawnG (kr_UpdateLastUsed (vu_tokenRepo uc) (t_ID token))) (\<lambda>_.
         returnG \<lparr>vr_User = user, vr_Token = token\<rparr>)))"

definition validateAPIKey :: "'w runtime \<Rightarrow> (string \<Rightarrow> string) \<Rightarrow> 'w auth_usecase \<Rightarrow> string \<Rightarrow> ('w, validate_token_result) go" where
  "validateAPIKey rt sha256_hex uc rawKey =
     bindG (maskG ''invalid API key'' (kr_FindByHash (vu_tokenRepo uc) (HashToken sha256_hex rawKey))) (\<lambda>token.
     check_token rt uc ''API key is expired or revoked'' token (t_UserID token))"

definition validateJWT :: "'w runtime \<Rightarrow> jwt_library \<Rightarrow> 'w auth_usecase \<Rightarrow> string \<Rightarrow> ('w, validate_token_result) go" where
  "validateJWT rt lib uc tokenString =
     bindG (wrapG ''invalid token'' (ValidateToken rt lib (vu_jwtMgr uc) tokenString)) (\<lambda>cl.
     bindG (maskG ''token not found'' (kr_FindByID (vu_tokenRepo uc) (cl_TokenID cl))) (\<lambda>token.
     check_token rt uc ''token is expired or revoked'' token (cl_UserID cl)))"

definition ValidateToken_Execute ::
    "'w runtime \<Rightarrow> jwt_library \<Rightarrow> (string \<Rightarrow> string) \<Rightarrow> 'w auth_usecase \<Rightarrow> string \<Rightarrow> ('w, validate_token_result) go" where
  "ValidateToken_Execute rt lib sha256_hex uc rawToken =
     (if has_prefix rawToken ''sk-'' then validateAPIKey rt sha256_hex uc rawToken else validateJWT rt lib uc rawToken)"

section \<open>\<open>login.go\<close>\<close>

record 'w bcrypt_library =
  bc_Compare :: "string \<Rightarrow> string \<Rightarrow> goerror option"
  bc_Generate :: "string \<Rightarrow> ('w, string) go"

record login_input =
  li_Email :: string
  li_Password :: string

record login_output =
  lg_AccessToken :: string
  lg_RefreshToken :: string
  lg_TokenType :: string
  lg_ExpiresIn :: go_int
  lg_User :: user

definition Login_Execute ::
    "'w runtime \<Rightarrow> jwt_library \<Rightarrow> (string \<Rightarrow> string) \<Rightarrow> (uuid \<Rightarrow> string) \<Rightarrow> 'w bcrypt_library \<Rightarrow> 'w auth_usecase \<Rightarrow> login_input
      \<Rightarrow> ('w, login_output) go" where
  "Login_Execute rt lib sha256_hex uuid_text bc uc input =
     bindG (maskG ''invalid credentials'' (ur_FindByEmail (vu_userRepo uc) (li_Email input))) (\<lambda>user.
     (case bc_Compare bc (u_PasswordHash user) (li_Password input) of
        Some e \<Rightarrow> failG (Errorf ''invalid credentials'')
      | None \<Rightarrow>
        if \<not> u_IsActive user then failG (Errorf ''user account is inactive'')
        else
          bindG (GenerateAPIKey rt uuid_text) (\<lambda>nonce.
          bindG (stateG (rt_now rt)) (\<lambda>t0.
          bindG (stateG (rt_uuid rt)) (\<lambda>tid.
          bindG (stateG (rt_now rt)) (\<lambda>t1.
          bindG (stateG (rt_now rt)) (\<lambda>t2.
          (let tokenEntity = (NewAPIKey tid t1 t2 (u_ID user) (HashToken sha256_hex nonce) ''session'' (t0 + 7 * 24 * hour))
                               \<lparr>t_TokenType := TokenTypeAccess\<rparr> in
           bindG (wrapG ''create token'' (kr_Create (vu_tokenRepo uc) tokenEntity)) (\<lambda>_.
           bindG (wrapG ''generate access token'' (GenerateAccessToken rt lib (vu_jwtMgr uc) (u_ID user) (t_ID tokenEntity))) (\<lambda>accessToken.
           bindG (wrapG ''generate refresh token'' (GenerateRefreshToken rt lib (vu_jwtMgr uc) (u_ID user) (t_ID tokenEntity))) (\<lambda>refreshToken.
           returnG \<lparr>lg_AccessToken = accessToken, lg_RefreshToken = refreshToken, lg_TokenType = ''Bearer'',
                    lg_ExpiresIn = 900, lg_User = user\<rparr>)))))))))))"

section \<open>\<open>refresh_token.go\<close>\<close>

record refresh_token_output =
  ro_AccessToken :: string
  ro_TokenType :: string
  ro_ExpiresIn :: go_int

definition RefreshToken_Execute :: "'w runtime \<Rightarrow> jwt_library \<Rightarrow> 'w auth_usecase \<Rightarrow> string \<Rightarrow> ('w, refresh_token_output) go" where
  "RefreshToken_Execute rt lib uc refreshToken =
     bindG (wrapG ''invalid refresh token'' (ValidateToken rt lib (vu_jwtMgr uc) refreshToken)) (\<lambda>cl.
     if cl_TokenType cl \<noteq> ''refresh'' then failG (Errorf ''not a refresh token'')
     else
       bindG (maskG ''token not found'' (kr_FindByID (vu_tokenRepo uc) (cl_TokenID cl))) (\<lambda>token.
       bindG (stateG (rt_now rt)) (\<lambda>now.
       if \<not> Token_IsValid now token then failG (Errorf ''token is expired or revoked'')
       else
         bindG (maskG ''user not found'' (ur_FindByID (vu_userRepo uc) (cl_UserID cl))) (\<lambda>user.
         if \<not> u_IsActive user then failG (Errorf ''user account is inactive'')
         else
           bindG (wrapG ''generate access token'' (GenerateAccessToken rt lib (vu_jwtMgr uc) (u_ID user) (t_ID token))) (\<lambda>accessToken.
           returnG \<lparr>ro_AccessToken = accessToken, ro_TokenType = ''Bearer'', ro_ExpiresIn = 900\<rparr>)))))"

section \<open>\<open>usecase/user/create_user.go\<close>\<close>

record create_user_input =
  ci_Email :: string
  ci_Password :: string
  ci_Name :: string

text \<open>The error of the first lookup is dropped: only a user found stops the registration.\<close>

definition CreateUser_Execute ::
    "'w runtime \<Rightarrow> 'w bcrypt_library \<Rightarrow> 'w user_repository \<Rightarrow> create_user_input \<Rightarrow> ('w, user) go" where
  "CreateUser_Execute rt bc userRepo input =
     bindG (attemptG (ur_FindByEmail userRepo (ci_Email input))) (\<lambda>existing.
     (case existing of
        Inr u \<Rightarrow> failG (Errorf ''email already registered'')
      | Inl _ \<Rightarrow>
        bindG (wrapG ''hash password'' (bc_Generate bc (ci_Password input))) (\<lambda>pwhash.
        bindG (stateG (rt_uuid rt)) (\<lambda>uid. bindG (stateG (rt_now rt)) (\<lambda>t. bindG (stateG (rt_now rt)) (\<lambda>t'.
        (let user = NewUser uid t t' (ci_Email input) pwhash (ci_Name input) in
         bindG (wrapG ''create user'' (ur_Create userRepo user)) (\<lambda>_. returnG user))))))))"

end
