(* ===== verification/Scenario.thy ===== *)
theory Scenario
  imports Chatbot_Graph Postgres Chat_Usecases Auth_Usecases
begin

text \<open>
  Concrete providers on which the theorems about the use cases and the workflow are
  exercised: a runtime, a language model, a tool that needs approval, a database with one
  user. They model no code of the repository.
\<close>

definition demo_runtime :: "'w runtime" where
  "demo_runtime = \<lparr>rt_now = (\<lambda>w. (0, w)), rt_uuid = (\<lambda>w. (1, w)), rt_range = (\<lambda>ks w. (ks, w))\<rparr>"

definition demo_reply :: "string \<Rightarrow> tool_call list \<Rightarrow> chat_response" where
  "demo_reply content calls = \<lparr>rs_ID = ''r1'', rs_Object = ''chat.completion'', rs_Created = 0, rs_Model = ''gpt-4o-mini'',
     rs_Choices = [\<lparr>ch_Index = 0, ch_Message = (chat_message_of ''assistant'' content)\<lparr>cm_ToolCalls := calls\<rparr>,
        ch_FinishReason = ''stop''\<rparr>],
     rs_Usage = \<lparr>us_PromptTokens = 5, us_CompletionTokens = 7, us_TotalTokens = 12\<rparr>\<rparr>"

definition demo_call :: tool_call where
  "demo_call = \<lparr>tc_ID = ''c1'', tc_Type = ''function'', tc_Function = \<lparr>fc_Name = ''deploy'', fc_Arguments = ''null''\<rparr>\<rparr>"

text \<open>A model that always sends the same reply.\<close>

definition demo_llm :: "tool_call list \<Rightarrow> 'w llm_provider" where
  "demo_llm calls = \<lparr>llm_Chat = (\<lambda>rq. returnG (demo_reply ''hello'' calls)), llm_ChatStream = (\<lambda>rq. returnG [])\<rparr>"

definition demo_tool :: "bool \<Rightarrow> (gomap \<Rightarrow> ('w, any) go) \<Rightarrow> 'w tool" where
  "demo_tool needs_approval run = \<lparr>tl_Name = ''deploy'', tl_Description = ''Deploy'',
     tl_Definition = NewTool ''deploy'' ''Deploy'' None, tl_Execute = run,
     tl_RequiresApproval = needs_approval, tl_Validate = BaseTool_Validate\<rparr>"

definition demo_registry :: "bool \<Rightarrow> (gomap \<Rightarrow> ('w, any) go) \<Rightarrow> 'w tool_registry" where
  "demo_registry needs_approval run = RegisterAll [demo_tool needs_approval run] NewToolRegistry"

definition demo_input :: workflow_input where
  "demo_input = \<lparr>wi_ConversationID = 1, wi_UserID = 7, wi_Content = ''hi'', wi_Model = [], wi_Messages = [],
     wi_Temperature = FNum 1\<rparr>"

definition demo_user :: user where
  "demo_user = NewUser 7 0 0 ''ann@example.org'' ''hash'' ''Ann''"

definition demo_world :: "user list \<Rightarrow> token list \<Rightarrow> (conversation \<times> time option) list \<Rightarrow> world" where
  "demo_world us ts cs = \<lparr>w_users = us, w_tokens = ts, w_conversations = cs, w_messages = [], w_executions = [],
     w_seq = 1, w_tick = 0, w_clock = (\<lambda>n. int n), w_uuids = (\<lambda>n. of_nat (100 + n)),
     w_order = (\<lambda>n ks. ks), w_fault = (\<lambda>n. None)\<rparr>"

definition demo_output :: "bool \<Rightarrow> workflow_output" where
  "demo_output paused = \<lparr>wo_Response = ''hello'', wo_TokensUsed = 12, wo_ToolCallsCount = 0, wo_AgentType = ''general'',
     wo_RequiresApproval = paused, wo_ApprovalReason = (if paused then ''deploy'' else []),
     wo_PausedStateJSON = (if paused then ''checkpoint'' else [])\<rparr>"

definition demo_engine :: "bool \<Rightarrow> 'w workflow_engine" where
  "demo_engine paused = \<lparr>we_Run = (\<lambda>inp. returnG (demo_output paused)), we_Resume = (\<lambda>state ok. returnG (demo_output paused))\<rparr>"

definition demo_claims :: "string \<Rightarrow> claims" where
  "demo_claims typ = \<lparr>cl_UserID = 7, cl_TokenID = 50, cl_TokenType = typ, cl_ExpiresAt = 1000, cl_IssuedAt = 0, cl_Issuer = ''go-agent-api''\<rparr>"

text \<open>A JWT library for one user and token: the text of a token is its type, it expires at 1000.\<close>

definition demo_jwt :: jwt_library where
  "demo_jwt = \<lparr>jl_Sign = (\<lambda>secret cl. Inr (cl_TokenType cl)), jl_Parse = (\<lambda>key now tok. if now \<le> 1000 then Inr (Some (demo_claims tok), True) else Inl (Errorf ''token is expired'')),
     jl_NewNumericDate = (\<lambda>t. t)\<rparr>"

definition demo_token :: token where
  "demo_token = NewAPIKey 50 0 0 7 ''sk-1'' ''laptop'' 1000"

definition demo_auth :: "world auth_usecase" where
  "demo_auth = \<lparr>vu_tokenRepo = TokenRepository, vu_userRepo = UserRepository, vu_jwtMgr = NewJWTManager ''s'' 900 3600\<rparr>"

definition demo_bcrypt :: "'w bcrypt_library" where
  "demo_bcrypt = \<lparr>bc_Compare = (\<lambda>h p. if h = p then None else Some (Errorf ''mismatch'')), bc_Generate = (\<lambda>p. returnG p)\<rparr>"

end
