(* ===== verification/Paused_Run.thy ===== *)
theory Paused_Run
  imports Chatbot_Correct Scenario
begin

text \<open>
  One run of the workflow, step by step: the model asks for a tool that needs approval, the
  run stops, and its state goes to JSON and back. The theorems about pauses and resumptions
  are exercised on it.
\<close>

lemma run_steps_Ret:
  "n \<noteq> END \<Longrightarrow> map_of (sg_nodes sg) n = Some f \<Longrightarrow> f s w = (Ret s', w') \<Longrightarrow> next_node sg n s' = Some m
    \<Longrightarrow> run_steps (Suc k) sg n s w = run_steps k sg m s' w'"
  by (simp add: run_steps_node)

lemma demo_pick: "pick_agent ''hi'' = ''general''"
  by code_simp

lemma demo_args: "ParseArguments demo_call = Inr []"
  by code_simp

lemma demo_time: "time_text_ok 0"
  by code_simp

lemma round64_1: "round64 False 1 = FNum 1"
  using round64_int [of 1 False] by simp

lemma ilog10_1: "ilog10_aux (Suc n) 1 = 0"
  by simp

lemma shortest_from_1: "shortest_from (Suc n) 1 0 = (1, 0)"
  using round_even_int [of 1] by (simp add: digits_at_def pow10_def round64_1)

lemma shortest_1: "shortest 1 = (1, 0)"
  using ilog10_1 [of 399] shortest_from_1 [of 15] by (simp add: shortest_def)

lemma int_digits_1: "int_digits 1 = ''1''" by code_simp
lemma format_1: "format_float (FNum 1) = Some ''1''"
  by (simp add: format_float_def format_pos_def shortest_1 strip_zeros_def int_digits_1)

lemma parse_1: "parse_decimal ''1'' = Some (FNum 1)"
  by (simp add: parse_decimal_def scan_sign_def scan_frac_def scan_exp_def is_digit_def digits_val_def digit_val_def pow10_def round64_1)

lemma float_text_1: "float_text_ok (FNum 1)"
  by (simp add: float_text_ok_def format_1 parse_1) (simp add: valid_number_def scan_sign_def is_digit_def scan_frac_def scan_exp_def is_num_char_def)
definition demo_gated :: "unit chatbot_graph" where
  "demo_gated = NewChatbotGraph (demo_llm [demo_call]) (demo_registry True (\<lambda>args. returnG (AStr ''ok'')))"

lemma demo_List: "Registry_List demo_runtime (cg_toolRegistry demo_gated) w = (Ret [NewTool ''deploy'' ''Deploy'' None], w)"
  by (simp add: Registry_List_def range_tools_def demo_registry_def Register_def NewToolRegistry_def demo_tool_def Registry_Get_def
      List.map_filter_def demo_runtime_def demo_gated_def NewChatbotGraph_def bindG_def)

lemma demo_Get: "Registry_Get (cg_toolRegistry demo_gated) ''deploy'' = Some (demo_tool True (\<lambda>args. returnG (AStr ''ok'')))"
  by (simp add: demo_registry_def Register_def NewToolRegistry_def demo_tool_def Registry_Get_def demo_gated_def NewChatbotGraph_def)

definition demo_s1 :: agent_state where
  "demo_s1 = (initial_state 1 0 demo_input)\<lparr>a_SystemPrompt := the (map_of system_prompts ''general''),
     a_CurrentAgent := ''general'', a_AgentHistory := [''general'']\<rparr>"

definition demo_s2 :: agent_state where
  "demo_s2 = demo_s1\<lparr>a_AvailableTools := [NewTool ''deploy'' ''Deploy'' None], a_TokensUsed := 12, a_CurrentOutput := ''hello'',
     a_PendingTools := [demo_call], a_Messages := [(chat_message_of ''assistant'' ''hello'')\<lparr>cm_ToolCalls := [demo_call]\<rparr>]\<rparr>"

definition demo_s3 :: agent_state where
  "demo_s3 = demo_s2\<lparr>a_RequiresApproval := True, a_ApprovalReason := approval_reason_of demo_call,
     a_ApprovalData := [(''tool'', AStr ''deploy''), (''arguments'', AMap []), (''tool_call'', ACall demo_call)]\<rparr>"

lemma demo_init: "initial_state 1 0 demo_input = (NewAgentState 1 0 1 7 ''hi'')\<lparr>a_Temperature := FNum 1\<rparr>"
  by (simp add: initial_state_def demo_input_def fval_def NewAgentState_def)

lemma demo_router: "routerNode demo_gated (initial_state 1 0 demo_input) w = (Ret demo_s1, w)"
  by (simp add: demo_s1_def demo_init routerNode_def Let_def NewAgentState_def demo_pick demo_gated_def NewChatbotGraph_def model_config_def system_prompts_def)

lemma demo_think: "thinkNode demo_runtime demo_gated demo_s1 w = (Ret demo_s2, w)"
  by (simp add: thinkNode_def bindG_def demo_List)
    (simp add: demo_gated_def NewChatbotGraph_def demo_llm_def demo_reply_def think_reply_def AddAssistantMessage_def Let_def demo_s1_def demo_s2_def
      demo_init NewAgentState_def chat_message_of_def)

lemma demo_act: "actNode demo_gated demo_s2 w = (Ret demo_s3, w)"
  by (simp add: actNode_def demo_s2_def demo_s1_def demo_s3_def demo_args) 
    (simp add: demo_call_def demo_Get demo_tool_def Let_def approval_reason_of_def demo_init NewAgentState_def)

lemma demo_run: "run_limited 40 (build demo_runtime demo_gated) (initial_state 1 0 demo_input) () = (Ret (demo_s3\<lparr>a_Iteration := 1\<rparr>), ())"
proof -
  let ?run = "\<lambda>k n s. run_steps k (build demo_runtime demo_gated) n s ()"
  let ?t = "demo_s3\<lparr>a_Iteration := 1\<rparr>"
  have s: "a_PendingTools demo_s2 = [demo_call]" "a_RequiresApproval demo_s3" "a_ShouldStop demo_s3 = False" "a_IsApproved demo_s3 = None"
    by (simp_all add: demo_s3_def demo_s2_def demo_s1_def demo_init NewAgentState_def)
  have obs: "observeNode demo_s3 () = (Ret ?t, ())"
    by (simp add: observeNode_def Let_def FlushToolResults_def demo_s3_def demo_s2_def demo_s1_def demo_init NewAgentState_def word_sle_eq)
  have "?run (Suc (Suc (Suc (Suc (Suc 35))))) ''router'' (initial_state 1 0 demo_input) = ?run (Suc (Suc (Suc (Suc 35)))) ''think'' demo_s1"
    by (rule run_steps_Ret [where f = "routerNode demo_gated"]) (simp_all add: END_def build_next demo_router)
  also have "\<dots> = ?run (Suc (Suc (Suc 35))) ''act'' demo_s2"
    by (rule run_steps_Ret [where f = "thinkNode demo_runtime demo_gated"]) (simp_all add: END_def build_next demo_think routeAfterThink_def s)
  also have "\<dots> = ?run (Suc (Suc 35)) ''observe'' demo_s3"
    by (rule run_steps_Ret [where f = "actNode demo_gated"]) (simp_all add: END_def build_next demo_act)
  also have "\<dots> = ?run (Suc 35) ''human_approval'' ?t"
    by (rule run_steps_Ret [where f = "observeNode"]) (simp_all add: END_def build_next obs routeAfterObserve_def s)
  also have "\<dots> = ?run 35 END ?t"
    by (rule run_steps_Ret [where f = "humanApprovalNode"]) (simp_all add: END_def build_next humanApprovalNode_def routeAfterApproval_def s)
  finally have "?run 40 ''router'' (initial_state 1 0 demo_input) = Some (Ret ?t, ())" by simp
  then show ?thesis by (simp add: run_limited_def)
qed

definition demo_chatbot :: "unit chatbot_graph" where
  "demo_chatbot = demo_gated\<lparr>cg_runnable := Some (run_limited 40 (build demo_runtime demo_gated))\<rparr>"

lemma demo_checkpoint:
  "\<exists>chk t. Graph_Run demo_runtime demo_chatbot demo_input () = (Ret
       \<lparr>wo_Response = ''hello'', wo_TokensUsed = 12, wo_ToolCallsCount = 0, wo_AgentType = ''general'', wo_RequiresApproval = True,
        wo_ApprovalReason = approval_reason_of demo_call, wo_PausedStateJSON = chk\<rparr>, ())
     \<and> AgentState_FromJSON chk = Inr t \<and> a_PendingTools t = [demo_call]"
proof -
  let ?t = "demo_s3\<lparr>a_Iteration := 1\<rparr>"
  note defs = demo_s3_def demo_s2_def demo_s1_def demo_init NewAgentState_def
  have "state_text_ok ?t"
    by (simp add: state_text_ok_def defs float_text_1 demo_time NewTool_def tool_text_ok_def)
  from FromJSON_ToJSON [OF this] obtain chk t where js: "AgentState_ToJSON ?t = Inr chk" "AgentState_FromJSON chk = Inr t" "same_fields ?t t"
    by blast
  have "Graph_Run demo_runtime demo_chatbot demo_input () = workflow_result ?t ()"
    using demo_run by (simp add: Graph_Run_def demo_chatbot_def bindG_def demo_runtime_def)
  also have "\<dots> = (Ret \<lparr>wo_Response = ''hello'', wo_TokensUsed = 12, wo_ToolCallsCount = 0, wo_AgentType = ''general'', wo_RequiresApproval = True,
        wo_ApprovalReason = approval_reason_of demo_call, wo_PausedStateJSON = chk\<rparr>, ())"
    using js(1) by (simp add: workflow_result_def Let_def) (simp add: defs)
  finally show ?thesis using js(2) arg_cong [OF js(3) [unfolded same_fields_def], of a_PendingTools] by (auto simp: defs)
qed

end
