(* ===== verification/Workflow_Theorems.thy ===== *)
theory Workflow_Theorems
  imports Paused_Run
begin

text \<open>
  What the chatbot workflow guarantees, for every compiled graph that follows the library's
  contract: bounded runs, the tool-call protocol, pauses, and what \<open>Resume\<close> does.
\<close>

text \<open>The outcomes of a compiled graph on the state a run starts from, with their trace.\<close>

lemma invoke_run:
  assumes "compiled_graph (build rt g) invoke"
  obtains tr where "graph_run (build rt g) ''router'' s w tr (fst (invoke s w)) (snd (invoke s w))"
  using compiled_graph.follows [OF assms, of s w] by (metis build_start option.inject prod.collapse)

lemma initial_turns [simp]: "turns_left (initial_state reqID now inp) = 10"
  by (simp add: turns_left_def)

text \<open>C1: a run makes at most 32 node executions and at most 10 calls of the language model, whatever the model, the tools and the graph executor do.\<close>

theorem Run_bounded:
  assumes "compiled_graph (build rt g) invoke"
  shows "\<exists>tr. graph_run (build rt g) ''router'' (initial_state reqID now inp) w tr
       (fst (invoke (initial_state reqID now inp) w)) (snd (invoke (initial_state reqID now inp) w))
     \<and> length tr \<le> 32 \<and> length (filter (\<lambda>(m, t). m = ''think'') tr) \<le> 10"
proof (rule invoke_run [OF assms])
  fix tr assume run: "graph_run (build rt g) ''router'' (initial_state reqID now inp) w tr
    (fst (invoke (initial_state reqID now inp) w)) (snd (invoke (initial_state reqID now inp) w))"
  then show ?thesis using run_bounds [OF run] by auto
qed

theorem Run_bounded_witness:
  "\<exists>tr. graph_run (build demo_runtime (NewChatbotGraph (demo_llm [demo_call]) NewToolRegistry)) ''router'' (initial_state 1 0 demo_input) () tr
       (fst (run_limited 40 (build demo_runtime (NewChatbotGraph (demo_llm [demo_call]) NewToolRegistry)) (initial_state 1 0 demo_input) ()))
       (snd (run_limited 40 (build demo_runtime (NewChatbotGraph (demo_llm [demo_call]) NewToolRegistry)) (initial_state 1 0 demo_input) ()))
     \<and> length tr \<le> 32 \<and> length (filter (\<lambda>(m, t). m = ''think'') tr) \<le> 10"
  by (rule Run_bounded) (rule limited.compiled_graph_axioms)

text \<open>C2: an executor with a limit of 32 steps finishes every run: the graph can not loop for ever.\<close>

theorem Run_terminates: "run_steps 32 (build rt g) ''router'' (initial_state reqID now inp) w \<noteq> None"
  by (rule run_terminates) simp_all



text \<open>C3: a tool that needs approval is never executed: two registries that differ only in what such tools do give the same runs and the same resumptions, approved or not.\<close>

theorem gated_tools_never_run:
  assumes "same_but_gated r1 r2"
    and "BuildRunnable compile rt (g\<lparr>cg_toolRegistry := r1\<rparr>) = Inr g1" "BuildRunnable compile rt (g\<lparr>cg_toolRegistry := r2\<rparr>) = Inr g2"
  shows "Graph_Run rt g1 = Graph_Run rt g2 \<and> Graph_Resume g1 = Graph_Resume g2"
proof -
  note same = build_same [OF assms(1)]
  obtain invoke where g: "g1 = g\<lparr>cg_toolRegistry := r1, cg_runnable := Some invoke\<rparr>" "g2 = g\<lparr>cg_toolRegistry := r2, cg_runnable := Some invoke\<rparr>"
    using assms(2,3) same(1) by (auto simp: BuildRunnable_def split: sum.splits)
  have act: "actNode g1 = actNode g2" using same(2) by (simp add: g actNode_def fun_eq_iff)
  have run: "cg_runnable g1 = cg_runnable g2" by (simp add: g)
  show ?thesis unfolding Graph_Run_def [abs_def] Graph_Resume_def [abs_def] act run by (intro conjI refl)
qed

definition demo_build :: "bool \<Rightarrow> (gomap \<Rightarrow> (unit, any) go) \<Rightarrow> goerror + unit chatbot_graph" where
  "demo_build needs_approval run = BuildRunnable (\<lambda>sg. Inr (run_limited 40 sg)) demo_runtime
     (NewChatbotGraph (demo_llm [demo_call]) (demo_registry needs_approval run))"

theorem gated_tools_never_run_witness:
  "\<exists>g1 g2. demo_build True (\<lambda>args. returnG (AStr ''ok'')) = Inr g1 \<and> demo_build True (\<lambda>args. panicG ''boom'') = Inr g2
     \<and> Graph_Run demo_runtime g1 = Graph_Run demo_runtime g2 \<and> Graph_Resume g1 = Graph_Resume g2"
proof -
  let ?r1 = "demo_registry True (\<lambda>args. returnG (AStr ''ok''))" and ?r2 = "demo_registry True (\<lambda>args. panicG ''boom'')"
  let ?g = "NewChatbotGraph (demo_llm [demo_call]) NewToolRegistry :: unit chatbot_graph"
  have same: "same_but_gated ?r1 ?r2"
    by (simp add: same_but_gated_def demo_registry_def Register_def NewToolRegistry_def demo_tool_def tool_face_def Registry_Get_def)
  obtain g1 g2 where g: "demo_build True (\<lambda>args. returnG (AStr ''ok'')) = Inr g1" "demo_build True (\<lambda>args. panicG ''boom'') = Inr g2"
    by (simp add: demo_build_def BuildRunnable_def)
  then have "Graph_Run demo_runtime g1 = Graph_Run demo_runtime g2 \<and> Graph_Resume g1 = Graph_Resume g2"
    by (intro gated_tools_never_run [OF same, of "\<lambda>sg. Inr (run_limited 40 sg)" _ ?g]) (simp_all add: demo_build_def NewChatbotGraph_def)
  with g show ?thesis by blast
qed

text \<open>C28: when a run returns, its final state extends the history it was given, and it reports a pause exactly when a call of a gated tool is waiting; the checkpoint is the JSON of that state.\<close>

theorem Run_pauses:
  assumes "compiled_graph (build rt g) invoke" "cg_runnable g = Some invoke" "Graph_Run rt g inp w = (Ret out, w')"
  shows "\<exists>s. reports out s \<and> prefix (wi_Messages inp) (a_Messages s)
     \<and> (if wo_RequiresApproval out then awaits (cg_toolRegistry g) s else a_PendingTools s = [])"
proof (rule run_trace [OF assms])
  fix reqID now s tr w1
  assume run: "graph_run (build rt g) ''router'' (initial_state reqID now inp) w1 tr (Ret s) w'" and rep: "reports out s"
  have "extends_history (wi_Messages inp) END s"
    using graph_run_invariant [OF run history_invariant [of rt g "wi_Messages inp"]] by (simp add: extends_history_def)
  moreover have "approval_inv (cg_toolRegistry g) END s"
    using graph_run_invariant [OF run approval_invariant] by (simp add: approval_inv_def)
  moreover have "wo_RequiresApproval out = a_RequiresApproval s" using rep by (auto simp: reports_def split: if_splits)
  ultimately show ?thesis using rep by (auto simp: extends_history_def approval_inv_def)
qed

theorem Run_pauses_witness:
  "\<exists>out s. Graph_Run demo_runtime demo_chatbot demo_input () = (Ret out, ()) \<and> wo_RequiresApproval out
     \<and> reports out s \<and> awaits (cg_toolRegistry demo_chatbot) s"
proof -
  obtain chk t where run: "Graph_Run demo_runtime demo_chatbot demo_input () = (Ret
      \<lparr>wo_Response = ''hello'', wo_TokensUsed = 12, wo_ToolCallsCount = 0, wo_AgentType = ''general'', wo_RequiresApproval = True,
        wo_ApprovalReason = approval_reason_of demo_call, wo_PausedStateJSON = chk\<rparr>, ())" (is "_ = (Ret ?out, _)")
    using demo_checkpoint by blast
  have "compiled_graph (build demo_runtime demo_chatbot) (run_limited 40 (build demo_runtime demo_gated))"
    using limited.compiled_graph_axioms [where rt = demo_runtime and g = demo_gated] by (simp add: demo_chatbot_def)
  from Run_pauses [OF this _ run] obtain s where "reports ?out s" "awaits (cg_toolRegistry demo_chatbot) s"
    by (auto simp: demo_chatbot_def)
  with run show ?thesis by auto
qed

text \<open>C29: \<open>actNode\<close> answers the pending calls up to the first gated one, one tool message per call and in order; without a gated call nothing stays pending, with one the state asks for approval and keeps the calls.\<close>

theorem actNode_answers:
  assumes "actNode g s w = (Ret s', w')"
  shows "list_all2 is_result_of (answered_calls (cg_toolRegistry g) (a_PendingTools s)) (a_ToolResults s')
     \<and> a_Messages s' = a_Messages s
     \<and> (if blocking_calls (cg_toolRegistry g) (a_PendingTools s) = [] then a_PendingTools s' = []
        else a_RequiresApproval s' \<and> a_PendingTools s' = a_PendingTools s \<and> awaits (cg_toolRegistry g) s')"
  by (rule actNode_Ret [OF assms]) (auto simp: awaits_act_final)

theorem actNode_answers_witness:
  "actNode demo_gated demo_s2 () = (Ret demo_s3, ())
     \<and> list_all2 is_result_of (answered_calls (cg_toolRegistry demo_gated) (a_PendingTools demo_s2)) (a_ToolResults demo_s3)
     \<and> a_Messages demo_s3 = a_Messages demo_s2"
  using demo_act [of "()"] actNode_answers [OF demo_act [of "()"]] by simp

text \<open>C30: approving a checkpoint whose next call is gated executes no tool: the graph is entered again with the call still pending and the approval forgotten.\<close>

theorem Resume_approved_replays:
  assumes "cg_runnable g = Some invoke" "AgentState_FromJSON text = Inr t"
    and "a_PendingTools t = tc # tcs" "gated (cg_toolRegistry g) tc"
  shows "Graph_Resume g text True w =
     bindG (wrapG ''resume graph invoke'' (invoke (replayed_state (cg_toolRegistry g) t))) workflow_result w"
  by (rule Resume_replays [OF assms])

lemma demo_gates: "gated (cg_toolRegistry demo_chatbot) demo_call"
  by (simp add: gated_def call_tool_def demo_args demo_chatbot_def)
    (simp add: demo_call_def demo_Get demo_tool_def)

theorem Resume_approved_replays_witness:
  "\<exists>chk t. AgentState_FromJSON chk = Inr t \<and> Graph_Resume demo_chatbot chk True () =
     bindG (wrapG ''resume graph invoke'' (run_limited 40 (build demo_runtime demo_gated)
       (replayed_state (cg_toolRegistry demo_chatbot) t))) workflow_result ()"
proof -
  obtain chk t where t: "AgentState_FromJSON chk = Inr t" "a_PendingTools t = [demo_call]" using demo_checkpoint by blast
  have "cg_runnable demo_chatbot = Some (run_limited 40 (build demo_runtime demo_gated))" by (simp add: demo_chatbot_def)
  from Resume_approved_replays [OF this t demo_gates] t(1) show ?thesis by blast
qed

text \<open>Rejecting runs nothing and keeps the world; the answer is the checkpoint's output or a fixed text.\<close>

theorem Resume_rejected_answer:
  assumes "cg_runnable g = Some invoke" "AgentState_FromJSON text = Inr t"
  shows "\<exists>out. Graph_Resume g text False w = (Ret out, w) \<and> \<not> wo_RequiresApproval out
     \<and> wo_Response out = (if a_CurrentOutput t = [] then ''The requested action was rejected.'' else a_CurrentOutput t)
     \<and> wo_TokensUsed out = a_TokensUsed t \<and> wo_ToolCallsCount out = a_ToolCallsCount t"
  using Resume_rejected [OF assms] by auto

theorem Resume_rejected_answer_witness:
  "\<exists>chk out. Graph_Resume demo_chatbot chk False () = (Ret out, ()) \<and> \<not> wo_RequiresApproval out"
proof -
  obtain chk t where t: "AgentState_FromJSON chk = Inr t" using demo_checkpoint by blast
  have "cg_runnable demo_chatbot = Some (run_limited 40 (build demo_runtime demo_gated))" by (simp add: demo_chatbot_def)
  from Resume_rejected_answer [OF this t] show ?thesis by blast
qed

end
