(* ===== verification/Postgres_Correct.thy ===== *)
theory Postgres_Correct
  imports Postgres
begin

text \<open>
  What the tables keep through every repository operation, whatever its outcome: the keys
  and references of the migrations, and the order of the messages.
\<close>

section \<open>Integrity\<close>

abbreviation user_ids :: "'x world_scheme \<Rightarrow> uuid set" where "user_ids w \<equiv> u_ID ` set (w_users w)"
abbreviation token_ids :: "'x world_scheme \<Rightarrow> uuid set" where "token_ids w \<equiv> t_ID ` set (w_tokens w)"
abbreviation conversation_ids :: "'x world_scheme \<Rightarrow> uuid set" where
  "conversation_ids w \<equiv> (\<lambda>r. c_ID (fst r)) ` set (w_conversations w)"
abbreviation message_ids :: "'x world_scheme \<Rightarrow> uuid set" where "message_ids w \<equiv> m_ID ` set (w_messages w)"

definition users_ok :: "'x world_scheme \<Rightarrow> bool" where
  "users_ok w \<longleftrightarrow> distinct (map u_ID (w_users w)) \<and> distinct (map u_Email (w_users w))"

definition tokens_ok :: "'x world_scheme \<Rightarrow> bool" where
  "tokens_ok w \<longleftrightarrow> distinct (map t_ID (w_tokens w)) \<and> distinct (map t_TokenHash (w_tokens w))
     \<and> t_UserID ` set (w_tokens w) \<subseteq> user_ids w"

definition conversations_ok :: "'x world_scheme \<Rightarrow> bool" where
  "conversations_ok w \<longleftrightarrow> distinct (map (\<lambda>r. c_ID (fst r)) (w_conversations w))
     \<and> (\<lambda>r. c_UserID (fst r)) ` set (w_conversations w) \<subseteq> user_ids w"

definition messages_ok :: "'x world_scheme \<Rightarrow> bool" where
  "messages_ok w \<longleftrightarrow> distinct (map m_ID (w_messages w)) \<and> m_ConversationID ` set (w_messages w) \<subseteq> conversation_ids w
     \<and> sorted_wrt (\<lambda>m n. sint (m_SequenceNumber m) < sint (m_SequenceNumber n)) (w_messages w)
     \<and> (\<forall>m \<in> set (w_messages w). sint (m_SequenceNumber m) < w_seq w) \<and> 0 < w_seq w \<and> w_seq w \<le> 2 ^ 31"

definition execution_refs :: "'x world_scheme \<Rightarrow> tool_execution \<Rightarrow> bool" where
  "execution_refs w e \<longleftrightarrow> x_UserID e \<in> user_ids w
     \<and> set_option (x_ConversationID e) \<subseteq> conversation_ids w \<and> set_option (x_MessageID e) \<subseteq> message_ids w
     \<and> set_option (x_TokenID e) \<subseteq> token_ids w \<and> set_option (x_ApprovedBy e) \<subseteq> user_ids w"

definition executions_ok :: "'x world_scheme \<Rightarrow> bool" where
  "executions_ok w \<longleftrightarrow> distinct (map x_ID (w_executions w)) \<and> (\<forall>e \<in> set (w_executions w). execution_refs w e)"

definition db_ok :: "'x world_scheme \<Rightarrow> bool" where
  "db_ok w \<longleftrightarrow> users_ok w \<and> tokens_ok w \<and> conversations_ok w \<and> messages_ok w \<and> executions_ok w"

lemmas table_ok_defs = users_ok_def tokens_ok_def conversations_ok_def messages_ok_def executions_ok_def

lemma tick_fields [simp]:
  "w_users (tick w) = w_users w" "w_tokens (tick w) = w_tokens w" "w_conversations (tick w) = w_conversations w"
  "w_messages (tick w) = w_messages w" "w_executions (tick w) = w_executions w" "w_seq (tick w) = w_seq w"
  "w_tick (tick w) = Suc (w_tick w)" "w_clock (tick w) = w_clock w" "w_uuids (tick w) = w_uuids w" "w_fault (tick w) = w_fault w"
  by (simp_all add: tick_def)

lemma db_ok_tick [simp]: "db_ok (tick w) = db_ok w"
  by (simp add: db_ok_def table_ok_defs execution_refs_def)

lemma update_rows_map: "(\<And>r. P r \<Longrightarrow> g (f r) = g r) \<Longrightarrow> map g (update_rows P f rows) = map g rows"
  by (simp add: update_rows_def)

lemma update_rows_image: "(\<And>r. P r \<Longrightarrow> g (f r) = g r) \<Longrightarrow> g ` set (update_rows P f rows) = g ` set rows"
  using update_rows_map [of P g f rows] by (metis set_map)

lemma violation_of_None: "violation_of cs = None \<longleftrightarrow> list_all fst cs"
  by (induction cs rule: violation_of.induct) auto

text \<open>Statements: a command keeps an invariant when its effect does under its checks.\<close>

lemma maintains_command:
  assumes "\<And>now w. P w \<Longrightarrow> violation w = None \<Longrightarrow> P (f now w)" "\<And>w. P (tick w) = P w"
  shows "maintains P (run_sql (command violation f))"
  using assms by (auto simp: maintains_def run_sql_def command_def split: option.splits)

lemma maintains_query [simp]: "(\<And>w. P (tick w) = P w) \<Longrightarrow> maintains P (run_sql (query f))"
  by (auto simp: maintains_def run_sql_def query_def split: option.splits)

lemma maintains_query_row [simp]: "(\<And>w. P (tick w) = P w) \<Longrightarrow> maintains P (run_sql (query_row f))"
  by (auto simp: maintains_def run_sql_def query_row_def split: option.splits)

lemma maintains_no_rows_or [intro]: "maintains P m \<Longrightarrow> maintains P (no_rows_or a b m)"
  unfolding no_rows_or_def by (rule maintains_bindG) (auto split: sum.splits)

text \<open>Replacing the value of a unique column in the one row with a key keeps it unique.\<close>

lemma update_rows_none: "(\<And>r. r \<in> set rows \<Longrightarrow> \<not> P r) \<Longrightarrow> update_rows P f rows = rows"
  by (auto simp: update_rows_def map_idI)

lemma update_rows_Cons: "update_rows P f (r # rows) = (if P r then f r else r) # update_rows P f rows"
  by (simp add: update_rows_def)

lemma update_rows_unique:
  assumes "distinct (map key rows)" "distinct (map col rows)" "\<And>r. r \<in> set rows \<Longrightarrow> key r \<noteq> k \<Longrightarrow> col r \<noteq> v"
    and f: "\<And>r. col (f r) = v"
  shows "distinct (map col (update_rows (\<lambda>r. key r = k) f rows))"
  using assms(1-3)
proof (induction rows)
  case (Cons a rows)
  show ?case
  proof (cases "key a = k")
    case True
    then have "k \<notin> key ` set rows" using Cons.prems(1) by auto
    then have "update_rows (\<lambda>r. key r = k) f rows = rows" by (intro update_rows_none) (metis image_eqI)
    moreover have "v \<notin> col ` set rows" using Cons.prems True by (force simp: image_iff)
    ultimately show ?thesis using True Cons.prems(2) by (simp add: update_rows_Cons f)
  next
    case False
    have "col a \<notin> col ` set (update_rows (\<lambda>r. key r = k) f rows)"
      using Cons.prems(2) Cons.prems(3) [of a] False by (auto simp: update_rows_def f)
    with False Cons show ?thesis by (simp add: update_rows_Cons)
  qed
qed (simp add: update_rows_def)

text \<open>When the key columns of the users do not change, nothing that refers to them does.\<close>

lemma UserRepository_Create_ok: "maintains db_ok (UserRepository_Create u)"
  unfolding UserRepository_Create_def
  by (intro maintains_wrapG maintains_command)
    (auto simp: db_ok_def table_ok_defs execution_refs_def violation_of_None user_checks_def unique_def user_columns_def)

lemma UserRepository_Update_ok: "maintains db_ok (UserRepository_Update u)"
  unfolding UserRepository_Update_def
proof (intro maintains_wrapG maintains_command)
  fix now :: time and w :: "'a world_scheme"
  let ?f = "\<lambda>v. (user_columns u)\<lparr>u_CreatedAt := u_CreatedAt v, u_UpdatedAt := now\<rparr>"
  let ?us = "update_rows (\<lambda>v. u_ID v = u_ID u) ?f (w_users w)"
  assume ok: "db_ok w" and v: "violation_of (user_checks u @
        [unique (u_ID u \<notin> u_ID ` set (w_users w) \<or> (\<forall>v \<in> set (w_users w). u_ID v \<noteq> u_ID u \<longrightarrow> u_Email v \<noteq> u_Email u))]) = None"
  have ids: "map u_ID ?us = map u_ID (w_users w)" by (rule update_rows_map) (simp add: user_columns_def)
  then have idset: "u_ID ` set ?us = u_ID ` set (w_users w)" by (metis set_map)
  have "distinct (map u_Email ?us)"
  proof (cases "u_ID u \<in> u_ID ` set (w_users w)")
    case True
    with v have "\<forall>v \<in> set (w_users w). u_ID v \<noteq> u_ID u \<longrightarrow> u_Email v \<noteq> u_Email u"
      by (simp add: violation_of_None unique_def)
    then show ?thesis using ok by (intro update_rows_unique) (auto simp: db_ok_def users_ok_def user_columns_def)
  next
    case False
    then have "?us = w_users w" by (intro update_rows_none) (metis image_eqI)
    then show ?thesis using ok by (simp add: db_ok_def users_ok_def)
  qed
  with ok ids idset show "db_ok (w\<lparr>w_users := ?us\<rparr>)"
    by (auto simp: db_ok_def table_ok_defs execution_refs_def)
qed simp


lemma distinct_map_keep: "distinct (map g rows) \<Longrightarrow> distinct (map g (filter P rows))"
  by (induction rows) auto

lemma UserRepository_Delete_ok: "maintains db_ok (UserRepository_Delete i)"
  unfolding UserRepository_Delete_def
proof (intro maintains_wrapG maintains_command)
  fix now :: time and w :: "'a world_scheme"
  assume ok: "db_ok w"
    and v: "violation_of [references (\<forall>e \<in> set (w_executions w). x_ApprovedBy e = Some i \<longrightarrow> x_UserID e = i)] = None"
  let ?w = "cascade_user i w"
  define convs where "convs = c_ID ` fst ` {r \<in> set (w_conversations w). c_UserID (fst r) = i}"
  define toks where "toks = t_ID ` {t \<in> set (w_tokens w). t_UserID t = i}"
  define msgs where "msgs = m_ID ` {m \<in> set (w_messages w). m_ConversationID m \<in> convs}"
  define clear :: "uuid set \<Rightarrow> uuid option \<Rightarrow> uuid option"
    where "clear = (\<lambda>ids r. case r of Some j \<Rightarrow> if j \<in> ids then None else Some j | None \<Rightarrow> None)"
  have w: "?w = w\<lparr>w_users := filter (\<lambda>u. u_ID u \<noteq> i) (w_users w),
           w_tokens := filter (\<lambda>t. t_UserID t \<noteq> i) (w_tokens w),
           w_conversations := filter (\<lambda>r. c_UserID (fst r) \<noteq> i) (w_conversations w),
           w_messages := filter (\<lambda>m. m_ConversationID m \<notin> convs) (w_messages w),
           w_executions := map (\<lambda>e. e\<lparr>x_ConversationID := clear convs (x_ConversationID e),
                x_MessageID := clear msgs (x_MessageID e), x_TokenID := clear toks (x_TokenID e)\<rparr>)
              (filter (\<lambda>e. x_UserID e \<noteq> i) (w_executions w))\<rparr>"
    by (simp add: cascade_user_def convs_def toks_def msgs_def clear_def Let_def)
  have users: "user_ids ?w = user_ids w - {i}" by (auto simp: w)
  have convs: "conversation_ids w - convs \<subseteq> conversation_ids ?w" by (auto simp: w convs_def)
  have toks: "token_ids w - toks \<subseteq> token_ids ?w" by (auto simp: w toks_def)
  have msgs: "message_ids w - msgs \<subseteq> message_ids ?w" by (auto simp: w msgs_def)
  have clear: "set_option (clear ids r) = set_option r - ids" for ids r by (auto simp: clear_def split: option.splits if_splits)
  have "users_ok ?w" using ok by (simp add: db_ok_def users_ok_def w distinct_map_keep)
  moreover have "tokens_ok ?w" using ok unfolding tokens_ok_def users
    by (auto simp: db_ok_def tokens_ok_def w distinct_map_keep)
  moreover have "conversations_ok ?w" using ok unfolding conversations_ok_def users
    by (auto simp: db_ok_def conversations_ok_def w distinct_map_keep)
  moreover have "m_ConversationID ` set (w_messages ?w) \<subseteq> conversation_ids ?w"
    using ok convs by (force simp: db_ok_def messages_ok_def w)
  then have "messages_ok ?w" using ok by (auto simp: db_ok_def messages_ok_def w distinct_map_keep sorted_wrt_filter)
  moreover have "execution_refs ?w (e\<lparr>x_ConversationID := clear convs (x_ConversationID e),
                x_MessageID := clear msgs (x_MessageID e), x_TokenID := clear toks (x_TokenID e)\<rparr>)"
    if e: "e \<in> set (w_executions w)" "x_UserID e \<noteq> i" for e
  proof -
    have r: "execution_refs w e" using ok e(1) by (simp add: db_ok_def executions_ok_def)
    have a: "x_ApprovedBy e \<noteq> Some i" using v e by (auto simp: references_def violation_of_None simp del: violation_of.simps)
    show ?thesis
      using r a e(2) convs toks msgs unfolding execution_refs_def users
      by (auto simp: clear)
  qed
  then have "executions_ok ?w"
    using ok unfolding executions_ok_def by (auto simp: db_ok_def executions_ok_def w distinct_map_keep comp_def)
  ultimately show "db_ok ?w" by (simp add: db_ok_def)
qed simp

lemma update_tokens_ok:
  assumes "\<And>t. P t \<Longrightarrow> (t_ID (f t), t_UserID (f t), t_TokenHash (f t)) = (t_ID t, t_UserID t, t_TokenHash t)"
  shows "maintains db_ok (run_sql (update_tokens P f))"
  unfolding update_tokens_def
proof (rule maintains_command)
  fix now :: time and w :: "'b world_scheme"
  assume ok: "db_ok w"
  let ?ts = "update_rows P (\<lambda>t. (f t)\<lparr>t_UpdatedAt := now\<rparr>) (w_tokens w)"
  have "map t_ID ?ts = map t_ID (w_tokens w)" "map t_TokenHash ?ts = map t_TokenHash (w_tokens w)"
      "map t_UserID ?ts = map t_UserID (w_tokens w)"
    using assms by (auto intro!: update_rows_map)
  moreover from this have "t_ID ` set ?ts = t_ID ` set (w_tokens w)" "t_UserID ` set ?ts = t_UserID ` set (w_tokens w)"
    by (metis set_map)+
  ultimately show "db_ok (w\<lparr>w_tokens := ?ts\<rparr>)"
    using ok by (simp add: db_ok_def table_ok_defs execution_refs_def)
qed simp

lemma db_ok_conversations:
  assumes ids: "(\<lambda>r. c_ID (fst r)) ` set cs = conversation_ids w"
    and "distinct (map (\<lambda>r. c_ID (fst r)) cs)" "(\<lambda>r. c_UserID (fst r)) ` set cs \<subseteq> user_ids w" "db_ok w"
  shows "db_ok (w\<lparr>w_conversations := cs\<rparr>)"
  using assms by (simp add: db_ok_def table_ok_defs execution_refs_def)

lemma update_conversations_ok:
  assumes "\<And>r. P r \<Longrightarrow> c_ID (fst (f r)) = c_ID (fst r) \<and> c_UserID (fst (f r)) = c_UserID (fst r)" "db_ok w"
  shows "db_ok (w\<lparr>w_conversations := update_rows P f (w_conversations w)\<rparr>)"
proof (rule db_ok_conversations)
  let ?cs = "update_rows P f (w_conversations w)"
  have m: "map (\<lambda>r. c_ID (fst r)) ?cs = map (\<lambda>r. c_ID (fst r)) (w_conversations w)"
      "map (\<lambda>r. c_UserID (fst r)) ?cs = map (\<lambda>r. c_UserID (fst r)) (w_conversations w)"
    using assms(1) by (auto intro!: update_rows_map)
  show "(\<lambda>r. c_ID (fst r)) ` set ?cs = conversation_ids w" using m(1) by (metis set_map)
  show "distinct (map (\<lambda>r. c_ID (fst r)) ?cs)" using assms(2) unfolding m by (simp add: db_ok_def conversations_ok_def)
  have "(\<lambda>r. c_UserID (fst r)) ` set ?cs = (\<lambda>r. c_UserID (fst r)) ` set (w_conversations w)" using m(2) by (metis set_map)
  then show "(\<lambda>r. c_UserID (fst r)) ` set ?cs \<subseteq> user_ids w" using assms(2) by (simp add: db_ok_def conversations_ok_def)
qed (rule assms(2))

lemma sint_of_int32: "0 \<le> n \<Longrightarrow> n < 2 ^ 31 \<Longrightarrow> sint (of_int n :: go_int) = n"
  by (simp add: signed_of_int signed_take_bit_int_eq_self)

lemma insert_message_ok:
  assumes "db_ok w" "violation_of (message_checks m w) = None"
  shows "db_ok (insert_message m w)"
proof -
  have c: "w_seq w < 2 ^ 31" "m_ID m \<notin> message_ids w" "m_ConversationID m \<in> conversation_ids w"
    using assms(2) by (auto simp: message_checks_def violation_of_None unique_def references_def simp del: violation_of.simps)
  have "sint (of_int (w_seq w) :: go_int) = w_seq w"
    using assms(1) c(1) by (intro sint_of_int32) (auto simp: db_ok_def messages_ok_def)
  then have "messages_ok (insert_message m w)"
    using assms(1) c unfolding db_ok_def messages_ok_def
    by (auto simp: insert_message_def sorted_wrt_append)
  moreover have "executions_ok (insert_message m w)"
    using assms(1) by (auto simp: db_ok_def executions_ok_def execution_refs_def insert_message_def)
  ultimately show ?thesis using assms(1)
    by (simp add: db_ok_def users_ok_def tokens_ok_def conversations_ok_def insert_message_def)
qed

lemma insert_step_ok: "maintains db_ok (run_sql (command (\<lambda>w. violation_of (message_checks m w)) (\<lambda>now w. insert_message m w)))"
  by (rule maintains_command) (simp_all add: insert_message_ok)

lemma insert_all_ok: "maintains db_ok (insert_all ms)"
proof (induction ms)
  case Nil
  show ?case by (simp add: maintains_def)
next
  case (Cons m ms)
  show ?case unfolding insert_all.simps by (intro maintains_bindG maintains_wrapG insert_step_ok Cons.IH)
qed

text \<open>A sequence value is never handed out twice, so a rollback keeps the order.\<close>

lemma insert_all_seq: "maintains (\<lambda>w. n \<le> w_seq w \<and> w_seq w \<le> 2 ^ 31) (insert_all ms)"
proof (induction ms)
  case Nil
  show ?case by (simp add: maintains_def)
next
  case (Cons m ms)
  have "maintains (\<lambda>w. n \<le> w_seq w \<and> w_seq w \<le> 2 ^ 31)
      (run_sql (command (\<lambda>w. violation_of (message_checks m w)) (\<lambda>now w. insert_message m w)))"
    by (rule maintains_command)
      (auto simp: insert_message_def message_checks_def violation_of_None simp del: violation_of.simps)
  then show ?case unfolding insert_all.simps by (intro maintains_bindG maintains_wrapG Cons.IH)
qed

lemma rollback_ok:
  assumes "db_ok w" "w_seq w \<le> w_seq w'" "w_seq w' \<le> 2 ^ 31"
  shows "db_ok (rollback w w')"
  using assms by (fastforce simp: db_ok_def table_ok_defs execution_refs_def rollback_def)

lemma seq_bound: "db_ok w \<Longrightarrow> w_seq w \<le> 2 ^ 31"
  unfolding db_ok_def messages_ok_def by simp

lemma sql_unit_ok: "(\<And>w. P (tick w) = P w) \<Longrightarrow> maintains P sql_unit"
  unfolding sql_unit_def by (rule maintains_command) simp_all

lemma CreateBatch_ok: "maintains db_ok (MessageRepository_CreateBatch msgs :: ('x world_scheme, unit) go)"
  unfolding MessageRepository_CreateBatch_def
proof (intro maintains_bindG maintains_wrapG sql_unit_ok)
  show "maintains db_ok (transaction (bindG (insert_all msgs) (\<lambda>_. sql_unit)) :: ('x world_scheme, unit) go)"
  proof (rule maintainsI)
    fix w :: "'x world_scheme"
    assume ok: "db_ok w"
    let ?m = "bindG (insert_all msgs) (\<lambda>_. sql_unit) :: ('x world_scheme, unit) go"
    obtain r w' where m: "?m w = (r, w')" by fastforce
    have "maintains db_ok ?m" by (intro maintains_bindG insert_all_ok sql_unit_ok) simp
    then have ok': "db_ok w'" using maintainsD [of db_ok ?m w r w'] ok m by simp
    have "maintains (\<lambda>v. w_seq w \<le> w_seq v \<and> w_seq v \<le> 2 ^ 31) ?m"
      by (rule maintains_bindG, rule insert_all_seq, rule sql_unit_ok, unfold tick_fields, rule refl)
    then have "w_seq w \<le> w_seq w'" "w_seq w' \<le> 2 ^ 31"
      using maintainsD [of "\<lambda>v. w_seq w \<le> w_seq v \<and> w_seq v \<le> 2 ^ 31" ?m w r w'] m seq_bound [OF ok] by simp_all
    then have "db_ok (rollback w w')" by (rule rollback_ok [OF ok])
    with ok' m show "db_ok (snd (transaction ?m w))"
      by (cases r) (simp_all add: transaction_def)
  qed
qed simp

lemma executions_map_ok:
  assumes "w_executions w' = map f (w_executions w)" "distinct (map x_ID (w_executions w))"
    and "\<And>e. x_ID (f e) = x_ID e" "\<And>e. e \<in> set (w_executions w) \<Longrightarrow> execution_refs w' (f e)"
  shows "executions_ok w'"
  using assms by (auto simp: executions_ok_def comp_def)

lemma delete_messages_ok:
  assumes "db_ok w"
  shows "db_ok (delete_messages P w)"
proof -
  let ?gone = "m_ID ` set (filter P (w_messages w))"
  let ?w = "delete_messages P w"
  let ?f = "\<lambda>e. if (\<exists>j \<in> ?gone. x_MessageID e = Some j) then e\<lparr>x_MessageID := None\<rparr> else e"
  have w: "?w = w\<lparr>w_messages := filter (\<lambda>m. \<not> P m) (w_messages w), w_executions := map ?f (w_executions w)\<rparr>"
    by (simp add: delete_messages_def Let_def)
  have msgs: "message_ids w - ?gone \<subseteq> message_ids ?w" by (auto simp: w)
  have "messages_ok ?w"
    using assms by (auto simp: db_ok_def messages_ok_def w distinct_map_keep sorted_wrt_filter)
  moreover have "executions_ok ?w"
  proof (rule executions_map_ok)
    show "w_executions ?w = map ?f (w_executions w)" by (simp add: w)
    show "execution_refs ?w (?f e)" if "e \<in> set (w_executions w)" for e
    proof -
      have "execution_refs w e" using assms that by (simp add: db_ok_def executions_ok_def)
      then show ?thesis using msgs
        by (cases "x_MessageID e") (auto simp: execution_refs_def w)
    qed
  qed (use assms in \<open>auto simp: db_ok_def executions_ok_def\<close>)
  ultimately show ?thesis
    using assms by (simp add: db_ok_def users_ok_def tokens_ok_def conversations_ok_def w)
qed

section \<open>Every operation of the repositories\<close>

lemma message_repository_ok:
  "maintains db_ok (MessageRepository_Create m)" "maintains db_ok (MessageRepository_Delete i)"
  "maintains db_ok (MessageRepository_DeleteByConversationID i)"
  unfolding MessageRepository_Create_def MessageRepository_Delete_def MessageRepository_DeleteByConversationID_def
  by (intro maintains_wrapG insert_step_ok maintains_command; simp add: delete_messages_ok)+

lemma conversation_repository_ok:
  "maintains db_ok (ConversationRepository_Update c)" "maintains db_ok (ConversationRepository_UpdateWorkflowState i st)"
  "maintains db_ok (ConversationRepository_Delete i)"
  unfolding ConversationRepository_Update_def ConversationRepository_UpdateWorkflowState_def ConversationRepository_Delete_def
    update_conversation_def
  by (intro maintains_wrapG maintains_command update_conversations_ok; simp add: conversation_columns_def)+

lemma ConversationRepository_Create_ok: "maintains db_ok (ConversationRepository_Create c)"
  unfolding ConversationRepository_Create_def
proof (intro maintains_wrapG maintains_command)
  fix now :: time and w :: "'a world_scheme"
  assume ok: "db_ok w" and "violation_of (conversation_checks c @
        [unique (c_ID c \<notin> (\<lambda>r. c_ID (fst r)) ` set (w_conversations w)), references (c_UserID c \<in> u_ID ` set (w_users w))]) = None"
  then have c: "c_ID c \<notin> conversation_ids w" "c_UserID c \<in> user_ids w"
    by (simp_all add: violation_of_None unique_def references_def)
  let ?r = "((conversation_columns c)\<lparr>c_LastMessageAt := None, c_CompletedAt := None\<rparr>, None)"
  have "conversations_ok (w\<lparr>w_conversations := w_conversations w @ [?r]\<rparr>)"
    using ok c by (auto simp: db_ok_def conversations_ok_def conversation_columns_def)
  moreover have "messages_ok (w\<lparr>w_conversations := w_conversations w @ [?r]\<rparr>)"
    using ok unfolding db_ok_def messages_ok_def by auto
  moreover have "executions_ok (w\<lparr>w_conversations := w_conversations w @ [?r]\<rparr>)"
    using ok by (auto simp: db_ok_def executions_ok_def execution_refs_def)
  ultimately show "db_ok (w\<lparr>w_conversations := w_conversations w @ [?r]\<rparr>)"
    using ok by (simp add: db_ok_def users_ok_def tokens_ok_def)
qed simp

lemma TokenRepository_Create_ok: "maintains db_ok (TokenRepository_Create t)"
  unfolding TokenRepository_Create_def
proof (intro maintains_wrapG maintains_command)
  fix now :: time and w :: "'a world_scheme"
  let ?w = "w\<lparr>w_tokens := w_tokens w @ [t\<lparr>t_LastUsedAt := None, t_Metadata := jsonb_col (t_Metadata t)\<rparr>]\<rparr>"
  assume ok: "db_ok w" and "violation_of [varchar 255 (t_TokenHash t), varchar 255 (t_Name t), int4 (t_RateLimitPerMinute t),
        int4 (t_RateLimitPerDay t), jsonb_ok (t_Metadata t), unique (t_ID t \<notin> t_ID ` set (w_tokens w)),
        unique (t_TokenHash t \<notin> t_TokenHash ` set (w_tokens w)), references (t_UserID t \<in> u_ID ` set (w_users w))] = None"
  then have t: "t_ID t \<notin> token_ids w" "t_TokenHash t \<notin> t_TokenHash ` set (w_tokens w)" "t_UserID t \<in> user_ids w"
    unfolding violation_of_None by (simp_all add: unique_def references_def)
  have "tokens_ok ?w" using ok t unfolding db_ok_def tokens_ok_def by auto
  moreover have "executions_ok ?w" using ok by (auto simp: db_ok_def executions_ok_def execution_refs_def)
  ultimately show "db_ok ?w" using ok by (simp add: db_ok_def users_ok_def conversations_ok_def messages_ok_def)
qed simp

lemma TokenRepository_DeleteExpired_ok: "maintains db_ok TokenRepository_DeleteExpired"
  unfolding TokenRepository_DeleteExpired_def
proof (intro maintains_wrapG maintainsI)
  fix w :: "'a world_scheme"
  assume ok: "db_ok w"
  define now where "now = w_clock w (w_tick w)"
  define gone where "gone = t_ID ` set (filter (\<lambda>t. t_ExpiresAt t < now) (w_tokens w))"
  define f :: "tool_execution \<Rightarrow> tool_execution" where "f = (\<lambda>e. if (\<exists>j \<in> gone. x_TokenID e = Some j) then e\<lparr>x_TokenID := None\<rparr> else e)"
  let ?w = "(tick w)\<lparr>w_tokens := filter (\<lambda>t. \<not> t_ExpiresAt t < now) (w_tokens w), w_executions := map f (w_executions w)\<rparr>"
  have toks: "token_ids w - gone \<subseteq> token_ids ?w" by (auto simp: gone_def)
  have "tokens_ok ?w" using ok unfolding db_ok_def tokens_ok_def by (auto simp: distinct_map_keep)
  moreover have "executions_ok ?w"
  proof (rule executions_map_ok)
    show "w_executions ?w = map f (w_executions w)" by simp
    show "execution_refs ?w (f e)" if "e \<in> set (w_executions w)" for e
    proof -
      have "execution_refs w e" using ok that by (simp add: db_ok_def executions_ok_def)
      then show ?thesis using toks
        by (cases "x_TokenID e") (auto simp: execution_refs_def f_def)
    qed
  qed (use ok in \<open>auto simp: db_ok_def executions_ok_def f_def\<close>)
  ultimately have "db_ok ?w" using ok by (simp add: db_ok_def users_ok_def conversations_ok_def messages_ok_def)
  with ok show "db_ok (snd (run_sql (\<lambda>now w.
     (let expired = (\<lambda>t. t_ExpiresAt t < now); gone = t_ID ` set (filter expired (w_tokens w)) in
      Inr (int (length (filter expired (w_tokens w))),
           w\<lparr>w_tokens := filter (\<lambda>t. \<not> expired t) (w_tokens w),
             w_executions := map (\<lambda>e. if (\<exists>j \<in> gone. x_TokenID e = Some j) then e\<lparr>x_TokenID := None\<rparr> else e)
               (w_executions w)\<rparr>))) w))"
    by (simp add: run_sql_def Let_def f_def gone_def now_def split: option.splits)
qed

lemma token_repository_ok:
  "maintains db_ok (TokenRepository_UpdateLastUsed i)" "maintains db_ok (TokenRepository_Revoke i)"
  "maintains db_ok (TokenRepository_RevokeAllForUser i)"
proof -
  show "maintains db_ok (TokenRepository_UpdateLastUsed i)"
    unfolding TokenRepository_UpdateLastUsed_def
    by (rule maintains_bindG, simp add: maintains_stateG world_runtime_def, rule maintains_wrapG, rule update_tokens_ok, simp)
  show "maintains db_ok (TokenRepository_Revoke i)" "maintains db_ok (TokenRepository_RevokeAllForUser i)"
    unfolding TokenRepository_Revoke_def TokenRepository_RevokeAllForUser_def
    by (rule maintains_wrapG, rule update_tokens_ok, simp)+
qed

lemma optional_ref_iff: "fst (optional_ref r ks) \<longleftrightarrow> set_option r \<subseteq> ks"
  by (auto simp: optional_ref_def references_def split: option.splits)

lemma ToolExecutionRepository_Create_ok: "maintains db_ok (ToolExecutionRepository_Create e)"
  unfolding ToolExecutionRepository_Create_def
proof (intro maintains_wrapG maintains_command)
  fix now :: time and w :: "'a world_scheme"
  let ?e = "e\<lparr>x_Input := jsonb_col (x_Input e), x_Output := jsonb_col (x_Output e)\<rparr>"
  let ?w = "w\<lparr>w_executions := w_executions w @ [?e]\<rparr>"
  assume ok: "db_ok w" and "violation_of [(x_Input e \<noteq> None, ''null value violates not-null constraint''), jsonb_ok (x_Input e), jsonb_ok (x_Output e),
        varchar 255 (x_ToolName e), varchar 100 (x_ToolCallID e), optional_int4 (x_DurationMs e),
        unique (x_ID e \<notin> x_ID ` set (w_executions w)),
        optional_ref (x_ConversationID e) ((\<lambda>r. c_ID (fst r)) ` set (w_conversations w)),
        optional_ref (x_MessageID e) (m_ID ` set (w_messages w)),
        references (x_UserID e \<in> u_ID ` set (w_users w)),
        optional_ref (x_TokenID e) (t_ID ` set (w_tokens w)),
        optional_ref (x_ApprovedBy e) (u_ID ` set (w_users w))] = None"
  then have e: "x_ID e \<notin> x_ID ` set (w_executions w)" "execution_refs w e"
    unfolding violation_of_None by (simp_all add: unique_def references_def optional_ref_iff execution_refs_def)
  have "execution_refs ?w e' = execution_refs w e'" for e' by (simp add: execution_refs_def)
  moreover have "execution_refs w ?e" using e(2) by (simp add: execution_refs_def)
  ultimately have "executions_ok ?w" using ok e(1) unfolding db_ok_def executions_ok_def by auto
  then show "db_ok ?w" using ok by (simp add: db_ok_def users_ok_def tokens_ok_def conversations_ok_def messages_ok_def)
qed simp

lemma ToolExecutionRepository_UpdateStatus_ok: "maintains db_ok (ToolExecutionRepository_UpdateStatus i st out msg ms)"
  unfolding ToolExecutionRepository_UpdateStatus_def
proof (intro maintains_wrapG maintains_command)
  fix now :: time and w :: "'a world_scheme"
  define f :: "tool_execution \<Rightarrow> tool_execution" where "f = (\<lambda>e. if x_ID e = i
    then e\<lparr>x_Status := st, x_Output := jsonb_col out, x_ErrorMessage := msg, x_DurationMs := ms, x_CompletedAt := Some now\<rparr> else e)"
  let ?w = "w\<lparr>w_executions := map f (w_executions w)\<rparr>"
  assume ok: "db_ok w"
  have "executions_ok ?w"
    by (rule executions_map_ok [of _ f w]) (use ok in \<open>auto simp: db_ok_def executions_ok_def execution_refs_def f_def\<close>)
  then have "db_ok ?w" using ok by (simp add: db_ok_def users_ok_def tokens_ok_def conversations_ok_def messages_ok_def)
  then show "db_ok (w\<lparr>w_executions := update_rows (\<lambda>e. x_ID e = i)
        (\<lambda>e. e\<lparr>x_Status := st, x_Output := jsonb_col out, x_ErrorMessage := msg, x_DurationMs := ms,
              x_CompletedAt := Some now\<rparr>) (w_executions w)\<rparr>)"
    by (simp add: update_rows_def f_def)
qed simp

lemma reads_ok:
  "maintains db_ok (UserRepository_FindByID i)" "maintains db_ok (UserRepository_FindByEmail s)"
  "maintains db_ok (TokenRepository_FindByID i)" "maintains db_ok (TokenRepository_FindByHash s)"
  "maintains db_ok (TokenRepository_FindByUserID i)" "maintains db_ok (ConversationRepository_FindByID i)"
  "maintains db_ok (ConversationRepository_CountByUserID i)" "maintains db_ok (MessageRepository_FindByConversationID i)"
  "maintains db_ok (MessageRepository_CountByConversationID i)"
  unfolding UserRepository_FindByID_def UserRepository_FindByEmail_def TokenRepository_FindByID_def
    TokenRepository_FindByHash_def TokenRepository_FindByUserID_def ConversationRepository_FindByID_def
    ConversationRepository_CountByUserID_def MessageRepository_FindByConversationID_def
    MessageRepository_CountByConversationID_def scanToken_def queryMessages_def
  by (intro maintains_no_rows_or maintains_wrapG maintains_query maintains_query_row db_ok_tick)+

section \<open>The contracts of the chat use cases\<close>

definition pg_conv_of :: "'x world_scheme \<Rightarrow> uuid \<Rightarrow> conversation option" where
  "pg_conv_of w i = find (\<lambda>c. c_ID c = i) (live_conversations w)"

lemma pg_conv_of_tick [simp]: "pg_conv_of (tick w) = pg_conv_of w"
  by (simp add: pg_conv_of_def live_conversations_def fun_eq_iff)

lemma run_sql_command_Ret:
  "run_sql (command violation f) w = (Ret x, w') \<longleftrightarrow>
     w_fault w (w_tick w) = None \<and> violation (tick w) = None \<and> w' = f (w_clock w (w_tick w)) (tick w)"
  by (auto simp: run_sql_def command_def split: option.splits)

lemma run_sql_command_not_Ret: "run_sql (command violation f) w = (r, w') \<Longrightarrow> (\<And>x. r \<noteq> Ret x) \<Longrightarrow> w' = tick w"
  by (auto simp: run_sql_def command_def split: option.splits)

lemma wrapG_not_Ret: "wrapG s m w = (Err e, w') \<Longrightarrow> \<exists>e'. m w = (Err e', w')"
  by (auto simp: wrapG_def split: prod.splits outcome.splits)

lemma no_rows_or_Ret: "no_rows_or a b (run_sql (query_row f)) w = (Ret c, w') \<Longrightarrow> f (tick w) = Some c \<and> w' = tick w"
  by (auto simp: no_rows_or_def bindG_def attemptG_def run_sql_def query_row_def split: sum.splits option.splits if_splits)

lemma no_rows_or_keeps: "(\<And>w. g (tick w) = g w) \<Longrightarrow> keeps g (no_rows_or a b (run_sql (query_row f)))"
  by (auto simp: keeps_def no_rows_or_def bindG_def attemptG_def run_sql_def query_row_def split: sum.splits option.splits if_splits)

lemma no_rows_or_no_panic: "no_rows_or a b (run_sql (query_row f)) w \<noteq> (Panic p, w')"
  by (auto simp: no_rows_or_def bindG_def attemptG_def run_sql_def query_row_def split: sum.splits option.splits if_splits)

lemma live_find_update:
  assumes "\<And>r. c_ID r = i \<Longrightarrow> c_ID (g r) = i"
  shows "find (\<lambda>c. c_ID c = j) (map fst (filter (\<lambda>r. snd r = None) (update_rows (\<lambda>r. c_ID (fst r) = i) (\<lambda>r. (g (fst r), snd r)) rows)))
    = (if j = i then map_option g (find (\<lambda>c. c_ID c = i) (map fst (filter (\<lambda>r. snd r = None) rows)))
       else find (\<lambda>c. c_ID c = j) (map fst (filter (\<lambda>r. snd r = None) rows)))"
  using assms by (induction rows) (auto simp: update_rows_def)

lemma pg_conv_of_update:
  assumes "\<And>r. c_ID r = i \<Longrightarrow> c_ID (f now r) = i"
  shows "pg_conv_of (update_conversation i f now w) j =
    (if j = i then map_option (\<lambda>c0. (f now c0)\<lparr>c_UpdatedAt := now\<rparr>) (pg_conv_of w i) else pg_conv_of w j)"
  using live_find_update [of i "\<lambda>c0. (f now c0)\<lparr>c_UpdatedAt := now\<rparr>" j "w_conversations w"] assms
  by (simp add: pg_conv_of_def live_conversations_def update_conversation_def)

lemma pg_conv_of_None: "c_ID c \<notin> conversation_ids w \<Longrightarrow> pg_conv_of w (c_ID c) = None"
  by (force simp: pg_conv_of_def live_conversations_def find_None_iff image_iff)

lemma pg_conv_of_create:
  assumes "c_ID c \<notin> conversation_ids w"
  shows "pg_conv_of (w\<lparr>w_conversations := w_conversations w @ [(c, None)]\<rparr>) = (pg_conv_of w)(c_ID c \<mapsto> c)"
proof
  fix j
  show "pg_conv_of (w\<lparr>w_conversations := w_conversations w @ [(c, None)]\<rparr>) j = ((pg_conv_of w)(c_ID c \<mapsto> c)) j"
    using pg_conv_of_None [OF assms]
    by (auto simp: pg_conv_of_def live_conversations_def find_append split: option.splits)
qed

lemma dom_foldl_update:
  "dom (map_of (foldl (\<lambda>m (k, v). AList.update k v m) m0 kvs)) = fst ` set kvs \<union> dom (map_of m0)"
  by (induction kvs arbitrary: m0) (auto simp: case_prod_beta)

lemma sequence_pairs_keys:
  "sequence_opt (map (\<lambda>(k, v). map_option (Pair k) (f v)) kvs) = Some l \<Longrightarrow> map fst l = map fst kvs"
proof (induction kvs arbitrary: l)
  case (Cons kv kvs)
  then show ?case by (cases kv; cases "f (snd kv)") auto
qed simp

lemma jsonb_dom:
  assumes "jsonb m = Some m'"
  shows "dom (map_of m') = dom (map_of m)"
proof -
  obtain j where j: "any_json (AMap m) = Some j" "json_any j = Some (AMap m')"
    using assms by (auto simp: jsonb_def split: any.splits option.splits bind_splits simp del: any_json.simps)
  obtain l where l: "sequence_opt (map (\<lambda>(k, v). map_option (Pair k) (any_json v)) m) = Some l" "j = JObj (sort_key fst l)"
    using j(1) by auto
  obtain l' where l': "sequence_opt (map (\<lambda>(k, v). map_option (Pair k) (json_any v)) (sort_key fst l)) = Some l'"
      "m' = foldl (\<lambda>m (k, v). AList.update k v m) [] l'"
    using j(2) l(2) by auto
  have "fst ` set l = fst ` set m" using sequence_pairs_keys [OF l(1)] by (metis set_map)
  moreover have "fst ` set l' = fst ` set l" using sequence_pairs_keys [OF l'(1)] by (metis set_map set_sort)
  ultimately show ?thesis using l'(2) dom_foldl_update [of "[]" l'] by (simp add: dom_map_of_conv_image_fst)
qed

lemma jsonb_string: "jsonb [(k, AStr s)] = Some [(k, AStr s)]"
  by (simp add: jsonb_def)

lemma jsonb_col_Some: "jsonb_col (Some m) = Some m' \<Longrightarrow> dom (map_of m') = dom (map_of m)"
  by (simp add: jsonb_col_def jsonb_dom)

lemma wrapG_Err: "wrapG s m w = (Err e, w') \<Longrightarrow> \<exists>e'. m w = (Err e', w')"
  by (auto simp: wrapG_def split: prod.splits outcome.splits)

lemma keeps_command: "(\<And>w. g (tick w) = g w) \<Longrightarrow> (\<And>now w. g (f now w) = g w) \<Longrightarrow> keeps g (run_sql (command violation f))"
  by (auto simp: keeps_def run_sql_def command_def split: option.splits)

lemma keeps_query: "(\<And>w. g (tick w) = g w) \<Longrightarrow> keeps g (run_sql (query f))"
  by (auto simp: keeps_def run_sql_def query_def split: option.splits)

lemma keeps_read:
  assumes "\<And>w. g (tick w) = g w" "\<And>now w r w'. st now w = Inr (r, w') \<Longrightarrow> w' = w"
  shows "keeps g (run_sql st)"
  using assms by (fastforce simp: keeps_def run_sql_def split: option.splits sum.splits prod.splits)

text \<open>A failed command leaves every view that does not look at the tick.\<close>

lemma command_Err: "wrapG s (run_sql (command violation f)) w = (Err e, w') \<Longrightarrow> (\<And>w. g (tick w) = g w) \<Longrightarrow> g w' = g w"
  using run_sql_command_not_Ret [of violation f w] by (fastforce dest: wrapG_Err)

interpretation pg_conversations: conversation_store ConversationRepository pg_conv_of jsonb_col
proof
  fix c i st w w' e p and m m' :: gomap
  show "cr_FindByID ConversationRepository i w = (Ret c, w') \<Longrightarrow> pg_conv_of w i = Some c \<and> c_ID c = i"
    by (auto simp: ConversationRepository_def ConversationRepository_FindByID_def dest!: no_rows_or_Ret)
      (auto simp: pg_conv_of_def live_conversations_def dest: find_Some_iff [THEN iffD1])
  show "cr_FindByID ConversationRepository i w \<noteq> (Panic p, w')"
    by (simp add: ConversationRepository_def ConversationRepository_FindByID_def no_rows_or_no_panic)
  show "keeps pg_conv_of (cr_FindByID ConversationRepository i)"
    by (simp add: ConversationRepository_def ConversationRepository_FindByID_def no_rows_or_keeps)
  show "jsonb_col None = None" by (simp add: jsonb_col_def)
  show "jsonb_col (Some m) = Some m' \<Longrightarrow> dom (map_of m') = dom (map_of m)" by (rule jsonb_col_Some)
  show "cr_Update ConversationRepository c w = (Err e, w') \<Longrightarrow> pg_conv_of w' = pg_conv_of w"
    by (auto simp: ConversationRepository_def ConversationRepository_Update_def elim: command_Err)
  show "cr_UpdateWorkflowState ConversationRepository i st w = (Err e, w') \<Longrightarrow> pg_conv_of w' = pg_conv_of w"
    by (auto simp: ConversationRepository_def ConversationRepository_UpdateWorkflowState_def elim: command_Err)
  show "cr_Create ConversationRepository c w = (Err e, w') \<Longrightarrow> pg_conv_of w' = pg_conv_of w"
    by (auto simp: ConversationRepository_def ConversationRepository_Create_def elim: command_Err)
  show "cr_Update ConversationRepository c w = (Ret (), w') \<Longrightarrow>
      (\<forall>j. j \<noteq> c_ID c \<longrightarrow> pg_conv_of w' j = pg_conv_of w j)
      \<and> (case pg_conv_of w (c_ID c) of None \<Rightarrow> pg_conv_of w' (c_ID c) = None
         | Some c0 \<Rightarrow> \<exists>c1. pg_conv_of w' (c_ID c) = Some c1 \<and> written_over jsonb_col c0 c c1)"
    by (auto simp: ConversationRepository_def ConversationRepository_Update_def wrapG_eq_Ret run_sql_command_Ret
        pg_conv_of_update conversation_columns_def written_over_def split: option.splits)
  show "cr_UpdateWorkflowState ConversationRepository i st w = (Ret (), w') \<Longrightarrow>
      (\<forall>j. j \<noteq> i \<longrightarrow> pg_conv_of w' j = pg_conv_of w j)
      \<and> (case pg_conv_of w i of None \<Rightarrow> pg_conv_of w' i = None
         | Some c0 \<Rightarrow> \<exists>t. pg_conv_of w' i = Some (c0\<lparr>c_WorkflowState := jsonb_col (Some st), c_UpdatedAt := t\<rparr>))"
    by (auto simp: ConversationRepository_def ConversationRepository_UpdateWorkflowState_def wrapG_eq_Ret run_sql_command_Ret
        pg_conv_of_update jsonb_col_def split: option.splits)
  show "cr_Create ConversationRepository c w = (Ret (), w') \<Longrightarrow> pg_conv_of w (c_ID c) = None
      \<and> (\<exists>c1. pg_conv_of w' = (pg_conv_of w)(c_ID c \<mapsto> c1) \<and> c_ID c1 = c_ID c \<and> c_UserID c1 = c_UserID c \<and> c_Status c1 = c_Status c
          \<and> c_WorkflowState c1 = jsonb_col (c_WorkflowState c) \<and> c_Metadata c1 = jsonb_col (c_Metadata c))"
  proof -
    let ?c = "(conversation_columns c)\<lparr>c_LastMessageAt := None, c_CompletedAt := None\<rparr>"
    assume "cr_Create ConversationRepository c w = (Ret (), w')"
    then have v: "c_ID c \<notin> conversation_ids w" and w': "w' = (tick w)\<lparr>w_conversations := w_conversations w @ [(?c, None)]\<rparr>"
      by (auto simp: ConversationRepository_def ConversationRepository_Create_def wrapG_eq_Ret run_sql_command_Ret violation_of_None unique_def)
    have id: "c_ID ?c = c_ID c" by (simp add: conversation_columns_def)
    show ?thesis
      using pg_conv_of_create [of ?c "tick w"] pg_conv_of_None [OF v] v
      unfolding w' id by (auto simp: conversation_columns_def)
  qed
qed

text \<open>The messages of a conversation are its rows in table order.\<close>

lemma sorted_wrt_strict_imp_sorted: "sorted_wrt (\<lambda>x y. (f x :: int) < f y) xs \<Longrightarrow> sorted (map f xs)"
  by (induction xs) auto

lemma conversation_messages_eq:
  assumes "db_ok w"
  shows "conversation_messages i w = filter (\<lambda>m. m_ConversationID m = i) (w_messages w)"
proof -
  have "sorted_wrt (\<lambda>m n. sint (m_SequenceNumber m) < sint (m_SequenceNumber n)) (filter (\<lambda>m. m_ConversationID m = i) (w_messages w))"
    using assms by (simp add: db_ok_def messages_ok_def sorted_wrt_filter)
  from sorted_wrt_strict_imp_sorted [OF this] show ?thesis
    by (simp add: conversation_messages_def order_rows_def Let_def sorted_sort_id sort_key_id_if_sorted)
qed

definition pg_msgs_of :: "'x world_scheme \<Rightarrow> uuid \<Rightarrow> message list" where
  "pg_msgs_of w i = conversation_messages i w"

lemma pg_msgs_of_tick [simp]: "pg_msgs_of (tick w) = pg_msgs_of w"
  by (simp add: pg_msgs_of_def conversation_messages_def fun_eq_iff)

lemma tool_calls_column_id: "tool_calls_column calls = calls"
  by (simp add: tool_calls_column_def dec_list_tool_calls)

lemma pg_msgs_of_insert:
  assumes "db_ok w" "violation_of (message_checks m w) = None"
  shows "\<exists>m'. stored_message m m'
    \<and> pg_msgs_of (insert_message m w) = (pg_msgs_of w)(m_ConversationID m := pg_msgs_of w (m_ConversationID m) @ [m'])"
proof (intro exI conjI ext)
  let ?m = "m\<lparr>m_ToolCalls := tool_calls_column (m_ToolCalls m), m_Latency := latency_column (m_Latency m),
        m_SequenceNumber := of_int (w_seq w)\<rparr>"
  show "stored_message m ?m" by (simp add: stored_message_def tool_calls_column_id)
  fix i
  show "pg_msgs_of (insert_message m w) i = ((pg_msgs_of w)(m_ConversationID m := pg_msgs_of w (m_ConversationID m) @ [?m])) i"
    unfolding pg_msgs_of_def conversation_messages_eq [OF insert_message_ok [OF assms]] conversation_messages_eq [OF assms(1)]
    by (simp add: insert_message_def)
qed

lemma queryMessages_keeps: "(\<And>w. g (tick w) = g w) \<Longrightarrow> keeps g (queryMessages (query f))"
  unfolding queryMessages_def by (intro keeps_wrapG keeps_query)

interpretation pg_messages: message_store MessageRepository pg_msgs_of db_ok
proof
  fix i m w w' ms e
  show "mr_FindByConversationID MessageRepository i w = (Ret ms, w') \<Longrightarrow> ms = pg_msgs_of w i"
    by (auto simp: MessageRepository_def MessageRepository_FindByConversationID_def queryMessages_def wrapG_eq_Ret run_sql_def
        query_def pg_msgs_of_def conversation_messages_def split: option.splits)
  show "keeps pg_msgs_of (mr_FindByConversationID MessageRepository i)"
    by (simp add: MessageRepository_def MessageRepository_FindByConversationID_def queryMessages_keeps)
  show "maintains db_ok (mr_FindByConversationID MessageRepository i)"
    by (simp add: MessageRepository_def reads_ok)
  show "maintains db_ok (mr_Create MessageRepository m)"
    by (simp add: MessageRepository_def message_repository_ok)
  show "mr_Create MessageRepository m w = (Err e, w') \<Longrightarrow> pg_msgs_of w' = pg_msgs_of w"
    by (auto simp: MessageRepository_def MessageRepository_Create_def elim: command_Err)
  show "\<exists>m'. stored_message m m' \<and> pg_msgs_of w' = (pg_msgs_of w)(m_ConversationID m := pg_msgs_of w (m_ConversationID m) @ [m'])"
    if "db_ok w" "mr_Create MessageRepository m w = (Ret (), w')"
    using pg_msgs_of_insert [of "tick w" m] that
    by (auto simp: MessageRepository_def MessageRepository_Create_def wrapG_eq_Ret run_sql_command_Ret)
qed

lemma pg_conv_of_other [simp]: "pg_conv_of (insert_message m w) = pg_conv_of w"
  by (simp add: pg_conv_of_def live_conversations_def insert_message_def fun_eq_iff)

lemma pg_msgs_of_other [simp]:
  "pg_msgs_of (update_conversation i f now w) = pg_msgs_of w" "pg_msgs_of (w\<lparr>w_conversations := cs\<rparr>) = pg_msgs_of w"
  by (simp_all add: pg_msgs_of_def conversation_messages_def update_conversation_def fun_eq_iff)

interpretation pg_chat: chat_store ConversationRepository pg_conv_of jsonb_col MessageRepository pg_msgs_of db_ok world_runtime
proof
  fix m i c st and w :: "'a world_scheme"
  show "keeps pg_conv_of (mr_Create MessageRepository m)"
    unfolding MessageRepository_def message_repository.simps MessageRepository_Create_def
    by (intro keeps_wrapG keeps_command) simp_all
  show "keeps pg_conv_of (mr_FindByConversationID MessageRepository i)"
    by (simp add: MessageRepository_def MessageRepository_FindByConversationID_def queryMessages_keeps)
  show "keeps pg_msgs_of (cr_FindByID ConversationRepository i)"
    by (simp add: ConversationRepository_def ConversationRepository_FindByID_def no_rows_or_keeps)
  show "keeps pg_msgs_of (cr_Update ConversationRepository c)" "keeps pg_msgs_of (cr_UpdateWorkflowState ConversationRepository i st)"
      "keeps pg_msgs_of (cr_Create ConversationRepository c)"
    unfolding ConversationRepository_def conversation_repository.simps ConversationRepository_Update_def
      ConversationRepository_UpdateWorkflowState_def ConversationRepository_Create_def
    by (intro keeps_wrapG keeps_command; simp)+
  show "maintains db_ok (cr_FindByID ConversationRepository i)" "maintains db_ok (cr_Update ConversationRepository c)"
      "maintains db_ok (cr_UpdateWorkflowState ConversationRepository i st)" "maintains db_ok (cr_Create ConversationRepository c)"
    by (simp_all add: ConversationRepository_def reads_ok conversation_repository_ok ConversationRepository_Create_ok)
  show "pg_conv_of (snd (rt_now world_runtime w)) = pg_conv_of w" "pg_msgs_of (snd (rt_now world_runtime w)) = pg_msgs_of w"
      "db_ok w \<Longrightarrow> db_ok (snd (rt_now world_runtime w))"
      "pg_conv_of (snd (rt_uuid world_runtime w)) = pg_conv_of w" "pg_msgs_of (snd (rt_uuid world_runtime w)) = pg_msgs_of w"
      "db_ok w \<Longrightarrow> db_ok (snd (rt_uuid world_runtime w))"
    by (simp_all add: world_runtime_def)
qed

section \<open>The contract of the authentication use cases\<close>

lemma find_member: "find P xs = Some x \<Longrightarrow> x \<in> set xs \<and> P x"
  by (induction xs) (auto split: if_splits)

lemma TokenRepository_Create_Ret:
  assumes "TokenRepository_Create t w = (Ret (), w')"
  shows "t_TokenHash t \<notin> t_TokenHash ` set (w_tokens w)"
    "w' = (tick w)\<lparr>w_tokens := w_tokens w @ [t\<lparr>t_LastUsedAt := None, t_Metadata := jsonb_col (t_Metadata t)\<rparr>]\<rparr>"
proof -
  from assms have "fst (unique (t_TokenHash t \<notin> t_TokenHash ` set (w_tokens (tick w))))"
    unfolding TokenRepository_Create_def wrapG_eq_Ret run_sql_command_Ret violation_of_None list.pred_inject by blast
  then show "t_TokenHash t \<notin> t_TokenHash ` set (w_tokens w)" by (simp add: unique_def)
  from assms show "w' = (tick w)\<lparr>w_tokens := w_tokens w @ [t\<lparr>t_LastUsedAt := None, t_Metadata := jsonb_col (t_Metadata t)\<rparr>]\<rparr>"
    unfolding TokenRepository_Create_def wrapG_eq_Ret run_sql_command_Ret tick_fields by blast
qed

lemma TokenRepository_Revoke_Ret:
  assumes "TokenRepository_Revoke i w = (Ret (), w')" "t \<in> set (w_tokens w')" "t_ID t = i"
  shows "t_IsRevoked t"
proof -
  define f :: "token \<Rightarrow> token" where "f = (\<lambda>t. (t\<lparr>t_IsRevoked := True\<rparr>)\<lparr>t_UpdatedAt := w_clock w (w_tick w)\<rparr>)"
  have "w_tokens w' = update_rows (\<lambda>t. t_ID t = i) f (w_tokens w)"
    using assms(1) unfolding TokenRepository_Revoke_def wrapG_eq_Ret update_tokens_def run_sql_command_Ret f_def by simp
  with assms(2) have "t \<in> (\<lambda>t. if t_ID t = i then f t else t) ` set (w_tokens w)" by (simp add: update_rows_def)
  then show ?thesis
  proof (rule imageE)
    fix t0 assume "t = (if t_ID t0 = i then f t0 else t0)"
    then show ?thesis using assms(3) by (cases "t_ID t0 = i") (simp_all add: f_def)
  qed
qed

interpretation pg_identity: identity_store TokenRepository UserRepository w_tokens w_users world_runtime
proof
  fix i h s t u and w w' :: "'a world_scheme"
  show "kr_FindByID TokenRepository i w = (Ret t, w') \<Longrightarrow> t \<in> set (w_tokens w) \<and> t_ID t = i"
    by (auto simp: TokenRepository_def TokenRepository_FindByID_def scanToken_def dest!: no_rows_or_Ret find_member)
  show "kr_FindByHash TokenRepository h w = (Ret t, w') \<Longrightarrow> t \<in> set (w_tokens w) \<and> t_TokenHash t = h"
    by (auto simp: TokenRepository_def TokenRepository_FindByHash_def scanToken_def dest!: no_rows_or_Ret find_member)
  show "ur_FindByID UserRepository i w = (Ret u, w') \<Longrightarrow> u \<in> set (w_users w) \<and> u_ID u = i"
    by (auto simp: UserRepository_def UserRepository_FindByID_def dest!: no_rows_or_Ret find_member)
  show "ur_FindByEmail UserRepository s w = (Ret u, w') \<Longrightarrow> u \<in> set (w_users w) \<and> u_Email u = s"
    by (auto simp: UserRepository_def UserRepository_FindByEmail_def dest!: no_rows_or_Ret find_member)
  show "keeps w_tokens (kr_FindByID TokenRepository i)" "keeps w_tokens (kr_FindByHash TokenRepository h)"
      "keeps w_tokens (ur_FindByID UserRepository i)" "keeps w_tokens (ur_FindByEmail UserRepository s)"
      "keeps w_users (kr_FindByID TokenRepository i)" "keeps w_users (kr_FindByHash TokenRepository h)"
      "keeps w_users (ur_FindByID UserRepository i)" "keeps w_users (ur_FindByEmail UserRepository s)"
    by (simp_all add: TokenRepository_def TokenRepository_FindByID_def TokenRepository_FindByHash_def scanToken_def
        UserRepository_def UserRepository_FindByID_def UserRepository_FindByEmail_def no_rows_or_keeps)
  show "w_tokens (snd (rt_now world_runtime w)) = w_tokens w" "w_users (snd (rt_now world_runtime w)) = w_users w"
      "w_tokens (snd (rt_uuid world_runtime w)) = w_tokens w" "w_users (snd (rt_uuid world_runtime w)) = w_users w"
    by (simp_all add: world_runtime_def)
  show "kr_Create TokenRepository t w = (Ret (), w') \<Longrightarrow> w_users w' = w_users w \<and> t_TokenHash t \<notin> t_TokenHash ` set (w_tokens w)
      \<and> (\<exists>m. w_tokens w' = w_tokens w @ [t\<lparr>t_LastUsedAt := None, t_Metadata := m\<rparr>])"
    using TokenRepository_Create_Ret [of t w w'] by (auto simp: TokenRepository_def)
  show "ur_Create UserRepository u w = (Ret (), w') \<Longrightarrow> w_tokens w' = w_tokens w \<and> u_Email u \<notin> u_Email ` set (w_users w)
      \<and> (\<exists>m. w_users w' = w_users w @ [u\<lparr>u_Metadata := m\<rparr>])"
    by (auto simp: UserRepository_def UserRepository_Create_def wrapG_eq_Ret run_sql_command_Ret violation_of_None unique_def
        user_columns_def)
  show "kr_Revoke TokenRepository i w = (Ret (), w') \<Longrightarrow> t \<in> set (w_tokens w') \<Longrightarrow> t_ID t = i \<Longrightarrow> t_IsRevoked t"
    using TokenRepository_Revoke_Ret [of i w w' t] by (simp add: TokenRepository_def)
qed

section \<open>The tables\<close>

text \<open>The rows of a world, without its clock and its sources of identifiers.\<close>

definition tables :: "'x world_scheme \<Rightarrow> user list \<times> token list \<times> (conversation \<times> time option) list \<times> message list \<times> tool_execution list" where
  "tables w = (w_users w, w_tokens w, w_conversations w, w_messages w, w_executions w)"

lemma tables_tick [simp]: "tables (tick w) = tables w"
  by (simp add: tables_def)

end
