(* ===== verification/Domain_Service.thy ===== *)
theory Domain_Service
  imports Entities
begin

text \<open>
  \<open>internal/domain/service\<close>: the rules that span users, tokens and conversations, and the
  title rule, with their complete decision tables.
\<close>

section \<open>\<open>auth_domain_service.go\<close>\<close>

text \<open>\<open>IsValid\<close> and the later \<open>IsExpired\<close> each read the clock.\<close>

definition ValidateTokenAccess ::
    "time \<Rightarrow> time \<Rightarrow> user \<Rightarrow> token \<Rightarrow> string \<Rightarrow> string \<Rightarrow> goerror option" where
  "ValidateTokenAccess now now' user token toolName modelName =
     (if \<not> u_IsActive user then Some (Errorf ''user account is inactive'')
      else if \<not> Token_IsValid now token then
        (if Token_IsExpired now' token then Some (Errorf ''token has expired'')
         else Some (Errorf ''token has been revoked''))
      else if t_UserID token \<noteq> u_ID user then Some (Errorf ''token does not belong to user'')
      else if toolName \<noteq> [] \<and> \<not> Token_CanUseTool token toolName then
        Some (Errorf (''token does not have access to tool: '' @ toolName))
      else if modelName \<noteq> [] \<and> \<not> Token_CanUseModel token modelName then
        Some (Errorf (''token does not have access to model: '' @ modelName))
      else None)"

definition CanCreateAPIKey :: "user \<Rightarrow> bool" where
  "CanCreateAPIKey user \<longleftrightarrow> u_IsActive user \<and> (u_Role user = UserRoleAdmin \<or> u_Role user = UserRoleUser)"

section \<open>\<open>conversation_domain_service.go\<close>\<close>

definition CanSendMessage :: "conversation \<Rightarrow> user \<Rightarrow> goerror option" where
  "CanSendMessage conv user =
     (if \<not> u_IsActive user then Some (Errorf ''user account is inactive'')
      else if c_UserID conv \<noteq> u_ID user \<and> \<not> User_IsAdmin user then
        Some (Errorf ''user does not own this conversation'')
      else if \<not> Conversation_IsActive conv then
        (if Conversation_IsPendingApproval conv then
           Some (Errorf ''conversation is pending approval, cannot send new messages'')
         else Some (Errorf (''conversation is not active (status: '' @ conversation_status_text (c_Status conv) @ '')'')))
      else None)"

definition CanApprove :: "conversation \<Rightarrow> user \<Rightarrow> goerror option" where
  "CanApprove conv user =
     (if \<not> Conversation_IsPendingApproval conv then Some (Errorf ''conversation is not pending approval'')
      else if c_UserID conv \<noteq> u_ID user \<and> \<not> User_IsAdmin user then
        Some (Errorf ''user is not authorized to approve this action'')
      else None)"

text \<open>\<open>len\<close> and slicing count bytes.\<close>

definition GenerateTitle :: "string \<Rightarrow> string" where
  "GenerateTitle content = (if length content \<le> 100 then content else take 100 content @ ''...'')"

section \<open>Decision tables\<close>

lemma CanSendMessage_None_iff:
  "CanSendMessage conv user = None \<longleftrightarrow>
     u_IsActive user \<and> (c_UserID conv = u_ID user \<or> u_Role user = UserRoleAdmin)
     \<and> c_Status conv = ConversationStatusActive"
  by (auto simp: CanSendMessage_def User_IsAdmin_def Conversation_IsActive_def)

lemma CanApprove_None_iff:
  "CanApprove conv user = None \<longleftrightarrow>
     c_Status conv = ConversationStatusPending \<and> (c_UserID conv = u_ID user \<or> u_Role user = UserRoleAdmin)"
  by (auto simp: CanApprove_def User_IsAdmin_def Conversation_IsPendingApproval_def)

text \<open>No conversation admits both a new message and an approval decision.\<close>

lemma send_approve_exclusive:
  "CanSendMessage conv user = None \<Longrightarrow> CanApprove conv user' \<noteq> None"
  by (simp add: CanSendMessage_None_iff CanApprove_None_iff)

lemma GenerateTitle_prefix: "take 100 (GenerateTitle content) = take 100 content"
  by (simp add: GenerateTitle_def)

end
