(* ===== verification/Chat_Correct.thy ===== *)
theory Chat_Correct
  imports Chat_Usecases Postgres_Correct Domain_Service
begin

text \<open>
  The chat use cases over any pair of stores that meets the contracts: who may read or write
  a conversation, what a turn stores, and what becomes of a turn that pauses for approval.
\<close>

text \<open>A workflow engine that leaves the stores to the use case.\<close>

definition engine_quiet :: "('w \<Rightarrow> 'v) \<Rightarrow> ('w \<Rightarrow> bool) \<Rightarrow> 'w workflow_engine \<Rightarrow> bool" where
  "engine_quiet view ok e \<longleftrightarrow> (\<forall>inp. keeps view (we_Run e inp) \<and> maintains ok (we_Run e inp))
     \<and> (\<forall>text b. keeps view (we_Resume e text b) \<and> maintains ok (we_Resume e text b))"

lemma engine_quietD:
  assumes "engine_quiet view ok e" "we_Run e inp w = (r, w')"
  shows "view w' = view w" "ok w \<Longrightarrow> ok w'"
  using assms unfolding engine_quiet_def by (metis keepsD, metis maintainsD)

definition no_paused_state :: "conversation \<Rightarrow> bool" where
  "no_paused_state c \<longleftrightarrow> (case c_WorkflowState c of None \<Rightarrow> True | Some m \<Rightarrow> map_of m ''paused_state'' = None)"

lemma no_paused_state_error:
  "no_paused_state c \<Longrightarrow> paused_state c = Inl (Errorf ''no paused workflow state found in conversation'')"
  by (auto simp: no_paused_state_def paused_state_def split: option.splits)

context chat_store
begin

lemma col_no_paused:
  "(case ws of None \<Rightarrow> True | Some m \<Rightarrow> map_of m k = None) \<Longrightarrow> (case col ws of None \<Rightarrow> True | Some m \<Rightarrow> map_of m k = None)"
proof (cases ws)
  case (Some m)
  moreover assume "case ws of None \<Rightarrow> True | Some m \<Rightarrow> map_of m k = None"
  ultimately show ?thesis using col_dom [of m] by (auto split: option.splits)
qed (simp add: col_None)

lemma GetConversation_Ret:
  assumes "GetConversation_Execute convs msgs i u w = (Ret out, w')"
  shows "conv_of w i = Some (go_Conversation out)" "c_UserID (go_Conversation out) = u" "go_Messages out = msgs_of w i"
    "conv_of w' = conv_of w" "msgs_of w' = msgs_of w"
proof -
  from assms obtain c w1 ms where *: "cr_FindByID convs i w = (Ret c, w1)" "c_UserID c = u"
      "mr_FindByConversationID msgs i w1 = (Ret ms, w')" "out = \<lparr>go_Conversation = c, go_Messages = ms\<rparr>"
    by (auto simp: GetConversation_Execute_def ret_iffs split: if_splits)
  then show "conv_of w i = Some (go_Conversation out)" "c_UserID (go_Conversation out) = u" "go_Messages out = msgs_of w i"
    using find_Ret [OF *(1)] list_Ret [OF *(3)] keepsD [OF msg_frame(1) *(1)] by simp_all
  show "conv_of w' = conv_of w" using keepsD [OF find_keeps *(1)] keepsD [OF conv_frame(2) *(3)] by simp
  show "msgs_of w' = msgs_of w" using keepsD [OF msg_frame(1) *(1)] keepsD [OF list_keeps *(3)] by simp
qed

lemma send_conversation_Ret:
  assumes "send_conversation rt uc input w = (Ret conv, w1)" "su_convRepo uc = convs" "ok w"
  shows "c_UserID conv = si_UserID input" "ok w1" "msgs_of w1 = msgs_of w"
    "case si_ConversationID input of
       Some i \<Rightarrow> c_ID conv = i \<and> conv_of w i = Some conv \<and> conv_of w1 = conv_of w
     | None \<Rightarrow> conv_of w (c_ID conv) = None \<and> (\<exists>c. conv_of w1 = (conv_of w)(c_ID conv \<mapsto> c) \<and> c_UserID c = c_UserID conv)
         \<and> c_WorkflowState conv = Some [] \<and> c_Status conv = ConversationStatusActive"
proof -
  have "c_UserID conv = si_UserID input \<and> ok w1 \<and> msgs_of w1 = msgs_of w \<and> (case si_ConversationID input of
       Some i \<Rightarrow> c_ID conv = i \<and> conv_of w i = Some conv \<and> conv_of w1 = conv_of w
     | None \<Rightarrow> conv_of w (c_ID conv) = None \<and> (\<exists>c. conv_of w1 = (conv_of w)(c_ID conv \<mapsto> c) \<and> c_UserID c = c_UserID conv)
         \<and> c_WorkflowState conv = Some [] \<and> c_Status conv = ConversationStatusActive)"
  proof (cases "si_ConversationID input")
    case (Some i)
    with assms(1,2) have f: "cr_FindByID convs i w = (Ret conv, w1)" "c_UserID conv = si_UserID input"
      by (auto simp: send_conversation_def ret_iffs split: if_splits)
    then show ?thesis
      using Some find_Ret [OF f(1)] keepsD [OF find_keeps f(1)] keepsD [OF msg_frame(1) f(1)]
        maintainsD [OF ok_frame(1) assms(3) f(1)] by simp
  next
    case None
    let ?u = "rt_uuid rt w"
    let ?t = "rt_now rt (snd ?u)"
    let ?t' = "rt_now rt (snd ?t)"
    define ag where "ag = (if si_AgentType input = [] then ''general'' else si_AgentType input)"
    from None assms(1,2) have c: "conv = NewConversation (fst ?u) (fst ?t) (fst ?t') (si_UserID input) ag"
        "cr_Create convs conv (snd ?t') = (Ret (), w1)"
      by (auto simp: send_conversation_def new_conversation_def bindG_eq_Ret wrapG_eq_Ret Let_def simp flip: ag_def)
    have pre: "conv_of (snd ?t') = conv_of w" "msgs_of (snd ?t') = msgs_of w" "ok (snd ?t')"
      using assms(3) by (simp_all add: clock_frame uuid_frame)
    show ?thesis
      using None c(1) create_Ret [OF c(2)] pre keepsD [OF msg_frame(4) c(2)] maintainsD [OF ok_frame(4) pre(3) c(2)]
      by (auto simp: NewConversation_def)
  qed
  then show "c_UserID conv = si_UserID input" "ok w1" "msgs_of w1 = msgs_of w"
    "case si_ConversationID input of
       Some i \<Rightarrow> c_ID conv = i \<and> conv_of w i = Some conv \<and> conv_of w1 = conv_of w
     | None \<Rightarrow> conv_of w (c_ID conv) = None \<and> (\<exists>c. conv_of w1 = (conv_of w)(c_ID conv \<mapsto> c) \<and> c_UserID c = c_UserID conv)
         \<and> c_WorkflowState conv = Some [] \<and> c_Status conv = ConversationStatusActive"
    by simp_all
qed

text \<open>The part of a turn both endings share: the user's message is stored, the workflow runs.\<close>

lemma send_prefix:
  assumes "SendMessage_Execute rt uc input w = (Ret out, w')" "si_Messages input = []"
    and "su_convRepo uc = convs" "su_msgRepo uc = msgs" "ok w" "engine_quiet (\<lambda>w. (conv_of w, msgs_of w)) ok (su_engine uc)"
  obtains conv w1 um' result w2 where
    "send_conversation rt uc input w = (Ret conv, w1)"
    "m_Role um' = RoleUser" "m_Content um' = si_Content input"
    "conv_of w2 = conv_of w1" "msgs_of w2 = (msgs_of w)(c_ID conv := msgs_of w (c_ID conv) @ [um'])" "ok w2"
    "(if wo_RequiresApproval result then send_paused rt uc conv result else send_finished rt uc input conv result) w2 = (Ret out, w')"
proof -
  from assms(1,2) obtain conv w1 um wa wb ms wc inp result w2 where
      1: "send_conversation rt uc input w = (Ret conv, w1)" and
      2: "new_user_message rt (c_ID conv) (si_Content input) w1 = (Ret um, wa)" and
      3: "mr_Create (su_msgRepo uc) um wa = (Ret (), wb)" and
      4: "mr_FindByConversationID (su_msgRepo uc) (c_ID conv) wb = (Ret ms, wc)" and
      5: "we_Run (su_engine uc) inp wc = (Ret result, w2)" and
      6: "(if wo_RequiresApproval result then send_paused rt uc conv result else send_finished rt uc input conv result) w2 = (Ret out, w')"
    by (auto simp: SendMessage_Execute_def bindG_eq_Ret wrapG_eq_Ret)
  note pre = send_conversation_Ret [OF 1 assms(3,5)]
  have um: "m_Role um = RoleUser" "m_Content um = si_Content input" "m_ConversationID um = c_ID conv"
      and wa: "conv_of wa = conv_of w1" "msgs_of wa = msgs_of w1" "ok wa"
    using 2 pre(2) by (auto simp: new_user_message_def bindG_eq_Ret NewUserMessage_def message_base_def clock_frame uuid_frame)
  obtain um' where um': "stored_message um um'" "msgs_of wb = (msgs_of wa)(c_ID conv := msgs_of wa (c_ID conv) @ [um'])"
    using append_Ret [OF wa(3)] 3 assms(4) um(3) by metis
  have wb: "conv_of wb = conv_of w1" "ok wb"
    using keepsD [OF conv_frame(1)] maintainsD [OF append_ok wa(3)] 3 assms(4) wa(1) by metis+
  have wc: "conv_of wc = conv_of w1" "msgs_of wc = msgs_of wb" "ok wc"
    using keepsD [OF conv_frame(2)] keepsD [OF list_keeps] maintainsD [OF list_ok wb(2)] 4 assms(4) wb(1) by metis+
  have w2: "conv_of w2 = conv_of w1" "msgs_of w2 = msgs_of wb" "ok w2"
    using engine_quietD [OF assms(6) 5] wc by simp_all
  show ?thesis
    by (rule that [OF 1 _ _ w2(1) _ w2(3) 6, of um'])
      (use um um' w2(2) wa(2) pre(3) in \<open>simp_all add: stored_message_def\<close>)
qed

text \<open>The conversation the two endings write back, as stored.\<close>

lemma update_stored:
  assumes "cr_Update convs c w = (Ret (), w')" "conv_of w (c_ID c) = Some c0"
  shows "\<exists>c1. conv_of w' = (conv_of w)(c_ID c \<mapsto> c1) \<and> c_Status c1 = c_Status c \<and> c_WorkflowState c1 = col (c_WorkflowState c)
     \<and> c_UserID c1 = c_UserID c0 \<and> c_MessageCount c1 = c_MessageCount c \<and> c_Title c1 = c_Title c"
proof -
  obtain c1 where "conv_of w' (c_ID c) = Some c1" "written_over col c0 c c1" and other: "\<And>j. j \<noteq> c_ID c \<Longrightarrow> conv_of w' j = conv_of w j"
    using update_Ret [OF assms(1)] assms(2) by auto
  moreover from this have "conv_of w' = (conv_of w)(c_ID c \<mapsto> c1)" by (auto simp: fun_eq_iff)
  ultimately show ?thesis by (auto simp: written_over_def)
qed

lemma send_finished_Ret:
  assumes "send_finished rt uc input conv result w = (Ret out, w')"
    and "su_convRepo uc = convs" "su_msgRepo uc = msgs" "ok w" "conv_of w (c_ID conv) = Some c0"
  shows "\<exists>am' c1. m_Role am' = RoleAssistant \<and> m_Content am' = wo_Response result
     \<and> msgs_of w' = (msgs_of w)(c_ID conv := msgs_of w (c_ID conv) @ [am'])
     \<and> conv_of w' = (conv_of w)(c_ID conv \<mapsto> c1) \<and> c_Status c1 = c_Status conv
     \<and> c_WorkflowState c1 = col (c_WorkflowState conv) \<and> c_UserID c1 = c_UserID c0
     \<and> c_MessageCount c1 = c_MessageCount conv + 1
     \<and> out = \<lparr>so_ConversationID = c_ID conv, so_Message = so_Message out, so_Response = wo_Response result\<rparr> \<and> so_Message out \<noteq> None"
proof -
  from assms(1-3) obtain am wa wb t wc t' wd where
      1: "new_assistant_message rt (c_ID conv) (wo_Response result) [] (chosen_model uc input) w = (Ret am, wa)" and
      2: "mr_Create msgs am wa = (Ret (), wb)" and
      3: "wc = snd (rt_now rt wb)" "wd = snd (rt_now rt wc)" and
      4: "cr_Update convs (Conversation_SetTitle t' (si_Content input)
            (Conversation_AddMessageStats t (wo_TokensUsed result) (wo_ToolCallsCount result) conv)) wd = (Ret (), w')" and
      5: "out = \<lparr>so_ConversationID = c_ID conv, so_Message = Some am, so_Response = wo_Response result\<rparr>"
    by (auto simp: send_finished_def bindG_eq_Ret wrapG_eq_Ret Let_def)
  have am: "m_Role am = RoleAssistant" "m_Content am = wo_Response result" "m_ConversationID am = c_ID conv"
      and wa: "conv_of wa = conv_of w" "msgs_of wa = msgs_of w" "ok wa"
    using 1 assms(4) by (auto simp: new_assistant_message_def bindG_eq_Ret NewAssistantMessage_def message_base_def clock_frame uuid_frame)
  obtain am' where am': "stored_message am am'" "msgs_of wb = (msgs_of w)(c_ID conv := msgs_of w (c_ID conv) @ [am'])"
    using append_Ret [OF wa(3) 2] am(3) wa(2) by auto
  have wb: "conv_of wb = conv_of w" using keepsD [OF conv_frame(1) 2] wa(1) by simp
  have wd: "conv_of wd = conv_of w" "msgs_of wd = msgs_of wb" by (simp_all add: 3 clock_frame wb)
  let ?c = "Conversation_SetTitle t' (si_Content input)
            (Conversation_AddMessageStats t (wo_TokensUsed result) (wo_ToolCallsCount result) conv)"
  have c: "c_ID ?c = c_ID conv" "c_Status ?c = c_Status conv" "c_WorkflowState ?c = c_WorkflowState conv"
      "c_MessageCount ?c = c_MessageCount conv + 1"
    by (simp_all add: Conversation_SetTitle_def Conversation_AddMessageStats_def)
  obtain c1 where c1: "conv_of w' = (conv_of w)(c_ID conv \<mapsto> c1)" "c_Status c1 = c_Status conv"
      "c_WorkflowState c1 = col (c_WorkflowState conv)" "c_UserID c1 = c_UserID c0" "c_MessageCount c1 = c_MessageCount conv + 1"
    using update_stored [OF 4, of c0] assms(5) unfolding wd c by auto
  have "msgs_of w' = (msgs_of w)(c_ID conv := msgs_of w (c_ID conv) @ [am'])"
    using keepsD [OF msg_frame(2) 4] wd(2) am'(2) by simp
  then show ?thesis
    using am am'(1) c1 5 by (intro exI [of _ am'] exI [of _ c1]) (simp add: stored_message_def)
qed

lemma send_finished_missing:
  assumes "send_finished rt uc input conv result w = (Ret out, w')" "su_convRepo uc = convs" "su_msgRepo uc = msgs"
    and "conv_of w (c_ID conv) = None"
  shows "conv_of w' (c_ID conv) = None"
proof -
  from assms(1-3) obtain am wa wb t t' wd where
      1: "new_assistant_message rt (c_ID conv) (wo_Response result) [] (chosen_model uc input) w = (Ret am, wa)" and
      2: "mr_Create msgs am wa = (Ret (), wb)" and
      3: "wd = snd (rt_now rt (snd (rt_now rt wb)))" and
      4: "cr_Update convs (Conversation_SetTitle t' (si_Content input)
            (Conversation_AddMessageStats t (wo_TokensUsed result) (wo_ToolCallsCount result) conv)) wd = (Ret (), w')"
    by (auto simp: send_finished_def bindG_eq_Ret wrapG_eq_Ret Let_def)
  have "conv_of wa = conv_of w"
    using 1 by (auto simp: new_assistant_message_def bindG_eq_Ret clock_frame uuid_frame)
  then have "conv_of wd = conv_of w" using keepsD [OF conv_frame(1) 2] by (simp add: 3 clock_frame)
  moreover have "c_ID (Conversation_SetTitle t' s (Conversation_AddMessageStats t a b conv)) = c_ID conv" for s a b
    by (simp add: Conversation_SetTitle_def Conversation_AddMessageStats_def)
  ultimately show ?thesis using update_Ret [OF 4] assms(4) by simp
qed

lemma send_paused_Ret:
  assumes "send_paused rt uc conv result w = (Ret out, w')"
    and "su_convRepo uc = convs" "conv_of w (c_ID conv) = Some c0"
  shows "\<exists>c1. msgs_of w' = msgs_of w \<and> conv_of w' = (conv_of w)(c_ID conv \<mapsto> c1) \<and> c_Status c1 = ConversationStatusPending
     \<and> c_WorkflowState c1 = col (c_WorkflowState conv) \<and> c_UserID c1 = c_UserID c0
     \<and> out = \<lparr>so_ConversationID = c_ID conv, so_Message = None, so_Response = ''pending_approval''\<rparr>"
proof -
  from assms(1,2) obtain wa conv' t wb where
      1: "cr_UpdateWorkflowState convs (c_ID conv) [(''paused_state'', AStr (wo_PausedStateJSON result))] w = (Ret (), wa)" and
      2: "wb = snd (rt_now rt wa)" and
      3: "Conversation_RequestApproval t (wo_AgentType result) [(''reason'', AStr (wo_ApprovalReason result))] conv = Ret conv'" and
      4: "cr_Update convs conv' wb = (Ret (), w')" and
      5: "out = \<lparr>so_ConversationID = c_ID conv, so_Message = None, so_Response = ''pending_approval''\<rparr>"
    by (auto simp: send_paused_def bindG_eq_Ret wrapG_eq_Ret)
  have conv': "c_ID conv' = c_ID conv" "c_Status conv' = ConversationStatusPending" "c_WorkflowState conv' = c_WorkflowState conv"
    using 3 by (auto simp: Conversation_RequestApproval_def split: outcome.splits)
  obtain c0' where wa: "conv_of wa = (conv_of w)(c_ID conv \<mapsto> c0')" "c_UserID c0' = c_UserID c0"
  proof -
    obtain t where t: "conv_of wa (c_ID conv) = Some (c0\<lparr>c_WorkflowState := col (Some [(''paused_state'', AStr (wo_PausedStateJSON result))]), c_UpdatedAt := t\<rparr>)"
        "\<And>j. j \<noteq> c_ID conv \<Longrightarrow> conv_of wa j = conv_of w j"
      using state_Ret [OF 1] assms(3) by auto
    then show ?thesis by (intro that [of "c0\<lparr>c_WorkflowState := col (Some [(''paused_state'', AStr (wo_PausedStateJSON result))]), c_UpdatedAt := t\<rparr>"])
        (auto simp: fun_eq_iff)
  qed
  have wb: "conv_of wb = conv_of wa" "msgs_of wb = msgs_of w"
    by (simp_all add: 2 clock_frame keepsD [OF msg_frame(3) 1])
  obtain c1 where "conv_of w' = (conv_of wb)(c_ID conv \<mapsto> c1)" "c_Status c1 = ConversationStatusPending"
      "c_WorkflowState c1 = col (c_WorkflowState conv)" "c_UserID c1 = c_UserID c0"
    using update_stored [OF 4, of c0'] wb(1) wa conv' by auto
  then show ?thesis using wb wa(1) 5 keepsD [OF msg_frame(2) 4] by auto
qed

section \<open>Turns\<close>

lemma send_turn:
  assumes "SendMessage_Execute rt uc input w = (Ret out, w')" "si_Messages input = []" "so_Message out \<noteq> None"
    and "su_convRepo uc = convs" "su_msgRepo uc = msgs" "ok w" "engine_quiet (\<lambda>w. (conv_of w, msgs_of w)) ok (su_engine uc)"
  shows "\<exists>um am c. msgs_of w' = (msgs_of w)(so_ConversationID out := msgs_of w (so_ConversationID out) @ [um, am])
     \<and> m_Role um = RoleUser \<and> m_Content um = si_Content input \<and> m_Role am = RoleAssistant \<and> m_Content am = so_Response out
     \<and> conv_of w' (so_ConversationID out) = Some c \<and> c_UserID c = si_UserID input
     \<and> (\<forall>j. j \<noteq> so_ConversationID out \<longrightarrow> conv_of w' j = conv_of w j)"
proof -
  obtain conv w1 um result w2 where 1: "send_conversation rt uc input w = (Ret conv, w1)"
      and um: "m_Role um = RoleUser" "m_Content um = si_Content input"
      and w2: "conv_of w2 = conv_of w1" "msgs_of w2 = (msgs_of w)(c_ID conv := msgs_of w (c_ID conv) @ [um])" "ok w2"
      and fin: "(if wo_RequiresApproval result then send_paused rt uc conv result else send_finished rt uc input conv result) w2 = (Ret out, w')"
    by (rule send_prefix [OF assms(1,2,4-7)])
  note conv = send_conversation_Ret [OF 1 assms(4,6)]
  obtain c0 where c0: "conv_of w1 (c_ID conv) = Some c0" "c_UserID c0 = si_UserID input" "\<And>j. j \<noteq> c_ID conv \<Longrightarrow> conv_of w1 j = conv_of w j"
    using conv(1,4) by (cases "si_ConversationID input") auto
  have "\<not> wo_RequiresApproval result" using fin send_paused_Ret [of uc conv result w2 out w' c0] assms(3,4) w2(1) c0(1) by auto
  then have "send_finished rt uc input conv result w2 = (Ret out, w')" using fin by simp
  from send_finished_Ret [OF this assms(4,5) w2(3), of c0] w2(1) c0(1) obtain am c1 where
      f: "m_Role am = RoleAssistant" "m_Content am = wo_Response result"
      "msgs_of w' = (msgs_of w2)(c_ID conv := msgs_of w2 (c_ID conv) @ [am])" "conv_of w' = (conv_of w2)(c_ID conv \<mapsto> c1)"
      "c_UserID c1 = c_UserID c0" "so_ConversationID out = c_ID conv" "so_Response out = wo_Response result"
    by (metis send_message_output.select_convs)
  show ?thesis
    by (rule exI [of _ um], rule exI [of _ am], rule exI [of _ c1]) (use f um w2 c0 in simp)
qed

text \<open>
  What a turn writes back is the row it read at its start. The engine may do anything to the
  stores meanwhile, also run other turns of the same conversation.
\<close>

lemma send_overwrites:
  assumes "SendMessage_Execute rt uc input w = (Ret out, w')" "si_Messages input = []" "si_ConversationID input = Some i"
    "so_Message out \<noteq> None" and "su_convRepo uc = convs" "su_msgRepo uc = msgs" "ok w" "\<And>inp. maintains ok (we_Run (su_engine uc) inp)"
    and "conv_of w i = Some c" "conv_of w' i = Some c'"
  shows "c_MessageCount c' = c_MessageCount c + 1 \<and> c_Status c' = c_Status c \<and> c_WorkflowState c' = col (c_WorkflowState c)"
proof -
  from assms(1,2) obtain conv w1 um wa wb ms wc inp result w2 where
      1: "send_conversation rt uc input w = (Ret conv, w1)" and
      2: "new_user_message rt (c_ID conv) (si_Content input) w1 = (Ret um, wa)" and
      3: "mr_Create (su_msgRepo uc) um wa = (Ret (), wb)" and
      4: "mr_FindByConversationID (su_msgRepo uc) (c_ID conv) wb = (Ret ms, wc)" and
      5: "we_Run (su_engine uc) inp wc = (Ret result, w2)" and
      6: "(if wo_RequiresApproval result then send_paused rt uc conv result else send_finished rt uc input conv result) w2 = (Ret out, w')"
    by (auto simp: SendMessage_Execute_def bindG_eq_Ret wrapG_eq_Ret)
  note pre = send_conversation_Ret [OF 1 assms(5,7)]
  have conv: "conv = c" "c_ID conv = i" using pre(4) assms(3,9) by auto
  have "ok wa" using 2 pre(2) by (auto simp: new_user_message_def bindG_eq_Ret clock_frame uuid_frame)
  then have "ok wb" using maintainsD [OF append_ok] 3 assms(6) by metis
  then have "ok wc" using maintainsD [OF list_ok] 4 assms(6) by metis
  then have "ok w2" using maintainsD [OF assms(8)] 5 by metis
  have "\<not> wo_RequiresApproval result" using 6 assms(4) by (auto simp: send_paused_def bindG_eq_Ret wrapG_eq_Ret)
  then have fin: "send_finished rt uc input conv result w2 = (Ret out, w')" using 6 by simp
  show ?thesis
  proof (cases "conv_of w2 i")
    case None
    with send_finished_missing [OF fin assms(5,6)] conv(2) have "conv_of w' i = None" by simp
    with assms(10) show ?thesis by simp
  next
    case (Some c0)
    with send_finished_Ret [OF fin assms(5,6) \<open>ok w2\<close>, of c0] conv assms(10) show ?thesis by auto
  qed
qed

lemma send_refused:
  assumes "si_Messages input = []" "si_ConversationID input = Some i" "conv_of w i = Some c" "c_UserID c \<noteq> si_UserID input"
    and "su_convRepo uc = convs"
  shows "\<exists>e w'. SendMessage_Execute rt uc input w = (Err e, w') \<and> conv_of w' = conv_of w \<and> msgs_of w' = msgs_of w"
proof -
  obtain r w' where f: "cr_FindByID convs i w = (r, w')" by fastforce
  have keep: "conv_of w' = conv_of w" "msgs_of w' = msgs_of w"
    using keepsD [OF find_keeps f] keepsD [OF msg_frame(1) f] by simp_all
  have "\<exists>e. send_conversation rt uc input w = (Err e, w')"
  proof (cases r)
    case (Ret c')
    with find_Ret f assms(3) have "c' = c" by fastforce
    with Ret f assms show ?thesis by (simp add: send_conversation_def)
  next
    case (Err e)
    with f assms show ?thesis by (simp add: send_conversation_def)
  next
    case (Panic p)
    with f find_no_panic show ?thesis by metis
  qed
  then show ?thesis using keep assms(1) by (auto simp: SendMessage_Execute_def)
qed

text \<open>
  A turn that paused: the checkpoint written first is overwritten with the workflow state
  the conversation had when it was read, so nothing is left to resume from.
\<close>

lemma send_pause_loses_state:
  assumes "SendMessage_Execute rt uc input w = (Ret out, w')" "si_Messages input = []" "so_Message out = None"
    and "su_convRepo uc = convs" "su_msgRepo uc = msgs" "ok w" "engine_quiet (\<lambda>w. (conv_of w, msgs_of w)) ok (su_engine uc)"
    and "\<And>i c. si_ConversationID input = Some i \<Longrightarrow> conv_of w i = Some c \<Longrightarrow> no_paused_state c"
  shows "\<exists>c. conv_of w' (so_ConversationID out) = Some c \<and> c_Status c = ConversationStatusPending
     \<and> c_UserID c = si_UserID input \<and> no_paused_state c"
proof -
  obtain conv w1 um result w2 where 1: "send_conversation rt uc input w = (Ret conv, w1)"
      and w2: "conv_of w2 = conv_of w1" "ok w2"
      and fin: "(if wo_RequiresApproval result then send_paused rt uc conv result else send_finished rt uc input conv result) w2 = (Ret out, w')"
    by (rule send_prefix [OF assms(1,2,4-7)])
  note conv = send_conversation_Ret [OF 1 assms(4,6)]
  obtain c0 where c0: "conv_of w1 (c_ID conv) = Some c0" "c_UserID c0 = si_UserID input"
    using conv(1,4) by (cases "si_ConversationID input") auto
  have np: "no_paused_state conv"
    using conv(4) assms(8) by (cases "si_ConversationID input") (auto simp: no_paused_state_def)
  have "wo_RequiresApproval result"
    using fin send_finished_Ret [of uc input conv result w2 out w' c0] assms(3-5) w2 c0(1) by (auto split: if_splits)
  then have "send_paused rt uc conv result w2 = (Ret out, w')" using fin by simp
  from send_paused_Ret [OF this assms(4), of c0] w2(1) c0(1) obtain c1 where
      "conv_of w' = (conv_of w2)(c_ID conv \<mapsto> c1)" "c_Status c1 = ConversationStatusPending"
      "c_WorkflowState c1 = col (c_WorkflowState conv)" "c_UserID c1 = c_UserID c0" "so_ConversationID out = c_ID conv"
    by (metis send_message_output.select_convs(1))
  then show ?thesis using np c0(2) col_no_paused [where ws = "c_WorkflowState conv" and k = "''paused_state''"] by (simp add: no_paused_state_def)
qed

lemma approve_stuck:
  assumes "conv_of w (ai_ConversationID input) = Some c" "no_paused_state c" "au_convRepo uc = convs"
  shows "\<exists>e w'. ApproveAction_Execute rt uc input w = (Err e, w') \<and> conv_of w' = conv_of w \<and> msgs_of w' = msgs_of w"
proof -
  obtain r w' where f: "cr_FindByID convs (ai_ConversationID input) w = (r, w')" by fastforce
  have keep: "conv_of w' = conv_of w" "msgs_of w' = msgs_of w"
    using keepsD [OF find_keeps f] keepsD [OF msg_frame(1) f] by simp_all
  show ?thesis
  proof (cases r)
    case (Ret c')
    with find_Ret f assms(1) have "c' = c" by fastforce
    with Ret f assms(3) keep no_paused_state_error [OF assms(2)] show ?thesis by (simp add: ApproveAction_Execute_def)
  next
    case (Err e)
    with f assms(3) keep show ?thesis by (simp add: ApproveAction_Execute_def)
  next
    case (Panic p)
    with f find_no_panic show ?thesis by metis
  qed
qed

section \<open>Decisions\<close>

text \<open>
  A decision that returns: it was the owner's, on a pending conversation with a checkpoint,
  the engine resumed from it, and the stored conversation is pending again exactly when the
  workflow paused again; its checkpoint is the one it had.
\<close>

lemma approve_decision_conv:
  assumes "approve_decision rt uc input conv result w = (Ret conv', w')" "au_convRepo uc = convs" "conv_of w (c_ID conv) = Some c0"
  shows "c_ID conv' = c_ID conv" "c_WorkflowState conv' = c_WorkflowState conv"
    "c_Status conv' = (if wo_RequiresApproval result then ConversationStatusPending else ConversationStatusActive)"
    "\<exists>c0'. conv_of w' (c_ID conv) = Some c0' \<and> c_UserID c0' = c_UserID c0"
proof -
  have "c_ID conv' = c_ID conv \<and> c_WorkflowState conv' = c_WorkflowState conv
     \<and> c_Status conv' = (if wo_RequiresApproval result then ConversationStatusPending else ConversationStatusActive)
     \<and> (\<exists>c0'. conv_of w' (c_ID conv) = Some c0' \<and> c_UserID c0' = c_UserID c0)"
  proof (cases "wo_RequiresApproval result")
    case True
    with assms(1,2) obtain wa t where
        1: "cr_UpdateWorkflowState convs (c_ID conv) [(''paused_state'', AStr (wo_PausedStateJSON result))] w = (Ret (), wa)" and
        2: "Conversation_RequestApproval t (wo_AgentType result) [(''reason'', AStr (wo_ApprovalReason result))] conv = Ret conv'"
           "w' = snd (rt_now rt wa)"
      by (auto simp: approve_decision_def bindG_eq_Ret wrapG_eq_Ret)
    obtain t' where "conv_of wa (c_ID conv) = Some (c0\<lparr>c_WorkflowState := col (Some [(''paused_state'', AStr (wo_PausedStateJSON result))]), c_UpdatedAt := t'\<rparr>)"
      using state_Ret [OF 1] assms(3) by auto
    then show ?thesis using True 2 by (auto simp: Conversation_RequestApproval_def clock_frame split: outcome.splits)
  next
    case False
    with assms show ?thesis
      by (cases "ai_Approved input")
        (auto simp: approve_decision_def bindG_eq_Ret Conversation_Approve_def Conversation_Reject_def clock_frame split: outcome.splits)
  qed
  then show "c_ID conv' = c_ID conv" "c_WorkflowState conv' = c_WorkflowState conv"
    "c_Status conv' = (if wo_RequiresApproval result then ConversationStatusPending else ConversationStatusActive)"
    "\<exists>c0'. conv_of w' (c_ID conv) = Some c0' \<and> c_UserID c0' = c_UserID c0"
    by simp_all
qed

lemma approve_Ret:
  assumes "ApproveAction_Execute rt uc input w = (Ret out, w')" "au_convRepo uc = convs" "au_msgRepo uc = msgs" "ok w"
    and "engine_quiet (\<lambda>w. (conv_of w, msgs_of w)) ok (au_engine uc)"
  shows "\<exists>c chk result w1 w2 c1. conv_of w (ai_ConversationID input) = Some c \<and> c_UserID c = ai_UserID input
     \<and> c_Status c = ConversationStatusPending \<and> paused_state c = Inr chk
     \<and> we_Resume (au_engine uc) chk (ai_Approved input) w1 = (Ret result, w2)
     \<and> ao_Status out = approve_status input result \<and> ao_Response out = wo_Response result
     \<and> conv_of w' (ai_ConversationID input) = Some c1
     \<and> c_Status c1 = (if wo_RequiresApproval result then ConversationStatusPending else ConversationStatusActive)
     \<and> c_WorkflowState c1 = col (c_WorkflowState c)"
proof -
  from assms(1,2) obtain c wa chk result wb wc conv2 wd t where
      1: "cr_FindByID convs (ai_ConversationID input) w = (Ret c, wa)" "c_UserID c = ai_UserID input"
        "Conversation_IsPendingApproval c" "paused_state c = Inr chk" and
      2: "we_Resume (au_engine uc) chk (ai_Approved input) wa = (Ret result, wb)" and
      3: "approve_message rt uc c result wb = (Ret (), wc)" and
      4: "approve_decision rt uc input (Conversation_AddMessageStats t (wo_TokensUsed result) (wo_ToolCallsCount result) c) result
            (snd (rt_now rt wc)) = (Ret conv2, wd)" and
      5: "cr_Update convs conv2 wd = (Ret (), w')" and
      6: "out = \<lparr>ao_Conversation = conv2, ao_Status = approve_status input result, ao_Response = wo_Response result\<rparr>"
    by (auto simp: ApproveAction_Execute_def bindG_eq_Ret wrapG_eq_Ret Let_def split: if_splits sum.splits)
  let ?i = "ai_ConversationID input"
  have c: "conv_of w ?i = Some c" "c_ID c = ?i" using find_Ret [OF 1(1)] by simp_all
  have wa: "conv_of wa = conv_of w" using keepsD [OF find_keeps 1(1)] .
  have wb: "conv_of wb = conv_of w"
  proof -
    have "keeps (\<lambda>w. (conv_of w, msgs_of w)) (we_Resume (au_engine uc) chk (ai_Approved input))"
      using assms(5) by (simp add: engine_quiet_def)
    from keepsD [OF this 2] wa show ?thesis by simp
  qed
  have wc: "conv_of wc = conv_of w"
  proof (cases "wo_Response result = []")
    case True
    with 3 wb show ?thesis by (simp add: approve_message_def)
  next
    case False
    with 3 assms(3) obtain m wm where m: "new_assistant_message rt (c_ID c) (wo_Response result) [] [] wb = (Ret m, wm)"
        "mr_Create msgs m wm = (Ret (), wc)"
      by (auto simp: approve_message_def bindG_eq_Ret wrapG_eq_Ret)
    then show ?thesis using wb keepsD [OF conv_frame(1) m(2)] by (auto simp: new_assistant_message_def bindG_eq_Ret clock_frame uuid_frame)
  qed
  let ?c1 = "Conversation_AddMessageStats t (wo_TokensUsed result) (wo_ToolCallsCount result) c"
  have c1: "c_ID ?c1 = ?i" "c_WorkflowState ?c1 = c_WorkflowState c" by (simp_all add: Conversation_AddMessageStats_def c(2))
  have "conv_of (snd (rt_now rt wc)) (c_ID ?c1) = Some c" by (simp add: clock_frame wc c1 c(1))
  note d = approve_decision_conv [OF 4 assms(2) this]
  obtain c0' where c0': "conv_of wd ?i = Some c0'" using d(4) c1 by auto
  obtain c2 where "conv_of w' ?i = Some c2" "c_Status c2 = c_Status conv2" "c_WorkflowState c2 = col (c_WorkflowState conv2)"
    using update_stored [OF 5, of c0'] c0' d(1) c1(1) by auto
  then show ?thesis
    using c 1 2 6 d(2,3) c1(2) by (auto simp: Conversation_IsPendingApproval_def)
qed

end

end
