(* ===== verification/Http.thy ===== *)
theory Http
  imports Agent_State Chat_Usecases Auth_Usecases
begin

text \<open>
  What an HTTP handler is, \<open>internal/pkg/response\<close>, and the JSON of the values the handlers
  send. A handler changes the world, the response writer and the log. The writer follows
  \<open>net/http\<close>: the first \<open>WriteHeader\<close> fixes status and headers, a \<open>Write\<close> before it sends 200.
\<close>

section \<open>Requests, writers, handlers\<close>

record server_request =
  sr_Method :: string
  sr_Path :: string
  sr_Header :: "(string \<times> string) list"
  sr_RemoteAddr :: string
  sr_Body :: string
  sr_Param :: string
  sr_User :: "user option"
  sr_Token :: "token option"
  sr_RequestID :: "string option"

text \<open>
  \<open>rw_Sent\<close> is what went out first; \<open>rw_Wrapper\<close> is the status field of the wrapper the logger
  puts around a writer, and \<open>rw_Flusher\<close> says whether the writer in use has a \<open>Flush\<close> method.
\<close>

record response_writer =
  rw_Header :: "(string \<times> string) list"
  rw_Sent :: "(int \<times> (string \<times> string) list) option"
  rw_Body :: string
  rw_Flushed :: nat
  rw_Flusher :: bool
  rw_Wrapper :: "int option"

definition new_writer :: response_writer where
  "new_writer = \<lparr>rw_Header = [], rw_Sent = None, rw_Body = [], rw_Flushed = 0, rw_Flusher = True, rw_Wrapper = None\<rparr>"

record log_entry =
  le_Message :: string
  le_Method :: string
  le_Path :: string
  le_Status :: int
  le_Duration :: duration
  le_IP :: string
  le_Error :: string

record 'w served =
  sv_World :: 'w
  sv_Writer :: response_writer
  sv_Log :: "log_entry list"
  sv_Crashed :: bool

type_synonym 'w handler = "server_request \<Rightarrow> ('w served, unit) go"

definition liftG :: "('w, 'a) go \<Rightarrow> ('w served, 'a) go" where
  "liftG m s = (case m (sv_World s) of (r, w) \<Rightarrow> (r, s\<lparr>sv_World := w\<rparr>))"

definition writerG :: "(response_writer \<Rightarrow> response_writer) \<Rightarrow> ('w served, unit) go" where
  "writerG f s = (Ret (), s\<lparr>sv_Writer := f (sv_Writer s)\<rparr>)"

definition Header_Set :: "string \<Rightarrow> string \<Rightarrow> response_writer \<Rightarrow> response_writer" where
  "Header_Set k v rw = rw\<lparr>rw_Header := AList.update k v (rw_Header rw)\<rparr>"

definition send_header :: "int \<Rightarrow> response_writer \<Rightarrow> response_writer" where
  "send_header status rw = (case rw_Sent rw of
     None \<Rightarrow> rw\<lparr>rw_Sent := Some (status, rw_Header rw)\<rparr> | Some _ \<Rightarrow> rw)"

definition WriteHeader :: "int \<Rightarrow> response_writer \<Rightarrow> response_writer" where
  "WriteHeader status rw = send_header status (rw\<lparr>rw_Wrapper := map_option (\<lambda>_. status) (rw_Wrapper rw)\<rparr>)"

definition Writer_Write :: "string \<Rightarrow> response_writer \<Rightarrow> response_writer" where
  "Writer_Write s rw = (let rw' = send_header 200 rw in rw'\<lparr>rw_Body := rw_Body rw' @ s\<rparr>)"

definition Writer_Flush :: "response_writer \<Rightarrow> response_writer" where
  "Writer_Flush rw = (if rw_Flusher rw then (let rw' = send_header 200 rw in rw'\<lparr>rw_Flushed := length (rw_Body rw')\<rparr>) else rw)"

text \<open>\<open>r.Header.Get\<close>: header names are kept in their canonical form.\<close>

definition Header_Get :: "server_request \<Rightarrow> string \<Rightarrow> string" where
  "Header_Get r k = (case map_of (sr_Header r) k of Some v \<Rightarrow> v | None \<Rightarrow> [])"

section \<open>\<open>response.go\<close>\<close>

record api_error =
  ae_Code :: string
  ae_Message :: string

text \<open>
  The document of an \<open>APIResponse\<close>; \<open>omitempty\<close> drops a nil \<open>data\<close> and a nil \<open>error\<close>. The
  members of \<open>data\<close> are \<open>None\<close> when the value has no JSON form.
\<close>

definition api_response_json :: "bool \<Rightarrow> (string \<times> json) list \<Rightarrow> api_error option \<Rightarrow> json" where
  "api_response_json success data err = JObj ([(''success'', JBool success)] @ data
     @ (case err of None \<Rightarrow> [] | Some e \<Rightarrow> [(''error'', JObj [(''code'', JStr (ae_Code e)), (''message'', JStr (ae_Message e))])]))"

definition encode_line :: "json option \<Rightarrow> response_writer \<Rightarrow> response_writer" where
  "encode_line j rw = (case j of None \<Rightarrow> rw | Some d \<Rightarrow> Writer_Write (json_print d @ [CHR 10]) rw)"

definition data_member :: "json option \<Rightarrow> (string \<times> json) list option" where
  "data_member j = map_option (\<lambda>d. [(''data'', d)]) j"

definition response_JSON :: "int \<Rightarrow> (string \<times> json) list option \<Rightarrow> ('w served, unit) go" where
  "response_JSON status data = writerG (\<lambda>rw.
     encode_line (map_option (\<lambda>d. api_response_json True d None) data)
       (WriteHeader status (Header_Set ''Content-Type'' ''application/json'' rw)))"

definition response_Error :: "int \<Rightarrow> string \<Rightarrow> string \<Rightarrow> ('w served, unit) go" where
  "response_Error status code message = writerG (\<lambda>rw.
     encode_line (Some (api_response_json False [] (Some \<lparr>ae_Code = code, ae_Message = message\<rparr>)))
       (WriteHeader status (Header_Set ''Content-Type'' ''application/json'' rw)))"

definition response_Stream :: "('w served, unit) go" where
  "response_Stream = writerG (Header_Set ''X-Accel-Buffering'' ''no'' \<circ> Header_Set ''Connection'' ''keep-alive''
     \<circ> Header_Set ''Cache-Control'' ''no-cache'' \<circ> Header_Set ''Content-Type'' ''text/event-stream'')"

definition SSEEvent :: "string \<Rightarrow> string \<Rightarrow> ('w served, unit) go" where
  "SSEEvent event data = writerG (\<lambda>rw.
     Writer_Flush (Writer_Write (''data: '' @ data @ [CHR 10, CHR 10])
       (if event \<noteq> [] then Writer_Write (''event: '' @ event @ [CHR 10]) rw else rw)))"

text \<open>\<open>b, _ := json.Marshal(data)\<close>: a value without JSON form gives an empty text.\<close>

definition SSEData :: "json option \<Rightarrow> ('w served, unit) go" where
  "SSEData data = writerG (\<lambda>rw. Writer_Flush (Writer_Write
     (''data: '' @ (case data of None \<Rightarrow> [] | Some j \<Rightarrow> json_print j) @ [CHR 10, CHR 10]) rw))"

section \<open>The JSON of the results\<close>

text \<open>
  The entities have no struct tags: their keys are the Go field names, and every exported
  field is written. Empty slices of messages, conversations and tool calls are nil in the
  code, hence \<open>null\<close>; \<open>Tags\<close> is never nil.
\<close>

definition map_field :: "gomap option \<Rightarrow> json option" where
  "map_field m = (case m of None \<Rightarrow> Some JNull | Some kvs \<Rightarrow> any_json (AMap kvs))"

definition time_field :: "time option \<Rightarrow> json" where
  "time_field t = (case t of None \<Rightarrow> JNull | Some t \<Rightarrow> JStr (format_time t))"

definition slice_json :: "json list \<Rightarrow> json" where
  "slice_json xs = (if xs = [] then JNull else JArr xs)"

definition user_json :: "user \<Rightarrow> json option" where
  "user_json u = map_option (\<lambda>md. JObj
     [(''ID'', JStr (format_uuid (u_ID u))), (''Email'', JStr (u_Email u)), (''PasswordHash'', JStr (u_PasswordHash u)),
      (''Name'', JStr (u_Name u)), (''Role'', JStr (user_role_text (u_Role u))), (''IsActive'', JBool (u_IsActive u)),
      (''Metadata'', md), (''CreatedAt'', JStr (format_time (u_CreatedAt u))), (''UpdatedAt'', JStr (format_time (u_UpdatedAt u)))])
     (map_field (u_Metadata u))"

definition conversation_json :: "conversation \<Rightarrow> json option" where
  "conversation_json c =
     (case (format_float (c_Temperature c), map_field (c_WorkflowState c), format_float (c_TotalCost c), map_field (c_Metadata c)) of
        (Some temp, Some ws, Some cost, Some md) \<Rightarrow> Some (JObj
          [(''ID'', JStr (format_uuid (c_ID c))), (''UserID'', JStr (format_uuid (c_UserID c))), (''Title'', JStr (c_Title c)),
           (''Status'', JStr (conversation_status_text (c_Status c))), (''AgentType'', JStr (c_AgentType c)),
           (''SystemPrompt'', JStr (c_SystemPrompt c)), (''Model'', JStr (c_Model c)), (''Temperature'', JNum temp),
           (''CurrentNode'', JStr (c_CurrentNode c)), (''WorkflowState'', ws), (''MessageCount'', JNum (itoa (c_MessageCount c))),
           (''ToolCallCount'', JNum (itoa (c_ToolCallCount c))), (''TotalTokens'', JNum (itoa (c_TotalTokens c))),
           (''TotalCost'', JNum cost), (''Metadata'', md), (''Tags'', JArr (map JStr (c_Tags c))),
           (''CreatedAt'', JStr (format_time (c_CreatedAt c))), (''UpdatedAt'', JStr (format_time (c_UpdatedAt c))),
           (''LastMessageAt'', time_field (c_LastMessageAt c)), (''CompletedAt'', time_field (c_CompletedAt c))])
      | _ \<Rightarrow> None)"

definition message_json :: "message \<Rightarrow> json" where
  "message_json m = JObj
     [(''ID'', JStr (format_uuid (m_ID m))), (''ConversationID'', JStr (format_uuid (m_ConversationID m))),
      (''Role'', JStr (message_role_text (m_Role m))), (''Content'', JStr (m_Content m)), (''Name'', JStr (m_Name m)),
      (''ToolCalls'', slice_json (map tool_call_json (m_ToolCalls m))), (''ToolCallID'', JStr (m_ToolCallID m)),
      (''Model'', JStr (m_Model m)), (''PromptTokens'', JNum (itoa (m_PromptTokens m))),
      (''CompletionTokens'', JNum (itoa (m_CompletionTokens m))), (''Latency'', JNum (int_digits (m_Latency m))),
      (''IsStreaming'', JBool (m_IsStreaming m)), (''StreamComplete'', JBool (m_StreamComplete m)),
      (''SequenceNumber'', JNum (itoa (m_SequenceNumber m))), (''CreatedAt'', JStr (format_time (m_CreatedAt m)))]"

definition create_user_output_json :: "user \<Rightarrow> json option" where
  "create_user_output_json u = map_option (\<lambda>j. JObj [(''user'', j)]) (user_json u)"

definition login_output_json :: "login_output \<Rightarrow> json option" where
  "login_output_json out = map_option (\<lambda>j. JObj
     [(''access_token'', JStr (lg_AccessToken out)), (''refresh_token'', JStr (lg_RefreshToken out)),
      (''token_type'', JStr (lg_TokenType out)), (''expires_in'', JNum (itoa (lg_ExpiresIn out))), (''user'', j)])
     (user_json (lg_User out))"

definition refresh_output_json :: "refresh_token_output \<Rightarrow> json" where
  "refresh_output_json out = JObj [(''access_token'', JStr (ro_AccessToken out)), (''token_type'', JStr (ro_TokenType out)),
     (''expires_in'', JNum (itoa (ro_ExpiresIn out)))]"

definition send_message_output_json :: "send_message_output \<Rightarrow> json" where
  "send_message_output_json out = JObj [(''conversation_id'', JStr (format_uuid (so_ConversationID out))),
     (''message'', case so_Message out of None \<Rightarrow> JNull | Some m \<Rightarrow> message_json m), (''response'', JStr (so_Response out))]"

definition get_conversation_output_json :: "get_conversation_output \<Rightarrow> json option" where
  "get_conversation_output_json out = map_option (\<lambda>c. JObj
     [(''conversation'', c), (''messages'', slice_json (map message_json (go_Messages out)))]) (conversation_json (go_Conversation out))"

definition list_conversations_output_json :: "list_conversations_output \<Rightarrow> json option" where
  "list_conversations_output_json out = map_option (\<lambda>cs. JObj
     [(''conversations'', slice_json cs), (''total'', JNum (int_digits (lo_Total out)))])
     (sequence_opt (map conversation_json (lo_Conversations out)))"

definition approve_output_json :: "approve_output \<Rightarrow> json option" where
  "approve_output_json out = map_option (\<lambda>c. JObj ([(''conversation'', c), (''status'', JStr (ao_Status out))]
     @ omit_string ''response'' (ao_Response out))) (conversation_json (ao_Conversation out))"

definition usage_json :: "usage_info \<Rightarrow> json" where
  "usage_json u = JObj [(''prompt_tokens'', JNum (itoa (us_PromptTokens u))),
     (''completion_tokens'', JNum (itoa (us_CompletionTokens u))), (''total_tokens'', JNum (itoa (us_TotalTokens u)))]"

definition stream_event_json :: "stream_event \<Rightarrow> json" where
  "stream_event_json e = JObj ([(''type'', JStr (se_Type e))] @ omit_string ''delta'' (se_Delta e)
     @ omit_opt ''tool_call'' tool_call_json (se_ToolCall e) @ omit_opt ''usage'' usage_json (se_Usage e)
     @ (if se_Done e then [(''done'', JBool True)] else []))"

section \<open>Lemmas\<close>

lemma liftG_cases:
  "m (sv_World s) = (r, w) \<Longrightarrow> liftG m s = (r, s\<lparr>sv_World := w\<rparr>)"
  by (simp add: liftG_def)

lemma writerG_apply [simp]: "writerG f s = (Ret (), s\<lparr>sv_Writer := f (sv_Writer s)\<rparr>)"
  by (simp add: writerG_def)

text \<open>Once something was sent, status and headers stay; writing sends.\<close>

lemma sent_send_header [simp]: "rw_Sent (send_header st rw) = (case rw_Sent rw of None \<Rightarrow> Some (st, rw_Header rw) | Some x \<Rightarrow> Some x)"
  by (simp add: send_header_def split: option.splits)

lemma sent_WriteHeader [simp]: "rw_Sent (WriteHeader st rw) = (case rw_Sent rw of None \<Rightarrow> Some (st, rw_Header rw) | Some x \<Rightarrow> Some x)"
  by (simp add: WriteHeader_def split: option.splits)

lemma sent_Header_Set [simp]: "rw_Sent (Header_Set k v rw) = rw_Sent rw"
  by (simp add: Header_Set_def)

lemma sent_Write [simp]: "rw_Sent (Writer_Write s rw) = (case rw_Sent rw of None \<Rightarrow> Some (200, rw_Header rw) | Some x \<Rightarrow> Some x)"
  by (simp add: Writer_Write_def Let_def)

lemma sent_Flush: "rw_Sent rw \<noteq> None \<Longrightarrow> rw_Sent (Writer_Flush rw) = rw_Sent rw"
  by (auto simp: Writer_Flush_def Let_def)

lemma sent_encode_line [simp]: "rw_Sent rw = Some x \<Longrightarrow> rw_Sent (encode_line j rw) = Some x"
  by (simp add: encode_line_def split: option.split)

end
