(* ===== verification/Middleware.thy ===== *)
theory Middleware
  imports Http "HOL-Library.Signed_Division"
begin

text \<open>
  \<open>internal/infrastructure/http/middleware\<close> and the Redis cache
  (\<open>internal/infrastructure/persistence/redis/cache.go\<close>). A middleware takes the next handler
  and gives a handler. The Redis client is a parameter, the record of the commands the code
  sends; days are those of UTC.
\<close>

section \<open>The Redis client and the cache (\<open>cache.go\<close>)\<close>

text \<open>\<open>rc_Get\<close> answers \<open>None\<close> for \<open>redis.Nil\<close>.\<close>

record 'w redis_client =
  rc_Incr :: "string \<Rightarrow> ('w, go_int) go"
  rc_Expire :: "string \<Rightarrow> duration \<Rightarrow> ('w, bool) go"
  rc_Get :: "string \<Rightarrow> ('w, string option) go"
  rc_Set :: "string \<Rightarrow> string \<Rightarrow> duration \<Rightarrow> ('w, unit) go"
  rc_Del :: "string \<Rightarrow> ('w, go_int) go"
  rc_Exists :: "string \<Rightarrow> ('w, go_int) go"
  rc_Ping :: "('w, unit) go"

definition Cache_Get :: "'w redis_client \<Rightarrow> string \<Rightarrow> ('w, string) go" where
  "Cache_Get rc key = bindG (wrapG (''get key '' @ key) (rc_Get rc key)) (\<lambda>r. case r of
     None \<Rightarrow> failG (Errorf (''key not found: '' @ key)) | Some val \<Rightarrow> returnG val)"

definition Cache_Set :: "'w redis_client \<Rightarrow> string \<Rightarrow> string \<Rightarrow> duration \<Rightarrow> ('w, unit) go" where
  "Cache_Set rc key val ttl = wrapG (''set key '' @ key) (rc_Set rc key val ttl)"

definition Cache_Delete :: "'w redis_client \<Rightarrow> string \<Rightarrow> ('w, unit) go" where
  "Cache_Delete rc key = bindG (wrapG (''delete key '' @ key) (rc_Del rc key)) (\<lambda>_. returnG ())"

definition Cache_Exists :: "'w redis_client \<Rightarrow> string \<Rightarrow> ('w, bool) go" where
  "Cache_Exists rc key = bindG (wrapG (''exists key '' @ key) (rc_Exists rc key)) (\<lambda>n. returnG (0 <s n))"

definition NewCache :: "'w redis_client \<Rightarrow> 'w cache" where
  "NewCache rc = \<lparr>ca_Get = Cache_Get rc, ca_Set = Cache_Set rc, ca_Delete = Cache_Delete rc, ca_Exists = Cache_Exists rc\<rparr>"

section \<open>\<open>ratelimit.go\<close>\<close>

text \<open>An error of \<open>Incr\<close> leaves the count at zero, so the request passes.\<close>

definition counted :: "'w redis_client \<Rightarrow> string \<Rightarrow> duration \<Rightarrow> ('w, go_int) go" where
  "counted rc key ttl = bindG (attemptG (rc_Incr rc key)) (\<lambda>r. case r of
     Inl e \<Rightarrow> returnG 0
   | Inr n \<Rightarrow> if n = 1 then bindG (attemptG (rc_Expire rc key ttl)) (\<lambda>_. returnG n) else returnG n)"

definition minute_key :: "token \<Rightarrow> time \<Rightarrow> string" where
  "minute_key t now = ''ratelimit:'' @ format_uuid (t_ID t) @ '':minute:'' @ int_digits ((now div second) sdiv 60)"

definition day_key :: "token \<Rightarrow> time \<Rightarrow> string" where
  "day_key t now = ''ratelimit:'' @ format_uuid (t_ID t) @ '':day:'' @ format_date now"

definition Limit :: "'w runtime \<Rightarrow> 'w redis_client \<Rightarrow> 'w handler \<Rightarrow> 'w handler" where
  "Limit rt rc next r = (case sr_Token r of
     None \<Rightarrow> next r
   | Some t \<Rightarrow>
       bindG (liftG (stateG (rt_now rt))) (\<lambda>now.
       bindG (liftG (counted rc (minute_key t now) minute)) (\<lambda>count.
       if t_RateLimitPerMinute t <s count then
         bindG (writerG (Header_Set ''Retry-After'' ''60'' \<circ> Header_Set ''X-Ratelimit-Remaining'' ''0''
           \<circ> Header_Set ''X-Ratelimit-Limit'' (itoa (t_RateLimitPerMinute t)))) (\<lambda>_.
         response_Error 429 ''RATE_LIMIT'' ''Rate limit exceeded'')
       else
         bindG (liftG (stateG (rt_now rt))) (\<lambda>now'.
         bindG (liftG (counted rc (day_key t now') (24 * hour))) (\<lambda>dayCount.
         if t_RateLimitPerDay t <s dayCount then response_Error 429 ''RATE_LIMIT'' ''Daily rate limit exceeded''
         else
           bindG (writerG (Header_Set ''X-Ratelimit-Remaining'' (itoa (t_RateLimitPerMinute t - count))
             \<circ> Header_Set ''X-Ratelimit-Limit'' (itoa (t_RateLimitPerMinute t)))) (\<lambda>_.
           next r))))))"

section \<open>\<open>auth.go\<close>\<close>

definition GetUserFromContext :: "server_request \<Rightarrow> user option" where
  "GetUserFromContext r = sr_User r"

definition GetTokenFromContext :: "server_request \<Rightarrow> token option" where
  "GetTokenFromContext r = sr_Token r"

definition bearer_token :: "string \<Rightarrow> string" where
  "bearer_token authHeader = trim_space (trim_prefix authHeader ''Bearer '')"

definition with_identity :: "validate_token_result \<Rightarrow> server_request \<Rightarrow> server_request" where
  "with_identity res r = r\<lparr>sr_User := Some (vr_User res), sr_Token := Some (vr_Token res)\<rparr>"

text \<open>\<open>validate\<close> is \<open>ValidateTokenUseCase.Execute\<close>.\<close>

definition Authenticate :: "(string \<Rightarrow> ('w, validate_token_result) go) \<Rightarrow> 'w handler \<Rightarrow> 'w handler" where
  "Authenticate validate next r =
     (let authHeader = Header_Get r ''Authorization'' in
      if authHeader = [] then response_Error 401 ''UNAUTHORIZED'' ''Missing authorization header''
      else bindG (attemptG (liftG (validate (bearer_token authHeader)))) (\<lambda>res. case res of
          Inl e \<Rightarrow> response_Error 401 ''INVALID_TOKEN'' (error_msg e)
        | Inr result \<Rightarrow> next (with_identity result r)))"

definition OptionalAuth :: "(string \<Rightarrow> ('w, validate_token_result) go) \<Rightarrow> 'w handler \<Rightarrow> 'w handler" where
  "OptionalAuth validate next r =
     (let authHeader = Header_Get r ''Authorization'' in
      if authHeader = [] then next r
      else bindG (attemptG (liftG (validate (bearer_token authHeader)))) (\<lambda>res.
        next (case res of Inl e \<Rightarrow> r | Inr result \<Rightarrow> with_identity result r)))"

section \<open>\<open>cors.go\<close>, \<open>requestid.go\<close>, \<open>logging.go\<close>, \<open>recovery.go\<close>\<close>

definition CORS :: "'w handler \<Rightarrow> 'w handler" where
  "CORS next r =
     bindG (writerG (Header_Set ''Access-Control-Max-Age'' ''3600''
       \<circ> Header_Set ''Access-Control-Expose-Headers'' ''X-Request-ID, X-RateLimit-Limit, X-RateLimit-Remaining''
       \<circ> Header_Set ''Access-Control-Allow-Headers'' ''Accept, Authorization, Content-Type, X-Request-ID''
       \<circ> Header_Set ''Access-Control-Allow-Methods'' ''GET, POST, PUT, DELETE, OPTIONS, PATCH''
       \<circ> Header_Set ''Access-Control-Allow-Origin'' ''*'')) (\<lambda>_.
     if sr_Method r = ''OPTIONS'' then writerG (WriteHeader 204) else next r)"

definition RequestID :: "'w runtime \<Rightarrow> 'w handler \<Rightarrow> 'w handler" where
  "RequestID rt next r =
     bindG (if Header_Get r ''X-Request-Id'' = [] then
              bindG (liftG (stateG (rt_uuid rt))) (\<lambda>u. returnG (format_uuid u))
            else returnG (Header_Get r ''X-Request-Id'')) (\<lambda>rid.
     bindG (writerG (Header_Set ''X-Request-Id'' rid)) (\<lambda>_. next (r\<lparr>sr_RequestID := Some rid\<rparr>)))"

text \<open>
  The logger's wrapper embeds the \<open>http.ResponseWriter\<close> interface, so it has no \<open>Flush\<close>
  method whatever writer is inside. A panic of the next handler skips the log line.
\<close>

definition Logger :: "'w runtime \<Rightarrow> 'w handler \<Rightarrow> 'w handler" where
  "Logger rt next r =
     bindG (liftG (stateG (rt_now rt))) (\<lambda>start.
     bindG (writerG (\<lambda>rw. rw\<lparr>rw_Flusher := False, rw_Wrapper := Some 200\<rparr>)) (\<lambda>_.
     bindG (next r) (\<lambda>_.
     bindG (liftG (stateG (rt_now rt))) (\<lambda>stop.
     (\<lambda>s. (Ret (), s\<lparr>sv_Log := sv_Log s @ [\<lparr>le_Message = ''request'', le_Method = sr_Method r, le_Path = sr_Path r,
        le_Status = (case rw_Wrapper (sv_Writer s) of Some st \<Rightarrow> st | None \<Rightarrow> 200), le_Duration = stop - start,
        le_IP = sr_RemoteAddr r, le_Error = []\<rparr>]\<rparr>))))))"

text \<open>
  A panic that has ended the process reaches no deferred function. The log of a recovered one
  keeps its text; the stack is left out.
\<close>

definition Recoverer :: "'w handler \<Rightarrow> 'w handler" where
  "Recoverer next r s = (case next r s of
     (Panic p, s') \<Rightarrow>
       if sv_Crashed s' then (Panic p, s')
       else response_Error 500 ''INTERNAL_ERROR'' ''Internal server error''
         (s'\<lparr>sv_Log := sv_Log s' @ [\<lparr>le_Message = ''panic recovered'', le_Method = [], le_Path = sr_Path r,
            le_Status = 0, le_Duration = 0, le_IP = [], le_Error = p\<rparr>]\<rparr>)
   | res \<Rightarrow> res)"

end
