(* ===== verification/Handlers.thy ===== *)
theory Handlers
  imports Middleware
begin

text \<open>
  \<open>internal/application/dto/request\<close> and \<open>internal/infrastructure/http/handler\<close>. A handler
  record holds the \<open>Execute\<close> functions of its use cases. Reading \<open>user.ID\<close> of a request
  without a user panics, as the nil pointer does.
\<close>

section \<open>Requests (\<open>dto/request\<close>)\<close>

record login_request =
  lr_Email :: string
  lr_Password :: string

record register_request =
  gr_Email :: string
  gr_Password :: string
  gr_Name :: string

record refresh_token_request =
  rr_RefreshToken :: string

record chat_completion_request =
  cq_Model :: string
  cq_Messages :: "chat_message list"
  cq_Tools :: "any list"
  cq_ToolChoice :: any
  cq_Temperature :: "f64 option"
  cq_MaxTokens :: "go_int option"
  cq_Stream :: bool

record create_conversation_request =
  nr_Message :: string
  nr_AgentType :: string

record send_message_request =
  mq_Message :: string

record approval_request =
  pr_Approved :: bool
  pr_Reason :: string

text \<open>\<open>json.NewDecoder(r.Body).Decode(&req)\<close>: the first value of the body, into the struct.\<close>

definition decode_body :: "(json \<Rightarrow> 'a option) \<Rightarrow> server_request \<Rightarrow> 'a option" where
  "decode_body dec r = Option.bind (decode_first (sr_Body r)) dec"

definition dec_login_request :: "json \<Rightarrow> login_request option" where
  "dec_login_request j = Option.bind (dec_obj j) (\<lambda>kvs.
     Option.bind (dec_string (obj_field ''email'' kvs)) (\<lambda>e.
     Option.bind (dec_string (obj_field ''password'' kvs)) (\<lambda>p.
     Some \<lparr>lr_Email = e, lr_Password = p\<rparr>)))"

definition dec_register_request :: "json \<Rightarrow> register_request option" where
  "dec_register_request j = Option.bind (dec_obj j) (\<lambda>kvs.
     Option.bind (dec_string (obj_field ''email'' kvs)) (\<lambda>e.
     Option.bind (dec_string (obj_field ''password'' kvs)) (\<lambda>p.
     Option.bind (dec_string (obj_field ''name'' kvs)) (\<lambda>n.
     Some \<lparr>gr_Email = e, gr_Password = p, gr_Name = n\<rparr>))))"

definition dec_refresh_token_request :: "json \<Rightarrow> refresh_token_request option" where
  "dec_refresh_token_request j = Option.bind (dec_obj j) (\<lambda>kvs.
     map_option (\<lambda>t. \<lparr>rr_RefreshToken = t\<rparr>) (dec_string (obj_field ''refresh_token'' kvs)))"

definition dec_chat_completion_request :: "json \<Rightarrow> chat_completion_request option" where
  "dec_chat_completion_request j = Option.bind (dec_obj j) (\<lambda>kvs.
     Option.bind (dec_string (obj_field ''model'' kvs)) (\<lambda>m.
     Option.bind (dec_list dec_chat_message (obj_field ''messages'' kvs)) (\<lambda>ms.
     Option.bind (dec_list json_any (obj_field ''tools'' kvs)) (\<lambda>ts.
     Option.bind (json_any (obj_field ''tool_choice'' kvs)) (\<lambda>tc.
     Option.bind (dec_opt dec_float (obj_field ''temperature'' kvs)) (\<lambda>te.
     Option.bind (dec_opt dec_int (obj_field ''max_tokens'' kvs)) (\<lambda>mt.
     Option.bind (dec_bool (obj_field ''stream'' kvs)) (\<lambda>st.
     Some \<lparr>cq_Model = m, cq_Messages = ms, cq_Tools = ts, cq_ToolChoice = tc, cq_Temperature = te,
           cq_MaxTokens = mt, cq_Stream = st\<rparr>))))))))"

definition dec_create_conversation_request :: "json \<Rightarrow> create_conversation_request option" where
  "dec_create_conversation_request j = Option.bind (dec_obj j) (\<lambda>kvs.
     Option.bind (dec_string (obj_field ''message'' kvs)) (\<lambda>m.
     Option.bind (dec_string (obj_field ''agent_type'' kvs)) (\<lambda>a.
     Some \<lparr>nr_Message = m, nr_AgentType = a\<rparr>)))"

definition dec_send_message_request :: "json \<Rightarrow> send_message_request option" where
  "dec_send_message_request j = Option.bind (dec_obj j) (\<lambda>kvs.
     map_option (\<lambda>m. \<lparr>mq_Message = m\<rparr>) (dec_string (obj_field ''message'' kvs)))"

definition dec_approval_request :: "json \<Rightarrow> approval_request option" where
  "dec_approval_request j = Option.bind (dec_obj j) (\<lambda>kvs.
     Option.bind (dec_bool (obj_field ''approved'' kvs)) (\<lambda>a.
     Option.bind (dec_string (obj_field ''reason'' kvs)) (\<lambda>rs.
     Some \<lparr>pr_Approved = a, pr_Reason = rs\<rparr>)))"

section \<open>Shared steps\<close>

definition with_body :: "(json \<Rightarrow> 'a option) \<Rightarrow> string \<Rightarrow> server_request \<Rightarrow> ('a \<Rightarrow> ('w served, unit) go) \<Rightarrow> ('w served, unit) go" where
  "with_body dec msg r k = (case decode_body dec r of
     None \<Rightarrow> response_Error 400 ''INVALID_REQUEST'' msg | Some req \<Rightarrow> k req)"

definition with_user_id :: "server_request \<Rightarrow> (uuid \<Rightarrow> ('w served, unit) go) \<Rightarrow> ('w served, unit) go" where
  "with_user_id r k = (case GetUserFromContext r of
     None \<Rightarrow> panicG ''runtime error: invalid memory address or nil pointer dereference'' | Some u \<Rightarrow> k (u_ID u))"

text \<open>
  \<open>uuid.Parse\<close> reads the canonical form, the same after \<open>urn:uuid:\<close> or in braces, and 32
  hexadecimal digits.
\<close>

definition uuid_Parse :: "string \<Rightarrow> uuid option" where
  "uuid_Parse s =
     (if length s = 36 then parse_uuid s
      else if length s = 45 \<and> to_lower (take 9 s) = ''urn:uuid:'' then parse_uuid (drop 9 s)
      else if length s = 38 then parse_uuid (take 36 (drop 1 s))
      else if length s = 32 then map_option word_of_int (hex_value s)
      else None)"

definition with_conversation_id :: "server_request \<Rightarrow> (uuid \<Rightarrow> ('w served, unit) go) \<Rightarrow> ('w served, unit) go" where
  "with_conversation_id r k = (case uuid_Parse (sr_Param r) of
     None \<Rightarrow> response_Error 400 ''INVALID_ID'' ''Invalid conversation ID'' | Some i \<Rightarrow> k i)"

text \<open>\<open>result, err := uc.Execute(...)\<close>, then an error answer or the result with a status.\<close>

definition answer ::
    "('w, 'a) go \<Rightarrow> (goerror \<Rightarrow> ('w served, unit) go) \<Rightarrow> ('a \<Rightarrow> ('w served, unit) go) \<Rightarrow> ('w served, unit) go" where
  "answer m on_err on_ok = bindG (attemptG (liftG m)) (\<lambda>res. case res of Inl e \<Rightarrow> on_err e | Inr x \<Rightarrow> on_ok x)"

section \<open>\<open>auth_handler.go\<close>\<close>

record 'w auth_handler =
  ah_login :: "login_input \<Rightarrow> ('w, login_output) go"
  ah_refresh :: "string \<Rightarrow> ('w, refresh_token_output) go"
  ah_createUser :: "create_user_input \<Rightarrow> ('w, user) go"

definition AuthHandler_Register :: "'w auth_handler \<Rightarrow> 'w handler" where
  "AuthHandler_Register h r = with_body dec_register_request ''Invalid request body'' r (\<lambda>req.
     answer (ah_createUser h \<lparr>ci_Email = gr_Email req, ci_Password = gr_Password req, ci_Name = gr_Name req\<rparr>)
       (\<lambda>e. response_Error 400 ''REGISTER_ERROR'' (error_msg e))
       (\<lambda>result. response_JSON 201 (data_member (create_user_output_json result))))"

definition AuthHandler_Login :: "'w auth_handler \<Rightarrow> 'w handler" where
  "AuthHandler_Login h r = with_body dec_login_request ''Invalid request body'' r (\<lambda>req.
     answer (ah_login h \<lparr>li_Email = lr_Email req, li_Password = lr_Password req\<rparr>)
       (\<lambda>e. response_Error 401 ''LOGIN_ERROR'' (error_msg e))
       (\<lambda>result. response_JSON 200 (data_member (login_output_json result))))"

definition AuthHandler_RefreshToken :: "'w auth_handler \<Rightarrow> 'w handler" where
  "AuthHandler_RefreshToken h r = with_body dec_refresh_token_request ''Invalid request body'' r (\<lambda>req.
     answer (ah_refresh h (rr_RefreshToken req))
       (\<lambda>e. response_Error 401 ''REFRESH_ERROR'' (error_msg e))
       (\<lambda>result. response_JSON 200 (data_member (Some (refresh_output_json result)))))"

section \<open>\<open>chat_handler.go\<close>\<close>

record 'w chat_handler =
  hc_sendMessage :: "send_message_input \<Rightarrow> ('w, send_message_output) go"
  hc_sendStream :: "send_message_input \<Rightarrow> ('w, stream_event list) go"
  hc_getConversation :: "uuid \<Rightarrow> uuid \<Rightarrow> ('w, get_conversation_output) go"
  hc_listConversations :: "uuid \<Rightarrow> ('w, list_conversations_output) go"
  hc_approveAction :: "approve_input \<Rightarrow> ('w, approve_output) go"

definition send_message_input0 :: "uuid \<Rightarrow> send_message_input" where
  "send_message_input0 userID = \<lparr>si_ConversationID = None, si_UserID = userID, si_Content = [], si_AgentType = [],
     si_Messages = [], si_Model = [], si_Tools = []\<rparr>"

definition error_map :: "goerror \<Rightarrow> json" where
  "error_map e = JObj [(''error'', JStr (error_msg e))]"

text \<open>The loop over the events; it leaves the channel after an error or the last event.\<close>

fun stream_loop :: "stream_event list \<Rightarrow> ('w served, unit) go" where
  "stream_loop [] = returnG ()"
| "stream_loop (event # events) = (case se_Error event of
     Some e \<Rightarrow> SSEData (Some (error_map e))
   | None \<Rightarrow> bindG (SSEData (Some (stream_event_json event))) (\<lambda>_.
       if se_Done event then returnG () else stream_loop events))"

definition handleStreamingChat :: "'w chat_handler \<Rightarrow> server_request \<Rightarrow> chat_completion_request \<Rightarrow> ('w served, unit) go" where
  "handleStreamingChat h r req =
     bindG response_Stream (\<lambda>_. with_user_id r (\<lambda>uid.
     answer (hc_sendStream h ((send_message_input0 uid)\<lparr>si_Messages := cq_Messages req, si_Model := cq_Model req\<rparr>))
       (\<lambda>e. SSEData (Some (error_map e)))
       (\<lambda>events. bindG (stream_loop events) (\<lambda>_. SSEEvent [] ''[DONE]''))))"

definition ChatHandler_ChatCompletions :: "'w chat_handler \<Rightarrow> 'w handler" where
  "ChatHandler_ChatCompletions h r = with_body dec_chat_completion_request ''Invalid request body'' r (\<lambda>req.
     if cq_Stream req then handleStreamingChat h r req
     else with_user_id r (\<lambda>uid.
       answer (hc_sendMessage h ((send_message_input0 uid)\<lparr>si_Messages := cq_Messages req, si_Model := cq_Model req\<rparr>))
         (\<lambda>e. response_Error 500 ''CHAT_ERROR'' (error_msg e))
         (\<lambda>result. response_JSON 200 (data_member (Some (send_message_output_json result))))))"

definition ChatHandler_CreateConversation :: "'w chat_handler \<Rightarrow> 'w handler" where
  "ChatHandler_CreateConversation h r = with_body dec_create_conversation_request ''Invalid request body'' r (\<lambda>req.
     with_user_id r (\<lambda>uid.
     answer (hc_sendMessage h ((send_message_input0 uid)\<lparr>si_Content := nr_Message req, si_AgentType := nr_AgentType req\<rparr>))
       (\<lambda>e. response_Error 500 ''CHAT_ERROR'' (error_msg e))
       (\<lambda>result. response_JSON 201 (data_member (Some (send_message_output_json result))))))"

definition ChatHandler_SendMessage :: "'w chat_handler \<Rightarrow> 'w handler" where
  "ChatHandler_SendMessage h r = with_conversation_id r (\<lambda>convID.
     with_body dec_send_message_request ''Invalid request body'' r (\<lambda>req.
     with_user_id r (\<lambda>uid.
     answer (hc_sendMessage h ((send_message_input0 uid)\<lparr>si_ConversationID := Some convID, si_Content := mq_Message req\<rparr>))
       (\<lambda>e. response_Error 500 ''CHAT_ERROR'' (error_msg e))
       (\<lambda>result. response_JSON 200 (data_member (Some (send_message_output_json result)))))))"

definition ChatHandler_GetConversation :: "'w chat_handler \<Rightarrow> 'w handler" where
  "ChatHandler_GetConversation h r = with_conversation_id r (\<lambda>convID.
     with_user_id r (\<lambda>uid.
     answer (hc_getConversation h convID uid)
       (\<lambda>e. response_Error 404 ''NOT_FOUND'' ''Conversation not found'')
       (\<lambda>result. response_JSON 200 (data_member (get_conversation_output_json result)))))"

definition ChatHandler_ListConversations :: "'w chat_handler \<Rightarrow> 'w handler" where
  "ChatHandler_ListConversations h r = with_user_id r (\<lambda>uid.
     answer (hc_listConversations h uid)
       (\<lambda>e. response_Error 500 ''LIST_ERROR'' (error_msg e))
       (\<lambda>result. response_JSON 200 (data_member (list_conversations_output_json result))))"

definition ChatHandler_ApproveAction :: "'w chat_handler \<Rightarrow> 'w handler" where
  "ChatHandler_ApproveAction h r = with_conversation_id r (\<lambda>convID.
     with_body dec_approval_request ''Invalid request body'' r (\<lambda>req.
     with_user_id r (\<lambda>uid.
     answer (hc_approveAction h \<lparr>ai_ConversationID = convID, ai_UserID = uid, ai_Approved = pr_Approved req, ai_Reason = pr_Reason req\<rparr>)
       (\<lambda>e. response_Error 500 ''APPROVAL_ERROR'' (error_msg e))
       (\<lambda>result. response_JSON 200 (data_member (approve_output_json result))))))"

section \<open>\<open>tool_handler.go\<close>\<close>

record 'w tool_handler =
  th_registry :: "'w tool_registry"
  th_executeTool :: "tool_call \<Rightarrow> user option \<Rightarrow> token option \<Rightarrow> ('w, execute_tool_output) go"

definition ToolHandler_ListTools :: "'w runtime \<Rightarrow> 'w tool_handler \<Rightarrow> 'w handler" where
  "ToolHandler_ListTools rt h r =
     bindG (liftG (case GetTokenFromContext r of
         Some t \<Rightarrow> ListForToken rt (th_registry h) (t_AllowedTools t)
       | None \<Rightarrow> Registry_List rt (th_registry h))) (\<lambda>tools.
     response_JSON 200 (data_member (map_option (\<lambda>js. JObj [(''tools'', JArr js)]) (sequence_opt (map tool_spec_json tools)))))"

definition ToolHandler_ExecuteTool :: "'w tool_handler \<Rightarrow> 'w handler" where
  "ToolHandler_ExecuteTool h r = with_body dec_tool_call ''Invalid tool call format'' r (\<lambda>req.
     answer (th_executeTool h req (GetUserFromContext r) (GetTokenFromContext r))
       (\<lambda>e. response_Error 500 ''TOOL_ERROR'' (error_msg e))
       (\<lambda>result. response_JSON 200 (any_member ''data'' (eo_Result result))))"

text \<open>
  The goroutines of a batch run to completion one after the other, in the order \<open>order\<close> the
  scheduler picks; an error leaves its slot nil. A panic in a goroutine is not recovered: it
  ends the process.
\<close>

fun batch_loop :: "'w tool_handler \<Rightarrow> server_request \<Rightarrow> tool_call list \<Rightarrow> nat list \<Rightarrow> any list \<Rightarrow> ('w served, any list) go" where
  "batch_loop h r calls [] results = returnG results"
| "batch_loop h r calls (i # order) results =
     (\<lambda>s. case attemptG (liftG (th_executeTool h (calls ! i) (GetUserFromContext r) (GetTokenFromContext r))) s of
        (Ret (Inr out), s') \<Rightarrow> batch_loop h r calls order (results[i := eo_Result out]) s'
      | (Panic p, s') \<Rightarrow> (Panic p, s'\<lparr>sv_Crashed := True\<rparr>)
      | (_, s') \<Rightarrow> batch_loop h r calls order results s')"

definition ToolHandler_ExecuteToolBatch :: "(nat \<Rightarrow> nat list) \<Rightarrow> 'w tool_handler \<Rightarrow> 'w handler" where
  "ToolHandler_ExecuteToolBatch schedule h r = with_body (dec_list dec_tool_call) ''Invalid tool calls format'' r (\<lambda>calls.
     bindG (batch_loop h r calls (schedule (length calls)) (replicate (length calls) ANil)) (\<lambda>results.
     response_JSON 200 (data_member (map_option (\<lambda>js. JObj [(''results'', JArr js)]) (sequence_opt (map any_json results))))))"

section \<open>\<open>health.go\<close>\<close>

record 'w health_handler =
  hh_db_Ping :: "('w, unit) go"
  hh_redis :: "'w redis_client"

definition HealthHandler_Health :: "'w handler" where
  "HealthHandler_Health r = response_JSON 200 (Some [(''data'', JObj [(''status'', JStr ''ok'')])])"

definition HealthHandler_Ready :: "'w health_handler \<Rightarrow> 'w handler" where
  "HealthHandler_Ready h r =
     answer (hh_db_Ping h) (\<lambda>e. response_Error 503 ''DB_ERROR'' ''Database not ready'') (\<lambda>_.
     answer (rc_Ping (hh_redis h)) (\<lambda>e. response_Error 503 ''REDIS_ERROR'' ''Redis not ready'') (\<lambda>_.
     response_JSON 200 (Some [(''data'', JObj [(''status'', JStr ''ready'')])])))"

end
