(* ===== verification/Litellm.thy ===== *)
theory Litellm
  imports Http
begin

text \<open>
  \<open>internal/infrastructure/llm/litellm/client.go\<close>: the client of the language model, with its
  wire format, and what a conforming server's answers become. The HTTP client and the check
  of the URL are parameters. A streamed body is the text that can be read and how the
  reading ends; \<open>polls\<close> says at which turn of the loop the context is found cancelled.
\<close>

section \<open>The wire format (struct tags of \<open>port/llm_provider.go\<close>)\<close>

definition float_nonzero :: "string \<Rightarrow> f64 \<Rightarrow> (string \<times> json) list option" where
  "float_nonzero k x = (if f_is_zero x then Some [] else float_member k (Some x))"

definition int_nonzero :: "string \<Rightarrow> go_int \<Rightarrow> (string \<times> json) list" where
  "int_nonzero k i = (if i = 0 then [] else [(k, JNum (itoa i))])"

definition chat_request_json :: "chat_request \<Rightarrow> json option" where
  "chat_request_json req =
     (case (sequence_opt (map tool_spec_json (rq_Tools req)), any_member ''tool_choice'' (rq_ToolChoice req),
            float_nonzero ''temperature'' (rq_Temperature req)) of
        (Some tools, Some toolChoice, Some temp) \<Rightarrow> Some (JObj
          ([(''model'', JStr (rq_Model req)), (''messages'', JArr (map chat_message_json (rq_Messages req)))]
           @ omit_list ''tools'' tools @ toolChoice @ temp @ int_nonzero ''max_tokens'' (rq_MaxTokens req)
           @ (if rq_Stream req then [(''stream'', JBool True)] else []) @ omit_string ''user'' (rq_User req)))
      | _ \<Rightarrow> None)"

definition dec_usage :: "json \<Rightarrow> usage_info option" where
  "dec_usage j = Option.bind (dec_obj j) (\<lambda>kvs.
     Option.bind (dec_int (obj_field ''prompt_tokens'' kvs)) (\<lambda>p.
     Option.bind (dec_int (obj_field ''completion_tokens'' kvs)) (\<lambda>c.
     Option.bind (dec_int (obj_field ''total_tokens'' kvs)) (\<lambda>t.
     Some \<lparr>us_PromptTokens = p, us_CompletionTokens = c, us_TotalTokens = t\<rparr>))))"

definition dec_choice :: "json \<Rightarrow> choice option" where
  "dec_choice j = Option.bind (dec_obj j) (\<lambda>kvs.
     Option.bind (dec_int (obj_field ''index'' kvs)) (\<lambda>i.
     Option.bind (dec_chat_message (obj_field ''message'' kvs)) (\<lambda>m.
     Option.bind (dec_string (obj_field ''finish_reason'' kvs)) (\<lambda>f.
     Some \<lparr>ch_Index = i, ch_Message = m, ch_FinishReason = f\<rparr>))))"

definition dec_chat_response :: "json \<Rightarrow> chat_response option" where
  "dec_chat_response j = Option.bind (dec_obj j) (\<lambda>kvs.
     Option.bind (dec_string (obj_field ''id'' kvs)) (\<lambda>i.
     Option.bind (dec_string (obj_field ''object'' kvs)) (\<lambda>ob.
     Option.bind (dec_int (obj_field ''created'' kvs)) (\<lambda>cr.
     Option.bind (dec_string (obj_field ''model'' kvs)) (\<lambda>mo.
     Option.bind (dec_list dec_choice (obj_field ''choices'' kvs)) (\<lambda>cs.
     Option.bind (dec_usage (obj_field ''usage'' kvs)) (\<lambda>us.
     Some \<lparr>rs_ID = i, rs_Object = ob, rs_Created = cr, rs_Model = mo, rs_Choices = cs, rs_Usage = us\<rparr>)))))))"

text \<open>The anonymous struct of a streamed chunk.\<close>

record chunk_choice =
  kc_Content :: string
  kc_ToolCalls :: "tool_call list"
  kc_FinishReason :: string

record chunk =
  ck_Choices :: "chunk_choice list"
  ck_Usage :: "usage_info option"

definition dec_chunk_choice :: "json \<Rightarrow> chunk_choice option" where
  "dec_chunk_choice j = Option.bind (dec_obj j) (\<lambda>kvs.
     Option.bind (dec_obj (obj_field ''delta'' kvs)) (\<lambda>ds.
     Option.bind (dec_string (obj_field ''content'' ds)) (\<lambda>c.
     Option.bind (dec_list dec_tool_call (obj_field ''tool_calls'' ds)) (\<lambda>ts.
     Option.bind (dec_string (obj_field ''finish_reason'' kvs)) (\<lambda>f.
     Some \<lparr>kc_Content = c, kc_ToolCalls = ts, kc_FinishReason = f\<rparr>)))))"

definition dec_chunk :: "json \<Rightarrow> chunk option" where
  "dec_chunk j = Option.bind (dec_obj j) (\<lambda>kvs.
     Option.bind (dec_list dec_chunk_choice (obj_field ''choices'' kvs)) (\<lambda>cs.
     Option.bind (dec_opt dec_usage (obj_field ''usage'' kvs)) (\<lambda>us.
     Some \<lparr>ck_Choices = cs, ck_Usage = us\<rparr>)))"

section \<open>The client\<close>

record client =
  cl_baseURL :: string
  cl_apiKey :: string

definition NewClient :: "string \<Rightarrow> string \<Rightarrow> client" where
  "NewClient baseURL apiKey = \<lparr>cl_baseURL = trim_suffix baseURL ''/'', cl_apiKey = apiKey\<rparr>"

definition completions_request :: "client \<Rightarrow> string \<Rightarrow> (string \<times> string) list \<Rightarrow> http_request" where
  "completions_request c body headers = \<lparr>hr_Method = ''POST'', hr_URL = cl_baseURL c @ ''/chat/completions'',
     hr_Headers = [(''Content-Type'', ''application/json''), (''Authorization'', ''Bearer '' @ cl_apiKey c)] @ headers,
     hr_Body = body\<rparr>"

definition api_status_error :: "int \<Rightarrow> string \<Rightarrow> goerror" where
  "api_status_error status body = Errorf (''API error (status '' @ int_digits status @ ''): '' @ body)"

text \<open>Marshalling and building the request, shared by both methods.\<close>

definition prepare :: "(string \<Rightarrow> goerror option) \<Rightarrow> client \<Rightarrow> chat_request \<Rightarrow> (string \<times> string) list \<Rightarrow> goerror + http_request" where
  "prepare check_url c req headers = (case chat_request_json req of
     None \<Rightarrow> Inl (Wrapf ''marshal request'' (Errorf ''json: unsupported value''))
   | Some j \<Rightarrow> (let hr = completions_request c (json_print j) headers in
       case check_url (hr_URL hr) of Some e \<Rightarrow> Inl (Wrapf ''create request'' e) | None \<Rightarrow> Inr hr))"

definition Client_Chat ::
    "(string \<Rightarrow> goerror option) \<Rightarrow> (http_request \<Rightarrow> ('w, http_response) go) \<Rightarrow> client \<Rightarrow> chat_request \<Rightarrow> ('w, chat_response) go" where
  "Client_Chat check_url http_do c req = bindG (resultG (prepare check_url c req [])) (\<lambda>httpReq.
     bindG (wrapG ''do request'' (http_do httpReq)) (\<lambda>resp.
     if hp_StatusCode resp \<noteq> 200 then failG (api_status_error (hp_StatusCode resp) (hp_Body resp))
     else (case Option.bind (decode_first (hp_Body resp)) dec_chat_response of
        None \<Rightarrow> failG (Wrapf ''decode response'' (Errorf ''json''))
      | Some chatResp \<Rightarrow> returnG chatResp)))"

section \<open>Streaming\<close>

record stream_response =
  sp_StatusCode :: int
  sp_Body :: string
  sp_Err :: "goerror option"
  sp_Polls :: "nat \<Rightarrow> goerror option"

definition error_event :: "goerror \<Rightarrow> stream_event" where
  "error_event e = stream_event0\<lparr>se_Error := Some e\<rparr>"

definition done_event :: stream_event where
  "done_event = stream_event0\<lparr>se_Done := True\<rparr>"

definition chunk_events :: "chunk \<Rightarrow> stream_event list" where
  "chunk_events ck = (case ck_Choices ck of
     [] \<Rightarrow> []
   | choice # _ \<Rightarrow>
       (if kc_Content choice \<noteq> [] then [stream_event0\<lparr>se_Type := ''content'', se_Delta := kc_Content choice\<rparr>] else [])
       @ map (\<lambda>tc. stream_event0\<lparr>se_Type := ''tool_call'', se_ToolCall := Some tc\<rparr>) (kc_ToolCalls choice)
       @ (if kc_FinishReason choice \<noteq> [] then
            [stream_event0\<lparr>se_Type := ''finish'', se_Delta := kc_FinishReason choice, se_Usage := ck_Usage ck\<rparr>] else []))"

text \<open>One trimmed line: the events it gives, and whether it ends the stream.\<close>

definition sse_line :: "string \<Rightarrow> stream_event list \<times> bool" where
  "sse_line line =
     (if line = [] \<or> \<not> has_prefix line ''data: '' then ([], False)
      else (let data = trim_prefix line ''data: '' in
        if data = ''[DONE]'' then ([done_event], True)
        else (case Option.bind (json_parse data) dec_chunk of
           None \<Rightarrow> ([], False) | Some ck \<Rightarrow> (chunk_events ck, False))))"

function readSSE :: "(nat \<Rightarrow> goerror option) \<Rightarrow> goerror option \<Rightarrow> nat \<Rightarrow> string \<Rightarrow> stream_event list" where
  "readSSE polls err n body = (case polls n of
     Some e \<Rightarrow> [error_event e]
   | None \<Rightarrow>
     if CHR 10 \<notin> set body then (case err of None \<Rightarrow> [] | Some e \<Rightarrow> [error_event e]) @ [done_event]
     else (let line = trim_space (takeWhile (\<lambda>c. c \<noteq> CHR 10) body); rest = tl (dropWhile (\<lambda>c. c \<noteq> CHR 10) body) in
       case sse_line line of
         (events, True) \<Rightarrow> events
       | (events, False) \<Rightarrow> events @ readSSE polls err (Suc n) rest))"
  by pat_completeness auto
termination
proof (relation "measure (\<lambda>(polls, err, n, body). length body)")
  fix polls :: "nat \<Rightarrow> goerror option" and err :: "goerror option" and n body line rest
  assume nl: "\<not> CHR 10 \<notin> set body" and rest: "rest = tl (dropWhile (\<lambda>c. c \<noteq> CHR 10) body)"
  have "dropWhile (\<lambda>c. c \<noteq> CHR 10) body \<noteq> []" using nl by (auto simp: dropWhile_eq_Nil_conv)
  then have "length rest < length (dropWhile (\<lambda>c. c \<noteq> CHR 10) body)" by (simp add: rest)
  also have "\<dots> \<le> length body" by (rule length_dropWhile_le)
  finally show "((polls, err, Suc n, rest), (polls, err, n, body)) \<in> measure (\<lambda>(polls, err, n, body). length body)" by simp
qed simp

declare readSSE.simps [simp del]

definition Client_ChatStream ::
    "(string \<Rightarrow> goerror option) \<Rightarrow> (http_request \<Rightarrow> ('w, stream_response) go) \<Rightarrow> client \<Rightarrow> chat_request \<Rightarrow> ('w, stream_event list) go" where
  "Client_ChatStream check_url http_do c req =
     bindG (resultG (prepare check_url c (req\<lparr>rq_Stream := True\<rparr>) [(''Accept'', ''text/event-stream'')])) (\<lambda>httpReq.
     bindG (wrapG ''do request'' (http_do httpReq)) (\<lambda>resp.
     if sp_StatusCode resp \<noteq> 200 then failG (api_status_error (sp_StatusCode resp) (sp_Body resp))
     else returnG (readSSE (sp_Polls resp) (sp_Err resp) 0 (sp_Body resp))))"

definition litellm_provider ::
    "(string \<Rightarrow> goerror option) \<Rightarrow> (http_request \<Rightarrow> ('w, http_response) go) \<Rightarrow> (http_request \<Rightarrow> ('w, stream_response) go)
      \<Rightarrow> client \<Rightarrow> 'w llm_provider" where
  "litellm_provider check_url http_do http_stream c =
     \<lparr>llm_Chat = Client_Chat check_url http_do c, llm_ChatStream = Client_ChatStream check_url http_stream c\<rparr>"

end
