(* ===== verification/Config.thy ===== *)
theory Config
  imports Go_Json
begin

text \<open>
  \<open>internal/infrastructure/config/config.go\<close>: the configuration read from the environment,
  with the readers of \<open>strconv\<close> and \<open>time\<close> it uses. \<open>env\<close> is \<open>os.Getenv\<close>, which gives the
  empty text for a variable that is not set.
\<close>

section \<open>\<open>strconv.Atoi\<close>, \<open>strconv.ParseBool\<close>, \<open>time.ParseDuration\<close>\<close>

definition split_sign :: "string \<Rightarrow> bool \<times> string" where
  "split_sign s = (case s of c # t \<Rightarrow> if c = CHR ''-'' then (True, t) else if c = CHR ''+'' then (False, t) else (False, s)
     | [] \<Rightarrow> (False, []))"

definition Atoi :: "string \<Rightarrow> go_int option" where
  "Atoi s = (let (neg, t) = split_sign s; v = (if neg then - digits_val t else digits_val t) in
     if t \<noteq> [] \<and> list_all is_digit t \<and> - (2 ^ 63) \<le> v \<and> v < 2 ^ 63 then Some (word_of_int v) else None)"

definition ParseBool :: "string \<Rightarrow> bool option" where
  "ParseBool s =
     (if s \<in> {''1'', ''t'', ''T'', ''TRUE'', ''true'', ''True''} then Some True
      else if s \<in> {''0'', ''f'', ''F'', ''FALSE'', ''false'', ''False''} then Some False else None)"

text \<open>The units; the micro sign comes as U+00B5 or U+03BC.\<close>

definition unit_map :: "(string \<times> int) list" where
  "unit_map = [(''ns'', 1), (''us'', 1000), ([CHR 0xC2, CHR 0xB5, CHR ''s''], 1000), ([CHR 0xCE, CHR 0xBC, CHR ''s''], 1000),
     (''ms'', 1000000), (''s'', second), (''m'', minute), (''h'', hour)]"

text \<open>Digits of a fraction are read until the number would leave 63 bits, the rest is skipped.\<close>

fun leading_fraction :: "string \<Rightarrow> int \<Rightarrow> int \<Rightarrow> int \<times> int" where
  "leading_fraction [] x scale = (x, scale)"
| "leading_fraction (c # s) x scale =
     (if x > (2 ^ 63 - 1) div 10 \<or> x * 10 + digit_val c > 2 ^ 63 then (x, scale)
      else leading_fraction s (x * 10 + digit_val c) (scale * 10))"

text \<open>
  One group: digits, an optional fraction and a unit. The result is its nanoseconds and the
  rest of the text.
\<close>

definition duration_group :: "string \<Rightarrow> (int \<times> string) option" where
  "duration_group s =
     (let ip = takeWhile is_digit s; r1 = dropWhile is_digit s;
          fp = (case r1 of c # t \<Rightarrow> if c = CHR ''.'' then takeWhile is_digit t else [] | [] \<Rightarrow> []);
          r2 = (case r1 of c # t \<Rightarrow> if c = CHR ''.'' then dropWhile is_digit t else r1 | [] \<Rightarrow> []);
          u = takeWhile (\<lambda>c. \<not> (c = CHR ''.'' \<or> is_digit c)) r2; r3 = dropWhile (\<lambda>c. \<not> (c = CHR ''.'' \<or> is_digit c)) r2
      in if digits_val ip > 2 ^ 63 \<or> (ip = [] \<and> fp = []) then None
         else (case map_of unit_map u of
           None \<Rightarrow> None
         | Some unt \<Rightarrow>
             (let v = digits_val ip in
              if v > 2 ^ 63 div unt then None
              else (let (f, scale) = leading_fraction fp 0 1;
                        v' = v * unt + (if f > 0 then sint (f_to_int (fmul (float_of_rat (of_int f))
                               (fdiv (float_of_rat (of_int unt)) (float_of_rat (of_int scale))))) else 0)
                    in if v' > 2 ^ 63 then None else Some (v', r3)))))"

text \<open>Every group takes at least one character, so the length of the text is enough fuel.\<close>

fun duration_groups :: "nat \<Rightarrow> string \<Rightarrow> int \<Rightarrow> int option" where
  "duration_groups n [] d = Some d"
| "duration_groups 0 s d = None"
| "duration_groups (Suc n) s d = (case duration_group s of
     None \<Rightarrow> None
   | Some (v, rest) \<Rightarrow> if d + v > 2 ^ 63 then None else duration_groups n rest (d + v))"

definition ParseDuration :: "string \<Rightarrow> duration option" where
  "ParseDuration s0 = (let (neg, s) = split_sign s0 in
     if s = ''0'' then Some 0
     else if s = [] then None
     else (case duration_groups (length s) s 0 of
        None \<Rightarrow> None
      | Some d \<Rightarrow> if neg then Some (- d) else if d > 2 ^ 63 - 1 then None else Some d))"

section \<open>Reading one variable\<close>

definition getEnv :: "(string \<Rightarrow> string) \<Rightarrow> string \<Rightarrow> string \<Rightarrow> string" where
  "getEnv env key defaultValue = (if env key \<noteq> [] then env key else defaultValue)"

definition getInt :: "(string \<Rightarrow> string) \<Rightarrow> string \<Rightarrow> go_int \<Rightarrow> go_int" where
  "getInt env key defaultValue =
     (if env key \<noteq> [] then (case Atoi (env key) of Some i \<Rightarrow> i | None \<Rightarrow> defaultValue) else defaultValue)"

definition getBool :: "(string \<Rightarrow> string) \<Rightarrow> string \<Rightarrow> bool \<Rightarrow> bool" where
  "getBool env key defaultValue =
     (if env key \<noteq> [] then (case ParseBool (env key) of Some b \<Rightarrow> b | None \<Rightarrow> defaultValue) else defaultValue)"

definition getDuration :: "(string \<Rightarrow> string) \<Rightarrow> string \<Rightarrow> duration \<Rightarrow> duration" where
  "getDuration env key defaultValue =
     (if env key \<noteq> [] then (case ParseDuration (env key) of Some d \<Rightarrow> d | None \<Rightarrow> defaultValue) else defaultValue)"

section \<open>The configuration\<close>

record server_config =
  sc_Port :: string
  sc_Host :: string
  sc_ReadTimeout :: duration
  sc_WriteTimeout :: duration
  sc_IdleTimeout :: duration
  sc_ShutdownTimeout :: duration

record database_config =
  dc_Host :: string
  dc_Port :: string
  dc_User :: string
  dc_Password :: string
  dc_Name :: string
  dc_SSLMode :: string
  dc_MaxOpenConns :: go_int
  dc_MaxIdleConns :: go_int
  dc_ConnMaxLifetime :: duration
  dc_ConnMaxIdleTime :: duration

record redis_config =
  ec_Host :: string
  ec_Port :: string
  ec_Password :: string
  ec_DB :: go_int
  ec_PoolSize :: go_int
  ec_MinIdleConns :: go_int

record jwt_config =
  jc_Secret :: string
  jc_AccessTokenTTL :: duration
  jc_RefreshTokenTTL :: duration

record rate_limit_config =
  lc_RequestsPerMinute :: go_int
  lc_RequestsPerDay :: go_int
  lc_Enabled :: bool

record llm_config =
  gc_Provider :: string
  gc_BaseURL :: string
  gc_APIKey :: string
  gc_DefaultModel :: string

record tools_config =
  xc_WebSearchAPIKey :: string
  xc_MaxConcurrent :: go_int

record app_config =
  cfg_Server :: server_config
  cfg_Database :: database_config
  cfg_Redis :: redis_config
  cfg_JWT :: jwt_config
  cfg_RateLimit :: rate_limit_config
  cfg_LLM :: llm_config
  cfg_Tools :: tools_config

definition DSN :: "database_config \<Rightarrow> string" where
  "DSN c = ''host='' @ dc_Host c @ '' port='' @ dc_Port c @ '' user='' @ dc_User c @ '' password='' @ dc_Password c
     @ '' dbname='' @ dc_Name c @ '' sslmode='' @ dc_SSLMode c"

definition Addr :: "redis_config \<Rightarrow> string" where
  "Addr c = ec_Host c @ '':'' @ ec_Port c"

definition Load :: "(string \<Rightarrow> string) \<Rightarrow> app_config" where
  "Load env =
     \<lparr>cfg_Server = \<lparr>sc_Port = getEnv env ''SERVER_PORT'' ''8080'', sc_Host = getEnv env ''SERVER_HOST'' ''0.0.0.0'',
        sc_ReadTimeout = getDuration env ''SERVER_READ_TIMEOUT'' (30 * second),
        sc_WriteTimeout = getDuration env ''SERVER_WRITE_TIMEOUT'' (30 * second),
        sc_IdleTimeout = getDuration env ''SERVER_IDLE_TIMEOUT'' (120 * second),
        sc_ShutdownTimeout = getDuration env ''SERVER_SHUTDOWN_TIMEOUT'' (30 * second)\<rparr>,
      cfg_Database = \<lparr>dc_Host = getEnv env ''DB_HOST'' ''localhost'', dc_Port = getEnv env ''DB_PORT'' ''5432'',
        dc_User = getEnv env ''DB_USER'' ''postgres'', dc_Password = getEnv env ''DB_PASSWORD'' ''postgres'',
        dc_Name = getEnv env ''DB_NAME'' ''aiagent'', dc_SSLMode = getEnv env ''DB_SSL_MODE'' ''disable'',
        dc_MaxOpenConns = getInt env ''DB_MAX_OPEN_CONNS'' 25, dc_MaxIdleConns = getInt env ''DB_MAX_IDLE_CONNS'' 5,
        dc_ConnMaxLifetime = getDuration env ''DB_CONN_MAX_LIFETIME'' (5 * minute),
        dc_ConnMaxIdleTime = getDuration env ''DB_CONN_MAX_IDLE_TIME'' (5 * minute)\<rparr>,
      cfg_Redis = \<lparr>ec_Host = getEnv env ''REDIS_HOST'' ''localhost'', ec_Port = getEnv env ''REDIS_PORT'' ''6379'',
        ec_Password = getEnv env ''REDIS_PASSWORD'' [], ec_DB = getInt env ''REDIS_DB'' 0,
        ec_PoolSize = getInt env ''REDIS_POOL_SIZE'' 10, ec_MinIdleConns = getInt env ''REDIS_MIN_IDLE_CONNS'' 5\<rparr>,
      cfg_JWT = \<lparr>jc_Secret = getEnv env ''JWT_SECRET'' ''change-me-in-production-please'',
        jc_AccessTokenTTL = getDuration env ''JWT_ACCESS_TTL'' (15 * minute),
        jc_RefreshTokenTTL = getDuration env ''JWT_REFRESH_TTL'' (7 * 24 * hour)\<rparr>,
      cfg_RateLimit = \<lparr>lc_RequestsPerMinute = getInt env ''RATE_LIMIT_PER_MINUTE'' 60,
        lc_RequestsPerDay = getInt env ''RATE_LIMIT_PER_DAY'' 10000, lc_Enabled = getBool env ''RATE_LIMIT_ENABLED'' True\<rparr>,
      cfg_LLM = \<lparr>gc_Provider = getEnv env ''LLM_PROVIDER'' ''litellm'', gc_BaseURL = getEnv env ''LLM_BASE_URL'' ''http://localhost:4000'',
        gc_APIKey = getEnv env ''LLM_API_KEY'' [], gc_DefaultModel = getEnv env ''LLM_DEFAULT_MODEL'' ''gpt-4o-mini''\<rparr>,
      cfg_Tools = \<lparr>xc_WebSearchAPIKey = getEnv env ''WEB_SEARCH_API_KEY'' [], xc_MaxConcurrent = getInt env ''TOOLS_MAX_CONCURRENT'' 10\<rparr>\<rparr>"

section \<open>Lemmas\<close>

text \<open>An integer written in decimal is read back; any other text leaves the default.\<close>

lemma split_sign_nat: "0 \<le> n \<Longrightarrow> split_sign (nat_digits n) = (False, nat_digits n)"
proof -
  assume "0 \<le> n"
  then have d: "list_all is_digit (nat_digits n)" using nat_digits_props by blast
  show ?thesis using d
    by (cases "nat_digits n") (auto simp: split_sign_def is_digit_def)
qed

lemma Atoi_itoa: "Atoi (itoa i) = Some i"
proof -
  have range: "- (2 ^ 63) \<le> sint i" "sint i < 2 ^ 63" using sint_ge [of i] sint_lt [of i] by simp_all
  show ?thesis
  proof (cases "sint i < 0")
    case True
    then show ?thesis using nat_digits_props [of "- sint i"] range
      by (simp add: itoa_def int_digits_def Atoi_def split_sign_def)
  next
    case False
    then show ?thesis using nat_digits_props [of "sint i"] range
      by (simp add: itoa_def int_digits_def Atoi_def split_sign_nat)
  qed
qed

lemma itoa_nonempty: "itoa i \<noteq> []"
  using nat_digits_props [of "sint i"] by (auto simp: itoa_def int_digits_def)

lemma getInt_itoa: "env key = itoa i \<Longrightarrow> getInt env key d = i"
  by (simp add: getInt_def Atoi_itoa itoa_nonempty)

end
