(* ===== verification/Server.thy ===== *)
theory Server
  imports Handlers Litellm Config Chatbot_Graph Postgres
begin

text \<open>
  \<open>cmd/api/main.go\<close>: the construction of the program and its routes. The libraries are one
  record of parameters; among them are the router's path matching, its own middleware and the
  answer for unknown paths, the handler that shows the API documentation, and the compiler of workflow graphs.
\<close>

section \<open>Endpoints\<close>

datatype endpoint = Health | Ready | Register_Endpoint | Login_Endpoint | Refresh_Endpoint
  | Completions | CreateConversation | ListConversations | GetConversation | SendMessage | Approve
  | ListTools | ExecuteTool | ExecuteToolBatch

text \<open>The routes in the order main declares them; the last ones are in the protected group.\<close>

definition public_routes :: "(string \<times> string \<times> endpoint) list" where
  "public_routes =
     [(''GET'', ''/health'', Health), (''GET'', ''/ready'', Ready),
      (''POST'', ''/v1/auth/register'', Register_Endpoint), (''POST'', ''/v1/auth/login'', Login_Endpoint),
      (''POST'', ''/v1/auth/refresh'', Refresh_Endpoint)]"

definition protected_routes :: "(string \<times> string \<times> endpoint) list" where
  "protected_routes =
     [(''POST'', ''/v1/chat/completions'', Completions), (''POST'', ''/v1/conversations'', CreateConversation),
      (''GET'', ''/v1/conversations'', ListConversations), (''GET'', ''/v1/conversations/{id}'', GetConversation),
      (''POST'', ''/v1/conversations/{id}/messages'', SendMessage), (''POST'', ''/v1/conversations/{id}/approve'', Approve),
      (''GET'', ''/v1/tools'', ListTools), (''POST'', ''/v1/tools/execute'', ExecuteTool), (''POST'', ''/v1/tools/batch'', ExecuteToolBatch)]"

definition endpoint_protected :: "endpoint \<Rightarrow> bool" where
  "endpoint_protected ep \<longleftrightarrow> list_ex (\<lambda>(m, p, e). e = ep) protected_routes"

section \<open>The server\<close>

text \<open>
  \<open>match\<close> is the router: of the routes it is given it finds the one for a method and a path,
  and the value of \<open>{id}\<close>.
\<close>

record 'w libraries =
  lb_jwt :: jwt_library
  lb_sha256 :: "string \<Rightarrow> string"
  lb_bcrypt :: "'w bcrypt_library"
  lb_parse_expr :: "string \<Rightarrow> goerror + go_expr"
  lb_parse_float :: "string \<Rightarrow> goerror + f64"
  lb_http_do :: "http_request \<Rightarrow> ('w, http_response) go"
  lb_http_stream :: "http_request \<Rightarrow> ('w, stream_response) go"
  lb_check_url :: "string \<Rightarrow> goerror option"
  lb_redis :: "'w redis_client"
  lb_db_Ping :: "('w, unit) go"
  lb_compile :: "'w state_graph \<Rightarrow> goerror + (agent_state \<Rightarrow> ('w, agent_state) go)"
  lb_schedule :: "nat \<Rightarrow> nat list"
  lb_router_pre :: "server_request \<Rightarrow> server_request"
  lb_match :: "(string \<times> string \<times> endpoint) list \<Rightarrow> string \<Rightarrow> string \<Rightarrow> (endpoint \<times> string) option"
  lb_swagger :: "'w handler"
  lb_not_found :: "'w handler"

record 'w server =
  ms_health :: "'w health_handler"
  ms_auth :: "'w auth_handler"
  ms_chat :: "'w chat_handler"
  ms_tools :: "'w tool_handler"
  ms_validate :: "string \<Rightarrow> ('w, validate_token_result) go"
  ms_rateLimit :: bool

fun endpoint_handler :: "'w runtime \<Rightarrow> 'w libraries \<Rightarrow> 'w server \<Rightarrow> endpoint \<Rightarrow> 'w handler" where
  "endpoint_handler rt lib srv Health = HealthHandler_Health"
| "endpoint_handler rt lib srv Ready = HealthHandler_Ready (ms_health srv)"
| "endpoint_handler rt lib srv Register_Endpoint = AuthHandler_Register (ms_auth srv)"
| "endpoint_handler rt lib srv Login_Endpoint = AuthHandler_Login (ms_auth srv)"
| "endpoint_handler rt lib srv Refresh_Endpoint = AuthHandler_RefreshToken (ms_auth srv)"
| "endpoint_handler rt lib srv Completions = ChatHandler_ChatCompletions (ms_chat srv)"
| "endpoint_handler rt lib srv CreateConversation = ChatHandler_CreateConversation (ms_chat srv)"
| "endpoint_handler rt lib srv ListConversations = ChatHandler_ListConversations (ms_chat srv)"
| "endpoint_handler rt lib srv GetConversation = ChatHandler_GetConversation (ms_chat srv)"
| "endpoint_handler rt lib srv SendMessage = ChatHandler_SendMessage (ms_chat srv)"
| "endpoint_handler rt lib srv Approve = ChatHandler_ApproveAction (ms_chat srv)"
| "endpoint_handler rt lib srv ListTools = ToolHandler_ListTools rt (ms_tools srv)"
| "endpoint_handler rt lib srv ExecuteTool = ToolHandler_ExecuteTool (ms_tools srv)"
| "endpoint_handler rt lib srv ExecuteToolBatch = ToolHandler_ExecuteToolBatch (lb_schedule lib) (ms_tools srv)"

definition endpoint_chain :: "'w runtime \<Rightarrow> 'w libraries \<Rightarrow> 'w server \<Rightarrow> endpoint \<Rightarrow> 'w handler" where
  "endpoint_chain rt lib srv ep =
     (let h = endpoint_handler rt lib srv ep in
      if endpoint_protected ep then
        Authenticate (ms_validate srv) (if ms_rateLimit srv then Limit rt (lb_redis lib) h else h)
      else h)"

text \<open>\<open>r.Get("/swagger/*", httpSwagger.WrapHandler)\<close>, and the router's answer for unknown paths.\<close>

definition other_paths :: "'w libraries \<Rightarrow> 'w handler" where
  "other_paths lib r =
     (if sr_Method r = ''GET'' \<and> prefix ''/swagger/'' (sr_Path r) then lb_swagger lib r else lb_not_found lib r)"

definition ServeHTTP :: "'w runtime \<Rightarrow> 'w libraries \<Rightarrow> 'w server \<Rightarrow> 'w handler" where
  "ServeHTTP rt lib srv r0 =
     Logger rt (Recoverer (CORS (\<lambda>r. case lb_match lib (public_routes @ protected_routes) (sr_Method r) (sr_Path r) of
         None \<Rightarrow> other_paths lib r
       | Some (ep, param) \<Rightarrow> endpoint_chain rt lib srv ep (r\<lparr>sr_Param := param\<rparr>)))) (lb_router_pre lib r0)"

text \<open>What \<open>net/http\<close> does with one request: a fresh writer.\<close>

definition handle_request :: "'w runtime \<Rightarrow> 'w libraries \<Rightarrow> 'w server \<Rightarrow> server_request \<Rightarrow> 'w \<Rightarrow> unit outcome \<times> 'w served" where
  "handle_request rt lib srv r w =
     ServeHTTP rt lib srv r \<lparr>sv_World = w, sv_Writer = new_writer, sv_Log = [], sv_Crashed = False\<rparr>"

section \<open>Construction\<close>

definition main_server :: "('x world_scheme) libraries \<Rightarrow> app_config \<Rightarrow> goerror + ('x world_scheme) server" where
  "main_server lib cfg =
     (let rt = world_runtime;
          jwtMgr = NewJWTManager (jc_Secret (cfg_JWT cfg)) (jc_AccessTokenTTL (cfg_JWT cfg)) (jc_RefreshTokenTTL (cfg_JWT cfg));
          llm = litellm_provider (lb_check_url lib) (lb_http_do lib) (lb_http_stream lib)
                  (NewClient (gc_BaseURL (cfg_LLM cfg)) (gc_APIKey (cfg_LLM cfg)));
          registry = RegisterAll [CalculatorTool (lb_parse_expr lib) (lb_parse_float lib),
                        WebSearchTool (lb_http_do lib) (xc_WebSearchAPIKey (cfg_Tools cfg))] NewToolRegistry
      in case BuildRunnable (lb_compile lib) rt (NewChatbotGraph llm registry) of
           Inl e \<Rightarrow> Inl e
         | Inr graph \<Rightarrow>
           (let engine = chatbot_engine rt graph;
                validateTokenUC = NewValidateTokenUseCase TokenRepository UserRepository jwtMgr;
                loginUC = NewLoginUseCase UserRepository TokenRepository jwtMgr;
                refreshUC = NewRefreshTokenUseCase TokenRepository UserRepository jwtMgr;
                sendUC = NewSendMessageUseCase ConversationRepository MessageRepository llm engine (gc_DefaultModel (cfg_LLM cfg));
                approveUC = NewApproveActionUseCase ConversationRepository MessageRepository engine
            in Inr \<lparr>ms_health = \<lparr>hh_db_Ping = lb_db_Ping lib, hh_redis = lb_redis lib\<rparr>,
                    ms_auth = \<lparr>ah_login = Login_Execute rt (lb_jwt lib) (lb_sha256 lib) format_uuid (lb_bcrypt lib) loginUC,
                      ah_refresh = RefreshToken_Execute rt (lb_jwt lib) refreshUC,
                      ah_createUser = CreateUser_Execute rt (lb_bcrypt lib) UserRepository\<rparr>,
                    ms_chat = \<lparr>hc_sendMessage = SendMessage_Execute rt sendUC, hc_sendStream = SendMessage_ExecuteStream sendUC,
                      hc_getConversation = GetConversation_Execute ConversationRepository MessageRepository,
                      hc_listConversations = ListConversations_Execute ConversationRepository,
                      hc_approveAction = ApproveAction_Execute rt approveUC\<rparr>,
                    ms_tools = \<lparr>th_registry = registry, th_executeTool = ExecuteTool_Execute rt registry\<rparr>,
                    ms_validate = ValidateToken_Execute rt (lb_jwt lib) (lb_sha256 lib) validateTokenUC,
                    ms_rateLimit = lc_Enabled (cfg_RateLimit cfg)\<rparr>))"

definition main_program :: "('x world_scheme) libraries \<Rightarrow> (string \<Rightarrow> string) \<Rightarrow> goerror + ('x world_scheme) server" where
  "main_program lib env = main_server lib (Load env)"

end
