(* ===== verification/Step_Relation.thy ===== *)
theory Step_Relation
  imports Chatbot_Correct Server
begin

text \<open>
  What holds between the world before and after every step of the program holds between the
  worlds before and after a request. A step relation is reflexive and transitive: an invariant,
  a part of the world that stays, or a list that only grows.
\<close>

section \<open>Steps\<close>

definition preserves :: "('w \<Rightarrow> 'w \<Rightarrow> bool) \<Rightarrow> ('w, 'a) go \<Rightarrow> bool" where
  "preserves R m \<longleftrightarrow> (\<forall>w. R w (snd (m w)))"

lemma preservesI: "(\<And>w. R w (snd (m w))) \<Longrightarrow> preserves R m"
  by (simp add: preserves_def)

lemma preservesD: "preserves R m \<Longrightarrow> m w = (r, w') \<Longrightarrow> R w w'"
  by (metis preserves_def snd_conv)

lemma preserves_keeps: "preserves (\<lambda>w w'. f w' = f w) m \<longleftrightarrow> keeps f m"
  by (simp add: preserves_def keeps_def)

lemma preserves_maintains: "preserves (\<lambda>w w'. P w \<longrightarrow> P w') m \<longleftrightarrow> maintains P m"
  by (simp add: preserves_def maintains_def)

lemma wrapG_preserves: "preserves R m \<Longrightarrow> preserves R (wrapG s m)"
  by (auto simp: preserves_def wrapG_def split: prod.splits outcome.splits) (metis snd_conv)+

locale step_relation =
  fixes R :: "'w \<Rightarrow> 'w \<Rightarrow> bool"
  assumes refl: "R w w" and trans: "R u v \<Longrightarrow> R v w \<Longrightarrow> R u w"
begin

lemma preserves_basic: "preserves R (returnG x)" "preserves R (failG e)" "preserves R (panicG p)" "preserves R (resultG res)"
  by (simp_all add: preserves_def refl resultG_def split: sum.split)

lemma preserves_outcome: "preserves R (outcomeG r)"
  by (simp add: preserves_def refl)

lemma preserves_bind:
  assumes "preserves R m" "\<And>x. preserves R (k x)"
  shows "preserves R (bindG m k)"
proof (rule preservesI)
  fix w
  obtain r w1 where m: "m w = (r, w1)" by fastforce
  have "R w w1" by (rule preservesD [OF assms(1) m])
  moreover have "R w1 (snd (k x w1))" for x using assms(2) by (simp add: preserves_def)
  ultimately show "R w (snd (bindG m k w))" using m trans by (cases r) (auto simp: bindG_def)
qed

lemma preserves_mask: "preserves R m \<Longrightarrow> preserves R (maskG s m)"
  by (auto simp: preserves_def maskG_def split: prod.splits outcome.splits) (metis snd_conv)+

lemma preserves_attempt: "preserves R m \<Longrightarrow> preserves R (attemptG m)"
  by (auto simp: preserves_def attemptG_def split: prod.splits outcome.splits) (metis snd_conv)+

lemma preserves_spawn: "preserves R m \<Longrightarrow> preserves R (spawnG m)"
  by (auto simp: preserves_def spawnG_def split: prod.splits outcome.splits) (metis snd_conv)+

lemma preserves_if: "preserves R m \<Longrightarrow> preserves R n \<Longrightarrow> preserves R (if b then m else n)"
  by simp

lemma preserves_option: "preserves R m \<Longrightarrow> (\<And>x. preserves R (n x)) \<Longrightarrow> preserves R (case v of None \<Rightarrow> m | Some x \<Rightarrow> n x)"
  by (cases v) simp_all

lemma preserves_sum: "(\<And>x. preserves R (m x)) \<Longrightarrow> (\<And>y. preserves R (n y)) \<Longrightarrow> preserves R (case v of Inl x \<Rightarrow> m x | Inr y \<Rightarrow> n y)"
  by (cases v) simp_all

lemma preserves_list: "preserves R m \<Longrightarrow> (\<And>x xs. preserves R (n x xs)) \<Longrightarrow> preserves R (case v of [] \<Rightarrow> m | x # xs \<Rightarrow> n x xs)"
  by (cases v) simp_all

lemmas preserves_steps = preserves_basic preserves_outcome preserves_bind wrapG_preserves preserves_mask preserves_attempt preserves_spawn
  preserves_if preserves_option preserves_sum preserves_list

section \<open>The workflow\<close>

text \<open>A run takes a step of the relation when every node does.\<close>

lemma graph_run_step:
  assumes "graph_run sg n s w tr r w'" "\<And>n f s. map_of (sg_nodes sg) n = Some f \<Longrightarrow> preserves R (f s)"
  shows "R w w'"
  using assms(1)
proof induction
  case (step n f s w s' w' m tr r w'')
  with preservesD [OF assms(2) [OF step(1)] step(2)] trans show ?case by blast
qed (use refl preservesD [OF assms(2)] in blast)+

definition steady_runtime :: "'w runtime \<Rightarrow> bool" where
  "steady_runtime rt \<longleftrightarrow> preserves R (stateG (rt_now rt)) \<and> preserves R (stateG (rt_uuid rt)) \<and> (\<forall>ks. preserves R (stateG (rt_range rt ks)))"

definition steady_chatbot :: "'w chatbot_graph \<Rightarrow> bool" where
  "steady_chatbot g \<longleftrightarrow> (\<forall>rq. preserves R (llm_Chat (cg_llm g) rq))
     \<and> (\<forall>n t args. Registry_Get (cg_toolRegistry g) n = Some t \<longrightarrow> preserves R (tl_Execute t args))"

lemma act_loop_steps:
  assumes "\<And>n t args. Registry_Get r n = Some t \<Longrightarrow> preserves R (tl_Execute t args)"
  shows "preserves R (act_loop r tcs s)"
proof (induction tcs arbitrary: s)
  case (Cons tc tcs)
  then show ?case
    using assms by (auto simp: Let_def split: sum.split option.split intro!: preserves_steps)
qed (simp add: preserves_steps del: returnG_apply)

lemma build_steps:
  assumes "steady_runtime rt" "steady_chatbot g" "map_of (sg_nodes (build rt g)) n = Some f"
  shows "preserves R (f s)"
  using assms(3)
proof (cases rule: build_node_cases)
  case 1
  then show ?thesis by (auto simp: routerNode_def [abs_def] Let_def intro!: preserves_steps)
next
  case 2
  have "preserves R (think_reply tools resp s)" for tools resp
    by (auto simp: think_reply_def Let_def split: list.split intro!: preserves_steps)
  then show ?thesis
    using 2 assms(1,2) by (auto simp: thinkNode_def Registry_List_def range_tools_def steady_runtime_def steady_chatbot_def
        intro!: preserves_steps)
next
  case 3
  then show ?thesis using assms(2) act_loop_steps by (fastforce simp: actNode_def steady_chatbot_def)
qed (auto simp: observeNode_def humanApprovalNode_def responseNode_def Let_def intro!: preserves_steps)

lemma chatbot_steps:
  assumes "steady_runtime rt" "steady_chatbot g" "compiled_graph (build rt g) invoke" "cg_runnable g = Some invoke"
  shows "preserves R (we_Run (chatbot_engine rt g) inp)" "preserves R (we_Resume (chatbot_engine rt g) chk b)"
proof -
  have inv: "preserves R (invoke s)" for s
  proof (rule preservesI)
    fix w
    obtain n tr where "graph_run (build rt g) n s w tr (fst (invoke s w)) (snd (invoke s w))"
      using compiled_graph.follows [OF assms(3), of s w] by (metis prod.collapse)
    then show "R w (snd (invoke s w))" by (rule graph_run_step) (erule build_steps [OF assms(1,2)])
  qed
  have res: "preserves R (workflow_result s)" for s
    by (auto simp: workflow_result_def Let_def split: sum.split intro!: preserves_steps)
  have act: "preserves R (actNode g s)" for s
    using assms(2) act_loop_steps by (fastforce simp: actNode_def steady_chatbot_def)
  show "preserves R (we_Run (chatbot_engine rt g) inp)"
    using assms(1,4) inv res by (auto simp: chatbot_engine_def Graph_Run_def steady_runtime_def intro!: preserves_steps)
  show "preserves R (we_Resume (chatbot_engine rt g) chk b)"
    using assms(4) inv res act
    by (auto simp: chatbot_engine_def Graph_Resume_def Let_def observeNode_def intro!: preserves_steps)
qed

end

end
