(* ===== verification/Engine_Quiet.thy ===== *)
theory Engine_Quiet
  imports Chat_Correct Step_Relation
begin

text \<open>
  The chatbot workflow as an engine of the use cases: when its model, its tools and the
  runtime leave a part of the world alone, so does every run and every resumed run.
\<close>

definition quiet :: "('w \<Rightarrow> 'v) \<Rightarrow> ('w \<Rightarrow> bool) \<Rightarrow> ('w, 'a) go \<Rightarrow> bool" where
  "quiet view ok m \<longleftrightarrow> keeps view m \<and> maintains ok m"

definition quiet_runtime :: "('w \<Rightarrow> 'v) \<Rightarrow> ('w \<Rightarrow> bool) \<Rightarrow> 'w runtime \<Rightarrow> bool" where
  "quiet_runtime view ok rt \<longleftrightarrow> quiet view ok (stateG (rt_now rt)) \<and> quiet view ok (stateG (rt_uuid rt))
     \<and> (\<forall>ks. quiet view ok (stateG (rt_range rt ks)))"

definition quiet_chatbot :: "('w \<Rightarrow> 'v) \<Rightarrow> ('w \<Rightarrow> bool) \<Rightarrow> 'w chatbot_graph \<Rightarrow> bool" where
  "quiet_chatbot view ok g \<longleftrightarrow> (\<forall>rq. quiet view ok (llm_Chat (cg_llm g) rq))
     \<and> (\<forall>n t args. Registry_Get (cg_toolRegistry g) n = Some t \<longrightarrow> quiet view ok (tl_Execute t args))"

interpretation view: step_relation "\<lambda>w w'. view w' = view w \<and> (ok w \<longrightarrow> ok w')" for view :: "'w \<Rightarrow> 'v" and ok :: "'w \<Rightarrow> bool"
  by unfold_locales auto

lemma quiet_preserves: "quiet view ok m \<longleftrightarrow> preserves (\<lambda>w w'. view w' = view w \<and> (ok w \<longrightarrow> ok w')) m"
  by (auto simp: quiet_def keeps_def maintains_def preserves_def)

lemma chatbot_quiet:
  assumes "quiet_runtime view ok rt" "quiet_chatbot view ok g"
    and "compiled_graph (build rt g) invoke" "cg_runnable g = Some invoke"
  shows "engine_quiet view ok (chatbot_engine rt g)"
  using view.chatbot_steps [of view ok rt g invoke] assms
  by (simp add: quiet_runtime_def quiet_chatbot_def quiet_preserves view.steady_runtime_def view.steady_chatbot_def engine_quiet_def)
    (auto simp: preserves_def keeps_def maintains_def)

end
