(* ===== verification/Chat_Theorems.thy ===== *)
theory Chat_Theorems
  imports Engine_Quiet Paused_Run
begin

text \<open>
  The chat use cases over the SQL repositories, with any workflow engine that leaves the
  tables alone; the chatbot workflow is one when its model, its tools and the clock are.
\<close>

section \<open>Concrete runs\<close>

definition demo_sender :: "bool \<Rightarrow> world send_message_usecase" where
  "demo_sender paused = NewSendMessageUseCase ConversationRepository MessageRepository (demo_llm []) (demo_engine paused) []"

definition demo_message :: "uuid option \<Rightarrow> uuid \<Rightarrow> send_message_input" where
  "demo_message conv u = \<lparr>si_ConversationID = conv, si_UserID = u, si_Content = ''hi'', si_AgentType = [], si_Messages = [],
     si_Model = [], si_Tools = []\<rparr>"

definition demo_approver :: "world approve_usecase" where
  "demo_approver = \<lparr>au_convRepo = ConversationRepository, au_msgRepo = MessageRepository, au_engine = demo_engine False\<rparr>"

definition demo_conversation :: conversation where
  "demo_conversation = (NewConversation 100 1 2 7 ''general'')
     \<lparr>c_Status := ConversationStatusPending, c_WorkflowState := Some [(''paused_state'', AStr ''checkpoint'')]\<rparr>"

lemma jsonb_Nil: "jsonb [] = Some []"
  by code_simp

lemma demo_metadata: "jsonb [(''pending_approval'', AMap [(''reason'', AStr ''deploy'')])] = Some [(''pending_approval'', AMap [(''reason'', AStr ''deploy'')])]"
  by code_simp

lemmas demo_defs = demo_sender_def demo_message_def demo_approver_def demo_conversation_def demo_engine_def demo_output_def
  NewSendMessageUseCase_def demo_world_def demo_user_def NewUser_def world_runtime_def tick_def

lemmas store_defs = ConversationRepository_def MessageRepository_def ConversationRepository_Create_def ConversationRepository_Update_def
  ConversationRepository_UpdateWorkflowState_def ConversationRepository_FindByID_def live_conversations_def update_conversation_def update_rows_def
  MessageRepository_Create_def MessageRepository_FindByConversationID_def queryMessages_def query_def query_row_def no_rows_or_def
  insert_message_def message_checks_def conversation_checks_def conversation_columns_def jsonb_col_def jsonb_ok_def jsonb_Nil jsonb_string demo_metadata
  varchar_def char_length_def int4_def unique_def references_def run_sql_def command_def

lemmas chat_defs = SendMessage_Execute_def send_conversation_def send_finished_def send_paused_def new_conversation_def new_user_message_def
  new_assistant_message_def NewConversation_def NewUserMessage_def NewAssistantMessage_def message_base_def chosen_model_def
  Conversation_SetTitle_def Conversation_AddMessageStats_def Conversation_RequestApproval_def map_assign_def bindG_def wrapG_def

lemma demo_quiet: "engine_quiet view ok (demo_engine paused)"
  by (simp add: engine_quiet_def demo_engine_def)

lemma demo_db_ok: "db_ok (demo_world [demo_user] [] [])"
  by (simp add: db_ok_def table_ok_defs demo_world_def)

lemma demo_turn:
  "\<exists>out w'. SendMessage_Execute world_runtime (demo_sender False) (demo_message None 7) (demo_world [demo_user] [] []) = (Ret out, w')
     \<and> so_Message out \<noteq> None"
  by (simp add: demo_defs chat_defs store_defs Let_def)

lemma demo_pause:
  "\<exists>out w'. SendMessage_Execute world_runtime (demo_sender True) (demo_message None 7) (demo_world [demo_user] [] []) = (Ret out, w')
     \<and> so_Message out = None"
  by (simp add: demo_defs chat_defs store_defs Let_def)

section \<open>Turns\<close>

text \<open>C19: a turn that completes appends exactly two messages, the user's and the answer, to the one conversation of the user it names, and touches no other conversation.\<close>

theorem SendMessage_appends_turn:
  assumes "SendMessage_Execute world_runtime uc input w = (Ret out, w')" "si_Messages input = []" "so_Message out \<noteq> None"
    and "su_convRepo uc = ConversationRepository" "su_msgRepo uc = MessageRepository" "db_ok w"
    and "engine_quiet (\<lambda>w. (pg_conv_of w, pg_msgs_of w)) db_ok (su_engine uc)"
  shows "\<exists>um am c. pg_msgs_of w' = (pg_msgs_of w)(so_ConversationID out := pg_msgs_of w (so_ConversationID out) @ [um, am])
     \<and> m_Role um = RoleUser \<and> m_Content um = si_Content input \<and> m_Role am = RoleAssistant \<and> m_Content am = so_Response out
     \<and> pg_conv_of w' (so_ConversationID out) = Some c \<and> c_UserID c = si_UserID input
     \<and> (\<forall>j. j \<noteq> so_ConversationID out \<longrightarrow> pg_conv_of w' j = pg_conv_of w j)"
  by (rule pg_chat.send_turn [OF assms])

theorem SendMessage_appends_turn_witness:
  "\<exists>out w'. SendMessage_Execute world_runtime (demo_sender False) (demo_message None 7) (demo_world [demo_user] [] []) = (Ret out, w')
     \<and> (\<exists>um am. pg_msgs_of w' (so_ConversationID out) = [um, am] \<and> m_Content um = ''hi'')"
proof -
  let ?w = "demo_world [demo_user] [] []"
  obtain out w' where run: "SendMessage_Execute world_runtime (demo_sender False) (demo_message None 7) ?w = (Ret out, w')"
      and msg: "so_Message out \<noteq> None" using demo_turn by blast
  have "pg_msgs_of ?w i = []" for i by (simp add: pg_msgs_of_def conversation_messages_def demo_world_def order_rows_def)
  moreover have "si_Messages (demo_message None 7) = []" "su_convRepo (demo_sender False) = ConversationRepository"
      "su_msgRepo (demo_sender False) = MessageRepository" "si_Content (demo_message None 7) = ''hi''"
      "engine_quiet (\<lambda>w. (pg_conv_of w, pg_msgs_of w)) db_ok (su_engine (demo_sender False))"
    by (simp_all add: demo_message_def demo_sender_def NewSendMessageUseCase_def demo_quiet)
  ultimately show ?thesis using SendMessage_appends_turn [OF run _ msg] demo_db_ok run by fastforce
qed

text \<open>A message to a conversation of another user is refused, and no conversation and no message changes.\<close>

theorem SendMessage_refuses_others:
  assumes "si_Messages input = []" "si_ConversationID input = Some i" "pg_conv_of w i = Some c" "c_UserID c \<noteq> si_UserID input"
    and "su_convRepo uc = ConversationRepository"
  shows "\<exists>e w'. SendMessage_Execute world_runtime uc input w = (Err e, w') \<and> pg_conv_of w' = pg_conv_of w \<and> pg_msgs_of w' = pg_msgs_of w"
  by (rule pg_chat.send_refused [OF assms])

theorem SendMessage_refuses_others_witness:
  "\<exists>e w'. SendMessage_Execute world_runtime (demo_sender False) (demo_message (Some 100) 8) (demo_world [demo_user] [] [(demo_conversation, None)])
       = (Err e, w') \<and> pg_conv_of w' = pg_conv_of (demo_world [demo_user] [] [(demo_conversation, None)])"
proof -
  let ?w = "demo_world [demo_user] [] [(demo_conversation, None)]"
  have "pg_conv_of ?w 100 = Some demo_conversation" "c_UserID demo_conversation \<noteq> 8"
    by (simp_all add: pg_conv_of_def live_conversations_def demo_world_def demo_conversation_def NewConversation_def)
  then have "\<exists>e w'. SendMessage_Execute world_runtime (demo_sender False) (demo_message (Some 100) 8) ?w = (Err e, w')
      \<and> pg_conv_of w' = pg_conv_of ?w \<and> pg_msgs_of w' = pg_msgs_of ?w"
    by (intro SendMessage_refuses_others [where i = 100 and c = demo_conversation])
      (simp_all add: demo_message_def demo_sender_def NewSendMessageUseCase_def)
  then show ?thesis by blast
qed



text \<open>C33: a decision that returns was the owner's, on a pending conversation with a checkpoint the engine was resumed from; the conversation is pending again exactly when the workflow paused again, and keeps its old checkpoint.\<close>

theorem ApproveAction_decides:
  assumes "ApproveAction_Execute world_runtime uc input w = (Ret out, w')" "au_convRepo uc = ConversationRepository"
    and "au_msgRepo uc = MessageRepository" "db_ok w"
    and "engine_quiet (\<lambda>w. (pg_conv_of w, pg_msgs_of w)) db_ok (au_engine uc)"
  shows "\<exists>c chk result w1 w2 c1. pg_conv_of w (ai_ConversationID input) = Some c \<and> c_UserID c = ai_UserID input
     \<and> c_Status c = ConversationStatusPending \<and> paused_state c = Inr chk
     \<and> we_Resume (au_engine uc) chk (ai_Approved input) w1 = (Ret result, w2)
     \<and> ao_Status out = approve_status input result \<and> ao_Response out = wo_Response result
     \<and> pg_conv_of w' (ai_ConversationID input) = Some c1
     \<and> c_Status c1 = (if wo_RequiresApproval result then ConversationStatusPending else ConversationStatusActive)
     \<and> c_WorkflowState c1 = jsonb_col (c_WorkflowState c)"
  by (rule pg_chat.approve_Ret [OF assms])

theorem ApproveAction_decides_witness:
  "\<exists>out w' c1. ApproveAction_Execute world_runtime demo_approver \<lparr>ai_ConversationID = 100, ai_UserID = 7, ai_Approved = True, ai_Reason = []\<rparr>
       (demo_world [demo_user] [] [(demo_conversation, None)]) = (Ret out, w')
     \<and> ao_Response out = ''hello'' \<and> pg_conv_of w' 100 = Some c1 \<and> c_Status c1 = ConversationStatusActive"
proof -
  let ?w = "demo_world [demo_user] [] [(demo_conversation, None)]"
  let ?in = "\<lparr>ai_ConversationID = 100, ai_UserID = 7, ai_Approved = True, ai_Reason = []\<rparr>"
  have "\<exists>out w'. ApproveAction_Execute world_runtime demo_approver ?in ?w = (Ret out, w')"
    by (simp add: ApproveAction_Execute_def demo_defs chat_defs store_defs Let_def Conversation_IsPendingApproval_def paused_state_def
        approve_message_def approve_decision_def Conversation_Approve_def attemptG_def)
  then obtain out w' where run: "ApproveAction_Execute world_runtime demo_approver ?in ?w = (Ret out, w')" by blast
  have "db_ok ?w"
    by (simp add: db_ok_def table_ok_defs demo_world_def demo_user_def NewUser_def demo_conversation_def NewConversation_def)
  moreover have "au_convRepo demo_approver = ConversationRepository" "au_msgRepo demo_approver = MessageRepository"
      "engine_quiet (\<lambda>w. (pg_conv_of w, pg_msgs_of w)) db_ok (au_engine demo_approver)"
    by (simp_all add: demo_approver_def demo_quiet)
  ultimately obtain chk result w1 w2 c1 where "we_Resume (au_engine demo_approver) chk (ai_Approved ?in) w1 = (Ret result, w2)"
      "ao_Response out = wo_Response result" "pg_conv_of w' (ai_ConversationID ?in) = Some c1"
      "c_Status c1 = (if wo_RequiresApproval result then ConversationStatusPending else ConversationStatusActive)"
    using ApproveAction_decides [OF run] by blast
  then have "ao_Response out = ''hello''" "pg_conv_of w' 100 = Some c1" "c_Status c1 = ConversationStatusActive"
    by (auto simp: demo_approver_def demo_engine_def demo_output_def)
  with run show ?thesis by blast
qed

text \<open>C38: \<open>GetConversation\<close> answers only the owner, with the stored conversation and its whole transcript in order, and writes nothing.\<close>

theorem GetConversation_owner_only:
  assumes "GetConversation_Execute ConversationRepository MessageRepository i u w = (Ret out, w')"
  shows "pg_conv_of w i = Some (go_Conversation out) \<and> c_UserID (go_Conversation out) = u \<and> go_Messages out = pg_msgs_of w i
     \<and> pg_conv_of w' = pg_conv_of w \<and> pg_msgs_of w' = pg_msgs_of w"
  using pg_chat.GetConversation_Ret [OF assms] by simp

theorem GetConversation_owner_only_witness:
  "\<exists>out w'. GetConversation_Execute ConversationRepository MessageRepository 100 7 (demo_world [demo_user] [] [(demo_conversation, None)])
       = (Ret out, w') \<and> c_UserID (go_Conversation out) = 7"
proof -
  let ?w = "demo_world [demo_user] [] [(demo_conversation, None)]"
  have "\<exists>out w'. GetConversation_Execute ConversationRepository MessageRepository 100 7 ?w = (Ret out, w')"
    by (simp add: GetConversation_Execute_def demo_defs chat_defs store_defs attemptG_def)
  then show ?thesis using GetConversation_owner_only [of 100 7 ?w] by blast
qed

text \<open>The chatbot workflow touches no table: it is an engine the use cases may rely on whenever its model, its tools and the runtime leave the tables alone.\<close>

theorem chatbot_engine_quiet:
  assumes "quiet_runtime view ok rt" "quiet_chatbot view ok g" "compiled_graph (build rt g) invoke" "cg_runnable g = Some invoke"
  shows "engine_quiet view ok (chatbot_engine rt g)"
  by (rule chatbot_quiet [OF assms])

theorem chatbot_engine_quiet_witness:
  "engine_quiet (\<lambda>w. w) (\<lambda>w. True) (chatbot_engine demo_runtime demo_chatbot)"
proof (rule chatbot_engine_quiet)
  show "quiet_runtime (\<lambda>w. w) (\<lambda>w. True) (demo_runtime :: unit runtime)"
    by (simp add: quiet_runtime_def demo_runtime_def quiet_def keeps_def maintains_def)
  show "quiet_chatbot (\<lambda>w. w) (\<lambda>w. True) demo_chatbot"
    by (simp add: quiet_chatbot_def quiet_def keeps_def maintains_def)
  show "compiled_graph (build demo_runtime demo_chatbot) (run_limited 40 (build demo_runtime demo_gated))"
    using limited.compiled_graph_axioms [where rt = demo_runtime and g = demo_gated] by (simp add: demo_chatbot_def)
qed (simp add: demo_chatbot_def)

end
