(* ===== verification/Failed_Turns.thy ===== *)
theory Failed_Turns
  imports Chat_Theorems
begin

text \<open>
  What a turn that ends with an error leaves behind. The use case writes without a transaction,
  so whatever was stored before the failure stays.
\<close>

section \<open>Errors of sequences\<close>

lemma bindG_eq_Err: "bindG m f w = (Err e, w') \<longleftrightarrow> m w = (Err e, w') \<or> (\<exists>x w1. m w = (Ret x, w1) \<and> f x w1 = (Err e, w'))"
  by (auto simp: bindG_def split: prod.splits outcome.splits)

lemma wrapG_eq_Err: "wrapG s m w = (Err e, w') \<longleftrightarrow> (\<exists>e1. m w = (Err e1, w') \<and> e = Wrapf s e1)"
  by (auto simp: wrapG_def split: prod.splits outcome.splits)

lemma new_message_no_Err:
  "new_user_message rt i s w \<noteq> (Err e, w')" "new_assistant_message rt i s cs m w \<noteq> (Err e, w')" "new_conversation rt u a w \<noteq> (Err e, w')"
  by (simp_all add: new_user_message_def new_assistant_message_def new_conversation_def bindG_def)

text \<open>The calls of a turn that can fail, in their order.\<close>

definition turn_input :: "'w send_message_usecase \<Rightarrow> send_message_input \<Rightarrow> conversation \<Rightarrow> message list \<Rightarrow> workflow_input" where
  "turn_input uc input conv messages = \<lparr>wi_ConversationID = c_ID conv, wi_UserID = si_UserID input, wi_Content = si_Content input,
     wi_Model = chosen_model uc input, wi_Messages = map to_chat_message messages, wi_Temperature = c_Temperature conv\<rparr>"

lemma send_Err:
  assumes "SendMessage_Execute rt uc input w = (Err e, w')" "si_Messages input = []"
  shows "send_conversation rt uc input w = (Err e, w') \<or>
    (\<exists>conv w1. send_conversation rt uc input w = (Ret conv, w1) \<and> (\<exists>um wa. new_user_message rt (c_ID conv) (si_Content input) w1 = (Ret um, wa) \<and>
      ((\<exists>e1. mr_Create (su_msgRepo uc) um wa = (Err e1, w') \<and> e = Wrapf ''save user message'' e1) \<or>
       (\<exists>wb. mr_Create (su_msgRepo uc) um wa = (Ret (), wb) \<and>
         ((\<exists>e1. mr_FindByConversationID (su_msgRepo uc) (c_ID conv) wb = (Err e1, w') \<and> e = Wrapf ''get messages'' e1) \<or>
          (\<exists>messages wc. mr_FindByConversationID (su_msgRepo uc) (c_ID conv) wb = (Ret messages, wc) \<and>
            ((\<exists>e1. we_Run (su_engine uc) (turn_input uc input conv messages) wc = (Err e1, w') \<and> e = Wrapf ''workflow run'' e1) \<or>
             (\<exists>result w2. we_Run (su_engine uc) (turn_input uc input conv messages) wc = (Ret result, w2) \<and>
               (if wo_RequiresApproval result then send_paused rt uc conv result else send_finished rt uc input conv result) w2 = (Err e, w')))))))))"
  using assms unfolding SendMessage_Execute_def turn_input_def [symmetric]
  by (simp add: bindG_eq_Err wrapG_eq_Err wrapG_eq_Ret new_message_no_Err split del: if_split)

section \<open>Over any stores\<close>

text \<open>A row of which at most the workflow state and the time of the update changed.\<close>

definition resumable_copy :: "conversation \<Rightarrow> conversation \<Rightarrow> bool" where
  "resumable_copy c c' \<longleftrightarrow> (\<exists>ws t. c' = c\<lparr>c_WorkflowState := ws, c_UpdatedAt := t\<rparr>)"

lemma resumable_copy_same: "resumable_copy c c"
  unfolding resumable_copy_def by (intro exI [of _ "c_WorkflowState c"] exI [of _ "c_UpdatedAt c"]) simp

lemma resumable_copy_owner: "resumable_copy c c' \<Longrightarrow> c_UserID c' = c_UserID c"
  by (auto simp: resumable_copy_def)

lemma resumable_copy_stored:
  "(\<exists>c'. x = Some c' \<and> resumable_copy c c') \<longleftrightarrow> (\<exists>ws t. x = Some (c\<lparr>c_WorkflowState := ws, c_UpdatedAt := t\<rparr>))"
  by (auto simp: resumable_copy_def)

context chat_store
begin

lemma send_conversation_Err:
  assumes "send_conversation rt uc input w = (Err e, w')" "su_convRepo uc = convs"
  shows "conv_of w' = conv_of w" "msgs_of w' = msgs_of w"
proof -
  have "conv_of w' = conv_of w \<and> msgs_of w' = msgs_of w"
  proof (cases "si_ConversationID input")
    case (Some i)
    with assms obtain r where f: "cr_FindByID convs i w = (r, w')"
      by (auto simp: send_conversation_def bindG_eq_Err wrapG_eq_Err wrapG_eq_Ret split: if_splits)
    show ?thesis using keepsD [OF find_keeps f] keepsD [OF msg_frame(1) f] by simp
  next
    case None
    with assms obtain c w1 e1 where n: "new_conversation rt (si_UserID input) (if si_AgentType input = [] then ''general'' else si_AgentType input) w = (Ret c, w1)"
        and f: "cr_Create convs c w1 = (Err e1, w')"
      by (auto simp: send_conversation_def bindG_eq_Err wrapG_eq_Err wrapG_eq_Ret new_message_no_Err Let_def)
    from n have "conv_of w1 = conv_of w" "msgs_of w1 = msgs_of w"
      by (auto simp: new_conversation_def bindG_eq_Ret clock_frame uuid_frame)
    with create_Err [OF f] keepsD [OF msg_frame(4) f] show ?thesis by simp
  qed
  then show "conv_of w' = conv_of w" "msgs_of w' = msgs_of w" by simp_all
qed

lemma send_finished_Err:
  assumes "send_finished rt uc input conv result w = (Err e, w')" "su_convRepo uc = convs" "su_msgRepo uc = msgs" "ok w"
  shows "conv_of w' = conv_of w"
    "\<exists>ms. msgs_of w' = (msgs_of w)(c_ID conv := msgs_of w (c_ID conv) @ ms) \<and> (ms = [] \<or> (\<exists>am. ms = [am] \<and> m_Role am = RoleAssistant))"
proof -
  from assms(1,3) obtain am wa where 1: "new_assistant_message rt (c_ID conv) (wo_Response result) [] (chosen_model uc input) w = (Ret am, wa)"
      and rest: "(\<exists>e1. mr_Create msgs am wa = (Err e1, w')) \<or> (\<exists>wb c e1. mr_Create msgs am wa = (Ret (), wb)
        \<and> cr_Update (su_convRepo uc) c (snd (rt_now rt (snd (rt_now rt wb)))) = (Err e1, w'))"
    by (auto simp: send_finished_def bindG_eq_Err wrapG_eq_Err wrapG_eq_Ret new_message_no_Err Let_def) blast
  have am: "m_Role am = RoleAssistant" "m_ConversationID am = c_ID conv"
      and wa: "conv_of wa = conv_of w" "msgs_of wa = msgs_of w" "ok wa"
    using 1 assms(4) by (auto simp: new_assistant_message_def bindG_eq_Ret NewAssistantMessage_def message_base_def clock_frame uuid_frame)
  from rest have "conv_of w' = conv_of w \<and>
      (\<exists>ms. msgs_of w' = (msgs_of w)(c_ID conv := msgs_of w (c_ID conv) @ ms) \<and> (ms = [] \<or> (\<exists>am. ms = [am] \<and> m_Role am = RoleAssistant)))"
  proof (elim disjE exE conjE)
    fix e1 assume f: "mr_Create msgs am wa = (Err e1, w')"
    have "msgs_of w' = (msgs_of w)(c_ID conv := msgs_of w (c_ID conv) @ [])" using append_Err [OF f] wa by simp
    moreover have "conv_of w' = conv_of w" using keepsD [OF conv_frame(1) f] wa(1) by simp
    ultimately show ?thesis by blast
  next
    fix wb c e1 assume f: "mr_Create msgs am wa = (Ret (), wb)"
      and u: "cr_Update (su_convRepo uc) c (snd (rt_now rt (snd (rt_now rt wb)))) = (Err e1, w')"
    obtain am' where "stored_message am am'" "msgs_of wb = (msgs_of w)(c_ID conv := msgs_of w (c_ID conv) @ [am'])"
      using append_Ret [OF wa(3) f] am(2) wa(2) by auto
    moreover have "conv_of w' = conv_of w" "msgs_of w' = msgs_of wb"
      using update_Err [OF u [unfolded assms(2)]] keepsD [OF msg_frame(2) u [unfolded assms(2)]] keepsD [OF conv_frame(1) f] wa(1)
      by (simp_all add: clock_frame)
    ultimately show ?thesis using am(1) by (auto simp: stored_message_def)
  qed
  then show "conv_of w' = conv_of w"
    "\<exists>ms. msgs_of w' = (msgs_of w)(c_ID conv := msgs_of w (c_ID conv) @ ms) \<and> (ms = [] \<or> (\<exists>am. ms = [am] \<and> m_Role am = RoleAssistant))"
    by simp_all
qed

lemma send_paused_Err:
  assumes "send_paused rt uc conv result w = (Err e, w')" "su_convRepo uc = convs" "conv_of w (c_ID conv) = Some c0"
  shows "msgs_of w' = msgs_of w" "\<forall>j. j \<noteq> c_ID conv \<longrightarrow> conv_of w' j = conv_of w j"
    "\<exists>c1. conv_of w' (c_ID conv) = Some c1 \<and> resumable_copy c0 c1"
proof -
  let ?st = "[(''paused_state'', AStr (wo_PausedStateJSON result))]"
  from assms(1,2) have "(\<exists>e1. cr_UpdateWorkflowState convs (c_ID conv) ?st w = (Err e1, w')) \<or>
      (\<exists>wa. cr_UpdateWorkflowState convs (c_ID conv) ?st w = (Ret (), wa) \<and> (w' = snd (rt_now rt wa) \<or> (\<exists>c e1. cr_Update convs c (snd (rt_now rt wa)) = (Err e1, w'))))"
    by (auto simp: send_paused_def bindG_eq_Err wrapG_eq_Err wrapG_eq_Ret)
  then have "msgs_of w' = msgs_of w \<and> (\<forall>j. j \<noteq> c_ID conv \<longrightarrow> conv_of w' j = conv_of w j)
      \<and> (\<exists>c1. conv_of w' (c_ID conv) = Some c1 \<and> resumable_copy c0 c1)"
  proof (elim disjE exE conjE)
    fix e1 assume f: "cr_UpdateWorkflowState convs (c_ID conv) ?st w = (Err e1, w')"
    show ?thesis using state_Err [OF f] keepsD [OF msg_frame(3) f] assms(3) resumable_copy_same by simp
  next
    fix wa assume f: "cr_UpdateWorkflowState convs (c_ID conv) ?st w = (Ret (), wa)" and w': "w' = snd (rt_now rt wa)"
    show ?thesis using state_Ret [OF f] keepsD [OF msg_frame(3) f] assms(3) by (auto simp: w' clock_frame resumable_copy_def)
  next
    fix wa c e1 assume f: "cr_UpdateWorkflowState convs (c_ID conv) ?st w = (Ret (), wa)" and u: "cr_Update convs c (snd (rt_now rt wa)) = (Err e1, w')"
    show ?thesis using state_Ret [OF f] keepsD [OF msg_frame(3) f] update_Err [OF u] keepsD [OF msg_frame(2) u] assms(3)
      by (auto simp: clock_frame resumable_copy_def)
  qed
  then show "msgs_of w' = msgs_of w" "\<forall>j. j \<noteq> c_ID conv \<longrightarrow> conv_of w' j = conv_of w j"
    "\<exists>c1. conv_of w' (c_ID conv) = Some c1 \<and> resumable_copy c0 c1" by simp_all
qed

text \<open>\<open>i\<close> is the conversation of the turn, as the turn read or created it; \<open>ms\<close> is what the turn added.\<close>

definition opened :: "send_message_input \<Rightarrow> uuid \<Rightarrow> conversation \<Rightarrow> 'w \<Rightarrow> 'w \<Rightarrow> bool" where
  "opened input i c w w1 \<longleftrightarrow> conv_of w1 i = Some c \<and> c_UserID c = si_UserID input \<and> (\<forall>j. j \<noteq> i \<longrightarrow> conv_of w1 j = conv_of w j)
     \<and> (\<forall>c'. conv_of w i = Some c' \<longrightarrow> c' = c)"

definition left_behind :: "send_message_input \<Rightarrow> uuid \<Rightarrow> message list \<Rightarrow> 'w \<Rightarrow> 'w \<Rightarrow> bool" where
  "left_behind input i ms w w' \<longleftrightarrow> msgs_of w' = (msgs_of w)(i := msgs_of w i @ ms)
     \<and> (\<forall>j. j \<noteq> i \<longrightarrow> conv_of w' j = conv_of w j)
     \<and> (\<forall>c. conv_of w i = Some c \<longrightarrow> (\<exists>c'. conv_of w' i = Some c' \<and> resumable_copy c c'))
     \<and> (ms = [] \<or> (\<exists>c. conv_of w' i = Some c \<and> c_UserID c = si_UserID input) \<and> m_Role (hd ms) = RoleUser \<and> m_Content (hd ms) = si_Content input
          \<and> (tl ms = [] \<or> (\<exists>am. tl ms = [am] \<and> m_Role am = RoleAssistant)))"

lemma send_conversation_opened:
  assumes "send_conversation rt uc input w = (Ret conv, w1)" "su_convRepo uc = convs" "ok w"
  shows "\<exists>c. opened input (c_ID conv) c w w1"
  using send_conversation_Ret [OF assms] by (cases "si_ConversationID input") (auto simp: opened_def)

lemma nothing_left:
  "conv_of w' = conv_of w1 \<Longrightarrow> msgs_of w' = msgs_of w \<Longrightarrow> opened input i c w w1 \<Longrightarrow> left_behind input i [] w w'"
  using resumable_copy_same by (auto simp: left_behind_def opened_def)

lemma messages_left:
  assumes "opened input i c w w1" "msgs_of w2 = (msgs_of w)(i := msgs_of w i @ [um])" "m_Role um = RoleUser" "m_Content um = si_Content input"
    and "msgs_of w' = (msgs_of w2)(i := msgs_of w2 i @ ms)" "ms = [] \<or> (\<exists>am. ms = [am] \<and> m_Role am = RoleAssistant)"
    and "\<forall>j. j \<noteq> i \<longrightarrow> conv_of w' j = conv_of w1 j" "\<exists>c1. conv_of w' i = Some c1 \<and> resumable_copy c c1"
  shows "left_behind input i (um # ms) w w'"
  using assms by (auto simp: left_behind_def opened_def resumable_copy_owner)

text \<open>Once the user's message is stored, it stays.\<close>

lemma ending_Err:
  assumes "(if wo_RequiresApproval result then send_paused rt uc conv result else send_finished rt uc input conv result) w2 = (Err e, w')"
    and "su_convRepo uc = convs" "su_msgRepo uc = msgs" "ok w2" "conv_of w2 (c_ID conv) = Some c"
  shows "\<exists>ms. msgs_of w' = (msgs_of w2)(c_ID conv := msgs_of w2 (c_ID conv) @ ms) \<and> (ms = [] \<or> (\<exists>am. ms = [am] \<and> m_Role am = RoleAssistant))
    \<and> (\<forall>j. j \<noteq> c_ID conv \<longrightarrow> conv_of w' j = conv_of w2 j) \<and> (\<exists>c1. conv_of w' (c_ID conv) = Some c1 \<and> resumable_copy c c1)"
proof (cases "wo_RequiresApproval result")
  case True
  with assms(1) have "send_paused rt uc conv result w2 = (Err e, w')" by simp
  from send_paused_Err [OF this assms(2,5)] show ?thesis by (intro exI [of _ "[]"]) simp
next
  case False
  with assms(1) have "send_finished rt uc input conv result w2 = (Err e, w')" by simp
  from send_finished_Err [OF this assms(2-4)] assms(5) resumable_copy_same show ?thesis by auto
qed

lemma after_message_Err:
  assumes "opened input (c_ID conv) c w w1" "msgs_of wb = (msgs_of w)(c_ID conv := msgs_of w (c_ID conv) @ [um])" "m_Role um = RoleUser"
      "m_Content um = si_Content input" "conv_of wb = conv_of w1" "ok wb"
    and "su_convRepo uc = convs" "su_msgRepo uc = msgs" "engine_quiet (\<lambda>w. (conv_of w, msgs_of w)) ok (su_engine uc)"
    and run: "mr_FindByConversationID msgs (c_ID conv) wb = (r, wc)"
    and rest: "(\<exists>e1. r = Err e1) \<and> wc = w' \<or> (\<exists>messages. r = Ret messages \<and> ((\<exists>inp e1. we_Run (su_engine uc) inp wc = (Err e1, w')) \<or>
      (\<exists>inp result w2. we_Run (su_engine uc) inp wc = (Ret result, w2) \<and>
        (if wo_RequiresApproval result then send_paused rt uc conv result else send_finished rt uc input conv result) w2 = (Err e, w'))))"
  shows "\<exists>ms. left_behind input (c_ID conv) (um # ms) w w'"
proof -
  note left = messages_left [OF assms(1-4)]
  have same: "left_behind input (c_ID conv) [um] w w''" if "conv_of w'' = conv_of w1" "msgs_of w'' = msgs_of wb" for w''
    using left [of w'' "[]"] that assms(1) resumable_copy_same by (simp add: opened_def)
  have wc: "conv_of wc = conv_of w1" "msgs_of wc = msgs_of wb" "ok wc"
    using keepsD [OF conv_frame(2) run] keepsD [OF list_keeps run] maintainsD [OF list_ok assms(6) run] assms(5) by simp_all
  note quiet = engine_quietD [OF assms(9)]
  from rest show ?thesis
  proof (elim disjE exE conjE)
    assume "wc = w'" with same wc show ?thesis by blast
  next
    fix inp e1 assume "we_Run (su_engine uc) inp wc = (Err e1, w')"
    from quiet(1) [OF this] wc have "left_behind input (c_ID conv) [um] w w'" by (intro same) simp_all
    then show ?thesis by blast
  next
    fix inp result w2 assume f: "we_Run (su_engine uc) inp wc = (Ret result, w2)"
      and fin: "(if wo_RequiresApproval result then send_paused rt uc conv result else send_finished rt uc input conv result) w2 = (Err e, w')"
    from quiet [OF f] wc have w2: "conv_of w2 = conv_of w1" "msgs_of w2 = msgs_of wb" "ok w2" by simp_all
    with assms(1) have "conv_of w2 (c_ID conv) = Some c" by (simp add: opened_def)
    from ending_Err [OF fin assms(7,8) w2(3) this] w2 obtain ms where
      "msgs_of w' = (msgs_of wb)(c_ID conv := msgs_of wb (c_ID conv) @ ms)" "ms = [] \<or> (\<exists>am. ms = [am] \<and> m_Role am = RoleAssistant)"
      "\<forall>j. j \<noteq> c_ID conv \<longrightarrow> conv_of w' j = conv_of w1 j" "\<exists>c1. conv_of w' (c_ID conv) = Some c1 \<and> resumable_copy c c1" by auto
    from left [OF this] show ?thesis by blast
  qed
qed

lemma created_Err:
  assumes "send_conversation rt uc input w = (Ret conv, w1)" "new_user_message rt (c_ID conv) (si_Content input) w1 = (Ret um, wa)"
    and rest: "(\<exists>e1. mr_Create msgs um wa = (Err e1, w')) \<or> (\<exists>wb r wc. mr_Create msgs um wa = (Ret (), wb)
      \<and> mr_FindByConversationID msgs (c_ID conv) wb = (r, wc) \<and> ((\<exists>e1. r = Err e1) \<and> wc = w' \<or> (\<exists>messages. r = Ret messages \<and>
          ((\<exists>inp e1. we_Run (su_engine uc) inp wc = (Err e1, w')) \<or> (\<exists>inp result w2. we_Run (su_engine uc) inp wc = (Ret result, w2) \<and>
             (if wo_RequiresApproval result then send_paused rt uc conv result else send_finished rt uc input conv result) w2 = (Err e, w'))))))"
    and "su_convRepo uc = convs" "su_msgRepo uc = msgs" "ok w" "engine_quiet (\<lambda>w. (conv_of w, msgs_of w)) ok (su_engine uc)"
  shows "\<exists>ms. left_behind input (c_ID conv) ms w w'"
proof -
  obtain c where c: "opened input (c_ID conv) c w w1" using send_conversation_opened [OF assms(1,4,6)] by blast
  have user: "m_Role um = RoleUser" "m_Content um = si_Content input" "m_ConversationID um = c_ID conv"
      and wa: "conv_of wa = conv_of w1" "msgs_of wa = msgs_of w" "ok wa"
    using assms(2) send_conversation_Ret(2,3) [OF assms(1,4,6)]
    by (auto simp: new_user_message_def bindG_eq_Ret NewUserMessage_def message_base_def clock_frame uuid_frame)
  from rest show ?thesis
  proof (elim disjE exE)
    fix e1 assume f: "mr_Create msgs um wa = (Err e1, w')"
    have "left_behind input (c_ID conv) [] w w'"
      by (rule nothing_left [OF _ _ c]) (use append_Err [OF f] keepsD [OF conv_frame(1) f] wa in simp_all)
    then show ?thesis by blast
  next
    fix wb r wc assume *: "mr_Create msgs um wa = (Ret (), wb) \<and> mr_FindByConversationID msgs (c_ID conv) wb = (r, wc) \<and>
        ((\<exists>e1. r = Err e1) \<and> wc = w' \<or> (\<exists>messages. r = Ret messages \<and> ((\<exists>inp e1. we_Run (su_engine uc) inp wc = (Err e1, w')) \<or>
        (\<exists>inp result w2. we_Run (su_engine uc) inp wc = (Ret result, w2) \<and>
          (if wo_RequiresApproval result then send_paused rt uc conv result else send_finished rt uc input conv result) w2 = (Err e, w')))))"
    note f = conjunct1 [OF *]
    obtain um' where um': "stored_message um um'" "msgs_of wb = (msgs_of w)(c_ID conv := msgs_of w (c_ID conv) @ [um'])"
      using append_Ret [OF wa(3) f] user(3) wa(2) by auto
    then have user': "m_Role um' = RoleUser" "m_Content um' = si_Content input" using user by (simp_all add: stored_message_def)
    have wb: "conv_of wb = conv_of w1" "ok wb" using keepsD [OF conv_frame(1) f] maintainsD [OF append_ok wa(3) f] wa(1) by simp_all
    show ?thesis
      using after_message_Err [OF c um'(2) user' wb assms(4,5,7) conjunct1 [OF conjunct2 [OF *]] conjunct2 [OF conjunct2 [OF *]]] by blast
  qed
qed

lemma send_failed:
  assumes "SendMessage_Execute rt uc input w = (Err e, w')" "si_Messages input = []"
    and "su_convRepo uc = convs" "su_msgRepo uc = msgs" "ok w" "engine_quiet (\<lambda>w. (conv_of w, msgs_of w)) ok (su_engine uc)"
  shows "\<exists>i ms. left_behind input i ms w w'"
proof -
  consider "send_conversation rt uc input w = (Err e, w')" | conv w1 um wa where "send_conversation rt uc input w = (Ret conv, w1)"
      "new_user_message rt (c_ID conv) (si_Content input) w1 = (Ret um, wa)"
      "(\<exists>e1. mr_Create msgs um wa = (Err e1, w')) \<or> (\<exists>wb r wc. mr_Create msgs um wa = (Ret (), wb)
        \<and> mr_FindByConversationID msgs (c_ID conv) wb = (r, wc) \<and> ((\<exists>e1. r = Err e1) \<and> wc = w' \<or> (\<exists>messages. r = Ret messages \<and>
            ((\<exists>inp e1. we_Run (su_engine uc) inp wc = (Err e1, w')) \<or> (\<exists>inp result w2. we_Run (su_engine uc) inp wc = (Ret result, w2) \<and>
               (if wo_RequiresApproval result then send_paused rt uc conv result else send_finished rt uc input conv result) w2 = (Err e, w'))))))"
    using send_Err [OF assms(1,2), unfolded assms(4)] by blast
  then show ?thesis
  proof cases
    case 1
    from send_conversation_Err [OF this assms(3)] have "left_behind input i [] w w'" for i
      by (auto simp: left_behind_def resumable_copy_same)
    then show ?thesis by blast
  next
    case 2
    then show ?thesis using created_Err [OF _ _ _ assms(3-6)] by blast
  qed
qed

end

section \<open>The program's stores\<close>

text \<open>C15: a turn that ends with an error is not undone: whatever failed, the store, the model or the workflow, at most one conversation differs, it has gained nothing, or the user's message, or that and the answer, and of its row at most the workflow state and the time of the update changed; so its message count stays behind its messages.\<close>

theorem SendMessage_failed:
  assumes "SendMessage_Execute world_runtime uc input w = (Err e, w')" "si_Messages input = []"
    and "su_convRepo uc = ConversationRepository" "su_msgRepo uc = MessageRepository" "db_ok w"
    and "engine_quiet (\<lambda>w. (pg_conv_of w, pg_msgs_of w)) db_ok (su_engine uc)"
  shows "\<exists>i ms. pg_msgs_of w' = (pg_msgs_of w)(i := pg_msgs_of w i @ ms)
     \<and> (\<forall>j. j \<noteq> i \<longrightarrow> pg_conv_of w' j = pg_conv_of w j)
     \<and> (\<forall>c. pg_conv_of w i = Some c \<longrightarrow> (\<exists>ws t. pg_conv_of w' i = Some (c\<lparr>c_WorkflowState := ws, c_UpdatedAt := t\<rparr>)))
     \<and> (ms = [] \<or> (\<exists>c. pg_conv_of w' i = Some c \<and> c_UserID c = si_UserID input) \<and> m_Role (hd ms) = RoleUser \<and> m_Content (hd ms) = si_Content input
          \<and> (tl ms = [] \<or> (\<exists>am. tl ms = [am] \<and> m_Role am = RoleAssistant)))"
  using pg_chat.send_failed [OF assms] unfolding pg_chat.left_behind_def resumable_copy_stored .

definition demo_offline :: "world send_message_usecase" where
  "demo_offline = NewSendMessageUseCase ConversationRepository MessageRepository (demo_llm [])
     ((demo_engine False)\<lparr>we_Run := (\<lambda>inp. failG (Errorf ''offline''))\<rparr>) []"

definition demo_open_world :: world where
  "demo_open_world = demo_world [demo_user] [] [(NewConversation 100 1 2 7 ''general'', None)]"

lemma demo_offline_run:
  "\<exists>e w' um. SendMessage_Execute world_runtime demo_offline (demo_message (Some 100) 7) demo_open_world = (Err e, w')
     \<and> pg_msgs_of w' 100 = [um]"
  by (simp add: demo_offline_def demo_open_world_def demo_defs chat_defs store_defs pg_msgs_of_def conversation_messages_def order_rows_def Let_def)

lemma demo_open_ok: "db_ok demo_open_world" "pg_msgs_of demo_open_world i = []"
    "pg_conv_of demo_open_world 100 = Some (NewConversation 100 1 2 7 ''general'')"
  by (simp_all add: demo_open_world_def db_ok_def table_ok_defs demo_world_def pg_msgs_of_def conversation_messages_def order_rows_def
      pg_conv_of_def live_conversations_def NewConversation_def demo_user_def NewUser_def)

theorem SendMessage_failed_witness:
  "\<exists>e w' um c. SendMessage_Execute world_runtime demo_offline (demo_message (Some 100) 7) demo_open_world = (Err e, w')
     \<and> pg_msgs_of w' 100 = [um] \<and> m_Content um = ''hi'' \<and> pg_conv_of w' 100 = Some c \<and> c_MessageCount c = 0"
proof -
  obtain e w' um where run: "SendMessage_Execute world_runtime demo_offline (demo_message (Some 100) 7) demo_open_world = (Err e, w')"
      and um: "pg_msgs_of w' 100 = [um]"
    using demo_offline_run by blast
  have "si_Messages (demo_message (Some 100) 7) = []" "si_Content (demo_message (Some 100) 7) = ''hi''"
      "su_convRepo demo_offline = ConversationRepository" "su_msgRepo demo_offline = MessageRepository"
      "engine_quiet (\<lambda>w. (pg_conv_of w, pg_msgs_of w)) db_ok (su_engine demo_offline)"
    by (simp_all add: demo_message_def demo_offline_def NewSendMessageUseCase_def demo_engine_def engine_quiet_def)
  from SendMessage_failed [OF run this(1,3,4) demo_open_ok(1) this(5)] this(2) obtain i ms where
      m: "pg_msgs_of w' = (pg_msgs_of demo_open_world)(i := pg_msgs_of demo_open_world i @ ms)"
      and c: "\<forall>c. pg_conv_of demo_open_world i = Some c \<longrightarrow> (\<exists>ws t. pg_conv_of w' i = Some (c\<lparr>c_WorkflowState := ws, c_UpdatedAt := t\<rparr>))"
      and t: "ms = [] \<or> m_Content (hd ms) = ''hi''"
    by auto
  from m um demo_open_ok(2) have "i = 100" "ms = [um]" by (auto split: if_splits)
  with run um c t demo_open_ok(3) show ?thesis by (fastforce simp: NewConversation_def)
qed

end
