(* ===== verification/Auth_Correct.thy ===== *)
theory Auth_Correct
  imports Auth_Usecases Postgres_Correct
begin

text \<open>
  What a successful authentication means: the checks that were made, over any stores that
  meet the contract.
\<close>

lemma resultG_Ret: "resultG r w = (Ret x, w') \<longleftrightarrow> r = Inr x \<and> w' = w"
  by (cases r) (auto simp: resultG_def)

lemma stateG_eq_Ret: "stateG f w = (Ret x, w') \<longleftrightarrow> f w = (x, w')"
  by (simp add: prod_eq_iff)

text \<open>A clock reading taken during a call.\<close>

definition some_reading :: "'w runtime \<Rightarrow> time \<Rightarrow> bool" where
  "some_reading rt now \<longleftrightarrow> (\<exists>w. now = fst (rt_now rt w))"

definition accepts :: "'w runtime \<Rightarrow> user \<Rightarrow> token \<Rightarrow> bool" where
  "accepts rt u t \<longleftrightarrow> u_IsActive u \<and> \<not> t_IsRevoked t \<and> (\<exists>now. some_reading rt now \<and> now \<le> t_ExpiresAt t)"

text \<open>The text is a JWT this manager signed, of the given type, for the user and the token.\<close>

definition signed_for :: "jwt_library \<Rightarrow> jwt_manager \<Rightarrow> string \<Rightarrow> uuid \<Rightarrow> uuid \<Rightarrow> string \<Rightarrow> bool" where
  "signed_for lib m typ u i tok \<longleftrightarrow>
     (\<exists>cl. jl_Sign lib (jm_secret m) cl = Inr tok \<and> cl_TokenType cl = typ \<and> cl_UserID cl = u \<and> cl_TokenID cl = i)"

text \<open>The parts of a login that returns: the token it stores is made from three readings and a UUID.\<close>

definition session_token :: "'w runtime \<Rightarrow> (string \<Rightarrow> string) \<Rightarrow> user \<Rightarrow> string \<Rightarrow> 'w \<Rightarrow> token" where
  "session_token rt sha u nonce w = (let w1 = snd (rt_now rt w); w2 = snd (rt_uuid rt w1) in
     (NewAPIKey (fst (rt_uuid rt w1)) (fst (rt_now rt w2)) (fst (rt_now rt (snd (rt_now rt w2)))) (u_ID u) (HashToken sha nonce) ''session''
       (fst (rt_now rt w) + 7 * 24 * hour))\<lparr>t_TokenType := TokenTypeAccess\<rparr>)"

lemma Login_runs:
  assumes "Login_Execute rt lib sha uuid_text bc uc inp w = (Ret out, w')"
  obtains u w1 nonce w2 w4 acc w5 ref where
    "ur_FindByEmail (vu_userRepo uc) (li_Email inp) w = (Ret u, w1)" "bc_Compare bc (u_PasswordHash u) (li_Password inp) = None" "u_IsActive u"
    "GenerateAPIKey rt uuid_text w1 = (Ret nonce, w2)"
    "kr_Create (vu_tokenRepo uc) (session_token rt sha u nonce w2) (snd (rt_now rt (snd (rt_now rt (snd (rt_uuid rt (snd (rt_now rt w2))))))))
       = (Ret (), w4)"
    "GenerateAccessToken rt lib (vu_jwtMgr uc) (u_ID u) (t_ID (session_token rt sha u nonce w2)) w4 = (Ret acc, w5)"
    "GenerateRefreshToken rt lib (vu_jwtMgr uc) (u_ID u) (t_ID (session_token rt sha u nonce w2)) w5 = (Ret ref, w')"
    "out = \<lparr>lg_AccessToken = acc, lg_RefreshToken = ref, lg_TokenType = ''Bearer'', lg_ExpiresIn = 900, lg_User = u\<rparr>"
  using assms that
  by (fastforce simp: Login_Execute_def session_token_def bindG_eq_Ret wrapG_eq_Ret maskG_eq_Ret Let_def split: if_splits option.splits)

context identity_store
begin

lemma check_token_Ret:
  assumes "check_token rt uc msg token userID w = (Ret out, w')" "vu_userRepo uc = users"
  shows "vr_Token out = token" "vr_User out \<in> set (users_of w)" "u_ID (vr_User out) = userID" "accepts rt (vr_User out) token"
proof -
  from assms obtain now w1 u w2 where c: "rt_now rt w = (now, w1)" "Token_IsValid now token"
      "ur_FindByID users userID w1 = (Ret u, w2)" "u_IsActive u" "out = \<lparr>vr_User = u, vr_Token = token\<rparr>"
    by (auto simp: check_token_def bindG_eq_Ret maskG_eq_Ret stateG_eq_Ret simp del: stateG_apply split: if_splits)
  have "users_of w1 = users_of w" using clock_keeps(2) [of w] c(1) by simp
  with c user_by_id [OF c(3)]
  show "vr_Token out = token" "vr_User out \<in> set (users_of w)" "u_ID (vr_User out) = userID" by simp_all
  have "some_reading rt now" unfolding some_reading_def using c(1) by (metis fst_conv)
  then show "accepts rt (vr_User out) token"
    using c(2,4,5) by (auto simp: accepts_def Token_IsValid_def Token_IsExpired_def)
qed

lemma validateAPIKey_Ret:
  assumes "validateAPIKey rt sha uc key w = (Ret out, w')" "vu_userRepo uc = users" "vu_tokenRepo uc = toks"
  shows "vr_Token out \<in> set (tokens_of w)" "t_TokenHash (vr_Token out) = sha key" "vr_User out \<in> set (users_of w)"
    "u_ID (vr_User out) = t_UserID (vr_Token out)" "accepts rt (vr_User out) (vr_Token out)"
proof -
  from assms obtain t w1 where c: "kr_FindByHash toks (sha key) w = (Ret t, w1)"
      "check_token rt uc ''API key is expired or revoked'' t (t_UserID t) w1 = (Ret out, w')"
    by (auto simp: validateAPIKey_def bindG_eq_Ret maskG_eq_Ret HashToken_def)
  have "users_of w1 = users_of w" using keepsD [OF reads_keep_users(2) c(1)] .
  with check_token_Ret [OF c(2) assms(2)] token_by_hash [OF c(1)]
  show "vr_Token out \<in> set (tokens_of w)" "t_TokenHash (vr_Token out) = sha key" "vr_User out \<in> set (users_of w)"
    "u_ID (vr_User out) = t_UserID (vr_Token out)" "accepts rt (vr_User out) (vr_Token out)"
    by simp_all
qed

lemma validateJWT_Ret:
  assumes "validateJWT rt lib uc tok w = (Ret out, w')" "vu_userRepo uc = users" "vu_tokenRepo uc = toks"
  shows "vr_Token out \<in> set (tokens_of w)" "vr_User out \<in> set (users_of w)" "accepts rt (vr_User out) (vr_Token out)"
    "\<exists>now cl. some_reading rt now \<and> validate_claims lib (vu_jwtMgr uc) now tok = Inr cl
       \<and> t_ID (vr_Token out) = cl_TokenID cl \<and> u_ID (vr_User out) = cl_UserID cl"
proof -
  from assms obtain now wa cl t w1 where c: "rt_now rt w = (now, wa)" "validate_claims lib (vu_jwtMgr uc) now tok = Inr cl"
      "kr_FindByID toks (cl_TokenID cl) wa = (Ret t, w1)"
      "check_token rt uc ''token is expired or revoked'' t (cl_UserID cl) w1 = (Ret out, w')"
    by (auto simp: validateJWT_def ValidateToken_def bindG_eq_Ret maskG_eq_Ret wrapG_eq_Ret resultG_Ret stateG_eq_Ret simp del: stateG_apply)
  have v: "users_of w1 = users_of w" "tokens_of wa = tokens_of w"
    using keepsD [OF reads_keep_users(1) c(3)] clock_keeps [of w] c(1) by simp_all
  have "some_reading rt now" unfolding some_reading_def using c(1) by (metis fst_conv)
  with v check_token_Ret [OF c(4) assms(2)] token_by_id [OF c(3)] c(2)
  show "vr_Token out \<in> set (tokens_of w)" "vr_User out \<in> set (users_of w)" "accepts rt (vr_User out) (vr_Token out)"
    "\<exists>now cl. some_reading rt now \<and> validate_claims lib (vu_jwtMgr uc) now tok = Inr cl
       \<and> t_ID (vr_Token out) = cl_TokenID cl \<and> u_ID (vr_User out) = cl_UserID cl"
    by auto
qed

lemma validate_Ret:
  assumes "ValidateToken_Execute rt lib sha uc tok w = (Ret out, w')" "vu_userRepo uc = users" "vu_tokenRepo uc = toks"
  shows "vr_Token out \<in> set (tokens_of w)" "vr_User out \<in> set (users_of w)" "accepts rt (vr_User out) (vr_Token out)"
  using assms validateAPIKey_Ret [of sha uc tok w out w'] validateJWT_Ret [of lib uc tok w out w']
  by (auto simp: ValidateToken_Execute_def split: if_splits)

text \<open>Once \<open>Revoke\<close> has returned, the token opens no session.\<close>

lemma revoked_refused:
  assumes "kr_Revoke toks i w0 = (Ret (), w)" "vu_userRepo uc = users" "vu_tokenRepo uc = toks"
  shows "ValidateToken_Execute rt lib sha uc tok w = (Ret out, w') \<Longrightarrow> t_ID (vr_Token out) \<noteq> i"
  using validate_Ret [of lib sha uc tok w out w'] revoke_Ret [OF assms(1)] assms(2,3) by (auto simp: accepts_def)

lemma RefreshToken_Ret:
  assumes "RefreshToken_Execute rt lib uc tok w = (Ret out, w')" "vu_userRepo uc = users" "vu_tokenRepo uc = toks"
  shows "\<exists>now cl t u. some_reading rt now \<and> validate_claims lib (vu_jwtMgr uc) now tok = Inr cl \<and> cl_TokenType cl = ''refresh''
    \<and> t \<in> set (tokens_of w) \<and> t_ID t = cl_TokenID cl \<and> u \<in> set (users_of w) \<and> u_ID u = cl_UserID cl \<and> accepts rt u t"
proof -
  from assms obtain now wa cl t w1 now' w2 u w3 where c: "rt_now rt w = (now, wa)" "validate_claims lib (vu_jwtMgr uc) now tok = Inr cl"
      "cl_TokenType cl = ''refresh''" "kr_FindByID toks (cl_TokenID cl) wa = (Ret t, w1)"
      "rt_now rt w1 = (now', w2)" "Token_IsValid now' t" "ur_FindByID users (cl_UserID cl) w2 = (Ret u, w3)" "u_IsActive u"
    by (auto simp: RefreshToken_Execute_def ValidateToken_def bindG_eq_Ret maskG_eq_Ret wrapG_eq_Ret resultG_Ret stateG_eq_Ret
        simp del: stateG_apply split: if_splits)
  have v: "users_of w2 = users_of w" "tokens_of wa = tokens_of w"
    using keepsD [OF reads_keep_users(1) c(4)] clock_keeps [of w] clock_keeps [of w1] c(1,5) by simp_all
  have "some_reading rt now" "some_reading rt now'" unfolding some_reading_def using c(1,5) by (metis fst_conv)+
  then show ?thesis
    using c v token_by_id [OF c(4)] user_by_id [OF c(7)]
    by (intro exI [of _ now] exI [of _ cl] exI [of _ t] exI [of _ u]) (auto simp: accepts_def Token_IsValid_def Token_IsExpired_def)
qed

lemma generate_token_Ret:
  assumes "generate_token rt lib m typ ttl u i w = (Ret tok, w')"
  shows "tokens_of w' = tokens_of w"
    "\<exists>cl. jl_Sign lib (jm_secret m) cl = Inr tok \<and> cl_TokenType cl = typ \<and> cl_UserID cl = u \<and> cl_TokenID cl = i"
  using assms by (auto simp: generate_token_def bindG_eq_Ret resultG_Ret clock_keeps)

lemma Login_Ret:
  assumes "Login_Execute rt lib sha uuid_text bc uc inp w = (Ret out, w')" "vu_userRepo uc = users" "vu_tokenRepo uc = toks"
  shows "\<exists>u t. u \<in> set (users_of w) \<and> u_Email u = li_Email inp \<and> bc_Compare bc (u_PasswordHash u) (li_Password inp) = None
    \<and> u_IsActive u \<and> lg_User out = u \<and> tokens_of w' = tokens_of w @ [t] \<and> t_UserID t = u_ID u \<and> \<not> t_IsRevoked t
    \<and> t_TokenHash t \<notin> t_TokenHash ` set (tokens_of w)
    \<and> signed_for lib (vu_jwtMgr uc) ''access'' (u_ID u) (t_ID t) (lg_AccessToken out)
    \<and> signed_for lib (vu_jwtMgr uc) ''refresh'' (u_ID u) (t_ID t) (lg_RefreshToken out)"
proof -
  from assms obtain u w1 nonce w2 w3 w4 acc w5 ref where
      f: "ur_FindByEmail users (li_Email inp) w = (Ret u, w1)" "bc_Compare bc (u_PasswordHash u) (li_Password inp) = None" "u_IsActive u" and
      n: "GenerateAPIKey rt uuid_text w1 = (Ret nonce, w2)" and
      w3: "w3 = snd (rt_now rt (snd (rt_now rt (snd (rt_uuid rt (snd (rt_now rt w2)))))))" and
      k: "kr_Create toks (session_token rt sha u nonce w2) w3 = (Ret (), w4)" and
      a: "GenerateAccessToken rt lib (vu_jwtMgr uc) (u_ID u) (t_ID (session_token rt sha u nonce w2)) w4 = (Ret acc, w5)" and
      r: "GenerateRefreshToken rt lib (vu_jwtMgr uc) (u_ID u) (t_ID (session_token rt sha u nonce w2)) w5 = (Ret ref, w')" and
      out: "out = \<lparr>lg_AccessToken = acc, lg_RefreshToken = ref, lg_TokenType = ''Bearer'', lg_ExpiresIn = 900, lg_User = u\<rparr>"
    by (auto elim: Login_runs)
  have "tokens_of w3 = tokens_of w"
    using keepsD [OF reads_keep_tokens(4) f(1)] n by (auto simp: w3 clock_keeps uuid_keeps GenerateAPIKey_def bindG_def)
  moreover note create_token_Ret [OF k] generate_token_Ret [OF a [unfolded GenerateAccessToken_def]]
    generate_token_Ret [OF r [unfolded GenerateRefreshToken_def]] user_by_email [OF f(1)]
  ultimately show ?thesis
    using f(2,3) out by (auto simp: session_token_def NewAPIKey_def signed_for_def Let_def intro!: exI [of _ u])
qed

text \<open>The bcrypt library may use the world (its random source), not the stores.\<close>

lemma CreateUser_Ret:
  assumes "CreateUser_Execute rt bc users inp w = (Ret u, w')"
    and "\<And>p. keeps (\<lambda>w. (tokens_of w, users_of w)) (bc_Generate bc p)"
  shows "\<exists>m. users_of w' = users_of w @ [u\<lparr>u_Metadata := m\<rparr>] \<and> u_Email u = ci_Email inp \<and> u_Email u \<notin> u_Email ` set (users_of w)
    \<and> u_Role u = UserRoleUser \<and> u_IsActive u \<and> (\<exists>w1 w2. bc_Generate bc (ci_Password inp) w1 = (Ret (u_PasswordHash u), w2))"
proof -
  from assms(1) obtain found w1 where x: "attemptG (ur_FindByEmail users (ci_Email inp)) w = (Ret found, w1)"
    by (auto simp: CreateUser_Execute_def bindG_eq_Ret)
  with assms(1) obtain e where e: "found = Inl e" by (cases found) (auto simp: CreateUser_Execute_def)
  with x have f: "ur_FindByEmail users (ci_Email inp) w = (Err e, w1)" by (simp add: attemptG_eq_Ret)
  from assms(1) x e obtain h w2 i t t' w3 where
      b: "bc_Generate bc (ci_Password inp) w1 = (Ret h, w2)" and
      w3: "w3 = snd (rt_now rt (snd (rt_now rt (snd (rt_uuid rt w2)))))" and
      c: "ur_Create users u w3 = (Ret (), w')" and u: "u = NewUser i t t' (ci_Email inp) h (ci_Name inp)"
    by (auto simp: CreateUser_Execute_def bindG_eq_Ret wrapG_eq_Ret Let_def)
  have "users_of w3 = users_of w"
    using keepsD [OF reads_keep_users(4) f] keepsD [OF assms(2) b] by (simp add: w3 clock_keeps uuid_keeps)
  with create_user_Ret [OF c] b u show ?thesis by (auto simp: NewUser_def)
qed

end

lemma CreateUser_metadata:
  assumes "CreateUser_Execute rt bc users inp w = (Ret u, w')"
  shows "u_Metadata u = Some []"
proof -
  from assms obtain found w1 where "attemptG (ur_FindByEmail users (ci_Email inp)) w = (Ret found, w1)"
    by (auto simp: CreateUser_Execute_def bindG_eq_Ret)
  with assms show ?thesis
    by (cases found) (auto simp: CreateUser_Execute_def bindG_eq_Ret wrapG_eq_Ret Let_def NewUser_def)
qed

text \<open>\<open>validateJWT\<close> never looks at the type in the claims.\<close>

lemma validateJWT_ignores_type:
  assumes "\<And>now. validate_claims lib (vu_jwtMgr uc) now tok' = map_sum id (cl_TokenType_update (\<lambda>_. other)) (validate_claims lib (vu_jwtMgr uc) now tok)"
  shows "validateJWT rt lib uc tok = validateJWT rt lib uc tok'"
  using assms by (auto simp: validateJWT_def ValidateToken_def fun_eq_iff bindG_def wrapG_def resultG_def split: sum.split prod.split outcome.split)

end
