(* ===== verification/Auth_Theorems.thy ===== *)
theory Auth_Theorems
  imports Auth_Correct Scenario
begin

text \<open>
  Authentication over the SQL repositories: what a validated key or token proves, that a
  revoked one opens nothing, what login, refresh and registration create.
\<close>

section \<open>Concrete runs\<close>

lemma jsonb_empty: "jsonb [] = Some []"
  by code_simp

lemmas auth_demo_defs = demo_claims_def demo_jwt_def demo_token_def demo_auth_def demo_bcrypt_def demo_user_def demo_world_def NewUser_def NewAPIKey_def
  NewJWTManager_def world_runtime_def tick_def

lemmas auth_store_defs = TokenRepository_def UserRepository_def TokenRepository_FindByHash_def TokenRepository_FindByID_def scanToken_def
  UserRepository_FindByID_def UserRepository_FindByEmail_def UserRepository_Create_def TokenRepository_Create_def TokenRepository_UpdateLastUsed_def
  TokenRepository_Revoke_def update_tokens_def update_rows_def user_checks_def user_columns_def varchar_def char_length_def int4_def unique_def
  references_def jsonb_ok_def jsonb_col_def jsonb_empty run_sql_def query_row_def command_def no_rows_or_def ErrNoRows_def

lemmas auth_defs = ValidateToken_Execute_def validateAPIKey_def validateJWT_def check_token_def ValidateToken_def validate_claims_def resultG_def
  Token_IsValid_def Token_IsExpired_def HashToken_def spawnG_def bindG_def wrapG_def maskG_def attemptG_def has_prefix_def

section \<open>Validation\<close>



text \<open>A JWT is accepted only when the library verified it and the stored token and user its claims name are valid and active.\<close>

theorem JWT_checked:
  fixes w :: "'x world_scheme"
  assumes "validateJWT world_runtime lib uc tok w = (Ret out, w')" "vu_userRepo uc = UserRepository" "vu_tokenRepo uc = TokenRepository"
  shows "vr_Token out \<in> set (w_tokens w) \<and> vr_User out \<in> set (w_users w) \<and> accepts (world_runtime :: 'x world_scheme runtime) (vr_User out) (vr_Token out)
     \<and> (\<exists>now cl. some_reading (world_runtime :: 'x world_scheme runtime) now \<and> validate_claims lib (vu_jwtMgr uc) now tok = Inr cl
          \<and> t_ID (vr_Token out) = cl_TokenID cl \<and> u_ID (vr_User out) = cl_UserID cl)"
  using pg_identity.validateJWT_Ret [OF assms] by blast

theorem JWT_checked_witness:
  "\<exists>out w'. validateJWT world_runtime demo_jwt demo_auth ''access'' (demo_world [demo_user] [demo_token] []) = (Ret out, w')
     \<and> vr_Token out \<in> set (w_tokens (demo_world [demo_user] [demo_token] []))"
proof -
  have "\<exists>out w'. validateJWT world_runtime demo_jwt demo_auth ''access'' (demo_world [demo_user] [demo_token] []) = (Ret out, w')"
    by (simp add: auth_defs auth_store_defs auth_demo_defs)
  then obtain out w' where run: "validateJWT world_runtime demo_jwt demo_auth ''access'' (demo_world [demo_user] [demo_token] []) = (Ret out, w')"
    by blast
  then show ?thesis using JWT_checked [OF run] by (auto simp: demo_auth_def)
qed

text \<open>C34: after \<open>Revoke\<close> has returned, no credential is accepted as that token.\<close>

theorem revoked_token_refused:
  assumes "TokenRepository_Revoke i w0 = (Ret (), w)" "vu_userRepo uc = UserRepository" "vu_tokenRepo uc = TokenRepository"
    and "ValidateToken_Execute world_runtime lib sha uc tok w = (Ret out, w')"
  shows "t_ID (vr_Token out) \<noteq> i"
  using pg_identity.revoked_refused [OF _ assms(2-4)] assms(1) by (simp add: TokenRepository_def)

theorem revoked_token_refused_witness:
  "\<exists>w out w'. TokenRepository_Revoke 51 (demo_world [demo_user] [demo_token] []) = (Ret (), w)
     \<and> ValidateToken_Execute world_runtime demo_jwt (\<lambda>s. s) demo_auth ''sk-1'' w = (Ret out, w') \<and> t_ID (vr_Token out) \<noteq> 51"
proof -
  have "\<exists>w out w'. TokenRepository_Revoke 51 (demo_world [demo_user] [demo_token] []) = (Ret (), w)
     \<and> ValidateToken_Execute world_runtime demo_jwt (\<lambda>s. s) demo_auth ''sk-1'' w = (Ret out, w')"
    by (simp add: auth_defs auth_store_defs auth_demo_defs)
  then obtain w out w' where run: "TokenRepository_Revoke 51 (demo_world [demo_user] [demo_token] []) = (Ret (), w)"
      "ValidateToken_Execute world_runtime demo_jwt (\<lambda>s. s) demo_auth ''sk-1'' w = (Ret out, w')" by blast
  from revoked_token_refused [OF run(1) _ _ run(2)] run show ?thesis by (auto simp: demo_auth_def)
qed

text \<open>C36: the type in a JWT's claims is not looked at: two tokens whose claims differ only there, such as an access and a refresh token, validate alike.\<close>

theorem JWT_type_ignored:
  assumes "\<And>now. validate_claims lib (vu_jwtMgr uc) now tok' = map_sum id (cl_TokenType_update (\<lambda>_. other)) (validate_claims lib (vu_jwtMgr uc) now tok)"
  shows "validateJWT rt lib uc tok = validateJWT rt lib uc tok'"
  by (rule validateJWT_ignores_type [OF assms])

theorem JWT_type_ignored_witness:
  "validateJWT world_runtime demo_jwt demo_auth ''access'' = validateJWT world_runtime demo_jwt demo_auth ''refresh''"
  by (rule JWT_type_ignored [where other = "''refresh''"])
    (simp_all add: validate_claims_def demo_jwt_def demo_claims_def)

section \<open>Login, refresh and registration\<close>

text \<open>C37: a login that returns matched the password of the active user with that email, stored exactly one new token of that user under a fresh hash, and signed an access and a refresh token for it.\<close>

theorem Login_issues_one_token:
  assumes "Login_Execute world_runtime lib sha uuid_text bc uc inp w = (Ret out, w')" "vu_userRepo uc = UserRepository"
    and "vu_tokenRepo uc = TokenRepository"
  shows "\<exists>u t. u \<in> set (w_users w) \<and> u_Email u = li_Email inp \<and> bc_Compare bc (u_PasswordHash u) (li_Password inp) = None
    \<and> u_IsActive u \<and> lg_User out = u \<and> w_tokens w' = w_tokens w @ [t] \<and> t_UserID t = u_ID u \<and> \<not> t_IsRevoked t
    \<and> t_TokenHash t \<notin> t_TokenHash ` set (w_tokens w)
    \<and> signed_for lib (vu_jwtMgr uc) ''access'' (u_ID u) (t_ID t) (lg_AccessToken out)
    \<and> signed_for lib (vu_jwtMgr uc) ''refresh'' (u_ID u) (t_ID t) (lg_RefreshToken out)"
  by (rule pg_identity.Login_Ret [OF assms])

theorem Login_issues_one_token_witness:
  "\<exists>out w' t. Login_Execute world_runtime demo_jwt (\<lambda>s. s) (\<lambda>u. ''u'') demo_bcrypt demo_auth
       \<lparr>li_Email = ''ann@example.org'', li_Password = ''hash''\<rparr> (demo_world [demo_user] [] []) = (Ret out, w') \<and> w_tokens w' = [t]"
proof -
  let ?in = "\<lparr>li_Email = ''ann@example.org'', li_Password = ''hash''\<rparr>"
  have "\<exists>out w'. Login_Execute world_runtime demo_jwt (\<lambda>s. s) (\<lambda>u. ''u'') demo_bcrypt demo_auth ?in (demo_world [demo_user] [] []) = (Ret out, w')"
    by (simp add: Login_Execute_def GenerateAPIKey_def GenerateAccessToken_def GenerateRefreshToken_def generate_token_def Let_def auth_defs auth_store_defs auth_demo_defs)
  then obtain out w' where run: "Login_Execute world_runtime demo_jwt (\<lambda>s. s) (\<lambda>u. ''u'') demo_bcrypt demo_auth ?in (demo_world [demo_user] [] []) = (Ret out, w')"
    by blast
  from Login_issues_one_token [OF run] obtain t where "w_tokens w' = w_tokens (demo_world [demo_user] [] []) @ [t]"
    by (auto simp: demo_auth_def)
  with run show ?thesis by (auto simp: demo_world_def)
qed

text \<open>A refresh that returns was made with a verified refresh token whose stored token and user are valid and active.\<close>

theorem Refresh_checked:
  fixes w :: "'x world_scheme"
  assumes "RefreshToken_Execute world_runtime lib uc tok w = (Ret out, w')" "vu_userRepo uc = UserRepository" "vu_tokenRepo uc = TokenRepository"
  shows "\<exists>now cl t u. some_reading (world_runtime :: 'x world_scheme runtime) now \<and> validate_claims lib (vu_jwtMgr uc) now tok = Inr cl \<and> cl_TokenType cl = ''refresh''
    \<and> t \<in> set (w_tokens w) \<and> t_ID t = cl_TokenID cl \<and> u \<in> set (w_users w) \<and> u_ID u = cl_UserID cl \<and> accepts (world_runtime :: 'x world_scheme runtime) u t"
  by (rule pg_identity.RefreshToken_Ret [OF assms])

theorem Refresh_checked_witness:
  "\<exists>out w'. RefreshToken_Execute world_runtime demo_jwt demo_auth ''refresh'' (demo_world [demo_user] [demo_token] []) = (Ret out, w')
     \<and> (\<exists>t u. t \<in> set (w_tokens (demo_world [demo_user] [demo_token] [])) \<and> accepts (world_runtime :: world runtime) u t)"
proof -
  have "\<exists>out w'. RefreshToken_Execute world_runtime demo_jwt demo_auth ''refresh'' (demo_world [demo_user] [demo_token] []) = (Ret out, w')"
    by (simp add: RefreshToken_Execute_def GenerateAccessToken_def generate_token_def auth_defs auth_store_defs auth_demo_defs)
  then obtain out w' where run: "RefreshToken_Execute world_runtime demo_jwt demo_auth ''refresh'' (demo_world [demo_user] [demo_token] []) = (Ret out, w')"
    by blast
  then show ?thesis using Refresh_checked [OF run] by (fastforce simp: demo_auth_def)
qed

text \<open>A registration that returns added exactly one user, active, with the plain role, the hash bcrypt made of the password, and an email no other user has.\<close>

theorem CreateUser_adds_one_user:
  assumes "CreateUser_Execute world_runtime bc UserRepository inp w = (Ret u, w')"
    and "\<And>p. keeps (\<lambda>w. (w_tokens w, w_users w)) (bc_Generate bc p)"
  shows "\<exists>m. w_users w' = w_users w @ [u\<lparr>u_Metadata := m\<rparr>] \<and> u_Email u = ci_Email inp \<and> u_Email u \<notin> u_Email ` set (w_users w)
    \<and> u_Role u = UserRoleUser \<and> u_IsActive u \<and> (\<exists>w1 w2. bc_Generate bc (ci_Password inp) w1 = (Ret (u_PasswordHash u), w2))"
  by (rule pg_identity.CreateUser_Ret [OF assms])

theorem CreateUser_adds_one_user_witness:
  "\<exists>u w' m. CreateUser_Execute world_runtime demo_bcrypt UserRepository \<lparr>ci_Email = ''bob@example.org'', ci_Password = ''p'', ci_Name = ''Bob''\<rparr>
       (demo_world [demo_user] [] []) = (Ret u, w') \<and> w_users w' = [demo_user, u\<lparr>u_Metadata := m\<rparr>]"
proof -
  let ?in = "\<lparr>ci_Email = ''bob@example.org'', ci_Password = ''p'', ci_Name = ''Bob''\<rparr>"
  have "\<exists>u w'. CreateUser_Execute world_runtime demo_bcrypt UserRepository ?in (demo_world [demo_user] [] []) = (Ret u, w')"
    by (simp add: CreateUser_Execute_def Let_def auth_defs auth_store_defs auth_demo_defs)
  then obtain u w' where run: "CreateUser_Execute world_runtime demo_bcrypt UserRepository ?in (demo_world [demo_user] [] []) = (Ret u, w')"
    by blast
  from CreateUser_adds_one_user [OF run] obtain m where "w_users w' = w_users (demo_world [demo_user] [] []) @ [u\<lparr>u_Metadata := m\<rparr>]"
    by (auto simp: demo_bcrypt_def)
  with run show ?thesis by (auto simp: demo_world_def)
qed

end
