(* ===== verification/Persistence_Theorems.thy ===== *)
theory Persistence_Theorems
  imports Postgres_Correct Scenario "HOL-Library.Multiset"
begin

text \<open>
  The SQL repositories as one state machine: every call, in any order and with any failures,
  keeps the integrity of the tables. Batches are atomic, histories are read in order, and
  deleting a user leaves nothing of the user behind.
\<close>

section \<open>Histories of calls\<close>

datatype db_call =
    CallUserCreate user | CallUserUpdate user | CallUserDelete uuid
  | CallTokenCreate token | CallTokenLastUsed uuid | CallTokenRevoke uuid | CallTokenRevokeAll uuid | CallTokenDeleteExpired
  | CallConversationCreate conversation | CallConversationUpdate conversation | CallConversationState uuid gomap
  | CallConversationDelete uuid
  | CallMessageCreate message | CallMessageBatch "message list" | CallMessageDelete uuid | CallMessageDeleteAll uuid
  | CallExecutionCreate tool_execution
  | CallExecutionStatus uuid tool_execution_status "gomap option" string "go_int option"

fun run_call :: "db_call \<Rightarrow> 'x world_scheme \<Rightarrow> 'x world_scheme" where
  "run_call (CallUserCreate u) w = snd (UserRepository_Create u w)"
| "run_call (CallUserUpdate u) w = snd (UserRepository_Update u w)"
| "run_call (CallUserDelete i) w = snd (UserRepository_Delete i w)"
| "run_call (CallTokenCreate t) w = snd (TokenRepository_Create t w)"
| "run_call (CallTokenLastUsed i) w = snd (TokenRepository_UpdateLastUsed i w)"
| "run_call (CallTokenRevoke i) w = snd (TokenRepository_Revoke i w)"
| "run_call (CallTokenRevokeAll i) w = snd (TokenRepository_RevokeAllForUser i w)"
| "run_call CallTokenDeleteExpired w = snd (TokenRepository_DeleteExpired w)"
| "run_call (CallConversationCreate c) w = snd (ConversationRepository_Create c w)"
| "run_call (CallConversationUpdate c) w = snd (ConversationRepository_Update c w)"
| "run_call (CallConversationState i st) w = snd (ConversationRepository_UpdateWorkflowState i st w)"
| "run_call (CallConversationDelete i) w = snd (ConversationRepository_Delete i w)"
| "run_call (CallMessageCreate m) w = snd (MessageRepository_Create m w)"
| "run_call (CallMessageBatch ms) w = snd (MessageRepository_CreateBatch ms w)"
| "run_call (CallMessageDelete i) w = snd (MessageRepository_Delete i w)"
| "run_call (CallMessageDeleteAll i) w = snd (MessageRepository_DeleteByConversationID i w)"
| "run_call (CallExecutionCreate e) w = snd (ToolExecutionRepository_Create e w)"
| "run_call (CallExecutionStatus i st out msg ms) w = snd (ToolExecutionRepository_UpdateStatus i st out msg ms w)"

lemmas write_ok = UserRepository_Create_ok UserRepository_Update_ok UserRepository_Delete_ok TokenRepository_Create_ok token_repository_ok
  TokenRepository_DeleteExpired_ok ConversationRepository_Create_ok conversation_repository_ok message_repository_ok CreateBatch_ok
  ToolExecutionRepository_Create_ok ToolExecutionRepository_UpdateStatus_ok

lemma maintains_snd: "maintains P m \<Longrightarrow> P w \<Longrightarrow> P (snd (m w))"
  by (simp add: maintains_def)

lemma run_call_ok: "db_ok w \<Longrightarrow> db_ok (run_call c w)"
  by (cases c) (simp_all add: write_ok [THEN maintains_snd])

inductive reachable :: "'x world_scheme \<Rightarrow> 'x world_scheme \<Rightarrow> bool" for w0 where
  start: "reachable w0 w0"
| call: "reachable w0 w \<Longrightarrow> reachable w0 (run_call c w)"

text \<open>C18: from empty tables, whatever calls are made in whatever order and wherever the connection fails, keys stay unique, every reference points to a row, and messages are numbered in the order they were stored.\<close>

theorem reachable_db_ok:
  assumes "reachable w0 w" "w_users w0 = []" "w_tokens w0 = []" "w_conversations w0 = []" "w_messages w0 = []" "w_executions w0 = []"
    and "w_seq w0 = 1"
  shows "db_ok w"
  using assms(1)
proof induction
  case start
  show ?case using assms(2-) by (simp add: db_ok_def table_ok_defs)
next
  case (call w c)
  then show ?case by (simp add: run_call_ok)
qed

theorem reachable_db_ok_witness: "db_ok (run_call (CallUserDelete 7) (run_call (CallUserCreate demo_user) (demo_world [] [] [])))"
  by (rule reachable_db_ok) (rule reachable.intros | simp add: demo_world_def)+

section \<open>Batches\<close>

lemma insert_all_Ret: "insert_all ms w = (Ret (), w') \<Longrightarrow> \<exists>ms'. list_all2 stored_message ms ms' \<and> w_messages w' = w_messages w @ ms'"
proof (induction ms arbitrary: w)
  case (Cons m ms)
  then obtain w1 where 1: "run_sql (command (\<lambda>w. violation_of (message_checks m w)) (\<lambda>now w. insert_message m w)) w = (Ret (), w1)"
      and 2: "insert_all ms w1 = (Ret (), w')"
    by (auto simp: bindG_eq_Ret wrapG_eq_Ret)
  have "\<exists>m'. stored_message m m' \<and> w_messages w1 = w_messages w @ [m']"
    using 1 by (auto simp: run_sql_command_Ret insert_message_def stored_message_def tool_calls_column_id)
  with Cons.IH [OF 2] show ?case by fastforce
qed auto

lemma insert_all_no_panic: "insert_all ms w \<noteq> (Panic p, w')"
  by (induction ms arbitrary: w) (auto simp: bindG_def wrapG_def run_sql_def command_def split: option.splits prod.splits outcome.splits sum.splits)

lemma tables_rollback [simp]: "tables (rollback w w') = tables w"
  by (simp add: tables_def rollback_def)

lemma sql_unit_tables: "sql_unit w = (r, w') \<Longrightarrow> w' = tick w \<and> (\<forall>p. r \<noteq> Panic p)"
  by (auto simp: sql_unit_def run_sql_def command_def split: option.splits)

text \<open>A batch of messages is stored completely and in order, or not at all: after an error every table is as it was.\<close>

theorem CreateBatch_atomic:
  assumes "MessageRepository_CreateBatch msgs w = (r, w')"
  shows "case r of Ret _ \<Rightarrow> \<exists>stored. list_all2 stored_message msgs stored \<and> w_messages w' = w_messages w @ stored
     | _ \<Rightarrow> tables w' = tables w"
proof -
  obtain r1 w1 where tx: "sql_unit w = (r1, w1)" by fastforce
  note w1 = sql_unit_tables [OF tx]
  show ?thesis
  proof (cases r1)
    case (Ret u)
    with tx assms have t: "transaction (bindG (insert_all msgs) (\<lambda>_. sql_unit)) w1 = (r, w')"
      by (simp add: MessageRepository_CreateBatch_def)
    obtain r2 w2 where b: "bindG (insert_all msgs) (\<lambda>_. sql_unit) w1 = (r2, w2)" by fastforce
    show ?thesis
    proof (cases r2)
      case (Ret v)
      with b obtain w3 where "insert_all msgs w1 = (Ret (), w3)" "sql_unit w3 = (Ret v, w2)" by (auto simp: bindG_eq_Ret)
      with insert_all_Ret [of msgs w1 w3] sql_unit_tables [of w3] have "\<exists>stored. list_all2 stored_message msgs stored \<and> w_messages w2 = w_messages w @ stored"
        using w1 by fastforce
      with t b Ret show ?thesis by (auto simp: transaction_def)
    qed (use t b w1 in \<open>auto simp: transaction_def\<close>)
  qed (use tx assms w1 in \<open>auto simp: MessageRepository_CreateBatch_def\<close>)
qed

theorem CreateBatch_atomic_witness:
  "\<exists>w' m. MessageRepository_CreateBatch [NewUserMessage 1 0 100 ''hi''] (demo_world [demo_user] [] [(NewConversation 100 0 0 7 ''general'', None)])
       = (Ret (), w') \<and> w_messages w' = [m] \<and> m_Content m = ''hi''"
proof -
  let ?w = "demo_world [demo_user] [] [(NewConversation 100 0 0 7 ''general'', None)]"
  have "\<exists>w'. MessageRepository_CreateBatch [NewUserMessage 1 0 100 ''hi''] ?w = (Ret (), w')"
    by (simp add: MessageRepository_CreateBatch_def transaction_def sql_unit_def bindG_def wrapG_def run_sql_def command_def demo_world_def tick_def
        message_checks_def NewUserMessage_def message_base_def varchar_def char_length_def int4_def unique_def references_def NewConversation_def insert_message_def)
  then obtain w' where run: "MessageRepository_CreateBatch [NewUserMessage 1 0 100 ''hi''] ?w = (Ret (), w')" by blast
  from CreateBatch_atomic [OF run] obtain m where "stored_message (NewUserMessage 1 0 100 ''hi'') m" "w_messages w' = [m]"
    by (auto simp: demo_world_def list_all2_Cons1)
  with run show ?thesis by (auto simp: stored_message_def NewUserMessage_def message_base_def)
qed

section \<open>Histories in order\<close>

lemma order_rows_known: "order_rows (\<lambda>r. Some (f r)) desc rows = (if desc then rev (sort_key f rows) else sort_key f rows)"
  by (simp add: order_rows_def Let_def)

lemma sort_key_rev_strict:
  assumes "sorted_wrt (\<lambda>x y. (f x :: int) < f y) xs"
  shows "sort_key f (rev xs) = xs"
proof (rule sort_key_inj_key_eq)
  show "sorted (map f xs)" by (rule sorted_wrt_strict_imp_sorted [OF assms])
  have "sorted_wrt (<) (map f xs)" using assms by (simp add: sorted_wrt_map)
  then show "inj_on f (set (rev xs))" by (simp add: strict_sorted_iff distinct_map)
qed simp

lemma pg_msgs_strict:
  assumes "db_ok w"
  shows "sorted_wrt (\<lambda>m n. sint (m_SequenceNumber m) < sint (m_SequenceNumber n)) (pg_msgs_of w i)"
  using assms unfolding pg_msgs_of_def conversation_messages_eq [OF assms] by (simp add: db_ok_def messages_ok_def sorted_wrt_filter)

text \<open>\<open>FindLastN\<close>, which sorts backwards, cuts and sorts again, gives the last messages of the transcript in their order.\<close>

theorem FindLastN_is_suffix:
  assumes "db_ok w" "MessageRepository_FindLastN i n w = (Ret ms, w')"
  shows "ms = drop (length (pg_msgs_of w i) - nat (sint n)) (pg_msgs_of w i)"
proof -
  let ?key = "\<lambda>m. sint (m_SequenceNumber m)"
  let ?rows = "filter (\<lambda>m. m_ConversationID m = i) (w_messages w)"
  have rows: "pg_msgs_of w i = ?rows" unfolding pg_msgs_of_def by (rule conversation_messages_eq [OF assms(1)])
  have st: "sorted_wrt (\<lambda>x y. ?key x < ?key y) ?rows" using pg_msgs_strict [OF assms(1), of i] by (simp add: rows)
  have "ms = sort_key ?key (take (nat (sint n)) (rev (sort_key ?key ?rows)))"
    using assms(2) by (auto simp: MessageRepository_FindLastN_def queryMessages_def wrapG_eq_Ret run_sql_def order_rows_known split: option.splits if_splits)
  also have "sort_key ?key ?rows = ?rows"
    using sorted_wrt_strict_imp_sorted [OF st] by (simp add: sort_key_id_if_sorted)
  also have "take (nat (sint n)) (rev ?rows) = rev (drop (length ?rows - nat (sint n)) ?rows)"
    by (simp add: take_rev)
  also have "sort_key ?key \<dots> = drop (length ?rows - nat (sint n)) ?rows"
    by (rule sort_key_rev_strict) (rule sorted_wrt_drop [OF st])
  finally show ?thesis by (simp add: rows)
qed

theorem FindLastN_is_suffix_witness:
  "\<exists>ms w'. MessageRepository_FindLastN 100 1 (demo_world [] [] []) = (Ret ms, w')
     \<and> ms = drop (length (pg_msgs_of (demo_world [] [] []) 100) - 1) (pg_msgs_of (demo_world [] [] []) 100)"
proof -
  have "\<exists>ms w'. MessageRepository_FindLastN 100 1 (demo_world [] [] []) = (Ret ms, w')"
    by (simp add: MessageRepository_FindLastN_def queryMessages_def wrapG_def run_sql_def demo_world_def word_sless_alt)
  then obtain ms w' where run: "MessageRepository_FindLastN 100 1 (demo_world [] [] []) = (Ret ms, w')" by blast
  have "db_ok (demo_world [] [] [])" by (simp add: db_ok_def table_ok_defs demo_world_def)
  from FindLastN_is_suffix [OF this run] run show ?thesis by auto
qed

section \<open>Deleting a user\<close>

text \<open>Deleting a user removes the user, the user's tokens, conversations and their messages and executions, and nothing of anyone else.\<close>

theorem UserDelete_cascades:
  assumes "UserRepository_Delete i w = (Ret (), w')"
  shows "w_users w' = filter (\<lambda>u. u_ID u \<noteq> i) (w_users w)
     \<and> w_tokens w' = filter (\<lambda>t. t_UserID t \<noteq> i) (w_tokens w)
     \<and> w_conversations w' = filter (\<lambda>r. c_UserID (fst r) \<noteq> i) (w_conversations w)
     \<and> w_messages w' = filter (\<lambda>m. \<not> (\<exists>r \<in> set (w_conversations w). c_ID (fst r) = m_ConversationID m \<and> c_UserID (fst r) = i)) (w_messages w)
     \<and> map x_ID (w_executions w') = map x_ID (filter (\<lambda>e. x_UserID e \<noteq> i) (w_executions w))"
proof -
  have w': "w' = cascade_user i (tick w)"
    using assms by (auto simp: UserRepository_Delete_def wrapG_eq_Ret run_sql_command_Ret)
  have mem: "(m_ConversationID m \<in> c_ID ` fst ` {r \<in> set (w_conversations w). c_UserID (fst r) = i}) =
      (\<exists>r \<in> set (w_conversations w). c_ID (fst r) = m_ConversationID m \<and> c_UserID (fst r) = i)" for m
    by force
  show ?thesis by (simp add: w' cascade_user_def Let_def comp_def mem)
qed

theorem UserDelete_cascades_witness:
  "\<exists>w'. UserRepository_Delete 7 (demo_world [demo_user] [] []) = (Ret (), w') \<and> w_users w' = []"
proof -
  have "\<exists>w'. UserRepository_Delete 7 (demo_world [demo_user] [] []) = (Ret (), w')"
    by (simp add: UserRepository_Delete_def wrapG_def run_sql_def command_def references_def demo_world_def)
  then obtain w' where run: "UserRepository_Delete 7 (demo_world [demo_user] [] []) = (Ret (), w')" by blast
  from UserDelete_cascades [OF run] run show ?thesis by (auto simp: demo_world_def demo_user_def NewUser_def)
qed

end
