(* ===== verification/Conversation_Lifecycle.thy ===== *)
theory Conversation_Lifecycle
  imports Entities
begin

text \<open>
  The conversation aggregate over a whole life: every method of \<open>entity/conversation.go\<close>
  that changes state as one step, runs of steps, and an abstract machine the run refines.
\<close>

datatype conversation_op =
    OpRequestApproval string gomap
  | OpApprove
  | OpReject string
  | OpComplete
  | OpAddMessageStats go_int go_int
  | OpSetTitle string

text \<open>\<open>conversation_step (t, t') op c\<close>: the call at clock readings \<open>t\<close> and, for the method
  that reads the clock twice, \<open>t'\<close>.\<close>

fun conversation_step :: "time \<times> time \<Rightarrow> conversation_op \<Rightarrow> conversation \<Rightarrow> conversation outcome" where
  "conversation_step (t, t') (OpRequestApproval node data) c = Conversation_RequestApproval t node data c"
| "conversation_step (t, t') OpApprove c = Ret (Conversation_Approve t c)"
| "conversation_step (t, t') (OpReject reason) c = Conversation_Reject t t' reason c"
| "conversation_step (t, t') OpComplete c = Ret (Conversation_Complete t c)"
| "conversation_step (t, t') (OpAddMessageStats tokens calls) c = Ret (Conversation_AddMessageStats t tokens calls c)"
| "conversation_step (t, t') (OpSetTitle title) c = Ret (Conversation_SetTitle t title c)"

fun conversation_run :: "((time \<times> time) \<times> conversation_op) list \<Rightarrow> conversation \<Rightarrow> conversation outcome" where
  "conversation_run [] c = Ret c"
| "conversation_run ((ts, op) # ops) c =
     (case conversation_step ts op c of
        Ret c' \<Rightarrow> conversation_run ops c'
      | Err e \<Rightarrow> Err e
      | Panic p \<Rightarrow> Panic p)"

section \<open>The abstract machine\<close>

text \<open>
  What the aggregate promises: a status, a title that is set once, counters that only
  accumulate, and the time of completion.
\<close>

record conversation_spec =
  sp_status :: conversation_status
  sp_title :: string
  sp_messages :: go_int
  sp_tokens :: go_int
  sp_tool_calls :: go_int
  sp_completed :: bool

fun spec_step :: "conversation_op \<Rightarrow> conversation_spec \<Rightarrow> conversation_spec" where
  "spec_step (OpRequestApproval node data) s = s\<lparr>sp_status := ConversationStatusPending\<rparr>"
| "spec_step OpApprove s = s\<lparr>sp_status := ConversationStatusActive\<rparr>"
| "spec_step (OpReject reason) s = s\<lparr>sp_status := ConversationStatusActive\<rparr>"
| "spec_step OpComplete s = s\<lparr>sp_status := ConversationStatusCompleted, sp_completed := True\<rparr>"
| "spec_step (OpAddMessageStats tokens calls) s =
     s\<lparr>sp_messages := sp_messages s + 1, sp_tokens := sp_tokens s + tokens,
       sp_tool_calls := sp_tool_calls s + calls\<rparr>"
| "spec_step (OpSetTitle title) s = (if sp_title s = [] then s\<lparr>sp_title := title\<rparr> else s)"

definition conversation_abs :: "conversation \<Rightarrow> conversation_spec" where
  "conversation_abs c = \<lparr>sp_status = c_Status c, sp_title = c_Title c, sp_messages = c_MessageCount c,
     sp_tokens = c_TotalTokens c, sp_tool_calls = c_ToolCallCount c,
     sp_completed = (c_CompletedAt c \<noteq> None)\<rparr>"

text \<open>The fields no method writes.\<close>

definition conversation_identity ::
    "conversation \<Rightarrow> uuid \<times> uuid \<times> string \<times> string \<times> string \<times> f64 \<times> gomap option \<times> f64 \<times> string list \<times> time" where
  "conversation_identity c = (c_ID c, c_UserID c, c_AgentType c, c_SystemPrompt c, c_Model c, c_Temperature c,
     c_WorkflowState c, c_TotalCost c, c_Tags c, c_CreatedAt c)"

text \<open>
  The invariant of the aggregate: the metadata map exists (so no method panics), and a
  conversation that waits for approval records what it waits for.
\<close>

definition pending_data :: "conversation \<Rightarrow> any option" where
  "pending_data c = (case c_Metadata c of None \<Rightarrow> None | Some m \<Rightarrow> map_of m ''pending_approval'')"

definition conversation_inv :: "conversation \<Rightarrow> bool" where
  "conversation_inv c \<longleftrightarrow> c_Metadata c \<noteq> None
     \<and> (c_Status c = ConversationStatusPending \<longrightarrow> pending_data c \<noteq> None)
     \<and> c_Status c \<in> {ConversationStatusActive, ConversationStatusPending, ConversationStatusCompleted}"

lemma conversation_inv_New: "conversation_inv (NewConversation cid t t' uid agent)"
  by (simp add: conversation_inv_def NewConversation_def pending_data_def)

lemma conversation_step_refines:
  assumes "conversation_inv c"
  shows "\<exists>c'. conversation_step ts op c = Ret c' \<and> conversation_inv c'
     \<and> conversation_abs c' = spec_step op (conversation_abs c)
     \<and> conversation_identity c' = conversation_identity c"
  using assms
  by (cases ts; cases op)
     (auto simp: entity_defs conversation_inv_def conversation_abs_def conversation_identity_def pending_data_def)

lemma conversation_run_inv:
  assumes "conversation_inv c"
  shows "\<exists>c'. conversation_run ops c = Ret c' \<and> conversation_inv c'
     \<and> conversation_abs c' = fold spec_step (map snd ops) (conversation_abs c)
     \<and> conversation_identity c' = conversation_identity c"
  using assms
proof (induction ops arbitrary: c)
  case Nil
  then show ?case by simp
next
  case (Cons a ops)
  obtain ts op where a: "a = (ts, op)" by (cases a)
  from conversation_step_refines [OF Cons.prems, of ts op] obtain c1 where
    c1: "conversation_step ts op c = Ret c1" "conversation_inv c1"
      "conversation_abs c1 = spec_step op (conversation_abs c)"
      "conversation_identity c1 = conversation_identity c" by blast
  from Cons.IH [OF c1(2)] c1 a show ?case by auto
qed

end
