(* ===== verification/Domain_Theorems.thy ===== *)
theory Domain_Theorems
  imports Domain_Service Conversation_Lifecycle Value_Objects Paused_Run
begin

text \<open>
  The domain rules, the tool registry, the built-in tools and the checkpoint format.
\<close>

section \<open>Conversations\<close>

text \<open>C32: whatever methods are called on a new conversation, in whatever order, none panics, the aggregate invariant holds, the state is the one the abstract machine reaches, and identity, owner and configuration never change.\<close>

theorem conversation_refines_spec:
  "\<exists>c. conversation_run ops (NewConversation cid t t' uid agent) = Ret c \<and> conversation_inv c
     \<and> conversation_abs c = fold spec_step (map snd ops) (conversation_abs (NewConversation cid t t' uid agent))
     \<and> conversation_identity c = conversation_identity (NewConversation cid t t' uid agent)"
  by (rule conversation_run_inv [OF conversation_inv_New])

text \<open>Who may send and who may decide: only an active owner or administrator sends, to an active conversation; only the owner or an administrator decides, on a pending one; no conversation admits both.\<close>

theorem send_and_approve_rules:
  "(CanSendMessage c u = None \<longleftrightarrow> u_IsActive u \<and> (c_UserID c = u_ID u \<or> u_Role u = UserRoleAdmin) \<and> c_Status c = ConversationStatusActive)
     \<and> (CanApprove c v = None \<longleftrightarrow> c_Status c = ConversationStatusPending \<and> (c_UserID c = u_ID v \<or> u_Role v = UserRoleAdmin))
     \<and> \<not> (CanSendMessage c u = None \<and> CanApprove c v = None)"
  by (auto simp: CanSendMessage_None_iff CanApprove_None_iff)

text \<open>The complete rule of token access: an active owner, a token neither revoked nor expired, and a permission for the tool and for the model that are named.\<close>

theorem token_access_rule:
  "ValidateTokenAccess now now' u t tool model = None \<longleftrightarrow>
     u_IsActive u \<and> t_IsRevoked t = False \<and> now \<le> t_ExpiresAt t \<and> t_UserID t = u_ID u
     \<and> (tool = [] \<or> t_AllowedTools t = [] \<or> tool \<in> set (t_AllowedTools t) \<or> ''*'' \<in> set (t_AllowedTools t))
     \<and> (model = [] \<or> t_AllowedModels t = [] \<or> model \<in> set (t_AllowedModels t) \<or> ''*'' \<in> set (t_AllowedModels t))"
  by (auto simp: ValidateTokenAccess_def Token_IsValid_def Token_IsExpired_def Token_CanUseTool_iff Token_CanUseModel_iff)

text \<open>A normalised email is not empty, was accepted by the address parser, and normalising it again gives the same value.\<close>

theorem email_canonical:
  assumes "NewEmail parse address = Inr e"
  shows "e_value e \<noteq> [] \<and> parse (e_value e) \<and> NewEmail parse (e_value e) = Inr e"
  using assms by (auto simp: NewEmail_def Let_def to_lower_trim to_lower_idem trim_space_idem split: if_splits)

theorem email_canonical_witness:
  "NewEmail (\<lambda>s. True) '' Ann@X.org '' = Inr \<lparr>e_value = ''ann@x.org''\<rparr>
     \<and> NewEmail (\<lambda>s. True) ''ann@x.org'' = Inr \<lparr>e_value = ''ann@x.org''\<rparr>"
proof -
  have 1: "NewEmail (\<lambda>s. True) '' Ann@X.org '' = Inr \<lparr>e_value = ''ann@x.org''\<rparr>" by code_simp
  from email_canonical [OF 1] 1 show ?thesis by simp
qed

section \<open>Tools\<close>

lemma Get_New: "Registry_Get NewToolRegistry n = None"
  by (simp add: NewToolRegistry_def Registry_Get_def)

text \<open>After registering tools one by one, every key is the name of its tool, and a name yields the tool registered last under it.\<close>

theorem registry_lookup:
  "registry_wf (RegisterAll ts NewToolRegistry)
     \<and> Registry_Get (RegisterAll ts NewToolRegistry) n = find (\<lambda>t. tl_Name t = n) (rev ts)"
  by (simp add: registry_wf_RegisterAll Get_RegisterAll Get_New split: option.split)

text \<open>The tools listed for a token are exactly the registered ones the token may use, each once, in whatever order the map is visited.\<close>

theorem ListForToken_exact:
  assumes "registry_wf r" "fair_range rt"
  shows "\<exists>es w'. ListForToken rt r (t_AllowedTools tok) w = (Ret (map (\<lambda>(n, t). tl_Definition t) es), w')
     \<and> distinct (map fst es) \<and> set es = {(n, t). Registry_Get r n = Some t \<and> Token_CanUseTool tok n}"
proof -
  obtain es w1 where es: "range_tools rt r w = (Ret es, w1)" "distinct (map fst es)" "set es = {(n, t). Registry_Get r n = Some t}"
    using range_tools_Ret [OF assms] by blast
  show ?thesis
  proof (cases "t_AllowedTools tok = [] \<or> ''*'' \<in> set (t_AllowedTools tok)")
    case True
    then have "ListForToken rt r (t_AllowedTools tok) w = (Ret (map (\<lambda>(n, t). tl_Definition t) es), w1)"
      using es(1) by (auto simp: ListForToken_def allowed_map_eq Registry_List_def bindG_def)
    with True es show ?thesis by (intro exI [of _ es] exI [of _ w1]) (auto simp: Token_CanUseTool_iff)
  next
    case False
    let ?es = "filter (\<lambda>(n, t). n \<in> set (t_AllowedTools tok)) es"
    have "ListForToken rt r (t_AllowedTools tok) w = (Ret (map (\<lambda>(n, t). tl_Definition t) ?es), w1)"
      using False es(1) by (simp add: ListForToken_def allowed_map_eq bindG_def)
    with False es show ?thesis
      by (intro exI [of _ ?es] exI [of _ w1]) (auto simp: Token_CanUseTool_iff distinct_map_filter)
  qed
qed

theorem ListForToken_exact_witness:
  "\<exists>w'. ListForToken demo_runtime (demo_registry True (\<lambda>args. returnG ANil)) [''other''] () = (Ret [], w')"
proof -
  let ?tok = "(NewAPIKey 50 0 0 7 ''sk-1'' ''laptop'' 1000)\<lparr>t_AllowedTools := [''other'']\<rparr>"
  let ?r = "demo_registry True (\<lambda>args. returnG ANil) :: unit tool_registry"
  have "registry_wf ?r" "fair_range (demo_runtime :: unit runtime)"
    by (auto simp: demo_registry_def registry_wf_Register fair_range_def demo_runtime_def)
  from ListForToken_exact [OF this, of ?tok "()"] obtain es w' where
      es: "ListForToken demo_runtime ?r (t_AllowedTools ?tok) () = (Ret (map (\<lambda>(n, t). tl_Definition t) es), w')"
      "set es = {(n, t). Registry_Get ?r n = Some t \<and> Token_CanUseTool ?tok n}"
    by blast
  have "\<not> (Registry_Get ?r n = Some t \<and> Token_CanUseTool ?tok n)" for n t
    by (simp add: demo_registry_def Registry_Get_def Register_def NewToolRegistry_def demo_tool_def Token_CanUseTool_iff NewAPIKey_def)
  with es(2) have "es = []" by auto
  with es(1) show ?thesis by simp
qed

text \<open>C39: a tool call that returns a result was allowed to the token, named a registered tool, carried arguments that parse and validate, and its result is that tool's.\<close>

theorem ExecuteTool_checked:
  assumes "ExecuteTool_Execute rt r call user tok w = (Ret out, w')"
  shows "\<exists>t args w1 w2. (case tok of None \<Rightarrow> True | Some k \<Rightarrow> Token_CanUseTool k (fc_Name (tc_Function call)))
     \<and> Registry_Get r (fc_Name (tc_Function call)) = Some t \<and> ParseArguments call = Inr args \<and> tl_Validate t args = None
     \<and> tl_Execute t args w1 = (Ret (eo_Result out), w2) \<and> eo_ToolCallID out = tc_ID call \<and> eo_ToolName out = fc_Name (tc_Function call)"
proof -
  let ?name = "fc_Name (tc_Function call)"
  note run = assms [unfolded ExecuteTool_Execute_def Let_def]
  have ok: "(case tok of None \<Rightarrow> False | Some t \<Rightarrow> \<not> Token_CanUseTool t ?name) = False"
    by (rule ccontr) (use run in simp)
  then have allowed: "case tok of None \<Rightarrow> True | Some k \<Rightarrow> Token_CanUseTool k ?name" by (cases tok) simp_all
  obtain t where t: "Registry_Get r ?name = Some t"
    using run unfolding ok by (cases "Registry_Get r ?name") simp_all
  obtain args where args: "ParseArguments call = Inr args"
    using run unfolding ok t by (cases "ParseArguments call") simp_all
  have v: "tl_Validate t args = None"
    using run unfolding ok t args by (cases "tl_Validate t args") simp_all
  obtain w1 res w2 where run: "attemptG (tl_Execute t args) w1 = (Ret res, w2)"
      and res: "(case res of Inl e \<Rightarrow> failG (Wrapf (''execute tool '' @ ?name) e)
        | Inr result \<Rightarrow> returnG \<lparr>eo_ToolCallID = tc_ID call, eo_ToolName = ?name, eo_Result = result,
            eo_Duration = fst (rt_now rt w2) - fst (rt_now rt w)\<rparr>) (snd (rt_now rt w2)) = (Ret out, w')"
    using run unfolding ok t args by (auto simp: v bindG_eq_Ret)
  from res obtain result where "res = Inr result" "out = \<lparr>eo_ToolCallID = tc_ID call, eo_ToolName = ?name, eo_Result = result,
            eo_Duration = fst (rt_now rt w2) - fst (rt_now rt w)\<rparr>"
    by (cases res) auto
  with run allowed t args v show ?thesis by (auto simp: attemptG_eq_Ret)
qed

theorem ExecuteTool_checked_witness:
  "\<exists>out w'. ExecuteTool_Execute demo_runtime (demo_registry False (\<lambda>args. returnG (AStr ''ok''))) demo_call None None () = (Ret out, w')
     \<and> eo_ToolCallID out = ''c1''"
proof -
  let ?r = "demo_registry False (\<lambda>args. returnG (AStr ''ok'')) :: unit tool_registry"
  have "Registry_Get ?r (fc_Name (tc_Function demo_call)) = Some (demo_tool False (\<lambda>args. returnG (AStr ''ok'')))"
    by (simp add: demo_registry_def Registry_Get_def Register_def NewToolRegistry_def demo_tool_def demo_call_def)
  then have "\<exists>out w'. ExecuteTool_Execute demo_runtime ?r demo_call None None () = (Ret out, w')"
    by (simp add: ExecuteTool_Execute_def Let_def demo_args demo_tool_def BaseTool_Validate_def bindG_def attemptG_def)
  then obtain out w' where run: "ExecuteTool_Execute demo_runtime ?r demo_call None None () = (Ret out, w')" by blast
  from ExecuteTool_checked [OF run] run show ?thesis by (auto simp: demo_call_def)
qed

text \<open>C40: the calculator is exact on integers: an expression of integer literals with sums, differences, products and negations whose values stay below \<open>2^53\<close> gives the integer result.\<close>

theorem calculator_exact_on_integers:
  assumes "\<And>v a. lit v = Some a \<Longrightarrow> \<bar>a\<bar> < 2 ^ 53 \<Longrightarrow> \<exists>x. pf v = Inr x \<and> f_is_int x a" "in_range lit e"
  shows "\<exists>x a. calc_eval pf e = Inr x \<and> int_expr lit e = Some a \<and> f_is_int x a"
  by (rule calc_eval_int [OF assms])

theorem calculator_exact_on_integers_witness:
  "\<exists>x. calc_eval (\<lambda>v. Inr (float_of_rat (of_int (digits_val v)))) (BinaryExpr (BasicLit ''2'') ADD (BinaryExpr (BasicLit ''3'') MUL (BasicLit ''4'')))
     = Inr x \<and> f_is_int x 14"
proof -
  let ?lit = "\<lambda>v. Some (digits_val v)"
  let ?e = "BinaryExpr (BasicLit ''2'') ADD (BinaryExpr (BasicLit ''3'') MUL (BasicLit ''4''))"
  have v: "digits_val ''2'' = 2" "digits_val ''3'' = 3" "digits_val ''4'' = 4" by (simp_all add: digits_val_def digit_val_def)
  have "\<exists>x a. calc_eval (\<lambda>v. Inr (float_of_rat (of_int (digits_val v)))) ?e = Inr x \<and> int_expr ?lit ?e = Some a \<and> f_is_int x a"
    by (rule calculator_exact_on_integers) (auto intro: f_is_int_float simp: v)
  then show ?thesis by (auto simp: v)
qed

text \<open>The number of results the web search asks for is between 1 and 10, whatever the arguments hold.\<close>

theorem web_search_asks_1_to_10: "1 \<le> sint (web_num_results args) \<and> sint (web_num_results args) \<le> 10"
proof -
  have f: "float_of_rat 1 = FNum 1" "float_of_rat 10 = FNum 10"
    using float_of_rat_int [of 1] float_of_rat_int [of 10] by (simp_all add: f_of_int_def)
  have "1 \<le> sint (f_to_int n) \<and> sint (f_to_int n) \<le> 10" if "fle (FNum 1) n" "fle n (FNum 10)" for n
  proof (cases n)
    case (FNum q)
    with that have q: "1 \<le> q" "q \<le> 10" by (auto simp: fle_def fval_def)
    then have fl: "1 \<le> \<lfloor>q\<rfloor>" "\<lfloor>q\<rfloor> \<le> 10" by (simp_all add: le_floor_iff floor_le_iff)
    then have "sint (word_of_int \<lfloor>q\<rfloor> :: go_int) = \<lfloor>q\<rfloor>" by (simp add: signed_of_int signed_take_bit_int_eq_self)
    with FNum q fl show ?thesis by (simp add: f_to_int_def)
  qed (use that in \<open>auto simp: fle_def fval_def\<close>)
  then show ?thesis by (auto simp: web_num_results_def f split: option.split any.split)
qed

section \<open>Checkpoints\<close>



end
