(* ===== verification/Isolation.thy ===== *)
theory Isolation
  imports Chat_Correct
begin

text \<open>
  What a user can not touch: whatever a chat use case does and however it ends, the
  conversations of other users and their messages stay as they are.
\<close>

section \<open>Conditional frames\<close>

text \<open>\<open>keeps_when P f m\<close>: from worlds whose part \<open>f\<close> satisfies \<open>P\<close>, \<open>m\<close> does not change that part.\<close>

definition keeps_when :: "('v \<Rightarrow> bool) \<Rightarrow> ('w \<Rightarrow> 'v) \<Rightarrow> ('w, 'a) go \<Rightarrow> bool" where
  "keeps_when P f m \<longleftrightarrow> (\<forall>w. P (f w) \<longrightarrow> f (snd (m w)) = f w)"

lemma keeps_whenI: "(\<And>w. P (f w) \<Longrightarrow> f (snd (m w)) = f w) \<Longrightarrow> keeps_when P f m"
  by (simp add: keeps_when_def)

lemma keeps_whenD: "keeps_when P f m \<Longrightarrow> P (f w) \<Longrightarrow> m w = (r, w') \<Longrightarrow> f w' = f w"
  by (metis keeps_when_def snd_conv)

lemma keeps_imp_when: "keeps f m \<Longrightarrow> keeps_when P f m"
  by (simp add: keeps_when_def keeps_def)

text \<open>Sequencing, with what is known of the first result.\<close>

lemma keeps_when_bindR:
  assumes "keeps_when P f m" "\<And>w x w'. P (f w) \<Longrightarrow> m w = (Ret x, w') \<Longrightarrow> keeps_when P f (k x)"
  shows "keeps_when P f (bindG m k)"
proof (rule keeps_whenI)
  fix w assume P: "P (f w)"
  obtain r w1 where m: "m w = (r, w1)" by fastforce
  have f1: "f w1 = f w" by (rule keeps_whenD [OF assms(1) P m])
  show "f (snd (bindG m k w)) = f w"
  proof (cases r)
    case (Ret x)
    from assms(2) [OF P m [unfolded Ret]] P f1 have "f (snd (k x w1)) = f w1" by (simp add: keeps_when_def)
    then show ?thesis using m Ret f1 by (simp add: bindG_def)
  qed (use m f1 in \<open>simp_all add: bindG_def\<close>)
qed

lemma keeps_when_bind: "keeps_when P f m \<Longrightarrow> (\<And>x. keeps_when P f (k x)) \<Longrightarrow> keeps_when P f (bindG m k)"
  by (rule keeps_when_bindR)

lemma keeps_when_wrap: "keeps_when P f m \<Longrightarrow> keeps_when P f (wrapG s m)"
  by (auto simp: keeps_when_def wrapG_def split: prod.splits outcome.splits)

lemma keeps_when_attempt: "keeps_when P f m \<Longrightarrow> keeps_when P f (attemptG m)"
  by (auto simp: keeps_when_def attemptG_def split: prod.splits outcome.splits)

lemma keeps_when_if: "keeps_when P f m \<Longrightarrow> keeps_when P f n \<Longrightarrow> keeps_when P f (if b then m else n)"
  by simp

lemma keeps_bindR:
  assumes "keeps f m" "\<And>w x w'. m w = (Ret x, w') \<Longrightarrow> keeps f (k x)"
  shows "keeps f (bindG m k)"
  using keeps_when_bindR [of "\<lambda>_. True" f m k] assms by (auto simp: keeps_def keeps_when_def)

section \<open>The use cases\<close>

text \<open>The contract: every write touches the conversation it names and no other, however it ends.\<close>

locale isolated_store = chat_store convs conv_of col msgs msgs_of ok rt
  for convs :: "'w conversation_repository" and conv_of col and msgs :: "'w message_repository" and msgs_of ok and rt :: "'w runtime" +
  assumes update_frame: "j \<noteq> c_ID c \<Longrightarrow> keeps (\<lambda>w. conv_of w j) (cr_Update convs c)"
    and state_frame: "j \<noteq> i \<Longrightarrow> keeps (\<lambda>w. conv_of w j) (cr_UpdateWorkflowState convs i st)"
    and create_frame: "conv_of w j \<noteq> None \<Longrightarrow> conv_of (snd (cr_Create convs c w)) j = conv_of w j"
    and append_frame: "j \<noteq> m_ConversationID m \<Longrightarrow> keeps (\<lambda>w. msgs_of w j) (mr_Create msgs m)"
    and listing_frame: "keeps conv_of (cr_FindByUserID convs u filt)" "keeps msgs_of (cr_FindByUserID convs u filt)"
      "keeps conv_of (cr_CountByUserID convs u)" "keeps msgs_of (cr_CountByUserID convs u)"

text \<open>A slot: a conversation with its messages; it is foreign to \<open>u\<close> when it exists and \<open>u\<close> does not own it.\<close>

definition foreign :: "uuid \<Rightarrow> conversation option \<times> message list \<Rightarrow> bool" where
  "foreign u slot \<longleftrightarrow> (case fst slot of None \<Rightarrow> False | Some c \<Rightarrow> c_UserID c \<noteq> u)"

lemma keeps_fun: "keeps g m \<Longrightarrow> keeps (\<lambda>w. g w j) m"
  by (simp add: keeps_def)

lemma keeps_pair: "keeps g m \<Longrightarrow> keeps h m \<Longrightarrow> keeps (\<lambda>w. (g w, h w)) m"
  by (simp add: keeps_def)

lemma keeps_fst: "keeps (\<lambda>w. (g w, h w)) m \<Longrightarrow> keeps g m"
  by (simp add: keeps_def)

lemma keeps_snd': "keeps (\<lambda>w. (g w, h w)) m \<Longrightarrow> keeps h m"
  by (simp add: keeps_def)

context isolated_store
begin

abbreviation slot :: "uuid \<Rightarrow> 'w \<Rightarrow> conversation option \<times> message list" where
  "slot j w \<equiv> (conv_of w j, msgs_of w j)"

lemma slot_keeps: "keeps conv_of m \<Longrightarrow> keeps msgs_of m \<Longrightarrow> keeps (slot j) m"
  by (simp add: keeps_def)

lemma slot_clock: "keeps (slot j) (stateG (rt_now rt))" "keeps (slot j) (stateG (rt_uuid rt))"
  by (simp_all add: keeps_def clock_frame uuid_frame)

lemma slot_reads: "keeps (slot j) (cr_FindByID convs i)" "keeps (slot j) (mr_FindByConversationID msgs i)"
    "keeps (slot j) (cr_FindByUserID convs u filt)" "keeps (slot j) (cr_CountByUserID convs u)"
  by (intro slot_keeps find_keeps msg_frame conv_frame list_keeps listing_frame)+

lemma slot_writes:
  "j \<noteq> c_ID c \<Longrightarrow> keeps (slot j) (cr_Update convs c)" "j \<noteq> i \<Longrightarrow> keeps (slot j) (cr_UpdateWorkflowState convs i st)"
  "j \<noteq> m_ConversationID m \<Longrightarrow> keeps (slot j) (mr_Create msgs m)"
  by (erule keeps_pair [OF update_frame keeps_fun [OF msg_frame(2)]], erule keeps_pair [OF state_frame keeps_fun [OF msg_frame(3)]],
      erule keeps_pair [OF keeps_fun [OF conv_frame(1)] append_frame])

lemma slot_messages:
  "keeps (slot j) (new_user_message rt i s)" "keeps (slot j) (new_assistant_message rt i s cs md)" "keeps (slot j) (new_conversation rt u ag)"
  unfolding new_user_message_def new_assistant_message_def new_conversation_def
  by (intro keeps_bindG slot_clock keeps_basic)+

lemma message_ids:
  "new_user_message rt i s w = (Ret m, w') \<Longrightarrow> m_ConversationID m = i"
  "new_assistant_message rt i s cs md w = (Ret m, w') \<Longrightarrow> m_ConversationID m = i"
  by (auto simp: new_user_message_def new_assistant_message_def bindG_eq_Ret NewUserMessage_def NewAssistantMessage_def message_base_def)

lemma slot_outcome: "keeps (slot j) (outcomeG r)"
  by (simp add: keeps_def)

lemma request_approval_id: "Conversation_RequestApproval now a d c = Ret c' \<Longrightarrow> c_ID c' = c_ID c"
  by (auto simp: Conversation_RequestApproval_def split: outcome.splits)

lemma reject_id: "Conversation_Reject t t' reason c = Ret c' \<Longrightarrow> c_ID c' = c_ID c"
  by (auto simp: Conversation_Reject_def split: outcome.splits)

lemma send_paused_slot:
  assumes "j \<noteq> c_ID conv" "su_convRepo uc = convs"
  shows "keeps (slot j) (send_paused rt uc conv result)"
  unfolding send_paused_def assms(2)
  by (intro keeps_bindG keeps_bindR [where m = "outcomeG _"] keeps_wrapG slot_writes slot_clock slot_outcome keeps_basic)
    (use assms(1) request_approval_id in auto)

lemma send_finished_slot:
  assumes "j \<noteq> c_ID conv" "su_convRepo uc = convs" "su_msgRepo uc = msgs"
  shows "keeps (slot j) (send_finished rt uc input conv result)"
  unfolding send_finished_def assms(2,3) Let_def
  by (rule keeps_bindR [OF slot_messages(2)], intro keeps_bindG keeps_wrapG slot_writes slot_clock keeps_basic)
    (use assms(1) message_ids(2) in \<open>auto simp: Conversation_SetTitle_def Conversation_AddMessageStats_def\<close>)

lemma send_conversation_slot:
  assumes "su_convRepo uc = convs"
  shows "keeps_when (foreign (si_UserID input)) (slot j) (send_conversation rt uc input)"
proof (cases "si_ConversationID input")
  case (Some i)
  then show ?thesis
    by (auto simp: send_conversation_def assms intro!: keeps_imp_when keeps_bindG keeps_wrapG slot_reads keeps_if)
next
  case None
  have "keeps_when (foreign (si_UserID input)) (slot j) (cr_Create convs c)" for c
    using keeps_snd [OF msg_frame(4)] by (auto simp: keeps_when_def foreign_def create_frame split: option.splits)
  then show ?thesis
    unfolding send_conversation_def None option.case Let_def assms
    by (intro keeps_when_bind keeps_when_wrap keeps_imp_when [OF slot_messages(3)] keeps_imp_when [OF keeps_basic(1)])
qed

text \<open>The conversation a message goes to is never a foreign one.\<close>

lemma send_conversation_own:
  assumes "send_conversation rt uc input w = (Ret conv, w')" "su_convRepo uc = convs" "foreign (si_UserID input) (slot j w)"
  shows "j \<noteq> c_ID conv"
proof (cases "si_ConversationID input")
  case (Some i)
  with assms(1,2) have f: "cr_FindByID convs i w = (Ret conv, w')" "c_UserID conv = si_UserID input"
    by (auto simp: send_conversation_def ret_iffs split: if_splits)
  from find_Ret [OF f(1)] f(2) assms(3) show ?thesis by (auto simp: foreign_def)
next
  case None
  with assms(1,2) obtain w1 where n: "new_conversation rt (si_UserID input) (if si_AgentType input = [] then ''general'' else si_AgentType input) w = (Ret conv, w1)"
      and c: "cr_Create convs conv w1 = (Ret (), w')"
    by (auto simp: send_conversation_def ret_iffs Let_def)
  from keepsD [OF slot_messages(3) n, of j] create_Ret [OF c] assms(3) show ?thesis by (auto simp: foreign_def)
qed

lemma SendMessage_isolated:
  assumes "su_convRepo uc = convs" "su_msgRepo uc = msgs" "\<And>inp. keeps (slot j) (we_Run (su_engine uc) inp)"
    and "\<And>rq. keeps (slot j) (llm_Chat (su_llm uc) rq)"
  shows "keeps_when (foreign (si_UserID input)) (slot j) (SendMessage_Execute rt uc input)"
  unfolding SendMessage_Execute_def
proof (rule keeps_when_if, goal_cases)
  case 1
  show ?case
    unfolding send_stateless_def
    by (intro keeps_imp_when keeps_bindG keeps_wrapG assms(4)) (simp add: keeps_basic split: list.split)
next
  case 2
  show ?case
  proof (rule keeps_when_bindR [OF send_conversation_slot [OF assms(1)]], rule keeps_imp_when, rule keeps_bindR [OF slot_messages(1)], goal_cases)
    case (1 w conv w' w1 m w2)
    then have j: "j \<noteq> c_ID conv" "j \<noteq> m_ConversationID m"
      using send_conversation_own [OF _ assms(1)] message_ids(1) by blast+
    show ?case
      unfolding assms(2)
      by (intro keeps_bindG keeps_wrapG keeps_if slot_writes(3) [OF j(2)] slot_reads assms(3)
          send_paused_slot [OF j(1) assms(1)] send_finished_slot [OF j(1) assms(1,2)])
  qed
qed

lemma approve_message_slot:
  assumes "j \<noteq> c_ID conv" "au_msgRepo uc = msgs"
  shows "keeps (slot j) (approve_message rt uc conv result)"
  unfolding approve_message_def assms(2)
proof (intro keeps_if keeps_bindR [OF slot_messages(2)] keeps_basic, goal_cases)
  case (1 w m w')
  then show ?case using slot_writes(3) message_ids(2) assms(1) by (intro keeps_wrapG) metis
qed

lemma approve_decision_slot:
  assumes "j \<noteq> c_ID conv" "au_convRepo uc = convs"
  shows "keeps (slot j) (approve_decision rt uc input conv result)"
  unfolding approve_decision_def assms(2)
  by (intro keeps_if keeps_bindG keeps_wrapG slot_writes(2) [OF assms(1)] slot_clock slot_outcome keeps_basic)

lemma approve_decision_id:
  "approve_decision rt uc input conv result w = (Ret conv', w') \<Longrightarrow> c_ID conv' = c_ID conv"
  by (auto simp: approve_decision_def bindG_eq_Ret Conversation_Approve_def dest: request_approval_id reject_id split: if_splits)

lemma ApproveAction_isolated:
  assumes "au_convRepo uc = convs" "au_msgRepo uc = msgs" "\<And>chk b. keeps (slot j) (we_Resume (au_engine uc) chk b)"
  shows "keeps_when (foreign (ai_UserID input)) (slot j) (ApproveAction_Execute rt uc input)"
  unfolding ApproveAction_Execute_def assms(1)
proof (rule keeps_when_bindR [OF keeps_imp_when [OF keeps_wrapG [OF slot_reads(1)]]], goal_cases)
  case (1 w conv w')
  then have f: "cr_FindByID convs (ai_ConversationID input) w = (Ret conv, w')" by (simp add: wrapG_eq_Ret)
  show ?case
  proof (cases "c_UserID conv \<noteq> ai_UserID input")
    case True
    then show ?thesis by (simp add: keeps_when_def)
  next
    case False
    with find_Ret [OF f] 1(1) have j: "j \<noteq> c_ID conv" by (auto simp: foreign_def)
    then have j': "j \<noteq> c_ID (Conversation_AddMessageStats now toks n conv)" for now toks n by (simp add: Conversation_AddMessageStats_def)
    have decide: "keeps (slot j) (bindG (approve_decision rt uc input (Conversation_AddMessageStats now (wo_TokensUsed result) (wo_ToolCallsCount result) conv) result)
        (\<lambda>conv2. bindG (wrapG ''update conversation'' (cr_Update convs conv2)) (\<lambda>_. returnG (out conv2))))" for now result out
      by (rule keeps_bindR [OF approve_decision_slot [OF j' assms(1)]], intro keeps_bindG keeps_wrapG slot_writes(1) keeps_basic)
        (use approve_decision_id j' in metis)
    show ?thesis
      unfolding Let_def
      by (intro keeps_imp_when keeps_if keeps_basic, cases "paused_state conv", simp_all only: sum.case)
        (intro keeps_basic keeps_bindG keeps_wrapG assms(3) approve_message_slot [OF j assms(2)] slot_clock decide)+
  qed
qed

lemma reads_isolated:
  "keeps (slot j) (GetConversation_Execute convs msgs i u)" "keeps (slot j) (ListConversations_Execute convs u)"
  unfolding GetConversation_Execute_def ListConversations_Execute_def
  by (intro keeps_bindG keeps_wrapG keeps_if slot_reads keeps_basic)+

end

section \<open>The SQL stores\<close>

lemma pg_msgs_of_insert_other: "j \<noteq> m_ConversationID m \<Longrightarrow> pg_msgs_of (insert_message m w) j = pg_msgs_of w j"
  by (simp add: pg_msgs_of_def conversation_messages_def insert_message_def)

interpretation pg_isolated: isolated_store ConversationRepository pg_conv_of jsonb_col MessageRepository pg_msgs_of db_ok world_runtime
proof
  fix i j c st m u filt and w :: "'a world_scheme"
  note repo_defs = ConversationRepository_def conversation_repository.simps
  show "j \<noteq> c_ID c \<Longrightarrow> keeps (\<lambda>w. pg_conv_of w j) (cr_Update ConversationRepository c)"
    unfolding repo_defs ConversationRepository_Update_def by (intro keeps_wrapG keeps_command) (simp_all add: pg_conv_of_update conversation_columns_def)
  show "j \<noteq> i \<Longrightarrow> keeps (\<lambda>w. pg_conv_of w j) (cr_UpdateWorkflowState ConversationRepository i st)"
    unfolding repo_defs ConversationRepository_UpdateWorkflowState_def by (intro keeps_wrapG keeps_command) (simp_all add: pg_conv_of_update)
  show "pg_conv_of w j \<noteq> None \<Longrightarrow> pg_conv_of (snd (cr_Create ConversationRepository c w)) j = pg_conv_of w j"
  proof -
    assume "pg_conv_of w j \<noteq> None"
    moreover obtain r w' where run: "cr_Create ConversationRepository c w = (r, w')" by fastforce
    moreover have "(\<exists>e. r = Err e) \<or> r = Ret ()" using run
      by (auto simp: ConversationRepository_def ConversationRepository_Create_def wrapG_def run_sql_def command_def
          split: option.splits prod.splits outcome.splits sum.splits)
    ultimately show ?thesis
      using pg_conversations.create_Ret [of c w w'] pg_conversations.create_Err [of c w _ w'] by auto
  qed
  show "j \<noteq> m_ConversationID m \<Longrightarrow> keeps (\<lambda>w. pg_msgs_of w j) (mr_Create MessageRepository m)"
    unfolding MessageRepository_def message_repository.simps MessageRepository_Create_def
    by (intro keeps_wrapG keeps_command) (simp_all add: pg_msgs_of_insert_other)
  show "keeps pg_conv_of (cr_FindByUserID ConversationRepository u filt)" "keeps pg_msgs_of (cr_FindByUserID ConversationRepository u filt)"
    unfolding repo_defs ConversationRepository_FindByUserID_def
    by (intro keeps_wrapG keeps_read; auto simp: Let_def split: option.splits)+
  show "keeps pg_conv_of (cr_CountByUserID ConversationRepository u)" "keeps pg_msgs_of (cr_CountByUserID ConversationRepository u)"
    unfolding repo_defs ConversationRepository_CountByUserID_def by (intro keeps_wrapG keeps_query; simp)+
qed

end
