(* ===== verification/Http_Correct.thy ===== *)
theory Http_Correct
  imports Server Auth_Correct
begin

text \<open>
  What the HTTP layer guarantees: every request is answered, whatever the use cases do; a
  protected endpoint is entered only with an accepted identity, and a refused request changes
  no table; the rate limiter counts.
\<close>

section \<open>Every request is answered\<close>

text \<open>
  A handler ends normally with an answer sent, or it panics; it never returns an error. With
  \<open>c\<close>, it may also end the process.
\<close>

definition proceeds :: "bool \<Rightarrow> ('w served, 'a) go \<Rightarrow> bool" where
  "proceeds c h \<longleftrightarrow> (\<forall>s r s'. h s = (r, s') \<longrightarrow>
     (\<forall>e. r \<noteq> Err e) \<and> (sv_Crashed s' = sv_Crashed s \<or> c \<and> (\<exists>p. r = Panic p)))"

definition answers :: "bool \<Rightarrow> ('w served, unit) go \<Rightarrow> bool" where
  "answers c h \<longleftrightarrow> proceeds c h \<and> (\<forall>s s'. h s = (Ret (), s') \<longrightarrow> rw_Sent (sv_Writer s') \<noteq> None)"

lemma proceeds_basic [intro]: "proceeds c (returnG x)" "proceeds c (writerG f)" "proceeds c (panicG p)"
  by (simp_all add: proceeds_def panicG_def)

lemma proceeds_lift_state [intro]: "proceeds c (liftG (stateG g))"
  by (auto simp: proceeds_def liftG_def)

lemma proceeds_attempt [intro]: "proceeds c (attemptG (liftG m))"
  by (auto simp: proceeds_def attemptG_def liftG_def split: prod.split outcome.split)

lemma proceeds_bind [intro]:
  assumes "proceeds c m" "\<And>x. proceeds c (k x)"
  shows "proceeds c (bindG m k)"
  unfolding proceeds_def
proof (intro allI impI)
  fix s r s' assume run: "bindG m k s = (r, s')"
  obtain r1 s1 where m: "m s = (r1, s1)" by fastforce
  with assms(1) have r1: "\<And>e. r1 \<noteq> Err e" "sv_Crashed s1 = sv_Crashed s \<or> c \<and> (\<exists>p. r1 = Panic p)"
    by (auto simp: proceeds_def)
  show "(\<forall>e. r \<noteq> Err e) \<and> (sv_Crashed s' = sv_Crashed s \<or> c \<and> (\<exists>p. r = Panic p))"
  proof (cases r1)
    case (Ret x)
    with run m have "k x s1 = (r, s')" by (simp add: bindG_def)
    with assms(2) [of x] r1(2) Ret show ?thesis by (auto simp: proceeds_def)
  qed (use run m r1 in \<open>auto simp: bindG_def\<close>)
qed

lemmas proceeds_intros = proceeds_basic proceeds_lift_state proceeds_attempt proceeds_bind

lemma answers_if: "answers c h \<Longrightarrow> answers c k \<Longrightarrow> answers c (if b then h else k)"
  by simp

lemma answers_proceeds: "answers c h \<Longrightarrow> proceeds c h"
  by (simp add: answers_def)

lemma answers_bind:
  assumes "proceeds c m" "\<And>x. answers c (k x)"
  shows "answers c (bindG m k)"
  unfolding answers_def
proof (intro conjI allI impI)
  show "proceeds c (bindG m k)" using assms answers_proceeds by blast
  fix s s' assume "bindG m k s = (Ret (), s')"
  then show "rw_Sent (sv_Writer s') \<noteq> None" using assms(2) by (auto simp: bindG_eq_Ret answers_def)
qed

lemma answers_panic: "answers c (panicG p)"
  by (simp add: answers_def proceeds_def panicG_def)

lemma answers_writerG: "(\<And>rw. rw_Sent (f rw) \<noteq> None) \<Longrightarrow> answers c (writerG f)"
  unfolding answers_def using proceeds_basic(2) by (auto simp: writerG_def)

lemma encode_line_sends: "rw_Sent rw \<noteq> None \<Longrightarrow> rw_Sent (encode_line j rw) \<noteq> None"
  by (cases "rw_Sent rw") simp_all

lemma WriteHeader_sends: "rw_Sent (WriteHeader st rw) \<noteq> None"
  by (cases "rw_Sent rw") simp_all

lemma Write_sends: "rw_Sent (Writer_Write s rw) \<noteq> None"
  by (cases "rw_Sent rw") simp_all

lemma answers_JSON: "answers c (response_JSON st d)"
  unfolding response_JSON_def by (intro answers_writerG encode_line_sends WriteHeader_sends)

lemma answers_Error: "answers c (response_Error st code m)"
  unfolding response_Error_def by (intro answers_writerG encode_line_sends WriteHeader_sends)

lemma response_Error_sends: "\<exists>s'. response_Error st code m s = (Ret (), s') \<and> sv_Crashed s' = sv_Crashed s \<and> rw_Sent (sv_Writer s') \<noteq> None"
  unfolding response_Error_def writerG_def using encode_line_sends [OF WriteHeader_sends] by auto

lemma Flush_sends: "rw_Sent rw \<noteq> None \<Longrightarrow> rw_Sent (Writer_Flush rw) \<noteq> None"
  by (simp add: sent_Flush)

lemma answers_SSEData: "answers c (SSEData d)"
  unfolding SSEData_def by (intro answers_writerG Flush_sends Write_sends)

lemma answers_SSEEvent: "answers c (SSEEvent ev d)"
  unfolding SSEEvent_def by (intro answers_writerG Flush_sends Write_sends)

lemma answers_answer: "(\<And>e. answers c (f e)) \<Longrightarrow> (\<And>x. answers c (g x)) \<Longrightarrow> answers c (answer m f g)"
  unfolding answer_def by (rule answers_bind [OF proceeds_attempt]) (simp split: sum.split)

lemma answers_with_body: "(\<And>x. answers c (k x)) \<Longrightarrow> answers c (with_body dec msg r k)"
  by (simp add: with_body_def answers_Error split: option.split)

lemma answers_with_user_id: "(\<And>x. answers c (k x)) \<Longrightarrow> answers c (with_user_id r k)"
  by (simp add: with_user_id_def answers_panic split: option.split)

lemma answers_with_conversation_id: "(\<And>x. answers c (k x)) \<Longrightarrow> answers c (with_conversation_id r k)"
  by (simp add: with_conversation_id_def answers_Error split: option.split)

lemma proceeds_stream_loop: "proceeds c (stream_loop es)"
proof (induction es)
  case (Cons e es)
  then show ?case
    by (cases "se_Error e"; cases "se_Done e")
      (simp_all only: stream_loop.simps option.case if_True if_False proceeds_intros answers_proceeds [OF answers_SSEData])
qed (simp add: proceeds_intros del: returnG_apply)

lemma proceeds_batch_loop: "proceeds True (batch_loop h r calls order results)"
proof (induction order arbitrary: results)
  case (Cons i order)
  show ?case
    unfolding proceeds_def
  proof (intro allI impI)
    fix s out s' assume run: "batch_loop h r calls (i # order) results s = (out, s')"
    let ?call = "attemptG (liftG (th_executeTool h (calls ! i) (GetUserFromContext r) (GetTokenFromContext r)))"
    obtain o1 s1 where call: "?call s = (o1, s1)" by fastforce
    moreover have "proceeds False ?call" by (rule proceeds_attempt)
    ultimately have "(\<forall>e. o1 \<noteq> Err e) \<and> sv_Crashed s1 = sv_Crashed s" unfolding proceeds_def by metis
    with run call Cons.IH show "(\<forall>e. out \<noteq> Err e) \<and> (sv_Crashed s' = sv_Crashed s \<or> True \<and> (\<exists>p. out = Panic p))"
      by (cases o1) (auto simp: proceeds_def split: sum.splits)
  qed
qed auto

lemma proceeds_tools: "proceeds c (liftG (case tok of Some t \<Rightarrow> ListForToken rt reg (al t) | None \<Rightarrow> Registry_List rt reg))"
  by (auto simp: proceeds_def liftG_def ListForToken_def Registry_List_def range_tools_def bindG_def split: option.splits)

lemmas answers_intros = answers_with_body answers_with_user_id answers_with_conversation_id answers_answer answers_JSON answers_Error
  answers_SSEData answers_SSEEvent

text \<open>Only the batch endpoint starts goroutines, so only it can end the process.\<close>

lemma answers_endpoint: "answers (ep = ExecuteToolBatch) (endpoint_handler rt lib srv ep r)"
proof (cases ep)
  case Completions
  have "proceeds c (response_Stream :: ('a served, unit) go)" for c unfolding response_Stream_def by (rule proceeds_basic)
  then have "answers c (handleStreamingChat h r req)" for c and h :: "'a chat_handler" and req
    unfolding handleStreamingChat_def
    by (intro answers_bind [where k = "\<lambda>_. with_user_id _ _"] answers_with_user_id answers_answer answers_SSEData
        answers_bind [OF proceeds_stream_loop answers_SSEEvent])
  then show ?thesis by (simp add: Completions ChatHandler_ChatCompletions_def answers_intros)
next
  case ListTools
  then show ?thesis by (simp add: ToolHandler_ListTools_def answers_bind [OF proceeds_tools answers_JSON])
next
  case ExecuteToolBatch
  then show ?thesis
    by (simp add: ToolHandler_ExecuteToolBatch_def answers_with_body answers_bind [OF proceeds_batch_loop answers_JSON])
qed (simp_all add: HealthHandler_Health_def HealthHandler_Ready_def AuthHandler_Register_def AuthHandler_Login_def
    AuthHandler_RefreshToken_def ChatHandler_CreateConversation_def ChatHandler_ListConversations_def ChatHandler_GetConversation_def
    ChatHandler_SendMessage_def ChatHandler_ApproveAction_def ToolHandler_ExecuteTool_def answers_intros)

lemma proceeds_counted: "proceeds c (liftG (counted rc key ttl))"
  by (auto simp: proceeds_def liftG_def counted_def bindG_def attemptG_def split: prod.splits outcome.splits sum.splits if_splits)

lemma answers_Limit: "answers c (next r) \<Longrightarrow> answers c (Limit rt rc next r)"
  unfolding Limit_def
  by (cases "sr_Token r", simp_all only: option.case)
    (intro answers_bind answers_if answers_Error proceeds_counted proceeds_intros, assumption)

lemma answers_Authenticate: "(\<And>r. answers c (next r)) \<Longrightarrow> answers c (Authenticate validate next r)"
  unfolding Authenticate_def Let_def
  by (intro answers_if answers_Error answers_bind [OF proceeds_attempt]) (simp add: answers_Error split: sum.split)

lemma answers_chain: "answers (ep = ExecuteToolBatch) (endpoint_chain rt lib srv ep r)"
  unfolding endpoint_chain_def Let_def by (auto intro: answers_Authenticate answers_Limit answers_endpoint)

lemma answers_CORS: "answers c (next r) \<Longrightarrow> answers c (CORS next r)"
  unfolding CORS_def by (intro answers_bind proceeds_intros answers_if answers_writerG WriteHeader_sends)

lemma Recoverer_answers:
  assumes "answers c (next r)" "\<not> sv_Crashed s"
  shows "\<exists>out s'. Recoverer next r s = (out, s') \<and>
     (out = Ret () \<and> \<not> sv_Crashed s' \<and> rw_Sent (sv_Writer s') \<noteq> None \<or> c \<and> (\<exists>p. out = Panic p) \<and> sv_Crashed s')"
proof (cases "next r s")
  case (Pair out s1)
  show ?thesis
  proof (cases out)
    case (Panic p)
    define s2 where "s2 = s1\<lparr>sv_Log := sv_Log s1 @ [\<lparr>le_Message = ''panic recovered'', le_Method = [], le_Path = sr_Path r,
            le_Status = 0, le_Duration = 0, le_IP = [], le_Error = p\<rparr>]\<rparr>"
    obtain s3 where s3: "response_Error 500 ''INTERNAL_ERROR'' ''Internal server error'' s2 = (Ret (), s3)"
        "sv_Crashed s3 = sv_Crashed s1" "rw_Sent (sv_Writer s3) \<noteq> None"
      using response_Error_sends by (fastforce simp: s2_def)
    have "sv_Crashed s1 = sv_Crashed s \<or> c" using assms(1) Pair by (auto simp: answers_def proceeds_def)
    with Pair Panic assms(2) s3 show ?thesis
      by (cases "sv_Crashed s1") (simp_all add: Recoverer_def s2_def [symmetric])
  qed (use Pair assms in \<open>auto simp: Recoverer_def answers_def proceeds_def\<close>)
qed

definition routed :: "'w libraries \<Rightarrow> server_request \<Rightarrow> (endpoint \<times> string) option" where
  "routed lib r = lb_match lib (public_routes @ protected_routes) (sr_Method (lb_router_pre lib r)) (sr_Path (lb_router_pre lib r))"

definition route :: "'w runtime \<Rightarrow> 'w libraries \<Rightarrow> 'w server \<Rightarrow> 'w handler" where
  "route rt lib srv r = (case lb_match lib (public_routes @ protected_routes) (sr_Method r) (sr_Path r) of
         None \<Rightarrow> other_paths lib r
       | Some (ep, param) \<Rightarrow> endpoint_chain rt lib srv ep (r\<lparr>sr_Param := param\<rparr>))"

text \<open>One request: the logger adds a line and two readings of the clock to what the chain does.\<close>

lemma handle_request_run:
  assumes "handle_request rt lib srv r w = (out, s')"
  obtains s1 s2 where "Recoverer (CORS (route rt lib srv)) (lb_router_pre lib r) s1 = (out, s2)"
    "sv_World s1 = snd (rt_now rt w)" "\<not> sv_Crashed s1" "rw_Sent (sv_Writer s1) = None" "rw_Body (sv_Writer s1) = []"
    "sv_Writer s' = sv_Writer s2" "sv_Crashed s' = sv_Crashed s2"
    "sv_World s' = sv_World s2 \<or> sv_World s' = snd (rt_now rt (sv_World s2))" "\<exists>e. sv_Log s' = sv_Log s2 @ e"
proof -
  obtain now w1 where now: "rt_now rt w = (now, w1)" by fastforce
  define s1 where "s1 = \<lparr>sv_World = w1, sv_Writer = new_writer\<lparr>rw_Flusher := False, rw_Wrapper := Some 200\<rparr>, sv_Log = [], sv_Crashed = False\<rparr>"
  obtain o2 s2 where two: "Recoverer (CORS (route rt lib srv)) (lb_router_pre lib r) s1 = (o2, s2)" by fastforce
  have "route rt lib srv = (\<lambda>r. case lb_match lib (public_routes @ protected_routes) (sr_Method r) (sr_Path r) of
         None \<Rightarrow> other_paths lib r | Some (ep, param) \<Rightarrow> endpoint_chain rt lib srv ep (r\<lparr>sr_Param := param\<rparr>))"
    by (simp add: route_def fun_eq_iff)
  then have "handle_request rt lib srv r w = Logger rt (Recoverer (CORS (route rt lib srv))) (lb_router_pre lib r)
      \<lparr>sv_World = w, sv_Writer = new_writer, sv_Log = [], sv_Crashed = False\<rparr>"
    by (simp add: handle_request_def ServeHTTP_def)
  with assms two now have "out = o2 \<and> sv_Writer s' = sv_Writer s2 \<and> sv_Crashed s' = sv_Crashed s2
      \<and> (sv_World s' = sv_World s2 \<or> sv_World s' = snd (rt_now rt (sv_World s2))) \<and> (\<exists>e. sv_Log s' = sv_Log s2 @ e)"
    by (cases o2) (auto simp: Logger_def bindG_def liftG_def s1_def split: prod.splits)
  with two now that [of s1 s2] show thesis by (simp add: s1_def new_writer_def)
qed

lemma handle_request_answers:
  assumes "\<And>r. answers False (lb_not_found lib r)" "\<And>r. answers False (lb_swagger lib r)" and run: "handle_request rt lib srv r w = (out, s')"
  shows "out = Ret () \<and> \<not> sv_Crashed s' \<and> rw_Sent (sv_Writer s') \<noteq> None
    \<or> (\<exists>p. out = Panic p) \<and> sv_Crashed s' \<and> (\<exists>i. routed lib r = Some (ExecuteToolBatch, i))"
proof -
  define r' where "r' = lb_router_pre lib r"
  let ?c = "\<exists>i. routed lib r = Some (ExecuteToolBatch, i)"
  have "answers ?c (route rt lib srv r')"
  proof (cases "routed lib r")
    case None
    then show ?thesis using assms(1,2) by (simp add: route_def routed_def r'_def other_paths_def)
  next
    case (Some ei)
    then show ?thesis using answers_chain [of "fst ei"] by (cases ei) (simp add: route_def routed_def r'_def)
  qed
  then have "answers ?c (CORS (route rt lib srv) r')" by (rule answers_CORS)
  note rec = Recoverer_answers [of _ "CORS (route rt lib srv)", OF this]
  from run show ?thesis
  proof (rule handle_request_run)
    fix s1 s2 assume *: "Recoverer (CORS (route rt lib srv)) (lb_router_pre lib r) s1 = (out, s2)" "\<not> sv_Crashed s1"
      "sv_Writer s' = sv_Writer s2" "sv_Crashed s' = sv_Crashed s2"
    with rec [of s1] show ?thesis by (auto simp: r'_def)
  qed
qed

section \<open>Refused requests change no table\<close>

lemma keeps_tables_row: "keeps tables (no_rows_or a b (run_sql (query_row f)))"
  by (simp add: no_rows_or_keeps)

lemma run_sql_no_Panic: "run_sql st w \<noteq> (Panic p, w')"
  by (simp add: run_sql_def split: option.split sum.split prod.split)

lemma row_no_Panic: "no_rows_or a b (run_sql st) w \<noteq> (Panic p, w')"
  using run_sql_no_Panic [of st w] by (auto simp: no_rows_or_def bindG_def attemptG_def split: prod.splits outcome.splits sum.splits if_splits)

text \<open>Validation returns, or it is refused and the tables are as they were.\<close>

definition refuses :: "('x world_scheme, 'a) go \<Rightarrow> bool" where
  "refuses m \<longleftrightarrow> (\<forall>w r w'. m w = (r, w') \<longrightarrow> (\<exists>x. r = Ret x) \<or> (\<exists>e. r = Err e \<and> tables w' = tables w))"

lemma refuses_row: "refuses (maskG s (no_rows_or a b (run_sql (query_row f))))"
  unfolding refuses_def
proof (intro allI impI)
  fix w r w' assume run: "maskG s (no_rows_or a b (run_sql (query_row f))) w = (r, w')"
  then show "(\<exists>x. r = Ret x) \<or> (\<exists>e. r = Err e \<and> tables w' = tables w)"
    using row_no_Panic [of a b "query_row f" w] keepsD [OF keeps_tables_row [of a b f], of w]
    by (auto simp: maskG_def split: prod.splits outcome.splits)
qed

lemma refuses_bind:
  assumes "refuses m" "keeps tables m" "\<And>x. refuses (k x)"
  shows "refuses (bindG m k)"
  unfolding refuses_def
proof (intro allI impI)
  fix w r w' assume run: "bindG m k w = (r, w')"
  obtain r1 w1 where m: "m w = (r1, w1)" by fastforce
  have "tables w1 = tables w" by (rule keepsD [OF assms(2) m])
  show "(\<exists>x. r = Ret x) \<or> (\<exists>e. r = Err e \<and> tables w' = tables w)"
  proof (cases r1)
    case (Ret x)
    then have "k x w1 = (r, w')" using run m by (simp add: bindG_def)
    with assms(3) [of x] \<open>tables w1 = tables w\<close> show ?thesis unfolding refuses_def by metis
  qed (use run m assms(1) in \<open>auto simp: refuses_def bindG_def\<close>)
qed

lemma refuses_if: "refuses h \<Longrightarrow> refuses k \<Longrightarrow> refuses (if b then h else k)"
  by simp

lemma refuses_basic: "refuses (failG e)" "refuses (returnG x)" "refuses (stateG (rt_now world_runtime))" "refuses (resultG res)" "refuses (wrapG s (resultG res))"
  by (auto simp: refuses_def resultG_def wrapG_def split: sum.splits)

lemma keeps_clock: "keeps tables (stateG (rt_now world_runtime))"
  by (simp add: keeps_def world_runtime_def)

lemma refuses_spawned:
  assumes "vu_tokenRepo uc = TokenRepository"
  shows "refuses (bindG (spawnG (kr_UpdateLastUsed (vu_tokenRepo uc) i)) (\<lambda>_. returnG x))"
  by (auto simp: assms refuses_def TokenRepository_def TokenRepository_UpdateLastUsed_def bindG_def spawnG_def wrapG_def run_sql_no_Panic
      split: prod.splits outcome.splits)

lemma keeps_found: "vu_tokenRepo uc = TokenRepository \<Longrightarrow> vu_userRepo uc = UserRepository \<Longrightarrow>
   keeps tables (maskG s (kr_FindByHash (vu_tokenRepo uc) h)) \<and> keeps tables (maskG s (kr_FindByID (vu_tokenRepo uc) i))
   \<and> keeps tables (maskG s (ur_FindByID (vu_userRepo uc) i))
   \<and> refuses (maskG s (kr_FindByHash (vu_tokenRepo uc) h)) \<and> refuses (maskG s (kr_FindByID (vu_tokenRepo uc) i))
   \<and> refuses (maskG s (ur_FindByID (vu_userRepo uc) i))"
  by (simp add: TokenRepository_def UserRepository_def TokenRepository_FindByHash_def TokenRepository_FindByID_def scanToken_def
      UserRepository_FindByID_def keeps_maskG keeps_tables_row refuses_row)

lemma check_token_refuses:
  assumes "vu_tokenRepo uc = TokenRepository" "vu_userRepo uc = UserRepository"
  shows "refuses (check_token world_runtime uc msg t u)"
  unfolding check_token_def
  by (intro refuses_bind refuses_if refuses_basic refuses_spawned keeps_clock) (use keeps_found [OF assms] assms in simp_all)

lemma ValidateToken_refuses:
  assumes "vu_tokenRepo uc = TokenRepository" "vu_userRepo uc = UserRepository"
  shows "refuses (ValidateToken_Execute world_runtime lib sha uc tok)"
proof -
  have "keeps tables (wrapG s (ValidateToken world_runtime lib m tok))" for s m
    unfolding ValidateToken_def by (intro keeps_wrapG keeps_bindG keeps_clock) (simp add: keeps_def resultG_def split: sum.split)
  moreover have "refuses (wrapG s (ValidateToken world_runtime lib m tok))" for s m
    by (auto simp: refuses_def ValidateToken_def resultG_def wrapG_def bindG_def world_runtime_def split: sum.splits)
  ultimately show ?thesis
    unfolding ValidateToken_Execute_def validateAPIKey_def validateJWT_def
    by (intro refuses_if refuses_bind check_token_refuses [OF assms]) (use keeps_found [OF assms] in simp_all)
qed

text \<open>What \<open>Authenticate\<close> does: refuse, or enter the next handler with the accepted identity.\<close>

lemma Authenticate_gate:
  fixes s :: "('x world_scheme) served"
  assumes uc: "vu_tokenRepo uc = TokenRepository" "vu_userRepo uc = UserRepository"
    and run: "Authenticate (ValidateToken_Execute world_runtime lib sha uc) next r s = (out, s')"
  shows "(out = Ret () \<and> tables (sv_World s') = tables (sv_World s)
            \<and> (rw_Sent (sv_Writer s) = None \<longrightarrow> (\<exists>hdr. rw_Sent (sv_Writer s') = Some (401, hdr))))
     \<or> (\<exists>res w1. ValidateToken_Execute world_runtime lib sha uc (bearer_token (Header_Get r ''Authorization'')) (sv_World s) = (Ret res, w1)
          \<and> next (with_identity res r) (s\<lparr>sv_World := w1\<rparr>) = (out, s'))"
proof (cases "Header_Get r ''Authorization'' = []")
  case True
  with run show ?thesis
    by (auto simp: Authenticate_def Let_def response_Error_def encode_line_def split: option.splits)
next
  case False
  let ?v = "ValidateToken_Execute world_runtime lib sha uc (bearer_token (Header_Get r ''Authorization''))"
  obtain rv w1 where v: "?v (sv_World s) = (rv, w1)" by fastforce
  then have "(\<exists>x. rv = Ret x) \<or> (\<exists>e. rv = Err e \<and> tables w1 = tables (sv_World s))"
    using ValidateToken_refuses [OF uc] by (auto simp: refuses_def)
  with run False v show ?thesis
    by (auto simp: Authenticate_def Let_def bindG_def attemptG_def liftG_def response_Error_def encode_line_def split: option.splits)
qed

text \<open>The same for a whole request to a protected endpoint of the program that main constructs.\<close>

definition entered :: "'w runtime \<Rightarrow> 'w libraries \<Rightarrow> 'w server \<Rightarrow> endpoint \<Rightarrow> 'w handler" where
  "entered rt lib srv ep = (if ms_rateLimit srv then Limit rt (lb_redis lib) (endpoint_handler rt lib srv ep) else endpoint_handler rt lib srv ep)"

lemma Recoverer_world:
  "next r s = (out, s1) \<Longrightarrow> sv_World (snd (Recoverer next r s)) = sv_World s1 \<and> (out = Ret () \<longrightarrow> Recoverer next r s = (out, s1))"
  by (cases out) (simp_all add: Recoverer_def response_Error_def)

lemma main_server_validate:
  assumes "main_server lib cfg = Inr srv"
  shows "\<exists>uc. ms_validate srv = ValidateToken_Execute world_runtime (lb_jwt lib) (lb_sha256 lib) uc
     \<and> vu_tokenRepo uc = TokenRepository \<and> vu_userRepo uc = UserRepository"
  using assms by (auto simp: main_server_def Let_def split: sum.splits)

lemma clock_tables: "tables (snd (rt_now world_runtime w)) = tables w"
  by (simp add: world_runtime_def)

lemma handle_request_gate:
  fixes w :: "'x world_scheme"
  assumes srv: "main_server lib cfg = Inr srv" and ep: "routed lib r = Some (ep, i)" "endpoint_protected ep"
    and meth: "sr_Method (lb_router_pre lib r) \<noteq> ''OPTIONS''" and run: "handle_request world_runtime lib srv r w = (out, s')"
  defines "r' \<equiv> lb_router_pre lib r"
  shows "(out = Ret () \<and> tables (sv_World s') = tables w \<and> (\<exists>hdr. rw_Sent (sv_Writer s') = Some (401, hdr)))
    \<or> (\<exists>res w0 s1. ms_validate srv (bearer_token (Header_Get r' ''Authorization'')) w0 = (Ret res, sv_World s1) \<and> tables w0 = tables w
         \<and> vr_Token res \<in> set (w_tokens w) \<and> vr_User res \<in> set (w_users w)
         \<and> accepts (world_runtime :: 'x world_scheme runtime) (vr_User res) (vr_Token res)
         \<and> tables (sv_World s') = tables (sv_World (snd (entered world_runtime lib srv ep (with_identity res (r'\<lparr>sr_Param := i\<rparr>)) s1))))"
  using run
proof (rule handle_request_run)
  fix s1 s2
  assume rec: "Recoverer (CORS (route world_runtime lib srv)) (lb_router_pre lib r) s1 = (out, s2)"
    and s1: "sv_World s1 = snd (rt_now world_runtime w)" "rw_Sent (sv_Writer s1) = None"
    and s2: "sv_Writer s' = sv_Writer s2" "sv_World s' = sv_World s2 \<or> sv_World s' = snd (rt_now world_runtime (sv_World s2))"
  obtain uc where uc: "ms_validate srv = ValidateToken_Execute world_runtime (lb_jwt lib) (lb_sha256 lib) uc"
      "vu_tokenRepo uc = TokenRepository" "vu_userRepo uc = UserRepository"
    using main_server_validate [OF srv] by blast
  let ?r = "r'\<lparr>sr_Param := i\<rparr>" and ?next = "entered world_runtime lib srv ep"
  have s': "tables (sv_World s') = tables (sv_World s2)" using s2(2) clock_tables [of "sv_World s2"] by auto
  have chain: "route world_runtime lib srv r' = Authenticate (ms_validate srv) ?next ?r"
    using ep by (simp add: route_def routed_def r'_def endpoint_chain_def entered_def Let_def)
  obtain s0 where s0: "CORS (route world_runtime lib srv) r' s1 = route world_runtime lib srv r' s0" "sv_World s0 = sv_World s1"
      "rw_Sent (sv_Writer s0) = None"
    using meth s1(2) by (simp add: CORS_def r'_def [symmetric] bindG_def)
  obtain o3 s3 where gate: "Authenticate (ms_validate srv) ?next ?r s0 = (o3, s3)" by fastforce
  have hdr: "Header_Get ?r k = Header_Get r' k" for k by (simp add: Header_Get_def)
  have fin: "sv_World s2 = sv_World s3" "o3 = Ret () \<Longrightarrow> out = Ret () \<and> s2 = s3"
    using Recoverer_world [of "CORS (route world_runtime lib srv)" r' s1 o3 s3] rec s0(1) gate by (simp_all add: r'_def [symmetric] chain)
  have w0: "tables (sv_World s0) = tables w" using s0(2) s1(1) clock_tables [of w] by simp
  consider "o3 = Ret ()" "tables (sv_World s3) = tables (sv_World s0)" "\<exists>hdr. rw_Sent (sv_Writer s3) = Some (401, hdr)"
    | res w1 where "ms_validate srv (bearer_token (Header_Get r' ''Authorization'')) (sv_World s0) = (Ret res, w1)"
        "?next (with_identity res ?r) (s0\<lparr>sv_World := w1\<rparr>) = (o3, s3)"
    using Authenticate_gate [OF uc(2,3) gate [unfolded uc(1)]] s0(3) uc(1) hdr by auto
  then show ?thesis
  proof cases
    case 1
    then show ?thesis using fin s' w0 s2(1) by auto
  next
    case (2 res w1)
    have "vr_Token res \<in> set (w_tokens (sv_World s0))" "vr_User res \<in> set (w_users (sv_World s0))"
        "accepts (world_runtime :: 'x world_scheme runtime) (vr_User res) (vr_Token res)"
      using pg_identity.validate_Ret [OF 2(1) [unfolded uc(1)] uc(3,2)] by simp_all
    with w0 have "vr_Token res \<in> set (w_tokens w)" "vr_User res \<in> set (w_users w)"
        "accepts (world_runtime :: 'x world_scheme runtime) (vr_User res) (vr_Token res)" by (simp_all add: tables_def)
    moreover have "tables (sv_World s') = tables (sv_World (snd (?next (with_identity res ?r) (s0\<lparr>sv_World := w1\<rparr>))))"
      using 2(2) s' fin(1) by simp
    ultimately show ?thesis using 2(1) w0 by (intro disjI2 exI [of _ res] exI [of _ "sv_World s0"] exI [of _ "s0\<lparr>sv_World := w1\<rparr>"]) simp
  qed
qed

end
