(* ===== verification/Request_Steps.thy ===== *)
theory Request_Steps
  imports Step_Relation Http_Correct
begin

text \<open>
  Step relations of the whole program: what every statement sent to the database respects,
  every request respects.
\<close>

section \<open>What the libraries are relied on for\<close>

text \<open>The rows of all tables and the sequence of the messages.\<close>

definition database :: "'x world_scheme \<Rightarrow> (user list \<times> token list \<times> (conversation \<times> time option) list \<times> message list \<times> tool_execution list) \<times> int" where
  "database w = (tables w, w_seq w)"

lemma database_tick [simp]: "database (tick w) = database w"
  by (simp add: database_def)

lemma tables_database: "database w' = database w \<Longrightarrow> tables w' = tables w"
  by (simp add: database_def)

text \<open>
  The HTTP client, Redis and bcrypt do not write to the database; the answer for unknown
  paths and the documentation change nothing; a compiled graph runs as its nodes and edges say.
\<close>

definition quiet_libraries :: "('x world_scheme) libraries \<Rightarrow> bool" where
  "quiet_libraries lib \<longleftrightarrow> (\<forall>rq. keeps database (lb_http_do lib rq)) \<and> (\<forall>rq. keeps database (lb_http_stream lib rq))
     \<and> (\<forall>k. keeps database (rc_Incr (lb_redis lib) k)) \<and> (\<forall>k ttl. keeps database (rc_Expire (lb_redis lib) k ttl))
     \<and> keeps database (rc_Ping (lb_redis lib)) \<and> keeps database (lb_db_Ping lib)
     \<and> (\<forall>p. keeps database (bc_Generate (lb_bcrypt lib) p)) \<and> (\<forall>r. keeps (\<lambda>s. database (sv_World s)) (lb_not_found lib r))
     \<and> (\<forall>r. keeps (\<lambda>s. database (sv_World s)) (lb_swagger lib r))
     \<and> (\<forall>g invoke. lb_compile lib g = Inr invoke \<longrightarrow> compiled_graph g invoke)"

section \<open>The parts of the program\<close>

definition main_model :: "('x world_scheme) libraries \<Rightarrow> app_config \<Rightarrow> ('x world_scheme) llm_provider" where
  "main_model lib cfg = litellm_provider (lb_check_url lib) (lb_http_do lib) (lb_http_stream lib)
     (NewClient (gc_BaseURL (cfg_LLM cfg)) (gc_APIKey (cfg_LLM cfg)))"

definition main_registry :: "('x world_scheme) libraries \<Rightarrow> app_config \<Rightarrow> ('x world_scheme) tool_registry" where
  "main_registry lib cfg = RegisterAll [CalculatorTool (lb_parse_expr lib) (lb_parse_float lib),
     WebSearchTool (lb_http_do lib) (xc_WebSearchAPIKey (cfg_Tools cfg))] NewToolRegistry"

text \<open>The engine \<open>g\<close> and the use cases \<open>send\<close> and \<open>auth\<close> that \<open>main\<close> puts into its handlers.\<close>

definition assembled :: "('x world_scheme) libraries \<Rightarrow> app_config \<Rightarrow> ('x world_scheme) server \<Rightarrow> ('x world_scheme) chatbot_graph
    \<Rightarrow> ('x world_scheme) send_message_usecase \<Rightarrow> ('x world_scheme) auth_usecase \<Rightarrow> bool" where
  "assembled lib cfg srv g send auth \<longleftrightarrow>
    BuildRunnable (lb_compile lib) world_runtime (NewChatbotGraph (main_model lib cfg) (main_registry lib cfg)) = Inr g
    \<and> (su_engine send = chatbot_engine world_runtime g \<and> su_llm send = main_model lib cfg \<and> su_convRepo send = ConversationRepository
      \<and> su_msgRepo send = MessageRepository \<and> vu_tokenRepo auth = TokenRepository \<and> vu_userRepo auth = UserRepository)
    \<and> hc_sendMessage (ms_chat srv) = SendMessage_Execute world_runtime send \<and> hc_sendStream (ms_chat srv) = SendMessage_ExecuteStream send
    \<and> hc_approveAction (ms_chat srv) = ApproveAction_Execute world_runtime
        \<lparr>au_convRepo = ConversationRepository, au_msgRepo = MessageRepository, au_engine = chatbot_engine world_runtime g\<rparr>
    \<and> hc_getConversation (ms_chat srv) = GetConversation_Execute ConversationRepository MessageRepository
    \<and> hc_listConversations (ms_chat srv) = ListConversations_Execute ConversationRepository
    \<and> th_executeTool (ms_tools srv) = ExecuteTool_Execute world_runtime (main_registry lib cfg)
    \<and> ah_login (ms_auth srv) = Login_Execute world_runtime (lb_jwt lib) (lb_sha256 lib) format_uuid (lb_bcrypt lib) auth
    \<and> ah_refresh (ms_auth srv) = RefreshToken_Execute world_runtime (lb_jwt lib) auth
    \<and> ah_createUser (ms_auth srv) = CreateUser_Execute world_runtime (lb_bcrypt lib) UserRepository
    \<and> ms_validate srv = ValidateToken_Execute world_runtime (lb_jwt lib) (lb_sha256 lib) auth
    \<and> ms_health srv = \<lparr>hh_db_Ping = lb_db_Ping lib, hh_redis = lb_redis lib\<rparr>"

lemma assembledD:
  assumes "assembled lib cfg srv g send auth"
  shows "BuildRunnable (lb_compile lib) world_runtime (NewChatbotGraph (main_model lib cfg) (main_registry lib cfg)) = Inr g"
    "su_engine send = chatbot_engine world_runtime g" "su_llm send = main_model lib cfg" "su_convRepo send = ConversationRepository"
    "su_msgRepo send = MessageRepository" "vu_tokenRepo auth = TokenRepository" "vu_userRepo auth = UserRepository"
  using assms by (simp_all add: assembled_def)

lemma assembled_handlers:
  assumes "assembled lib cfg srv g send auth"
  shows "hc_sendMessage (ms_chat srv) = SendMessage_Execute world_runtime send" "hc_sendStream (ms_chat srv) = SendMessage_ExecuteStream send"
    "hc_approveAction (ms_chat srv) = ApproveAction_Execute world_runtime
      \<lparr>au_convRepo = ConversationRepository, au_msgRepo = MessageRepository, au_engine = chatbot_engine world_runtime g\<rparr>"
    "hc_getConversation (ms_chat srv) = GetConversation_Execute ConversationRepository MessageRepository"
    "hc_listConversations (ms_chat srv) = ListConversations_Execute ConversationRepository"
    "th_executeTool (ms_tools srv) = ExecuteTool_Execute world_runtime (main_registry lib cfg)"
    "ah_login (ms_auth srv) = Login_Execute world_runtime (lb_jwt lib) (lb_sha256 lib) format_uuid (lb_bcrypt lib) auth"
    "ah_refresh (ms_auth srv) = RefreshToken_Execute world_runtime (lb_jwt lib) auth"
    "ah_createUser (ms_auth srv) = CreateUser_Execute world_runtime (lb_bcrypt lib) UserRepository"
    "ms_validate srv = ValidateToken_Execute world_runtime (lb_jwt lib) (lb_sha256 lib) auth"
    "ms_health srv = \<lparr>hh_db_Ping = lb_db_Ping lib, hh_redis = lb_redis lib\<rparr>"
  using assms by (simp_all add: assembled_def)

lemma main_server_parts:
  assumes "main_server lib cfg = Inr srv"
  shows "\<exists>g send auth. assembled lib cfg srv g send auth"
proof -
  obtain g where g: "BuildRunnable (lb_compile lib) world_runtime (NewChatbotGraph (main_model lib cfg) (main_registry lib cfg)) = Inr g"
    using assms by (auto simp: main_server_def main_model_def main_registry_def Let_def simp del: RegisterAll.simps split: sum.splits)
  let ?send = "NewSendMessageUseCase ConversationRepository MessageRepository (main_model lib cfg) (chatbot_engine world_runtime g) (gc_DefaultModel (cfg_LLM cfg))"
  let ?auth = "\<lparr>vu_tokenRepo = TokenRepository, vu_userRepo = UserRepository,
      vu_jwtMgr = NewJWTManager (jc_Secret (cfg_JWT cfg)) (jc_AccessTokenTTL (cfg_JWT cfg)) (jc_RefreshTokenTTL (cfg_JWT cfg))\<rparr>"
  have "su_engine ?send = chatbot_engine world_runtime g \<and> su_llm ?send = main_model lib cfg \<and> su_convRepo ?send = ConversationRepository
      \<and> su_msgRepo ?send = MessageRepository"
    by (simp add: NewSendMessageUseCase_def)
  with g show ?thesis
    unfolding assembled_def
    by (intro exI [of _ g] exI [of _ ?send] exI [of _ ?auth])
      (use assms g in \<open>auto simp: main_server_def main_model_def main_registry_def Let_def simp del: RegisterAll.simps\<close>)
qed

section \<open>Relations that reading respects\<close>

locale quiet_relation = step_relation R
  for R :: "'x world_scheme \<Rightarrow> 'x world_scheme \<Rightarrow> bool" +
  assumes same: "database w' = database w \<Longrightarrow> R w w'"
begin

lemma preserves_same: "keeps database m \<Longrightarrow> preserves R m"
  by (simp add: preserves_def keeps_def same)

lemma preserves_clock: "preserves R (stateG (rt_now world_runtime))" "preserves R (stateG (rt_uuid world_runtime))"
  "preserves R (stateG (rt_range world_runtime ks))"
  by (simp_all add: preserves_def world_runtime_def same)

lemma preserves_read: "preserves R (run_sql (query f))" "preserves R (no_rows_or a b (run_sql (query_row h)))"
  by (intro preserves_same keeps_query no_rows_or_keeps; simp)+

lemmas quiet_steps = preserves_steps preserves_clock preserves_read

lemma library_steps:
  assumes "quiet_libraries lib"
  shows "preserves R (lb_http_do lib rq)" "preserves R (lb_http_stream lib rq)" "preserves R (rc_Incr (lb_redis lib) k)"
    "preserves R (rc_Expire (lb_redis lib) k ttl)" "preserves R (rc_Ping (lb_redis lib))" "preserves R (lb_db_Ping lib)"
    "preserves R (bc_Generate (lb_bcrypt lib) p)"
  using assms by (simp_all add: quiet_libraries_def preserves_same)

lemma model_steps:
  assumes "quiet_libraries lib"
  shows "preserves R (llm_Chat (main_model lib cfg) rq)" "preserves R (llm_ChatStream (main_model lib cfg) rq)"
  by (auto simp: main_model_def litellm_provider_def Client_Chat_def Client_ChatStream_def intro!: quiet_steps library_steps [OF assms])

lemma tools_steps:
  assumes "quiet_libraries lib" "Registry_Get (main_registry lib cfg) n = Some t"
  shows "preserves R (tl_Execute t args)"
proof -
  from assms(2) consider "t = CalculatorTool (lb_parse_expr lib) (lb_parse_float lib)"
    | "t = WebSearchTool (lb_http_do lib) (xc_WebSearchAPIKey (cfg_Tools cfg))"
    by (auto simp: main_registry_def Get_Register NewToolRegistry_def Registry_Get_def [of "\<lparr>tr_tools = []\<rparr>"] split: if_splits)
  then show ?thesis
    by cases (auto simp: CalculatorTool_def calc_Execute_def WebSearchTool_def web_Execute_def Let_def
        intro!: quiet_steps library_steps [OF assms(1)])
qed

lemma ExecuteTool_steps:
  assumes "\<And>n t args. Registry_Get reg n = Some t \<Longrightarrow> preserves R (tl_Execute t args)"
  shows "preserves R (ExecuteTool_Execute world_runtime reg call u tok)"
  unfolding ExecuteTool_Execute_def Let_def
  by (auto split: option.split sum.split intro!: quiet_steps assms)

lemma engine_steps:
  assumes "BuildRunnable (lb_compile lib) world_runtime (NewChatbotGraph (main_model lib cfg) (main_registry lib cfg)) = Inr g" "quiet_libraries lib"
  shows "preserves R (we_Run (chatbot_engine world_runtime g) inp)" "preserves R (we_Resume (chatbot_engine world_runtime g) chk b)"
proof -
  let ?g = "NewChatbotGraph (main_model lib cfg) (main_registry lib cfg)"
  obtain invoke where inv: "lb_compile lib (build world_runtime ?g) = Inr invoke" and g: "g = ?g\<lparr>cg_runnable := Some invoke\<rparr>"
    using assms(1) by (auto simp: BuildRunnable_def split: sum.splits)
  have "build world_runtime g = build world_runtime ?g"
    by (simp add: g build_def routerNode_def [abs_def] thinkNode_def [abs_def] actNode_def [abs_def] NewChatbotGraph_def)
  with inv assms(2) have "compiled_graph (build world_runtime g) invoke" by (simp add: quiet_libraries_def)
  moreover have "steady_runtime world_runtime" by (simp add: steady_runtime_def preserves_clock del: stateG_apply)
  moreover have "steady_chatbot g"
    using model_steps [OF assms(2)] tools_steps [OF assms(2)] by (simp add: steady_chatbot_def g NewChatbotGraph_def)
  ultimately show "preserves R (we_Run (chatbot_engine world_runtime g) inp)" "preserves R (we_Resume (chatbot_engine world_runtime g) chk b)"
    using chatbot_steps [of world_runtime g invoke] by (simp_all add: g)
qed

end

section \<open>Users and tokens\<close>

locale identity_relation = quiet_relation R
  for R :: "'x world_scheme \<Rightarrow> 'x world_scheme \<Rightarrow> bool" +
  assumes create_user: "preserves R (UserRepository_Create u)" and create_token: "preserves R (TokenRepository_Create t)"
    and use_token: "preserves R (TokenRepository_UpdateLastUsed i)"
begin

lemma identity_steps:
  "preserves R (ur_Create UserRepository u)" "preserves R (ur_FindByID UserRepository i)"
  "preserves R (ur_FindByEmail UserRepository em)" "preserves R (kr_Create TokenRepository t)"
  "preserves R (kr_FindByHash TokenRepository h)" "preserves R (kr_FindByID TokenRepository i)"
  "preserves R (kr_UpdateLastUsed TokenRepository i)"
  by (simp_all add: UserRepository_def UserRepository_FindByID_def UserRepository_FindByEmail_def TokenRepository_def
      TokenRepository_FindByHash_def TokenRepository_FindByID_def scanToken_def preserves_read create_user create_token use_token)

lemmas user_steps = quiet_steps identity_steps

lemma auth_steps:
  assumes "vu_tokenRepo uc = TokenRepository" "vu_userRepo uc = UserRepository"
  shows "preserves R (ValidateToken_Execute world_runtime lib sha uc tok)" "preserves R (RefreshToken_Execute world_runtime lib uc tok)"
    "preserves R (Login_Execute world_runtime lib sha txt bc uc inp)"
proof -
  have tok: "preserves R (ValidateToken world_runtime lib m t)" for m t
    unfolding ValidateToken_def by (intro user_steps)
  have new: "preserves R (GenerateAPIKey world_runtime txt)" "preserves R (GenerateAccessToken world_runtime lib m u t)"
    "preserves R (GenerateRefreshToken world_runtime lib m u t)" for m u t
    unfolding GenerateAPIKey_def GenerateAccessToken_def GenerateRefreshToken_def generate_token_def Let_def by (intro user_steps)+
  show "preserves R (ValidateToken_Execute world_runtime lib sha uc tok)"
    unfolding ValidateToken_Execute_def validateAPIKey_def validateJWT_def check_token_def assms by (intro user_steps tok)
  show "preserves R (RefreshToken_Execute world_runtime lib uc tok)"
    unfolding RefreshToken_Execute_def assms by (intro user_steps tok new)
  show "preserves R (Login_Execute world_runtime lib sha txt bc uc inp)"
    unfolding Login_Execute_def assms Let_def by (intro user_steps new)
qed

lemma CreateUser_steps:
  assumes "\<And>p. preserves R (bc_Generate bc p)"
  shows "preserves R (CreateUser_Execute world_runtime bc UserRepository inp)"
  unfolding CreateUser_Execute_def Let_def by (intro user_steps assms)

end

section \<open>Conversations and messages\<close>

locale program_relation = identity_relation R
  for R :: "'x world_scheme \<Rightarrow> 'x world_scheme \<Rightarrow> bool" +
  assumes create_conversation: "preserves R (ConversationRepository_Create c)" and update_conversation: "preserves R (ConversationRepository_Update c)"
    and update_state: "preserves R (ConversationRepository_UpdateWorkflowState i st)" and create_message: "preserves R (MessageRepository_Create m)"
begin

lemma conversation_steps:
  "preserves R (cr_Create ConversationRepository c)" "preserves R (cr_Update ConversationRepository c)"
  "preserves R (cr_UpdateWorkflowState ConversationRepository i st)" "preserves R (cr_FindByID ConversationRepository i)"
  "preserves R (cr_FindByUserID ConversationRepository u filt)" "preserves R (cr_CountByUserID ConversationRepository u)"
  "preserves R (mr_Create MessageRepository m)" "preserves R (mr_FindByConversationID MessageRepository i)"
proof -
  show "preserves R (cr_FindByUserID ConversationRepository u filt)"
    unfolding ConversationRepository_def conversation_repository.simps ConversationRepository_FindByUserID_def
    by (intro preserves_same keeps_wrapG keeps_read) (auto simp: Let_def split: option.splits)
qed (simp_all add: ConversationRepository_def ConversationRepository_FindByID_def ConversationRepository_CountByUserID_def MessageRepository_def
    MessageRepository_FindByConversationID_def queryMessages_def create_conversation update_conversation update_state create_message
    preserves_read wrapG_preserves)

lemmas chat_steps = user_steps conversation_steps

lemma message_steps:
  "preserves R (new_user_message world_runtime i s)" "preserves R (new_assistant_message world_runtime i s cs md)"
  "preserves R (new_conversation world_runtime u ag)"
  unfolding new_user_message_def new_assistant_message_def new_conversation_def by (intro chat_steps)+

lemma SendMessage_steps:
  assumes "su_convRepo uc = ConversationRepository" "su_msgRepo uc = MessageRepository" "\<And>inp. preserves R (we_Run (su_engine uc) inp)"
    and "\<And>rq. preserves R (llm_Chat (su_llm uc) rq)"
  shows "preserves R (SendMessage_Execute world_runtime uc input)"
proof -
  have "preserves R (send_stateless uc input)" unfolding send_stateless_def by (intro chat_steps assms(4))
  moreover have "preserves R (send_conversation world_runtime uc input)"
    unfolding send_conversation_def assms Let_def by (intro chat_steps message_steps)
  moreover have "preserves R (send_paused world_runtime uc conv result)" for conv result
    unfolding send_paused_def assms by (intro chat_steps)
  moreover have "preserves R (send_finished world_runtime uc input conv result)" for conv result
    unfolding send_finished_def assms Let_def by (intro chat_steps message_steps)
  ultimately show ?thesis
    unfolding SendMessage_Execute_def assms(1,2) by (intro chat_steps message_steps assms(3))
qed

lemma ApproveAction_steps:
  assumes "au_convRepo uc = ConversationRepository" "au_msgRepo uc = MessageRepository" "\<And>chk b. preserves R (we_Resume (au_engine uc) chk b)"
  shows "preserves R (ApproveAction_Execute world_runtime uc input)"
proof -
  have "preserves R (approve_message world_runtime uc conv result)" for conv result
    unfolding approve_message_def assms by (intro chat_steps message_steps)
  moreover have "preserves R (approve_decision world_runtime uc input conv result)" for conv result
    unfolding approve_decision_def assms by (intro chat_steps)
  ultimately show ?thesis
    unfolding ApproveAction_Execute_def assms(1,2) Let_def by (intro chat_steps assms(3))
qed

lemma reads_steps:
  "preserves R (GetConversation_Execute ConversationRepository MessageRepository i u)" "preserves R (ListConversations_Execute ConversationRepository u)"
  unfolding GetConversation_Execute_def ListConversations_Execute_def by (intro chat_steps)+

text \<open>Every use case behind a handler.\<close>

definition steady_server :: "('x world_scheme) server \<Rightarrow> bool" where
  "steady_server srv \<longleftrightarrow> (\<forall>inp. preserves R (hc_sendMessage (ms_chat srv) inp)) \<and> (\<forall>inp. preserves R (hc_sendStream (ms_chat srv) inp))
     \<and> (\<forall>inp. preserves R (hc_approveAction (ms_chat srv) inp)) \<and> (\<forall>i u. preserves R (hc_getConversation (ms_chat srv) i u))
     \<and> (\<forall>u. preserves R (hc_listConversations (ms_chat srv) u)) \<and> (\<forall>tc u t. preserves R (th_executeTool (ms_tools srv) tc u t))
     \<and> (\<forall>inp. preserves R (ah_login (ms_auth srv) inp)) \<and> (\<forall>t. preserves R (ah_refresh (ms_auth srv) t))
     \<and> (\<forall>inp. preserves R (ah_createUser (ms_auth srv) inp)) \<and> (\<forall>t. preserves R (ms_validate srv t))
     \<and> preserves R (hh_db_Ping (ms_health srv)) \<and> preserves R (rc_Ping (hh_redis (ms_health srv)))"

lemma main_server_steps:
  assumes "main_server lib cfg = Inr srv" "quiet_libraries lib"
  shows "steady_server srv"
proof -
  obtain g send auth where main: "assembled lib cfg srv g send auth" using main_server_parts [OF assms(1)] by blast
  note g = assembledD(1) [OF main] and send = assembledD(2-5) [OF main] and auth = assembledD(6,7) [OF main] and parts = assembled_handlers [OF main]
  note engine = engine_steps [OF g assms(2)] and model = model_steps [OF assms(2)] and lib = library_steps [OF assms(2)]
  show ?thesis
    unfolding steady_server_def parts health_handler.simps SendMessage_ExecuteStream_def
    by (intro conjI allI SendMessage_steps ApproveAction_steps reads_steps auth_steps CreateUser_steps ExecuteTool_steps lib)
      (simp_all only: send auth approve_usecase.simps engine model tools_steps [OF assms(2)])
qed

end

section \<open>Requests\<close>

sublocale quiet_relation \<subseteq> served: step_relation "\<lambda>s s'. R (sv_World s) (sv_World s')"
  by unfold_locales (blast intro: refl trans)+

context program_relation
begin

abbreviation serves :: "(('x world_scheme) served, 'a) go \<Rightarrow> bool" where
  "serves \<equiv> preserves (\<lambda>s s'. R (sv_World s) (sv_World s'))"

lemma serves_lift: "preserves R m \<Longrightarrow> serves (liftG m)"
  by (simp add: preserves_def liftG_def split_beta)

lemma serves_writer: "serves (writerG f)"
  by (simp add: preserves_def refl)

lemma serves_responses:
  "serves (response_JSON st d)" "serves (response_Error st c m)" "serves response_Stream" "serves (SSEData x)" "serves (SSEEvent ev t)"
  unfolding response_JSON_def response_Error_def response_Stream_def SSEData_def SSEEvent_def by (rule serves_writer)+

lemma serves_answer: "preserves R m \<Longrightarrow> (\<And>e. serves (h e)) \<Longrightarrow> (\<And>x. serves (k x)) \<Longrightarrow> serves (answer m h k)"
  unfolding answer_def by (intro served.preserves_steps serves_lift)

lemma serves_body: "(\<And>x. serves (k x)) \<Longrightarrow> serves (with_body dec msg r k)"
  unfolding with_body_def by (intro served.preserves_steps serves_responses)

lemma serves_conversation_id: "(\<And>x. serves (k x)) \<Longrightarrow> serves (with_conversation_id r k)"
  unfolding with_conversation_id_def by (intro served.preserves_steps serves_responses)

lemma serves_user_id: "(\<And>x. serves (k x)) \<Longrightarrow> serves (with_user_id r k)"
  unfolding with_user_id_def by (intro served.preserves_steps)

lemma serves_stream_loop: "serves (stream_loop es)"
proof (induction es)
  case (Cons e es)
  then show ?case
    unfolding stream_loop.simps by (intro served.preserves_steps serves_responses)
qed (simp add: served.preserves_basic del: returnG_apply)

lemma serves_batch_loop:
  assumes "\<And>tc u t. preserves R (th_executeTool h tc u t)"
  shows "serves (batch_loop h r calls order results)"
proof (induction order arbitrary: results)
  case (Cons i order)
  let ?call = "attemptG (liftG (th_executeTool h (calls ! i) (GetUserFromContext r) (GetTokenFromContext r)))"
  show ?case
  proof (rule preservesI)
    fix s
    obtain o1 s1 where run: "?call s = (o1, s1)" by fastforce
    moreover have "serves ?call" by (intro served.preserves_steps serves_lift assms)
    ultimately have "R (sv_World s) (sv_World s1)" by (rule preservesD [rotated])
    with run Cons.IH show "R (sv_World s) (sv_World (snd (batch_loop h r calls (i # order) results s)))"
      using trans by (auto simp: preserves_def split: outcome.split sum.split)
  qed
qed (simp add: served.preserves_basic del: returnG_apply)

lemmas serve_steps = served.preserves_steps serves_lift serves_writer serves_responses serves_answer serves_body serves_conversation_id
  serves_user_id serves_stream_loop

lemma steady_serverD:
  assumes "steady_server srv"
  shows "preserves R (hc_sendMessage (ms_chat srv) inp)" "preserves R (hc_sendStream (ms_chat srv) inp)"
    "preserves R (hc_approveAction (ms_chat srv) ainp)" "preserves R (hc_getConversation (ms_chat srv) i u)"
    "preserves R (hc_listConversations (ms_chat srv) u)" "preserves R (th_executeTool (ms_tools srv) tc v tok)"
    "preserves R (ah_login (ms_auth srv) l)" "preserves R (ah_refresh (ms_auth srv) t)" "preserves R (ah_createUser (ms_auth srv) c)"
    "preserves R (ms_validate srv t)" "preserves R (hh_db_Ping (ms_health srv))" "preserves R (rc_Ping (hh_redis (ms_health srv)))"
  using assms unfolding steady_server_def by blast+

lemma serves_endpoint:
  assumes "steady_server srv"
  shows "serves (endpoint_handler world_runtime lib srv ep r)"
proof -
  note steps = steady_serverD [OF assms]
  show ?thesis
    by (cases ep; simp only: endpoint_handler.simps HealthHandler_Health_def HealthHandler_Ready_def AuthHandler_Register_def AuthHandler_Login_def
        AuthHandler_RefreshToken_def ChatHandler_ChatCompletions_def handleStreamingChat_def ChatHandler_CreateConversation_def
        ChatHandler_ListConversations_def ChatHandler_GetConversation_def ChatHandler_SendMessage_def ChatHandler_ApproveAction_def
        ToolHandler_ListTools_def ListForToken_def Registry_List_def range_tools_def ToolHandler_ExecuteTool_def ToolHandler_ExecuteToolBatch_def;
      intro serve_steps serves_batch_loop steps quiet_steps)
qed

lemma serves_Limit: "quiet_libraries lib \<Longrightarrow> serves (next r) \<Longrightarrow> serves (Limit world_runtime (lb_redis lib) next r)"
  unfolding Limit_def counted_def by (intro serve_steps quiet_steps library_steps)

lemma serves_Authenticate:
  "(\<And>t. preserves R (validate t)) \<Longrightarrow> (\<And>r. serves (next r)) \<Longrightarrow> serves (Authenticate validate next r)"
  unfolding Authenticate_def Let_def by (intro serve_steps)

lemma serves_CORS: "serves (next r) \<Longrightarrow> serves (CORS next r)"
  unfolding CORS_def by (intro serve_steps)

lemma serves_Recoverer: "serves (next r) \<Longrightarrow> serves (Recoverer next r)"
  by (auto simp: preserves_def Recoverer_def response_Error_def split: prod.splits outcome.splits) (metis snd_conv)+

lemma serves_route:
  assumes "steady_server srv" "quiet_libraries lib"
  shows "serves (route world_runtime lib srv r)"
proof -
  have "serves (other_paths lib r)"
    using assms(2) by (auto simp: quiet_libraries_def other_paths_def preserves_def keeps_def intro: same)
  moreover have "serves (endpoint_chain world_runtime lib srv ep r)" for ep r
  proof -
    have "serves ((if ms_rateLimit srv then Limit world_runtime (lb_redis lib) (endpoint_handler world_runtime lib srv ep)
        else endpoint_handler world_runtime lib srv ep) r)" for r
      by (simp add: serves_Limit serves_endpoint assms)
    then show ?thesis
      by (simp add: endpoint_chain_def Let_def serves_Authenticate serves_endpoint steady_serverD(10) assms)
  qed
  ultimately show ?thesis
    by (auto simp: route_def split: option.split)
qed

text \<open>Whatever a request does and however it ends, the worlds before and after are related.\<close>

lemma request_steps:
  assumes "main_server lib cfg = Inr srv" "quiet_libraries lib" "handle_request world_runtime lib srv r w = (out, s')"
  shows "R w (sv_World s')"
  using assms(3)
proof (rule handle_request_run)
  fix s1 s2
  assume rec: "Recoverer (CORS (route world_runtime lib srv)) (lb_router_pre lib r) s1 = (out, s2)"
    and s1: "sv_World s1 = snd (rt_now world_runtime w)" and s2: "sv_World s' = sv_World s2 \<or> sv_World s' = snd (rt_now world_runtime (sv_World s2))"
  have "serves (Recoverer (CORS (route world_runtime lib srv)) (lb_router_pre lib r))"
    by (intro serves_Recoverer serves_CORS serves_route main_server_steps [OF assms(1,2)] assms(2))
  then have "R (sv_World s1) (sv_World s2)" using rec by (rule preservesD)
  moreover have "R v (snd (rt_now world_runtime v))" for v by (simp add: world_runtime_def same)
  ultimately show ?thesis using s1 s2 trans by metis
qed

end

text \<open>Requests served one after the other.\<close>

fun serve_all :: "'w runtime \<Rightarrow> 'w libraries \<Rightarrow> 'w server \<Rightarrow> server_request list \<Rightarrow> 'w \<Rightarrow> 'w" where
  "serve_all rt lib srv [] w = w"
| "serve_all rt lib srv (r # rs) w = serve_all rt lib srv rs (sv_World (snd (handle_request rt lib srv r w)))"

context program_relation
begin

lemma serve_all_steps:
  assumes "main_server lib cfg = Inr srv" "quiet_libraries lib"
  shows "R w (serve_all world_runtime lib srv rs w)"
proof (induction rs arbitrary: w)
  case (Cons r rs)
  obtain out s' where run: "handle_request world_runtime lib srv r w = (out, s')" by fastforce
  show ?case using trans [OF request_steps [OF assms run] Cons.IH] run by simp
qed (simp add: refl)

end

end
