(* ===== verification/Http_Isolation.thy ===== *)
theory Http_Isolation
  imports Isolation Request_Steps
begin

text \<open>
  Tenants: a request reaches the conversations of the user its credential belongs to and no
  others. The frames of the use cases are lifted to the handlers, the middleware and the
  program that main constructs.
\<close>

section \<open>Frames of a request being served\<close>

abbreviation served_part :: "('w \<Rightarrow> 'v) \<Rightarrow> 'w served \<Rightarrow> 'v" where
  "served_part f s \<equiv> f (sv_World s)"

lemma keeps_lift: "keeps f m \<Longrightarrow> keeps (served_part f) (liftG m)"
  by (simp add: keeps_def liftG_def split_beta)

lemma keeps_when_lift: "keeps_when P f m \<Longrightarrow> keeps_when P (served_part f) (liftG m)"
  by (simp add: keeps_when_def liftG_def split_beta)

lemma keeps_writer: "keeps (served_part f) (writerG g)"
  by (simp add: keeps_def)

lemma keeps_responses:
  "keeps (served_part f) (response_JSON st d)" "keeps (served_part f) (response_Error st c m)" "keeps (served_part f) response_Stream"
  "keeps (served_part f) (SSEData x)" "keeps (served_part f) (SSEEvent ev t)"
  unfolding response_JSON_def response_Error_def response_Stream_def SSEData_def SSEEvent_def by (rule keeps_writer)+

lemma keeps_when_answer:
  "keeps_when P f m \<Longrightarrow> (\<And>e. keeps (served_part f) (h e)) \<Longrightarrow> (\<And>x. keeps (served_part f) (k x)) \<Longrightarrow> keeps_when P (served_part f) (answer m h k)"
  unfolding answer_def
  by (intro keeps_when_bind keeps_when_attempt keeps_when_lift) (auto split: sum.split intro: keeps_imp_when)

lemma keeps_when_body: "(\<And>x. keeps_when P (served_part f) (k x)) \<Longrightarrow> keeps_when P (served_part f) (with_body dec msg r k)"
  by (simp add: with_body_def keeps_imp_when keeps_responses split: option.split)

lemma keeps_when_conversation_id:
  "(\<And>x. keeps_when P (served_part f) (k x)) \<Longrightarrow> keeps_when P (served_part f) (with_conversation_id r k)"
  by (simp add: with_conversation_id_def keeps_imp_when keeps_responses split: option.split)

lemma keeps_stream_loop: "keeps (served_part f) (stream_loop es)"
proof (induction es)
  case (Cons e es)
  then show ?case
    by (cases "se_Error e"; cases "se_Done e")
      (simp_all only: stream_loop.simps option.case if_True if_False keeps_responses keeps_bindG keeps_basic)
qed (simp add: keeps_def)

lemma keeps_batch_loop:
  assumes "\<And>tc u t. keeps f (th_executeTool h tc u t)"
  shows "keeps (served_part f) (batch_loop h r calls order results)"
proof (induction order arbitrary: results)
  case (Cons i order)
  have call: "keeps (served_part f) (attemptG (liftG (th_executeTool h (calls ! i) (GetUserFromContext r) (GetTokenFromContext r))))"
    by (intro keeps_attemptG keeps_lift assms)
  show ?case
  proof (rule keepsI)
    fix s
    obtain o1 s1 where run: "attemptG (liftG (th_executeTool h (calls ! i) (GetUserFromContext r) (GetTokenFromContext r))) s = (o1, s1)"
      by fastforce
    with keepsD [OF call run] Cons.IH show "served_part f (snd (batch_loop h r calls (i # order) results s)) = served_part f s"
      by (auto simp: keeps_def split: outcome.split sum.split)
  qed
qed simp

section \<open>The slot of a conversation\<close>

text \<open>Its live row and its messages.\<close>

definition slot_of :: "uuid \<Rightarrow> 'x world_scheme \<Rightarrow> conversation option \<times> message list" where
  "slot_of j w = (pg_conv_of w j, pg_msgs_of w j)"

lemma slot_of_tables: "w_conversations w' = w_conversations w \<Longrightarrow> w_messages w' = w_messages w \<Longrightarrow> slot_of j w' = slot_of j w"
  by (simp add: slot_of_def pg_conv_of_def pg_msgs_of_def live_conversations_def conversation_messages_def)

lemma slot_of_tick [simp]: "slot_of j (tick w) = slot_of j w"
  by (rule slot_of_tables) simp_all

lemma slot_tables: "tables w' = tables w \<Longrightarrow> slot_of j w' = slot_of j w"
  by (rule slot_of_tables) (simp_all add: tables_def)

lemma slot_database: "database w' = database w \<Longrightarrow> slot_of j w' = slot_of j w"
  by (rule slot_tables) (rule tables_database)

text \<open>The model, the tools, the workflow and all that is done with users and tokens leave a slot as it is.\<close>

interpretation slot: identity_relation "\<lambda>w w'. slot_of j w' = slot_of j w" for j
proof
  fix w w' :: "'a world_scheme" and u t i
  show "database w' = database w \<Longrightarrow> slot_of j w' = slot_of j w" by (rule slot_database)
  show "preserves (\<lambda>w w'. slot_of j w' = slot_of j w) (UserRepository_Create u)"
      "preserves (\<lambda>w w'. slot_of j w' = slot_of j w) (TokenRepository_Create t)"
    unfolding preserves_keeps UserRepository_Create_def TokenRepository_Create_def
    by (intro keeps_wrapG keeps_command; (rule slot_of_tables)?; simp)+
  have clock: "keeps (slot_of j) (stateG (rt_now world_runtime))" by (simp add: keeps_def world_runtime_def)
  show "preserves (\<lambda>w w'. slot_of j w' = slot_of j w) (TokenRepository_UpdateLastUsed i)"
    unfolding preserves_keeps TokenRepository_UpdateLastUsed_def update_tokens_def
    by (rule keeps_bindG [OF clock], intro keeps_wrapG keeps_command; (rule slot_of_tables)?; simp)
qed simp_all

lemmas slot_frames = slot.auth_steps [unfolded preserves_keeps] slot.CreateUser_steps [unfolded preserves_keeps]
  slot.engine_steps [unfolded preserves_keeps] slot.model_steps [unfolded preserves_keeps] slot.library_steps [unfolded preserves_keeps]
  slot.ExecuteTool_steps [unfolded preserves_keeps] slot.tools_steps [unfolded preserves_keeps] slot.preserves_clock [unfolded preserves_keeps]

section \<open>The handlers\<close>

text \<open>What the use cases behind the handlers leave alone.\<close>

definition isolates :: "('x world_scheme) server \<Rightarrow> bool" where
  "isolates srv \<longleftrightarrow> (\<forall>j.
     (\<forall>inp. keeps_when (foreign (si_UserID inp)) (slot_of j) (hc_sendMessage (ms_chat srv) inp))
     \<and> (\<forall>inp. keeps_when (foreign (ai_UserID inp)) (slot_of j) (hc_approveAction (ms_chat srv) inp))
     \<and> (\<forall>inp. keeps (slot_of j) (hc_sendStream (ms_chat srv) inp)) \<and> (\<forall>i u. keeps (slot_of j) (hc_getConversation (ms_chat srv) i u))
     \<and> (\<forall>u. keeps (slot_of j) (hc_listConversations (ms_chat srv) u)) \<and> (\<forall>tc u t. keeps (slot_of j) (th_executeTool (ms_tools srv) tc u t))
     \<and> (\<forall>inp. keeps (slot_of j) (ah_login (ms_auth srv) inp)) \<and> (\<forall>t. keeps (slot_of j) (ah_refresh (ms_auth srv) t))
     \<and> (\<forall>inp. keeps (slot_of j) (ah_createUser (ms_auth srv) inp)) \<and> (\<forall>t. keeps (slot_of j) (ms_validate srv t))
     \<and> keeps (slot_of j) (hh_db_Ping (ms_health srv)) \<and> keeps (slot_of j) (rc_Ping (hh_redis (ms_health srv))))"

lemma main_server_isolates:
  assumes "main_server lib cfg = Inr srv" "quiet_libraries lib"
  shows "isolates srv"
proof -
  obtain g send auth where main: "assembled lib cfg srv g send auth" using main_server_parts [OF assms(1)] by blast
  note g = assembledD(1) [OF main] and send = assembledD(2-5) [OF main] and auth = assembledD(6,7) [OF main] and parts = assembled_handlers [OF main]
  have slot: "slot_of j = pg_isolated.slot j" for j by (simp add: slot_of_def [abs_def])
  note engine = slot_frames(5,6) [OF g assms(2)] and model = slot_frames(7,8) [OF assms(2)]
  have "keeps_when (foreign (si_UserID inp)) (slot_of j) (hc_sendMessage (ms_chat srv) inp)" for j inp
    unfolding parts slot by (rule pg_isolated.SendMessage_isolated) (simp_all only: send slot [symmetric] engine model)
  moreover have "keeps_when (foreign (ai_UserID inp)) (slot_of j) (hc_approveAction (ms_chat srv) inp)" for j inp
    unfolding parts slot by (rule pg_isolated.ApproveAction_isolated) (simp_all only: approve_usecase.simps slot [symmetric] engine)
  moreover have "keeps (slot_of j) (hc_getConversation (ms_chat srv) i u)" "keeps (slot_of j) (hc_listConversations (ms_chat srv) u)" for j i u
    unfolding parts slot by (rule pg_isolated.reads_isolated)+
  moreover have "keeps (slot_of j) (hc_sendStream (ms_chat srv) inp)" for j inp
    by (simp only: parts SendMessage_ExecuteStream_def send model)
  moreover have "keeps (slot_of j) (th_executeTool (ms_tools srv) tc u t)" for j tc u t
    unfolding parts by (rule slot.ExecuteTool_steps [unfolded preserves_keeps]) (rule slot.tools_steps [unfolded preserves_keeps, OF assms(2)])
  moreover have "keeps (slot_of j) (ms_validate srv t)" "keeps (slot_of j) (ah_refresh (ms_auth srv) t)" "keeps (slot_of j) (ah_login (ms_auth srv) l)"
      "keeps (slot_of j) (ah_createUser (ms_auth srv) c)" "keeps (slot_of j) (hh_db_Ping (ms_health srv))"
      "keeps (slot_of j) (rc_Ping (hh_redis (ms_health srv)))" for j t l c
    unfolding parts health_handler.simps by (intro slot_frames auth slot.library_steps [unfolded preserves_keeps, OF assms(2)])+
  ultimately show ?thesis
    unfolding isolates_def by simp
qed

lemma keeps_when_True: "keeps_when (\<lambda>_. True) f m = keeps f m"
  by (simp add: keeps_when_def keeps_def)

lemmas keeps_answer = keeps_when_answer [where P = "\<lambda>_. True", unfolded keeps_when_True]
  and keeps_body = keeps_when_body [where P = "\<lambda>_. True", unfolded keeps_when_True]

lemma isolatesD:
  assumes "isolates srv"
  shows "keeps_when (foreign (si_UserID inp)) (slot_of j) (hc_sendMessage (ms_chat srv) inp)"
    "keeps_when (foreign (ai_UserID ainp)) (slot_of j) (hc_approveAction (ms_chat srv) ainp)"
    "keeps (slot_of j) (hc_sendStream (ms_chat srv) inp)" "keeps (slot_of j) (hc_getConversation (ms_chat srv) i u)"
    "keeps (slot_of j) (hc_listConversations (ms_chat srv) u)" "keeps (slot_of j) (th_executeTool (ms_tools srv) tc v tok)"
    "keeps (slot_of j) (ah_login (ms_auth srv) l)" "keeps (slot_of j) (ah_refresh (ms_auth srv) t)"
    "keeps (slot_of j) (ah_createUser (ms_auth srv) c)" "keeps (slot_of j) (ms_validate srv t)"
    "keeps (slot_of j) (hh_db_Ping (ms_health srv))" "keeps (slot_of j) (rc_Ping (hh_redis (ms_health srv)))"
  using assms unfolding isolates_def by blast+

text \<open>The endpoints without a credential write to no conversation.\<close>

lemma public_handler_slot:
  assumes "isolates srv" "\<not> endpoint_protected ep"
  shows "keeps (served_part (slot_of j)) (endpoint_handler world_runtime lib srv ep r)"
proof -
  note frames = keeps_body keeps_answer keeps_responses isolatesD [OF assms(1)]
  have "keeps (served_part (slot_of j)) (HealthHandler_Health r)" "keeps (served_part (slot_of j)) (HealthHandler_Ready (ms_health srv) r)"
    "keeps (served_part (slot_of j)) (AuthHandler_Register (ms_auth srv) r)" "keeps (served_part (slot_of j)) (AuthHandler_Login (ms_auth srv) r)"
    "keeps (served_part (slot_of j)) (AuthHandler_RefreshToken (ms_auth srv) r)"
    unfolding HealthHandler_Health_def HealthHandler_Ready_def AuthHandler_Register_def AuthHandler_Login_def AuthHandler_RefreshToken_def
    by (intro frames)+
  then show ?thesis
    using assms(2) by (cases ep) (simp_all add: endpoint_protected_def protected_routes_def)
qed

text \<open>The others write to no conversation of anyone but the user in the request's context.\<close>

lemma protected_handler_slot:
  assumes "isolates srv" "sr_User r = Some u" "endpoint_protected ep"
  shows "keeps_when (foreign (u_ID u)) (served_part (slot_of j)) (endpoint_handler world_runtime lib srv ep r)"
proof -
  let ?keeps = "keeps_when (foreign (u_ID u)) (served_part (slot_of j))"
  have uid: "with_user_id r k = k (u_ID u)" for k :: "uuid \<Rightarrow> ('a world_scheme served, unit) go"
    by (simp add: with_user_id_def GetUserFromContext_def assms(2))
  have own: "keeps_when (foreign (u_ID u)) (slot_of j) (hc_sendMessage (ms_chat srv) ((send_message_input0 (u_ID u))\<lparr>si_Messages := ms, si_Model := md\<rparr>))"
    "keeps_when (foreign (u_ID u)) (slot_of j) (hc_sendMessage (ms_chat srv) ((send_message_input0 (u_ID u))\<lparr>si_Content := c, si_AgentType := ag\<rparr>))"
    "keeps_when (foreign (u_ID u)) (slot_of j) (hc_sendMessage (ms_chat srv) ((send_message_input0 (u_ID u))\<lparr>si_ConversationID := i, si_Content := c\<rparr>))"
    "keeps_when (foreign (u_ID u)) (slot_of j) (hc_approveAction (ms_chat srv) \<lparr>ai_ConversationID = ci, ai_UserID = u_ID u, ai_Approved = b, ai_Reason = rs\<rparr>)"
    for ms md c ag i ci b rs
    using isolatesD(1) [OF assms(1), of "(send_message_input0 (u_ID u))\<lparr>si_Messages := ms, si_Model := md\<rparr>" j]
      isolatesD(1) [OF assms(1), of "(send_message_input0 (u_ID u))\<lparr>si_Content := c, si_AgentType := ag\<rparr>" j]
      isolatesD(1) [OF assms(1), of "(send_message_input0 (u_ID u))\<lparr>si_ConversationID := i, si_Content := c\<rparr>" j]
      isolatesD(2) [OF assms(1), of "\<lparr>ai_ConversationID = ci, ai_UserID = u_ID u, ai_Approved = b, ai_Reason = rs\<rparr>" j]
    by (simp_all add: send_message_input0_def)
  note frames = keeps_when_conversation_id keeps_when_body keeps_when_if keeps_when_answer own keeps_imp_when [OF keeps_responses(1)] keeps_responses
    keeps_when_bind keeps_bindG keeps_stream_loop keeps_imp_when [OF keeps_responses(3)] keeps_imp_when [OF isolatesD(3) [OF assms(1)]]
    keeps_imp_when [OF isolatesD(4) [OF assms(1)]] keeps_imp_when [OF isolatesD(5) [OF assms(1)]] keeps_imp_when [OF isolatesD(6) [OF assms(1)]]
  have "?keeps (ChatHandler_ChatCompletions (ms_chat srv) r)" "?keeps (ChatHandler_CreateConversation (ms_chat srv) r)"
    "?keeps (ChatHandler_ListConversations (ms_chat srv) r)" "?keeps (ChatHandler_GetConversation (ms_chat srv) r)"
    "?keeps (ChatHandler_SendMessage (ms_chat srv) r)" "?keeps (ChatHandler_ApproveAction (ms_chat srv) r)"
    "?keeps (ToolHandler_ExecuteTool (ms_tools srv) r)"
    unfolding ChatHandler_ChatCompletions_def handleStreamingChat_def ChatHandler_CreateConversation_def ChatHandler_ListConversations_def
      ChatHandler_GetConversation_def ChatHandler_SendMessage_def ChatHandler_ApproveAction_def ToolHandler_ExecuteTool_def uid
    by (intro frames)+
  moreover have "keeps (served_part (slot_of j)) (ToolHandler_ListTools world_runtime (ms_tools srv) r)"
    unfolding ToolHandler_ListTools_def ListForToken_def Registry_List_def range_tools_def
    by (auto split: option.split intro!: keeps_bindG keeps_lift keeps_responses slot.preserves_clock [unfolded preserves_keeps])
  moreover have "keeps (served_part (slot_of j)) (ToolHandler_ExecuteToolBatch (lb_schedule lib) (ms_tools srv) r)"
    unfolding ToolHandler_ExecuteToolBatch_def
    by (intro keeps_body keeps_bindG keeps_batch_loop isolatesD(6) [OF assms(1)] keeps_responses)
  ultimately show ?thesis
    using assms(3) by (cases ep) (simp_all add: endpoint_protected_def protected_routes_def keeps_imp_when)
qed

section \<open>A whole request\<close>

lemma Limit_slot:
  assumes "quiet_libraries lib" "keeps_when P (served_part (slot_of j)) (next r)"
  shows "keeps_when P (served_part (slot_of j)) (Limit world_runtime (lb_redis lib) next r)"
proof (cases "sr_Token r")
  case None
  then show ?thesis using assms(2) by (simp add: Limit_def)
next
  case (Some t)
  have "keeps (slot_of j) (counted (lb_redis lib) key ttl)" for key ttl
    unfolding preserves_keeps [symmetric] counted_def by (intro slot.quiet_steps slot.library_steps [OF assms(1)])
  then have "keeps_when P (served_part (slot_of j)) (liftG (counted (lb_redis lib) key ttl))" for key ttl
    by (intro keeps_imp_when keeps_lift)
  moreover have "keeps_when P (served_part (slot_of j)) (liftG (stateG (rt_now world_runtime)))"
    by (intro keeps_imp_when keeps_lift slot.preserves_clock [unfolded preserves_keeps])
  ultimately show ?thesis
    unfolding Limit_def Some option.case
    by (intro keeps_when_bind keeps_when_if keeps_imp_when [OF keeps_writer] keeps_imp_when [OF keeps_responses(2)] assms(2))
qed

text \<open>Every request whose route asks for no credential.\<close>

lemma request_slot_public:
  assumes "isolates srv" "quiet_libraries lib" "handle_request world_runtime lib srv r w = (out, s')"
    and "sr_Method (lb_router_pre lib r) = ''OPTIONS'' \<or> (\<forall>ep i. routed lib r = Some (ep, i) \<longrightarrow> \<not> endpoint_protected ep)"
  shows "slot_of j (sv_World s') = slot_of j w"
  using assms(3)
proof (rule handle_request_run)
  fix s1 s2
  let ?r = "lb_router_pre lib r"
  assume rec: "Recoverer (CORS (route world_runtime lib srv)) ?r s1 = (out, s2)" and s1: "sv_World s1 = snd (rt_now world_runtime w)"
    and s': "sv_World s' = sv_World s2 \<or> sv_World s' = snd (rt_now world_runtime (sv_World s2))"
  have "keeps (served_part (slot_of j)) (route world_runtime lib srv ?r)"
    if "\<forall>ep i. routed lib r = Some (ep, i) \<longrightarrow> \<not> endpoint_protected ep"
  proof -
    have "keeps (served_part database) (other_paths lib ?r)" using assms(2) by (simp add: quiet_libraries_def other_paths_def)
    then have "keeps (served_part (slot_of j)) (other_paths lib ?r)" unfolding keeps_def by (blast intro: slot_database)
    with that show ?thesis
      by (auto simp: route_def routed_def endpoint_chain_def public_handler_slot [OF assms(1)] split: option.split)
  qed
  with assms(4) have "keeps (served_part (slot_of j)) (CORS (route world_runtime lib srv) ?r)"
    unfolding CORS_def by (intro keeps_bindG keeps_writer) (auto simp: keeps_writer)
  moreover obtain o1 s3 where run1: "CORS (route world_runtime lib srv) ?r s1 = (o1, s3)" by fastforce
  ultimately have "slot_of j (sv_World s3) = slot_of j (sv_World s1)" by (rule keepsD)
  moreover have "sv_World s2 = sv_World s3" using Recoverer_world [of "CORS (route world_runtime lib srv)", OF run1] rec by simp
  ultimately have "slot_of j (sv_World s2) = slot_of j (sv_World s1)" by simp
  then show ?thesis using s1 s' by (auto simp: world_runtime_def)
qed

lemma request_slot_protected:
  assumes srv: "main_server lib cfg = Inr srv" "quiet_libraries lib" and run: "handle_request world_runtime lib srv r w = (out, s')"
    and ep: "routed lib r = Some (ep, i)" "endpoint_protected ep" and meth: "sr_Method (lb_router_pre lib r) \<noteq> ''OPTIONS''"
  shows "(\<forall>j. slot_of j (sv_World s') = slot_of j w)
    \<or> (\<exists>res w0 w1. ms_validate srv (bearer_token (Header_Get (lb_router_pre lib r) ''Authorization'')) w0 = (Ret res, w1) \<and> tables w0 = tables w
        \<and> vr_User res \<in> set (w_users w) \<and> u_IsActive (vr_User res)
        \<and> (\<forall>j. foreign (u_ID (vr_User res)) (slot_of j w) \<longrightarrow> slot_of j (sv_World s') = slot_of j w))"
  using handle_request_gate [OF srv(1) ep meth run]
proof (elim disjE exE conjE, goal_cases)
  case 1
  then show ?case using slot_tables by blast
next
  case (2 res w0 s1)
  let ?r = "with_identity res ((lb_router_pre lib r)\<lparr>sr_Param := i\<rparr>)"
  note iso = main_server_isolates [OF srv]
  have "keeps_when (foreign (u_ID (vr_User res))) (served_part (slot_of j)) (endpoint_handler world_runtime lib srv ep ?r)" for j
    by (rule protected_handler_slot [OF iso _ ep(2)]) (simp add: with_identity_def)
  then have handler: "keeps_when (foreign (u_ID (vr_User res))) (served_part (slot_of j)) (entered world_runtime lib srv ep ?r)" for j
    unfolding entered_def by (cases "ms_rateLimit srv") (simp_all add: Limit_slot [OF srv(2)])
  have s1: "slot_of j (sv_World s1) = slot_of j w" for j
    using keepsD [OF isolatesD(10) [OF iso] 2(1)] slot_tables [OF 2(2)] by simp
  have "slot_of j (sv_World s') = slot_of j w" if "foreign (u_ID (vr_User res)) (slot_of j w)" for j
  proof -
    from that s1 have "foreign (u_ID (vr_User res)) (slot_of j (sv_World s1))" by simp
    with handler [of j] have "slot_of j (sv_World (snd (entered world_runtime lib srv ep ?r s1))) = slot_of j (sv_World s1)"
      unfolding keeps_when_def by blast
    with slot_tables [OF 2(6), of j] s1 [of j] show ?thesis by simp
  qed
  moreover have "u_IsActive (vr_User res)" using 2(5) by (simp add: accepts_def)
  ultimately show ?case using 2(1,2,4) by blast
qed

end
