(* ===== verification/Litellm_Correct.thy ===== *)
theory Litellm_Correct
  imports Litellm Handlers State_Codec
begin

text \<open>
  The client against a conforming server: an answer is read back exactly, a stream of chunks
  becomes its events, and the streaming handler relays them. A stream always closes.
\<close>

section \<open>Printed JSON has no control characters\<close>

definition printable :: "string \<Rightarrow> bool" where
  "printable s \<longleftrightarrow> list_all (\<lambda>c. 32 \<le> (of_char c :: int)) s"

lemma printable_simps [simp]:
  "printable []" "printable (c # s) \<longleftrightarrow> 32 \<le> (of_char c :: int) \<and> printable s" "printable (s @ t) \<longleftrightarrow> printable s \<and> printable t"
  by (simp_all add: printable_def)

lemma printable_join: "printable d \<Longrightarrow> list_all printable xs \<Longrightarrow> printable (join_with d xs)"
  by (induction d xs rule: join_with.induct) auto

lemma hex_digit_printable: "0 \<le> n \<Longrightarrow> n < 16 \<Longrightarrow> 32 \<le> (of_char (hex_digit n) :: int)"
  by (simp add: hex_digit_def of_char_of)

lemma esc_char_printable: "printable (esc_char c)"
proof -
  have "0 \<le> (of_char c :: int)" "(of_char c :: int) < 256" by (rule of_char_bounds)+
  then show ?thesis by (auto simp: esc_char_def Let_def hex_digit_printable)
qed

lemma print_string_printable: "printable (print_string s)"
  by (induction s) (auto simp: print_string_def esc_char_printable)

lemma json_print_printable: "wf_json j \<Longrightarrow> printable (json_print j)"
proof (induction j)
  case (JNum s)
  then show ?case by (auto simp: printable_def list_all_iff is_num_char_def is_digit_def)
next
  case (JArr xs)
  then show ?case by (auto simp: list_all_iff intro!: printable_join)
next
  case (JObj kvs)
  then have "(k, v) \<in> set kvs \<Longrightarrow> printable (json_print v)" for k v by (fastforce simp: list_all_iff)
  then show ?case by (auto simp: list_all_iff print_string_printable intro!: printable_join)
qed (auto simp: print_string_printable)

lemma printable_no_newline: "printable s \<Longrightarrow> CHR 10 \<notin> set s"
  by (auto simp: printable_def list_all_iff)

section \<open>A conforming server's documents\<close>

definition choice_json :: "choice \<Rightarrow> json" where
  "choice_json c = JObj [(''index'', JNum (itoa (ch_Index c))), (''message'', chat_message_json (ch_Message c)),
     (''finish_reason'', JStr (ch_FinishReason c))]"

definition chat_response_json :: "chat_response \<Rightarrow> json" where
  "chat_response_json r = JObj [(''id'', JStr (rs_ID r)), (''object'', JStr (rs_Object r)), (''created'', JNum (itoa (rs_Created r))),
     (''model'', JStr (rs_Model r)), (''choices'', JArr (map choice_json (rs_Choices r))), (''usage'', usage_json (rs_Usage r))]"

definition chunk_choice_json :: "chunk_choice \<Rightarrow> json" where
  "chunk_choice_json c = JObj [(''index'', JNum ''0''),
     (''delta'', JObj [(''content'', JStr (kc_Content c)), (''tool_calls'', JArr (map tool_call_json (kc_ToolCalls c)))]),
     (''finish_reason'', if kc_FinishReason c = [] then JNull else JStr (kc_FinishReason c))]"

definition chunk_json :: "chunk \<Rightarrow> json" where
  "chunk_json ck = JObj [(''choices'', JArr (map chunk_choice_json (ck_Choices ck))),
     (''usage'', case ck_Usage ck of None \<Rightarrow> JNull | Some u \<Rightarrow> usage_json u)]"

lemma response_keys [simp]:
  "to_lower ''index'' = ''index''" "to_lower ''message'' = ''message''" "to_lower ''finish_reason'' = ''finish_reason''"
  "to_lower ''object'' = ''object''" "to_lower ''created'' = ''created''" "to_lower ''model'' = ''model''"
  "to_lower ''choices'' = ''choices''" "to_lower ''usage'' = ''usage''" "to_lower ''prompt_tokens'' = ''prompt_tokens''"
  "to_lower ''completion_tokens'' = ''completion_tokens''" "to_lower ''total_tokens'' = ''total_tokens''"
  "to_lower ''delta'' = ''delta''"
  by code_simp+

lemmas decoders = dec_obj_def dec_string_def dec_int_def json_int_itoa obj_field_Cons obj_field_Nil

lemma dec_usage_json: "dec_usage (usage_json u) = Some u"
  by (simp add: dec_usage_def usage_json_def decoders)

lemma dec_choice_json: "dec_choice (choice_json c) = Some c"
  by (simp add: dec_choice_def choice_json_def decoders dec_chat_message_json)

lemmas dec_list_choices = dec_list_encoded [of dec_choice choice_json, OF dec_choice_json]

lemma dec_chat_response_json: "dec_chat_response (chat_response_json r) = Some r"
  by (simp add: dec_chat_response_def chat_response_json_def decoders dec_list_choices dec_usage_json)

lemma dec_chunk_choice_json: "dec_chunk_choice (chunk_choice_json c) = Some c"
  by (simp add: dec_chunk_choice_def chunk_choice_json_def decoders dec_list_tool_calls)

lemmas dec_list_chunk_choices = dec_list_encoded [of dec_chunk_choice chunk_choice_json, OF dec_chunk_choice_json]

lemma usage_json_not_null: "usage_json u \<noteq> JNull"
  by (simp add: usage_json_def)

lemma dec_opt_usage: "dec_opt dec_usage (usage_json u) = Some (Some u)"
  using dec_usage_json [of u] usage_json_not_null [of u] by (auto simp: dec_opt_def split: json.split)

lemma dec_chunk_json: "dec_chunk (chunk_json ck) = Some ck"
  by (cases "ck_Usage ck") (simp_all add: dec_chunk_def chunk_json_def decoders dec_list_chunk_choices dec_opt_usage,
      simp_all add: dec_opt_def)

lemma wf_usage_json: "wf_json (usage_json u)"
  using itoa_wf by (simp add: usage_json_def)

lemma wf_chat_response_json: "wf_json (chat_response_json r)"
  using itoa_wf by (simp add: chat_response_json_def choice_json_def wf_chat_message_json wf_usage_json list_all_iff)

lemma wf_zero: "wf_json (JNum ''0'')"
  by code_simp

lemma wf_chunk_json: "wf_json (chunk_json ck)"
  using wf_zero by (auto simp: chunk_json_def chunk_choice_json_def wf_tool_call_json wf_usage_json list_all_iff split: option.split)

text \<open>A request without tools, tool choice and temperature always has its JSON.\<close>

lemma plain_request_json:
  assumes "rq_Tools req = []" "rq_ToolChoice req = ANil" "rq_Temperature req = FZero False"
  shows "\<exists>j. chat_request_json req = Some j"
  using assms by (simp add: chat_request_json_def any_member_def float_nonzero_def f_is_zero_def)

lemma decode_first_print: "wf_json j \<Longrightarrow> decode_first (json_print j) = Some j"
  using wf_json_parses [of j] by (auto simp: parses_def decode_first_def dest!: spec [of _ "Suc (length (json_print j))"] spec [of _ "[]"])

section \<open>Lines\<close>

lemma readSSE_line:
  assumes "CHR 10 \<notin> set l" "polls n = None"
  shows "readSSE polls err n (l @ CHR 10 # rest) = (case sse_line (trim_space l) of
     (events, True) \<Rightarrow> events | (events, False) \<Rightarrow> events @ readSSE polls err (Suc n) rest)"
proof -
  have "takeWhile (\<lambda>c. c \<noteq> CHR 10) (l @ CHR 10 # rest) = l" "dropWhile (\<lambda>c. c \<noteq> CHR 10) (l @ CHR 10 # rest) = CHR 10 # rest"
    using assms(1) by (auto simp: takeWhile_append dropWhile_append)
  with assms(2) show ?thesis by (subst readSSE.simps) simp
qed

lemma trim_space_id: "s \<noteq> [] \<Longrightarrow> \<not> is_space (hd s) \<Longrightarrow> \<not> is_space (last s) \<Longrightarrow> trim_space s = s"
proof -
  assume s: "s \<noteq> []" "\<not> is_space (hd s)" "\<not> is_space (last s)"
  then have "dropWhile is_space s = s" by (cases s) simp_all
  moreover have "dropWhile is_space (rev s) = rev s"
  proof (cases "rev s")
    case (Cons c t)
    then have "c = last s" by (metis list.sel(1) hd_rev)
    with s(3) show ?thesis unfolding Cons by simp
  qed simp
  ultimately show ?thesis by (simp add: trim_space_def)
qed

definition sse_frame :: "string \<Rightarrow> string" where
  "sse_frame s = ''data: '' @ s @ [CHR 10, CHR 10]"

lemma not_space [simp]: "\<not> is_space (CHR ''d'')" "\<not> is_space (CHR '']'')" "\<not> is_space (CHR 125)"
  by (simp_all add: is_space_def)

lemma readSSE_frame:
  assumes "printable s" "s \<noteq> []" "\<not> is_space (last s)" "\<And>m. polls m = None"
  shows "readSSE polls err n (sse_frame s @ rest) = (case sse_line (''data: '' @ s) of
     (events, True) \<Rightarrow> events | (events, False) \<Rightarrow> events @ readSSE polls err (n + 2) rest)"
proof -
  have "CHR 10 \<notin> set (''data: '' @ s)" using printable_no_newline [OF assms(1)] by simp
  moreover have "trim_space (''data: '' @ s) = ''data: '' @ s" using assms(2,3) by (intro trim_space_id) auto
  moreover have "readSSE polls err (Suc n) (CHR 10 # rest) = readSSE polls err (Suc (Suc n)) rest"
    using readSSE_line [of "[]" polls "Suc n" err rest] assms(4) by (simp add: sse_line_def trim_space_def)
  ultimately show ?thesis
    using readSSE_line [of "''data: '' @ s" polls n err "CHR 10 # rest"] assms(4) by (simp add: sse_frame_def split: prod.split bool.split)
qed

text \<open>What a server that streams the chunks and closes the stream sends.\<close>

definition stream_text :: "chunk list \<Rightarrow> string" where
  "stream_text cks = concat (map (\<lambda>ck. sse_frame (json_print (chunk_json ck))) cks) @ sse_frame ''[DONE]''"

lemma chunk_text: "\<exists>t. json_print (chunk_json ck) = CHR 123 # t @ [CHR 125]"
  by (simp add: chunk_json_def)

lemma sse_line_data: "sse_line (''data: '' @ s) = (if s = ''[DONE]'' then ([done_event], True)
    else (case Option.bind (json_parse s) dec_chunk of None \<Rightarrow> ([], False) | Some ck \<Rightarrow> (chunk_events ck, False)))"
  by (simp add: sse_line_def Let_def del: append.simps)

lemma sse_line_chunk: "sse_line (''data: '' @ json_print (chunk_json ck)) = (chunk_events ck, False)"
proof -
  have "json_print (chunk_json ck) \<noteq> ''[DONE]''" using chunk_text [of ck] by auto
  moreover have "json_parse (json_print (chunk_json ck)) = Some (chunk_json ck)" by (rule json_parse_print [OF wf_chunk_json])
  ultimately show ?thesis unfolding sse_line_data by (simp add: dec_chunk_json)
qed

lemma readSSE_chunks:
  "readSSE (\<lambda>m. None) err n (stream_text cks) = concat (map chunk_events cks) @ [done_event]"
proof (induction cks arbitrary: n)
  case Nil
  have "printable ''[DONE]''" by simp
  with readSSE_frame [of "''[DONE]''" "\<lambda>m. None" err n "[]"] show ?case
    unfolding sse_line_data by (simp add: stream_text_def)
next
  case (Cons ck cks)
  have "printable (json_print (chunk_json ck))" by (rule json_print_printable [OF wf_chunk_json])
  moreover have "json_print (chunk_json ck) \<noteq> []" "\<not> is_space (last (json_print (chunk_json ck)))" using chunk_text [of ck] by auto
  ultimately show ?case
    using readSSE_frame [of "json_print (chunk_json ck)" "\<lambda>m. None" err n "stream_text cks"] Cons.IH
    unfolding sse_line_chunk by (simp add: stream_text_def)
qed

section \<open>How a stream closes, and what its reader leaves\<close>

lemma chunk_events_open: "e \<in> set (chunk_events ck) \<Longrightarrow> \<not> se_Done e \<and> se_Error e = None"
  by (auto simp: chunk_events_def stream_event0_def split: list.splits if_splits)

lemma sse_line_cases:
  obtains "sse_line l = ([done_event], True)" | events where "sse_line l = (events, False)" "\<And>e. e \<in> set events \<Longrightarrow> \<not> se_Done e \<and> se_Error e = None"
  using chunk_events_open by (fastforce simp: sse_line_def Let_def split: option.splits if_splits)

text \<open>A stream is a row of plain events and then an end; only a failed read puts two events at the end.\<close>

lemma readSSE_shape:
  "\<exists>events ends. readSSE polls err n body = events @ ends \<and> (\<forall>e \<in> set events. \<not> se_Done e \<and> se_Error e = None)
     \<and> (ends = [done_event] \<or> (\<exists>e m. polls m = Some e \<and> ends = [error_event e]) \<or> (\<exists>e. err = Some e \<and> ends = [error_event e, done_event]))"
proof (induction polls err n body rule: readSSE.induct)
  case (1 polls err n body)
  show ?case
  proof (cases "polls n")
    case (Some e)
    then show ?thesis by (subst readSSE.simps, intro exI [of _ "[]"] exI [of _ "[error_event e]"]) auto
  next
    case None
    show ?thesis
    proof (cases "CHR 10 \<in> set body")
      case False
      with None show ?thesis
        by (cases err) (subst readSSE.simps, force)+
    next
      case True
      define l where "l = trim_space (takeWhile (\<lambda>c. c \<noteq> CHR 10) body)"
      define rest where "rest = tl (dropWhile (\<lambda>c. c \<noteq> CHR 10) body)"
      have eq: "readSSE polls err n body = (case sse_line l of (events, True) \<Rightarrow> events | (events, False) \<Rightarrow> events @ readSSE polls err (Suc n) rest)"
        using None True by (subst readSSE.simps) (simp add: l_def rest_def Let_def)
      show ?thesis
      proof (cases rule: sse_line_cases [of l])
        case 1
        then show ?thesis unfolding eq by (intro exI [of _ "[]"] exI [of _ "[done_event]"]) simp
      next
        case (2 events)
        have "\<exists>events ends. readSSE polls err (Suc n) rest = events @ ends \<and> (\<forall>e \<in> set events. \<not> se_Done e \<and> se_Error e = None)
          \<and> (ends = [done_event] \<or> (\<exists>e m. polls m = Some e \<and> ends = [error_event e]) \<or> (\<exists>e. err = Some e \<and> ends = [error_event e, done_event]))"
          by (rule "1.IH" [OF None _ l_def rest_def 2(1) [symmetric] refl]) (use True in simp_all)
        then obtain events' ends where IH: "readSSE polls err (Suc n) rest = events' @ ends" "\<forall>e \<in> set events'. \<not> se_Done e \<and> se_Error e = None"
          "ends = [done_event] \<or> (\<exists>e m. polls m = Some e \<and> ends = [error_event e]) \<or> (\<exists>e. err = Some e \<and> ends = [error_event e, done_event])"
          by blast
        show ?thesis unfolding eq
          using 2 IH by (intro exI [of _ "events @ events'"] exI [of _ ends]) auto
      qed
    qed
  qed
qed

text \<open>The events the streaming handler does not receive because it left the loop.\<close>

fun unread :: "stream_event list \<Rightarrow> stream_event list" where
  "unread [] = []"
| "unread (e # es) = (if se_Error e \<noteq> None \<or> se_Done e then es else unread es)"

lemma unread_plain: "\<forall>e \<in> set events. \<not> se_Done e \<and> se_Error e = None \<Longrightarrow> unread (events @ ends) = unread ends"
  by (induction events) auto

text \<open>What the loop writes when no event is an error.\<close>

definition event_frame :: "stream_event \<Rightarrow> string" where
  "event_frame e = sse_frame (json_print (stream_event_json e))"

lemma SSEData_writes:
  "\<exists>s'. SSEData (Some j) s = (Ret (), s') \<and> sv_World s' = sv_World s \<and> rw_Body (sv_Writer s') = rw_Body (sv_Writer s) @ sse_frame (json_print j)"
  by (simp add: SSEData_def Writer_Flush_def Writer_Write_def send_header_def sse_frame_def Let_def split: option.split)

lemma SSEEvent_writes:
  "\<exists>s'. SSEEvent [] d s = (Ret (), s') \<and> sv_World s' = sv_World s \<and> rw_Body (sv_Writer s') = rw_Body (sv_Writer s) @ sse_frame d"
  by (simp add: SSEEvent_def Writer_Flush_def Writer_Write_def send_header_def sse_frame_def Let_def split: option.split)

lemma stream_loop_writes:
  assumes "\<forall>e \<in> set events. \<not> se_Done e \<and> se_Error e = None"
  shows "\<exists>s'. stream_loop (events @ [done_event]) s = (Ret (), s') \<and> sv_World s' = sv_World s
     \<and> rw_Body (sv_Writer s') = rw_Body (sv_Writer s) @ concat (map event_frame (events @ [done_event]))"
  using assms
proof (induction events arbitrary: s)
  case Nil
  from SSEData_writes [of "stream_event_json done_event" s] show ?case
    by (auto simp: done_event_def stream_event0_def bindG_def event_frame_def)
next
  case (Cons e es)
  from SSEData_writes [of "stream_event_json e" s] obtain s1 where s1: "SSEData (Some (stream_event_json e)) s = (Ret (), s1)"
    "sv_World s1 = sv_World s" "rw_Body (sv_Writer s1) = rw_Body (sv_Writer s) @ event_frame e" by (auto simp: event_frame_def)
  with Cons.IH [of s1] Cons.prems show ?case by (auto simp: bindG_def)
qed

end
