(* ===== verification/Rate_Limit.thy ===== *)
theory Rate_Limit
  imports Middleware
begin

text \<open>
  The rate limiter over a Redis that counts as documented: in a minute a token passes at most
  as often as its limit per minute says, in a day at most as often as its limit per day,
  whatever the handlers behind the limiter do.
\<close>

section \<open>A Redis that counts\<close>

text \<open>
  \<open>n w key\<close> is the value of a counter. \<open>INCR\<close> adds one and answers the new value, \<open>EXPIRE\<close>
  changes no value. That a key expires later is left out: its minute, or its day, is over then.
\<close>

definition redis_counts :: "'w redis_client \<Rightarrow> ('w \<Rightarrow> string \<Rightarrow> nat) \<Rightarrow> bool" where
  "redis_counts rc n \<longleftrightarrow>
     (\<forall>key w. \<exists>w'. rc_Incr rc key w = (Ret (of_nat (Suc (n w key))), w') \<and> n w' = (n w)(key := Suc (n w key)))
     \<and> (\<forall>key ttl w r w'. rc_Expire rc key ttl w = (r, w') \<longrightarrow> n w' = n w \<and> (\<forall>p. r \<noteq> Panic p))"

lemma counted_counts:
  assumes "redis_counts rc n"
  obtains w' where "counted rc key ttl w = (Ret (of_nat (Suc (n w key))), w')" "n w' = (n w)(key := Suc (n w key))"
proof -
  obtain w1 where incr: "rc_Incr rc key w = (Ret (of_nat (Suc (n w key))), w1)" "n w1 = (n w)(key := Suc (n w key))"
    using assms unfolding redis_counts_def by blast
  obtain r w2 where exp: "rc_Expire rc key ttl w1 = (r, w2)" by fastforce
  then have "n w2 = n w1" "\<And>p. r \<noteq> Panic p" using assms by (auto simp: redis_counts_def)
  then obtain x where x: "attemptG (rc_Expire rc key ttl) w1 = (Ret x, w2)" using exp by (cases r) (auto simp: attemptG_def)
  have "attemptG (rc_Incr rc key) w = (Ret (Inr (of_nat (Suc (n w key)))), w1)" by (simp add: attemptG_def incr(1) del: of_nat_Suc)
  then have "counted rc key ttl w = (Ret (of_nat (Suc (n w key))), if of_nat (Suc (n w key)) = (1 :: go_int) then w2 else w1)"
    by (simp add: counted_def bindG_def x del: of_nat_Suc)
  with that show thesis using incr(2) \<open>n w2 = n w1\<close> by (simp del: of_nat_Suc)
qed

lemma sless_of_nat: "m < 2 ^ 63 \<Longrightarrow> \<not> (l :: go_int) <s of_nat m \<Longrightarrow> int m \<le> sint l"
  using signed_of_int [where 'b = 64, of "int m", where 'a = int] by (simp add: word_sless_alt signed_take_bit_int_eq_self)

section \<open>One request\<close>

text \<open>The limiter decides before it enters the next handler: a probe in its place shows how.\<close>

definition probe :: "'w handler" where
  "probe r = failG (Errorf ''passed'')"

definition passes :: "'w runtime \<Rightarrow> 'w redis_client \<Rightarrow> server_request \<Rightarrow> 'w served \<Rightarrow> bool" where
  "passes rt rc r s = (case Limit rt rc probe r s of (Err e, s') \<Rightarrow> True | _ \<Rightarrow> False)"

text \<open>The minute and the day a request counts for.\<close>

definition minute_of :: "'w runtime \<Rightarrow> 'w redis_client \<Rightarrow> token \<Rightarrow> 'w \<Rightarrow> string" where
  "minute_of rt rc t w = minute_key t (fst (rt_now rt w))"

definition day_of :: "'w runtime \<Rightarrow> 'w redis_client \<Rightarrow> token \<Rightarrow> 'w \<Rightarrow> string" where
  "day_of rt rc t w = day_key t (fst (rt_now rt (snd (counted rc (minute_of rt rc t w) minute (snd (rt_now rt w))))))"

lemma response_Error_refuses:
  "(\<And>next. f next = response_Error st c m s) \<Longrightarrow> \<exists>s'. (\<forall>next. f next = (Ret (), s')) \<and> sv_World s' = sv_World s"
  by (simp add: response_Error_def)

lemma Limit_step:
  fixes s :: "'w served"
  assumes rc: "redis_counts rc n" and clock: "\<And>w. n (snd (rt_now rt w)) = n w" and t: "sr_Token r = Some t"
    and small: "\<And>k. n (sv_World s) k + 2 < 2 ^ 63"
  defines "w \<equiv> sv_World s"
  obtains p s' where "\<And>next. Limit rt rc next r s = (if p then next r s' else (Ret (), s'))" "passes rt rc r s = p"
    "\<And>k. n w k \<le> n (sv_World s') k" "\<And>k. n (sv_World s') k \<le> n w k + 2"
    "\<And>k. p \<Longrightarrow> k = minute_of rt rc t w \<Longrightarrow> int (Suc (n w k)) \<le> sint (t_RateLimitPerMinute t) \<and> Suc (n w k) \<le> n (sv_World s') k"
    "\<And>k. p \<Longrightarrow> k = day_of rt rc t w \<Longrightarrow> int (Suc (n w k)) \<le> sint (t_RateLimitPerDay t) \<and> Suc (n w k) \<le> n (sv_World s') k"
proof -
  let ?mk = "minute_of rt rc t w"
  obtain t1 w1 where now: "rt_now rt w = (t1, w1)" by fastforce
  have n1: "n w1 = n w" using clock [of w] now by simp
  obtain w2 where cnt: "counted rc ?mk minute w1 = (Ret (of_nat (Suc (n w ?mk))), w2)" "n w2 = (n w)(?mk := Suc (n w ?mk))"
    using counted_counts [OF rc, of ?mk minute w1] n1 by auto
  obtain t2 w3 where now': "rt_now rt w2 = (t2, w3)" by fastforce
  have n3: "n w3 = n w2" using clock [of w2] now' by simp
  let ?dk = "day_of rt rc t w"
  have dk: "?dk = day_key t t2" by (simp add: day_of_def now cnt(1) now')
  obtain w4 where day: "counted rc ?dk (24 * hour) w3 = (Ret (of_nat (Suc (n w3 ?dk))), w4)" "n w4 = (n w3)(?dk := Suc (n w3 ?dk))"
    by (rule counted_counts [OF rc])
  have mk: "minute_key t t1 = ?mk" by (simp add: minute_of_def now)
  let ?hdr = "\<lambda>f (s :: 'w served). s\<lparr>sv_Writer := f (sv_Writer s)\<rparr>"
  have step: "Limit rt rc next r s = (if t_RateLimitPerMinute t <s of_nat (Suc (n w ?mk)) then
         response_Error 429 ''RATE_LIMIT'' ''Rate limit exceeded'' (?hdr (Header_Set ''Retry-After'' ''60''
           \<circ> Header_Set ''X-Ratelimit-Remaining'' ''0'' \<circ> Header_Set ''X-Ratelimit-Limit'' (itoa (t_RateLimitPerMinute t))) (s\<lparr>sv_World := w2\<rparr>))
       else if t_RateLimitPerDay t <s of_nat (Suc (n w3 ?dk)) then
         response_Error 429 ''RATE_LIMIT'' ''Daily rate limit exceeded'' (s\<lparr>sv_World := w4\<rparr>)
       else next r (?hdr (Header_Set ''X-Ratelimit-Remaining'' (itoa (t_RateLimitPerMinute t - of_nat (Suc (n w ?mk))))
             \<circ> Header_Set ''X-Ratelimit-Limit'' (itoa (t_RateLimitPerMinute t))) (s\<lparr>sv_World := w4\<rparr>)))" for "next"
    using now cnt(1) now' day(1)
    by (simp add: Limit_def t bindG_def liftG_def writerG_def mk dk [symmetric] w_def [symmetric] del: of_nat_Suc)
  have ge: "n w ?dk \<le> n w3 ?dk" "n w3 ?dk \<le> Suc (n w ?dk)" by (simp_all add: n3 cnt(2))
  show thesis
  proof (cases "t_RateLimitPerMinute t <s of_nat (Suc (n w ?mk)) \<or> t_RateLimitPerDay t <s of_nat (Suc (n w3 ?dk))")
    case True
    have "\<exists>s'. (\<forall>next. Limit rt rc next r s = (Ret (), s')) \<and> (sv_World s' = w2 \<or> sv_World s' = w4)"
    proof (cases "t_RateLimitPerMinute t <s of_nat (Suc (n w ?mk))")
      case minute: True
      note eq = step [unfolded if_P [OF minute]]
      show ?thesis using response_Error_refuses [of "\<lambda>next. Limit rt rc next r s", OF eq] by auto
    next
      case minute: False
      with True have "t_RateLimitPerDay t <s of_nat (Suc (n w3 ?dk))" by blast
      note eq = step [unfolded if_not_P [OF minute] if_P [OF this]]
      show ?thesis using response_Error_refuses [of "\<lambda>next. Limit rt rc next r s", OF eq] by auto
    qed
    then obtain s' where s': "\<And>next. Limit rt rc next r s = (Ret (), s')" "sv_World s' = w2 \<or> sv_World s' = w4" by blast
    show thesis
    proof (rule that [of False s'])
      show "n w k \<le> n (sv_World s') k" "n (sv_World s') k \<le> n w k + 2" for k
        using s'(2) by (elim disjE; simp add: cnt(2) day(2) n3)+
    qed (use s'(1) in \<open>simp_all add: passes_def\<close>)
  next
    case False
    then obtain s' where s': "\<And>next. Limit rt rc next r s = next r s'" "sv_World s' = w4"
      using step by (fastforce simp del: of_nat_Suc)
    have "int (Suc (n w ?mk)) \<le> sint (t_RateLimitPerMinute t)" "int (Suc (n w3 ?dk)) \<le> sint (t_RateLimitPerDay t)"
      using sless_of_nat [of "Suc (n w ?mk)"] sless_of_nat [of "Suc (n w3 ?dk)"] False small [of ?mk] small [of ?dk] ge
      by (simp_all add: w_def del: of_nat_Suc)
    then show thesis
      using ge by (intro that [of True s']) (use s' in \<open>auto simp: passes_def probe_def cnt(2) day(2) n3\<close>)
  qed
qed

section \<open>A sequence of requests\<close>

text \<open>
  \<open>admitted key rs w\<close>: the requests \<open>rs\<close> arrive one after the other, each with a writer of its
  own; the result is what each one that passed counts for. \<open>entered\<close> is the handler behind the
  limiter.
\<close>

definition arrive :: "'w \<Rightarrow> 'w served" where
  "arrive w = \<lparr>sv_World = w, sv_Writer = new_writer, sv_Log = [], sv_Crashed = False\<rparr>"

fun admitted :: "'w runtime \<Rightarrow> 'w redis_client \<Rightarrow> 'w handler \<Rightarrow> ('w \<Rightarrow> string) \<Rightarrow> server_request list \<Rightarrow> 'w \<Rightarrow> string list" where
  "admitted rt rc entered key [] w = []"
| "admitted rt rc entered key (r # rs) w =
     (if passes rt rc r (arrive w) then [key w] else [])
     @ admitted rt rc entered key rs (sv_World (snd (Limit rt rc entered r (arrive w))))"

definition keeps_counters :: "'w runtime \<Rightarrow> 'w handler \<Rightarrow> ('w \<Rightarrow> string \<Rightarrow> nat) \<Rightarrow> bool" where
  "keeps_counters rt entered n \<longleftrightarrow>
     (\<forall>w. n (snd (rt_now rt w)) = n w) \<and> (\<forall>r s. n (sv_World (snd (entered r s))) = n (sv_World s))"

lemma admitted_bound:
  assumes "redis_counts rc n" "keeps_counters rt entered n" "list_all (\<lambda>r. sr_Token r = Some t) rs"
    and "\<And>k. n w k + 2 * length rs < 2 ^ 63"
    and key: "key = minute_of rt rc t \<and> limit = t_RateLimitPerMinute t \<or> key = day_of rt rc t \<and> limit = t_RateLimitPerDay t"
  shows "count_list (admitted rt rc entered key rs w) k \<le> nat (sint limit) - n w k"
  using assms(3,4)
proof (induction rs arbitrary: w)
  case (Cons r rs)
  have t: "sr_Token r = Some t" using Cons.prems(1) by simp
  have small: "n (sv_World (arrive w)) k + 2 < 2 ^ 63" for k using Cons.prems(2) [of k] by (simp add: arrive_def)
  have clock: "n (snd (rt_now rt w)) = n w" for w using assms(2) by (simp add: keeps_counters_def)
  obtain p s' where step: "\<And>next. Limit rt rc next r (arrive w) = (if p then next r s' else (Ret (), s'))" "passes rt rc r (arrive w) = p"
    "\<And>k. n w k \<le> n (sv_World s') k" "\<And>k. n (sv_World s') k \<le> n w k + 2"
    "\<And>k. p \<Longrightarrow> k = key w \<Longrightarrow> int (Suc (n w k)) \<le> sint limit \<and> Suc (n w k) \<le> n (sv_World s') k"
    using key by (elim disjE conjE; rule_tac Limit_step [OF assms(1) clock t small]; simp add: arrive_def)
  let ?w = "sv_World (snd (Limit rt rc entered r (arrive w)))"
  have n: "n ?w = n (sv_World s')" using assms(2) by (simp add: step(1) keeps_counters_def)
  have "n ?w k + 2 * length rs < 2 ^ 63" for k using Cons.prems(2) [of k] step(4) [of k] by (simp add: n)
  then have IH: "count_list (admitted rt rc entered key rs ?w) k \<le> nat (sint limit) - n ?w k"
    using Cons.IH Cons.prems(1) by simp
  show ?case
  proof (cases "p \<and> key w = k")
    case True
    then have "int (Suc (n w k)) \<le> sint limit" "Suc (n w k) \<le> n ?w k" using step(5) n by simp_all
    with IH True step(2) show ?thesis by simp
  next
    case False
    then have "count_list (admitted rt rc entered key (r # rs) w) k = count_list (admitted rt rc entered key rs ?w) k"
      using step(2) by auto
    with IH step(3) [of k] show ?thesis by (simp add: n)
  qed
qed simp

end
