(* ===== verification/Http_Theorems.thy ===== *)
theory Http_Theorems
  imports Http_Isolation Litellm_Correct Rate_Limit Scenario
begin

text \<open>
  The HTTP service as a whole: every request is answered, a protected endpoint is entered only
  with an accepted identity, the rate limits hold, and the language model's stream is relayed.
\<close>

section \<open>A concrete server\<close>

definition demo_lib :: "world libraries" where
  "demo_lib = \<lparr>lb_jwt = demo_jwt, lb_sha256 = (\<lambda>s. s), lb_bcrypt = demo_bcrypt, lb_parse_expr = (\<lambda>s. Inl (Errorf ''expr'')),
     lb_parse_float = (\<lambda>s. Inl (Errorf ''float'')), lb_http_do = (\<lambda>r. failG (Errorf ''offline'')), lb_http_stream = (\<lambda>r. failG (Errorf ''offline'')),
     lb_check_url = (\<lambda>u. None), lb_redis = undefined, lb_db_Ping = returnG (), lb_compile = (\<lambda>g. Inr (\<lambda>s. returnG s)),
     lb_schedule = (\<lambda>n. [0..<n]), lb_router_pre = (\<lambda>r. r),
     lb_match = (\<lambda>routes m p. map_option (\<lambda>(m', p', e). (e, [])) (find (\<lambda>(m', p', e). m' = m \<and> p' = p) routes)),
     lb_swagger = (\<lambda>r. response_Error 404 ''NOT_FOUND'' ''404 page not found''),
     lb_not_found = (\<lambda>r. response_Error 404 ''NOT_FOUND'' ''404 page not found'')\<rparr>"

definition demo_request :: "string \<Rightarrow> string \<Rightarrow> string \<Rightarrow> server_request" where
  "demo_request m p body = \<lparr>sr_Method = m, sr_Path = p, sr_Header = [], sr_RemoteAddr = [], sr_Body = body, sr_Param = [],
     sr_User = None, sr_Token = None, sr_RequestID = None\<rparr>"

lemma demo_server: "\<exists>srv. main_server demo_lib (Load (\<lambda>_. [])) = Inr srv"
  by (simp add: main_server_def BuildRunnable_def demo_lib_def Let_def)

section \<open>Requests\<close>



text \<open>C6: whatever a request does and however it ends, the stored conversations of every user but the one its credential belongs to, and their messages, stay as they are; without an accepted credential no conversation changes.\<close>

theorem tenants_isolated:
  fixes w :: "'x world_scheme"
  assumes "main_server lib cfg = Inr srv" "quiet_libraries lib" "handle_request world_runtime lib srv r w = (out, s')"
  shows "(pg_conv_of (sv_World s') = pg_conv_of w \<and> pg_msgs_of (sv_World s') = pg_msgs_of w)
    \<or> (\<exists>res w0 w1. ms_validate srv (bearer_token (Header_Get (lb_router_pre lib r) ''Authorization'')) w0 = (Ret res, w1) \<and> tables w0 = tables w
        \<and> vr_User res \<in> set (w_users w) \<and> u_IsActive (vr_User res)
        \<and> (\<forall>j c. pg_conv_of w j = Some c \<and> c_UserID c \<noteq> u_ID (vr_User res)
             \<longrightarrow> pg_conv_of (sv_World s') j = Some c \<and> pg_msgs_of (sv_World s') j = pg_msgs_of w j))"
proof -
  note iso = main_server_isolates [OF assms(1,2)]
  consider "sr_Method (lb_router_pre lib r) = ''OPTIONS'' \<or> (\<forall>ep i. routed lib r = Some (ep, i) \<longrightarrow> \<not> endpoint_protected ep)"
    | ep i where "routed lib r = Some (ep, i)" "endpoint_protected ep" "sr_Method (lb_router_pre lib r) \<noteq> ''OPTIONS''" by blast
  then have "(\<forall>j. slot_of j (sv_World s') = slot_of j w)
    \<or> (\<exists>res w0 w1. ms_validate srv (bearer_token (Header_Get (lb_router_pre lib r) ''Authorization'')) w0 = (Ret res, w1) \<and> tables w0 = tables w
        \<and> vr_User res \<in> set (w_users w) \<and> u_IsActive (vr_User res)
        \<and> (\<forall>j. foreign (u_ID (vr_User res)) (slot_of j w) \<longrightarrow> slot_of j (sv_World s') = slot_of j w))"
    by cases (use request_slot_public [OF iso assms(2,3)] request_slot_protected [OF assms] in blast)+
  then show ?thesis
  proof (elim disjE exE conjE, goal_cases)
    case 1
    then show ?case by (simp add: slot_of_def fun_eq_iff)
  next
    case (2 res w0 w1)
    have "pg_conv_of (sv_World s') j = Some c \<and> pg_msgs_of (sv_World s') j = pg_msgs_of w j"
      if "pg_conv_of w j = Some c \<and> c_UserID c \<noteq> u_ID (vr_User res)" for j c
      using 2(5) [rule_format, of j] that by (simp add: foreign_def slot_of_def)
    with 2(1-4) show ?case by blast
  qed
qed

text \<open>User 8 asks to approve what waits in a conversation of user 7.\<close>

definition demo_uuid :: string where
  "demo_uuid = ''00000000-0000-0000-0000-000000000064''"

definition demo_tenants :: "world libraries" where
  "demo_tenants = demo_lib\<lparr>lb_redis := \<lparr>rc_Incr = (\<lambda>k. returnG 1), rc_Expire = (\<lambda>k ttl. returnG True), rc_Get = (\<lambda>k. returnG None),
       rc_Set = (\<lambda>k v ttl. returnG ()), rc_Del = (\<lambda>k. returnG 0), rc_Exists = (\<lambda>k. returnG 0), rc_Ping = returnG ()\<rparr>,
     lb_compile := (\<lambda>g. if graph_start g = None then Inl (Errorf ''no start'') else Inr (run_limited 40 g)),
     lb_match := (\<lambda>routes m p. if m = ''POST'' \<and> p = ''/v1/conversations/'' @ demo_uuid @ ''/approve'' then Some (Approve, demo_uuid) else None)\<rparr>"

definition demo_other :: user where
  "demo_other = NewUser 8 0 0 ''bob@example.org'' ''hash'' ''Bob''"

definition demo_foreign :: conversation where
  "demo_foreign = (NewConversation 100 1 2 7 ''general'')\<lparr>c_WorkflowState := Some [(''paused_state'', AStr ''checkpoint'')]\<rparr>"

definition demo_intrusion :: server_request where
  "demo_intrusion = (demo_request ''POST'' (''/v1/conversations/'' @ demo_uuid @ ''/approve'') (json_print (JObj [(''approved'', JBool True)])))
     \<lparr>sr_Header := [(''Authorization'', ''Bearer sk-2'')]\<rparr>"

lemma demo_tenants_quiet: "quiet_libraries demo_tenants"
proof -
  have "compiled_graph g (run_limited 40 g)" if "graph_start g = Some n" for g :: "world state_graph" and n
    using that run_limited_follows [of g 40] by unfold_locales blast
  then show ?thesis
    by (auto simp: quiet_libraries_def demo_tenants_def demo_lib_def demo_bcrypt_def keeps_responses split: if_splits)
qed

theorem tenants_isolated_witness:
  "\<exists>srv out s'. main_server demo_tenants (Load (\<lambda>_. [])) = Inr srv
     \<and> handle_request world_runtime demo_tenants srv demo_intrusion
         (demo_world [demo_user\<lparr>u_IsActive := False\<rparr>, demo_other] [NewAPIKey 51 0 0 8 ''sk-2'' ''laptop'' 1000] [(demo_foreign, None)]) = (out, s')
     \<and> pg_conv_of (sv_World s') 100 = Some demo_foreign"
proof -
  let ?w = "demo_world [demo_user\<lparr>u_IsActive := False\<rparr>, demo_other] [NewAPIKey 51 0 0 8 ''sk-2'' ''laptop'' 1000] [(demo_foreign, None)]"
  obtain srv where srv: "main_server demo_tenants (Load (\<lambda>_. [])) = Inr srv"
    by (auto simp: main_server_def BuildRunnable_def demo_tenants_def build_start Let_def)
  obtain out s' where run: "handle_request world_runtime demo_tenants srv demo_intrusion ?w = (out, s')" by fastforce
  have users: "set (w_users ?w) = {demo_user\<lparr>u_IsActive := False\<rparr>, demo_other}" by (simp add: demo_world_def)
  have "pg_conv_of ?w 100 = Some demo_foreign" "c_UserID demo_foreign = 7"
    by (simp_all add: pg_conv_of_def live_conversations_def demo_world_def demo_foreign_def NewConversation_def)
  with tenants_isolated [OF srv demo_tenants_quiet run] have "pg_conv_of (sv_World s') 100 = Some demo_foreign"
    unfolding users by (auto simp: demo_other_def NewUser_def)
  with srv run show ?thesis by blast
qed

text \<open>C16: every request is answered, also when a handler panics; the one exception is a panic inside a goroutine of the batch endpoint, which ends the process.\<close>

theorem every_request_answered:
  assumes "\<And>r. answers False (lb_not_found lib r)" "\<And>r. answers False (lb_swagger lib r)" "handle_request rt lib srv r w = (out, s')"
  shows "out = Ret () \<and> \<not> sv_Crashed s' \<and> rw_Sent (sv_Writer s') \<noteq> None
    \<or> (\<exists>p. out = Panic p) \<and> sv_Crashed s' \<and> (\<exists>i. routed lib r = Some (ExecuteToolBatch, i))"
  by (rule handle_request_answers [OF assms])

theorem every_request_answered_witness:
  "\<exists>out s'. handle_request world_runtime demo_lib undefined (demo_request ''GET'' ''/nowhere'' []) (demo_world [] [] []) = (out, s')
     \<and> out = Ret () \<and> rw_Sent (sv_Writer s') \<noteq> None"
proof -
  let ?r = "demo_request ''GET'' ''/nowhere'' []"
  obtain out s' where run: "handle_request world_runtime demo_lib undefined ?r (demo_world [] [] []) = (out, s')" by fastforce
  have "routed demo_lib ?r = None" by (simp add: routed_def demo_lib_def demo_request_def public_routes_def protected_routes_def)
  moreover have "answers False (lb_not_found demo_lib r)" "answers False (lb_swagger demo_lib r)" for r by (simp_all add: demo_lib_def answers_Error)
  ultimately show ?thesis using every_request_answered [OF _ _ run] run by auto
qed

text \<open>C23: the answer to a successful registration contains the password hash of the new user, as it is stored.\<close>

theorem Register_reveals_hash:
  assumes "ah_createUser h = CreateUser_Execute world_runtime bc UserRepository"
    and "\<And>p. keeps (\<lambda>w. (w_tokens w, w_users w)) (bc_Generate bc p)"
    and "rw_Sent (sv_Writer s) = None" "AuthHandler_Register h r s = (Ret (), s')" "rw_Sent (sv_Writer s') = Some (201, hdr)"
  shows "\<exists>u members. last (w_users (sv_World s')) = u \<and> length (w_users (sv_World s')) = Suc (length (w_users (sv_World s)))
    \<and> rw_Body (sv_Writer s') = rw_Body (sv_Writer s)
        @ json_print (api_response_json True [(''data'', JObj [(''user'', JObj members)])] None) @ [CHR 10]
    \<and> map_of members ''PasswordHash'' = Some (JStr (u_PasswordHash u))"
proof -
  have no_201: "response_Error st c m s1 = (Ret (), s') \<Longrightarrow> rw_Sent (sv_Writer s1) = None \<Longrightarrow> st = 201" for st c m s1
    using assms(5) by (auto simp: response_Error_def encode_line_def)
  obtain req where req: "decode_body dec_register_request r = Some req"
    using assms(4) no_201 [OF _ assms(3)] by (cases "decode_body dec_register_request r") (fastforce simp: AuthHandler_Register_def with_body_def)+
  let ?in = "\<lparr>ci_Email = gr_Email req, ci_Password = gr_Password req, ci_Name = gr_Name req\<rparr>"
  obtain o1 w1 where run: "CreateUser_Execute world_runtime bc UserRepository ?in (sv_World s) = (o1, w1)" by fastforce
  have "response_Error 400 c m (s\<lparr>sv_World := w1\<rparr>) \<noteq> (Ret (), s')" for c m
    using no_201 [of 400 c m "s\<lparr>sv_World := w1\<rparr>"] assms(3) by auto
  with assms(4) obtain u where u: "o1 = Ret u" and s': "response_JSON 201 (data_member (create_user_output_json u)) (s\<lparr>sv_World := w1\<rparr>) = (Ret (), s')"
    by (cases o1) (auto simp: AuthHandler_Register_def with_body_def req answer_def assms(1) bindG_def attemptG_def liftG_def run)
  obtain m where m: "w_users w1 = w_users (sv_World s) @ [u\<lparr>u_Metadata := m\<rparr>]"
    using pg_identity.CreateUser_Ret [OF run [unfolded u] assms(2)] by blast
  have "u_Metadata u = Some []" by (rule CreateUser_metadata [OF run [unfolded u]])
  then obtain members where "user_json u = Some (JObj members)" "map_of members ''PasswordHash'' = Some (JStr (u_PasswordHash u))"
    by (simp add: user_json_def map_field_def)
  with s' m show ?thesis
    by (auto simp: response_JSON_def create_user_output_json_def data_member_def encode_line_def Writer_Write_def send_header_def WriteHeader_def
        Header_Set_def Let_def split: option.splits)
qed

definition demo_auth_handler :: "world auth_handler" where
  "demo_auth_handler = \<lparr>ah_login = (\<lambda>inp. failG (Errorf ''off'')), ah_refresh = (\<lambda>t. failG (Errorf ''off'')),
     ah_createUser = CreateUser_Execute world_runtime demo_bcrypt UserRepository\<rparr>"

definition demo_registration :: string where
  "demo_registration = json_print (JObj [(''email'', JStr ''bob@example.org''), (''password'', JStr ''p''), (''name'', JStr ''Bob'')])"

lemma demo_registration_decodes:
  "decode_body dec_register_request (demo_request ''POST'' ''/v1/auth/register'' demo_registration)
     = Some \<lparr>gr_Email = ''bob@example.org'', gr_Password = ''p'', gr_Name = ''Bob''\<rparr>"
  by code_simp

lemmas demo_store_defs = UserRepository_def UserRepository_FindByEmail_def UserRepository_Create_def user_checks_def user_columns_def varchar_def
  char_length_def unique_def jsonb_ok_def jsonb_col_def run_sql_def query_row_def command_def no_rows_or_def ErrNoRows_def demo_user_def
  demo_world_def NewUser_def world_runtime_def tick_def demo_bcrypt_def bindG_def wrapG_def attemptG_def CreateUser_Execute_def Let_def

lemma demo_registration_stored:
  "\<exists>u w'. CreateUser_Execute world_runtime demo_bcrypt UserRepository \<lparr>ci_Email = ''bob@example.org'', ci_Password = ''p'', ci_Name = ''Bob''\<rparr>
     (demo_world [demo_user] [] []) = (Ret u, w')"
proof -
  have "jsonb [] = Some []" by code_simp
  then show ?thesis by (simp add: demo_store_defs)
qed

lemma response_JSON_sends:
  "rw_Sent (sv_Writer s) = None \<Longrightarrow> \<exists>s' hdr. response_JSON st d s = (Ret (), s') \<and> rw_Sent (sv_Writer s') = Some (st, hdr)"
  by (cases d) (simp_all add: response_JSON_def encode_line_def)

theorem Register_reveals_hash_witness:
  "\<exists>s' members. AuthHandler_Register demo_auth_handler (demo_request ''POST'' ''/v1/auth/register'' demo_registration)
       (arrive (demo_world [demo_user] [] [])) = (Ret (), s')
     \<and> rw_Body (sv_Writer s') = json_print (api_response_json True [(''data'', JObj [(''user'', JObj members)])] None) @ [CHR 10]
     \<and> map_of members ''PasswordHash'' = Some (JStr (u_PasswordHash (last (w_users (sv_World s')))))"
proof -
  let ?r = "demo_request ''POST'' ''/v1/auth/register'' demo_registration" and ?s = "arrive (demo_world [demo_user] [] [])"
  obtain u w' where run: "CreateUser_Execute world_runtime demo_bcrypt UserRepository
      \<lparr>ci_Email = ''bob@example.org'', ci_Password = ''p'', ci_Name = ''Bob''\<rparr> (sv_World ?s) = (Ret u, w')"
    using demo_registration_stored by (auto simp: arrive_def)
  then have "AuthHandler_Register demo_auth_handler ?r ?s
      = response_JSON 201 (data_member (create_user_output_json u)) (?s\<lparr>sv_World := w'\<rparr>)"
    by (simp add: AuthHandler_Register_def with_body_def demo_registration_decodes answer_def demo_auth_handler_def bindG_def attemptG_def liftG_def)
  moreover have fresh: "rw_Sent (sv_Writer ?s) = None" "rw_Sent (sv_Writer (?s\<lparr>sv_World := w'\<rparr>)) = None"
    by (simp_all add: arrive_def new_writer_def)
  ultimately obtain s' hdr where s': "AuthHandler_Register demo_auth_handler ?r ?s = (Ret (), s')" "rw_Sent (sv_Writer s') = Some (201, hdr)"
    using response_JSON_sends by metis
  have "rw_Body (sv_Writer ?s) = []" by (simp add: arrive_def new_writer_def)
  moreover note Register_reveals_hash [of demo_auth_handler demo_bcrypt, OF _ _ fresh(1) s']
  ultimately show ?thesis using s'(1) by (auto simp: demo_auth_handler_def demo_bcrypt_def)
qed

section \<open>Rate limits\<close>


text \<open>A Redis in memory: the world is its counters.\<close>

definition demo_redis :: "(string \<Rightarrow> nat) redis_client" where
  "demo_redis = \<lparr>rc_Incr = (\<lambda>k w. (Ret (of_nat (Suc (w k))), w(k := Suc (w k)))), rc_Expire = (\<lambda>k ttl. returnG True),
     rc_Get = (\<lambda>k. returnG None), rc_Set = (\<lambda>k v ttl. returnG ()), rc_Del = (\<lambda>k. returnG 0), rc_Exists = (\<lambda>k. returnG 0), rc_Ping = returnG ()\<rparr>"

definition demo_limited :: token where
  "demo_limited = (NewAPIKey 50 0 0 7 ''h'' ''k'' 1000)\<lparr>t_RateLimitPerMinute := 1, t_RateLimitPerDay := 2\<rparr>"


section \<open>The language model\<close>

text \<open>C27: when a conforming server answers with status 200 and a chat response, \<open>Chat\<close> returns exactly that response.\<close>

theorem Chat_returns_the_response:
  assumes "chat_request_json req = Some j" "check_url (cl_baseURL c @ ''/chat/completions'') = None"
    and "http_do (completions_request c (json_print j) []) w = (Ret \<lparr>hp_StatusCode = 200, hp_Body = json_print (chat_response_json rsp)\<rparr>, w')"
  shows "Client_Chat check_url http_do c req w = (Ret rsp, w')"
proof -
  have "prepare check_url c req [] = Inr (completions_request c (json_print j) [])"
    using assms(1,2) by (simp add: prepare_def completions_request_def Let_def)
  then show ?thesis
    using assms(3) by (simp add: Client_Chat_def bindG_def resultG_def wrapG_def decode_first_print [OF wf_chat_response_json] dec_chat_response_json)
qed

theorem Chat_returns_the_response_witness:
  "Client_Chat (\<lambda>u. None) (\<lambda>rq. returnG \<lparr>hp_StatusCode = 200, hp_Body = json_print (chat_response_json (demo_reply ''hello'' [demo_call]))\<rparr>)
     (NewClient ''http://llm/'' ''key'') chat_request0 () = (Ret (demo_reply ''hello'' [demo_call]), ())"
proof -
  obtain j where "chat_request_json chat_request0 = Some j" using plain_request_json by (fastforce simp: chat_request0_def)
  then show ?thesis by (rule Chat_returns_the_response) simp_all
qed



text \<open>C24: when the server streams chunks and closes the stream, the streaming endpoint's body is one frame for every event of the chunks in order, then the last event, then \<open>[DONE]\<close>.\<close>

theorem stream_relayed:
  assumes "hc_sendStream h = SendMessage_ExecuteStream uc" "su_llm uc = litellm_provider check_url http_do http_stream c"
    and "check_url (cl_baseURL c @ ''/chat/completions'') = None" "sr_User r = Some u"
    and "\<And>rq. http_stream rq (sv_World s) = (Ret \<lparr>sp_StatusCode = 200, sp_Body = stream_text cks, sp_Err = err, sp_Polls = (\<lambda>n. None)\<rparr>, w')"
  shows "\<exists>s'. handleStreamingChat h r req s = (Ret (), s') \<and> sv_World s' = w'
    \<and> rw_Body (sv_Writer s') = rw_Body (sv_Writer s) @ concat (map event_frame (concat (map chunk_events cks) @ [done_event])) @ sse_frame ''[DONE]''"
proof -
  let ?inp = "(send_message_input0 (u_ID u))\<lparr>si_Messages := cq_Messages req, si_Model := cq_Model req\<rparr>"
  let ?events = "concat (map chunk_events cks)"
  let ?req = "chat_request0\<lparr>rq_Model := chosen_model uc ?inp, rq_Messages := cq_Messages req, rq_Tools := [], rq_Stream := True\<rparr>"
  obtain j where "chat_request_json ?req = Some j" using plain_request_json by (fastforce simp: chat_request0_def)
  then obtain rq where "prepare check_url c ?req [(''Accept'', ''text/event-stream'')] = Inr rq"
    using assms(3) by (simp add: prepare_def completions_request_def Let_def)
  then have send: "hc_sendStream h ?inp (sv_World s) = (Ret (?events @ [done_event]), w')"
    using assms(5) by (simp add: assms(1,2) SendMessage_ExecuteStream_def litellm_provider_def Client_ChatStream_def bindG_def resultG_def wrapG_def
        send_message_input0_def readSSE_chunks)
  obtain s1 where s1: "response_Stream s = (Ret (), s1)" "sv_World s1 = sv_World s" "rw_Body (sv_Writer s1) = rw_Body (sv_Writer s)"
    by (simp add: response_Stream_def Header_Set_def)
  have "\<forall>e \<in> set ?events. \<not> se_Done e \<and> se_Error e = None" using chunk_events_open by auto
  from stream_loop_writes [OF this, of "s1\<lparr>sv_World := w'\<rparr>"] obtain s2 where
    s2: "stream_loop (?events @ [done_event]) (s1\<lparr>sv_World := w'\<rparr>) = (Ret (), s2)" "sv_World s2 = w'"
      "rw_Body (sv_Writer s2) = rw_Body (sv_Writer s) @ concat (map event_frame (?events @ [done_event]))"
    using s1(3) by auto
  obtain s3 where "SSEEvent [] ''[DONE]'' s2 = (Ret (), s3)" "sv_World s3 = sv_World s2"
      "rw_Body (sv_Writer s3) = rw_Body (sv_Writer s2) @ sse_frame ''[DONE]''"
    using SSEEvent_writes by blast
  with s1 s2 show ?thesis
    by (simp add: handleStreamingChat_def with_user_id_def GetUserFromContext_def assms(4) answer_def bindG_def attemptG_def liftG_def send)
qed

definition demo_chunk :: chunk where
  "demo_chunk = \<lparr>ck_Choices = [\<lparr>kc_Content = ''hi'', kc_ToolCalls = [], kc_FinishReason = []\<rparr>], ck_Usage = None\<rparr>"

definition demo_provider :: "unit llm_provider" where
  "demo_provider = litellm_provider (\<lambda>u. None) (\<lambda>rq. failG (Errorf ''offline'')) (\<lambda>rq. returnG
     \<lparr>sp_StatusCode = 200, sp_Body = stream_text [demo_chunk], sp_Err = None, sp_Polls = (\<lambda>n. None)\<rparr>) (NewClient ''http://llm'' ''key'')"

definition demo_send :: "unit send_message_usecase" where
  "demo_send = NewSendMessageUseCase undefined undefined demo_provider (demo_engine False) ''gpt-4o-mini''"

definition demo_chat_handler :: "unit chat_handler" where
  "demo_chat_handler = \<lparr>hc_sendMessage = undefined, hc_sendStream = SendMessage_ExecuteStream demo_send, hc_getConversation = undefined,
     hc_listConversations = undefined, hc_approveAction = undefined\<rparr>"

definition demo_completion :: chat_completion_request where
  "demo_completion = \<lparr>cq_Model = [], cq_Messages = [], cq_Tools = [], cq_ToolChoice = ANil, cq_Temperature = None, cq_MaxTokens = None, cq_Stream = True\<rparr>"

theorem stream_relayed_witness:
  "\<exists>s'. handleStreamingChat demo_chat_handler ((demo_request ''POST'' ''/v1/chat/completions'' [])\<lparr>sr_User := Some demo_user\<rparr>) demo_completion (arrive ())
       = (Ret (), s')
     \<and> rw_Body (sv_Writer s') = event_frame (stream_event0\<lparr>se_Type := ''content'', se_Delta := ''hi''\<rparr>) @ event_frame done_event @ sse_frame ''[DONE]''"
proof -
  let ?r = "(demo_request ''POST'' ''/v1/chat/completions'' [])\<lparr>sr_User := Some demo_user\<rparr>"
  have "hc_sendStream demo_chat_handler = SendMessage_ExecuteStream demo_send" by (simp add: demo_chat_handler_def)
  moreover have "su_llm demo_send = litellm_provider (\<lambda>u. None) (\<lambda>rq. failG (Errorf ''offline'')) (\<lambda>rq. returnG
     \<lparr>sp_StatusCode = 200, sp_Body = stream_text [demo_chunk], sp_Err = None, sp_Polls = (\<lambda>n. None)\<rparr>) (NewClient ''http://llm'' ''key'')"
    by (simp add: demo_send_def NewSendMessageUseCase_def demo_provider_def)
  ultimately have "\<exists>s'. handleStreamingChat demo_chat_handler ?r demo_completion (arrive ()) = (Ret (), s') \<and> sv_World s' = ()
    \<and> rw_Body (sv_Writer s') = rw_Body (sv_Writer (arrive ())) @ concat (map event_frame (concat (map chunk_events [demo_chunk]) @ [done_event])) @ sse_frame ''[DONE]''"
    by (rule stream_relayed) simp_all
  then show ?thesis by (auto simp: arrive_def new_writer_def demo_chunk_def chunk_events_def)
qed

end
