(* ===== verification/Http_History.thy ===== *)
theory Http_History
  imports Request_Steps
begin

text \<open>
  What any sequence of requests leaves of the database: its integrity holds, and it only
  grows. Two step relations of the whole program.
\<close>

section \<open>Integrity\<close>

lemma db_ok_database: "database w' = database w \<Longrightarrow> db_ok w' = db_ok w"
  by (simp add: database_def tables_def db_ok_def table_ok_defs execution_refs_def)

interpretation integrity: program_relation "\<lambda>w w'. db_ok w \<longrightarrow> db_ok w'"
proof
  fix w w' :: "'a world_scheme" and u t i c st m
  show "database w' = database w \<Longrightarrow> db_ok w \<longrightarrow> db_ok w'" using db_ok_database by blast
  show "preserves (\<lambda>w w'. db_ok w \<longrightarrow> db_ok w') (UserRepository_Create u)" "preserves (\<lambda>w w'. db_ok w \<longrightarrow> db_ok w') (TokenRepository_Create t)"
      "preserves (\<lambda>w w'. db_ok w \<longrightarrow> db_ok w') (TokenRepository_UpdateLastUsed i)"
      "preserves (\<lambda>w w'. db_ok w \<longrightarrow> db_ok w') (ConversationRepository_Create c)"
      "preserves (\<lambda>w w'. db_ok w \<longrightarrow> db_ok w') (ConversationRepository_Update c)"
      "preserves (\<lambda>w w'. db_ok w \<longrightarrow> db_ok w') (ConversationRepository_UpdateWorkflowState i st)"
      "preserves (\<lambda>w w'. db_ok w \<longrightarrow> db_ok w') (MessageRepository_Create m)"
    unfolding preserves_maintains
    by (rule UserRepository_Create_ok TokenRepository_Create_ok token_repository_ok ConversationRepository_Create_ok conversation_repository_ok
        message_repository_ok)+
qed auto

section \<open>Growth\<close>

text \<open>What a request never changes of a stored token and of a stored conversation.\<close>

definition token_core :: "token \<Rightarrow> token" where
  "token_core t = t\<lparr>t_LastUsedAt := None, t_UpdatedAt := 0\<rparr>"

definition conversation_core :: "conversation \<times> time option \<Rightarrow> uuid \<times> uuid \<times> time \<times> time option" where
  "conversation_core r = (c_ID (fst r), c_UserID (fst r), c_CreatedAt (fst r), snd r)"

definition grows :: "'x world_scheme \<Rightarrow> 'x world_scheme \<Rightarrow> bool" where
  "grows w w' \<longleftrightarrow> prefix (w_users w) (w_users w') \<and> prefix (w_messages w) (w_messages w')
     \<and> prefix (map token_core (w_tokens w)) (map token_core (w_tokens w'))
     \<and> prefix (map conversation_core (w_conversations w)) (map conversation_core (w_conversations w'))
     \<and> w_executions w' = w_executions w"

lemma grows_database: "database w' = database w \<Longrightarrow> grows w w'"
  by (simp add: database_def tables_def grows_def)

lemma grows_command:
  fixes f :: "time \<Rightarrow> 'x world_scheme \<Rightarrow> 'x world_scheme"
  assumes "\<And>now w. grows w (f now w)"
  shows "preserves grows (run_sql (command violation f))"
proof (rule preservesI)
  fix w :: "'x world_scheme"
  have "grows w (tick w)" by (simp add: grows_database)
  moreover have "grows w (f now (tick w))" for now using assms [of "tick w" now] by (simp add: grows_def)
  ultimately show "grows w (snd (run_sql (command violation f) w))"
    by (auto simp: run_sql_def command_def split: option.split)
qed

lemma core_updated: "(\<And>r. P r \<Longrightarrow> core (f r) = core r) \<Longrightarrow> prefix (map core rows) (map core (update_rows P f rows))"
  by (simp add: update_rows_map)

interpretation growth: program_relation grows
proof
  fix u v w w' :: "'a world_scheme"
  show "grows w w" by (simp add: grows_def)
  show "grows u v \<Longrightarrow> grows v w \<Longrightarrow> grows u w" by (auto simp: grows_def intro: prefix_order.trans)
  show "database w' = database w \<Longrightarrow> grows w w'" by (rule grows_database)
next
  fix u t i c st m
  show "preserves grows (UserRepository_Create u)"
    unfolding UserRepository_Create_def by (intro wrapG_preserves grows_command) (simp add: grows_def)
  show "preserves grows (TokenRepository_Create t)"
    unfolding TokenRepository_Create_def by (intro wrapG_preserves grows_command) (simp add: grows_def)
  show "preserves grows (ConversationRepository_Create c)"
    unfolding ConversationRepository_Create_def by (intro wrapG_preserves grows_command) (simp add: grows_def)
  show "preserves grows (MessageRepository_Create m)"
    unfolding MessageRepository_Create_def by (intro wrapG_preserves grows_command) (simp add: grows_def insert_message_def)
  show "preserves grows (ConversationRepository_Update c)"
    unfolding ConversationRepository_Update_def update_conversation_def
    by (intro wrapG_preserves grows_command) (simp add: grows_def, rule core_updated, simp add: conversation_core_def conversation_columns_def)
  show "preserves grows (ConversationRepository_UpdateWorkflowState i st)"
    unfolding ConversationRepository_UpdateWorkflowState_def update_conversation_def
    by (intro wrapG_preserves grows_command) (simp add: grows_def, rule core_updated, simp add: conversation_core_def)
  have "map token_core (update_rows (\<lambda>t. t_ID t = i) (\<lambda>t. t\<lparr>t_LastUsedAt := Some t0, t_UpdatedAt := now\<rparr>) rows) = map token_core rows" for t0 now rows
    by (intro update_rows_map) (simp add: token_core_def)
  then show "preserves grows (TokenRepository_UpdateLastUsed i)"
    unfolding TokenRepository_UpdateLastUsed_def update_tokens_def
    by (auto simp: preserves_def grows_def bindG_def world_runtime_def run_sql_def command_def wrapG_def split: option.split)
qed

end
