(* ===== verification/Sessions.thy ===== *)
theory Sessions
  imports Http_History
begin

text \<open>
  The life of a session: what a login stores and signs, and that what it signed is accepted
  after any requests, until it expires, because no request revokes a token.
\<close>

section \<open>Time passes\<close>

text \<open>The clock is one sequence, read at a later and later place.\<close>

definition later :: "'x world_scheme \<Rightarrow> 'x world_scheme \<Rightarrow> bool" where
  "later w w' \<longleftrightarrow> w_clock w' = w_clock w \<and> w_tick w \<le> w_tick w'"

interpretation time: step_relation later
  by unfold_locales (auto simp: later_def)

lemma later_tick: "later w (tick w)"
  by (simp add: later_def)

lemma later_runtime: "preserves later (stateG (rt_now world_runtime))" "preserves later (stateG (rt_uuid world_runtime))"
  by (simp_all add: preserves_def world_runtime_def later_tick)

lemma later_sql:
  assumes "\<And>now w x w'. st now w = Inr (x, w') \<Longrightarrow> later w w'"
  shows "preserves later (run_sql st)"
proof (rule preservesI)
  fix w
  have "st now (tick w) = Inr (x, w') \<Longrightarrow> later w w'" for now x w' using assms later_tick time.trans by blast
  then show "later w (snd (run_sql st w))" by (auto simp: run_sql_def later_tick split: option.split sum.split)
qed

lemma later_statements:
  "preserves later (UserRepository_FindByEmail e)" "preserves later (TokenRepository_Create t)"
  by (auto simp: UserRepository_FindByEmail_def no_rows_or_def TokenRepository_Create_def query_row_def command_def later_def
      split: option.splits if_splits intro!: time.preserves_steps later_sql)

section \<open>What a login leaves\<close>

text \<open>
  The JWT library verifies what it signed under the same secret, while it has not expired; its
  texts are not API keys. A \<open>NumericDate\<close> is a time cut to seconds.
\<close>

definition jwt_verifies :: "jwt_library \<Rightarrow> bool" where
  "jwt_verifies lib \<longleftrightarrow> (\<forall>t. t - second < jl_NewNumericDate lib t)
     \<and> (\<forall>secret cl tok t t'. jl_Sign lib secret cl = Inr tok \<longrightarrow> cl_ExpiresAt cl = jl_NewNumericDate lib t \<longrightarrow> cl_IssuedAt cl = jl_NewNumericDate lib t'
          \<longrightarrow> \<not> has_prefix tok ''sk-''
            \<and> (\<forall>key now. key True = Inr secret \<longrightarrow> now < cl_ExpiresAt cl \<longrightarrow> jl_Parse lib key now tok = Inr (Some cl, True)))"

lemma jwt_verifiesD:
  assumes "jwt_verifies lib" "jl_Sign lib secret cl = Inr tok" "cl_ExpiresAt cl = jl_NewNumericDate lib t" "cl_IssuedAt cl = jl_NewNumericDate lib t'"
  shows "\<not> has_prefix tok ''sk-''" "key True = Inr secret \<Longrightarrow> now + second \<le> t \<Longrightarrow> jl_Parse lib key now tok = Inr (Some cl, True)"
proof -
  have t: "t - second < jl_NewNumericDate lib t" using assms(1) by (simp add: jwt_verifies_def)
  show "\<not> has_prefix tok ''sk-''" using assms unfolding jwt_verifies_def by blast
  assume "key True = Inr secret" "now + second \<le> t"
  moreover from this(2) t assms(3) have "now < cl_ExpiresAt cl" by simp
  ultimately show "jl_Parse lib key now tok = Inr (Some cl, True)" using assms unfolding jwt_verifies_def by blast
qed

lemma access_token_claims:
  assumes "GenerateAccessToken world_runtime lib m u i w = (Ret tok, w')"
  shows "\<exists>cl t'. jl_Sign lib (jm_secret m) cl = Inr tok \<and> cl_UserID cl = u \<and> cl_TokenID cl = i
     \<and> cl_ExpiresAt cl = jl_NewNumericDate lib (w_clock w (w_tick w) + jm_accessTokenTTL m) \<and> cl_IssuedAt cl = jl_NewNumericDate lib t'
     \<and> w_tokens w' = w_tokens w \<and> w_users w' = w_users w"
proof -
  let ?cl = "\<lparr>cl_UserID = u, cl_TokenID = i, cl_TokenType = ''access'', cl_ExpiresAt = jl_NewNumericDate lib (w_clock w (w_tick w) + jm_accessTokenTTL m),
    cl_IssuedAt = jl_NewNumericDate lib (w_clock w (Suc (w_tick w))), cl_Issuer = jm_issuer m\<rparr>"
  have "jl_Sign lib (jm_secret m) ?cl = Inr tok \<and> w' = tick (tick w)"
    using assms by (auto simp: GenerateAccessToken_def generate_token_def bindG_eq_Ret resultG_Ret world_runtime_def)
  then show ?thesis by (intro exI [of _ ?cl]) auto
qed

text \<open>An access token signed no earlier than \<open>start\<close>; a stored session with such a token.\<close>

definition access_signed :: "jwt_library \<Rightarrow> jwt_manager \<Rightarrow> time \<Rightarrow> user \<Rightarrow> string \<Rightarrow> uuid \<Rightarrow> bool" where
  "access_signed lib m start u tok i \<longleftrightarrow> (\<exists>cl t0 t1. jl_Sign lib (jm_secret m) cl = Inr tok \<and> cl_UserID cl = u_ID u \<and> cl_TokenID cl = i
     \<and> cl_ExpiresAt cl = jl_NewNumericDate lib (t0 + jm_accessTokenTTL m) \<and> start \<le> t0 \<and> cl_IssuedAt cl = jl_NewNumericDate lib t1)"

definition session :: "jwt_library \<Rightarrow> jwt_manager \<Rightarrow> time \<Rightarrow> user \<Rightarrow> string \<Rightarrow> 'x world_scheme \<Rightarrow> token \<Rightarrow> bool" where
  "session lib m start u tok w t \<longleftrightarrow> t \<in> set (w_tokens w) \<and> \<not> t_IsRevoked t \<and> start + 7 * 24 * hour \<le> t_ExpiresAt t
     \<and> u \<in> set (w_users w) \<and> u_IsActive u \<and> access_signed lib m start u tok (t_ID t)"

lemma login_session:
  fixes w :: "'x world_scheme"
  assumes "Login_Execute world_runtime lib sha uuid_text bc uc inp w = (Ret out, w')" "vu_userRepo uc = UserRepository"
    and "vu_tokenRepo uc = TokenRepository" "mono (w_clock w)"
  shows "\<exists>t. session lib (vu_jwtMgr uc) (w_clock w (w_tick w)) (lg_User out) (lg_AccessToken out) w' t"
  using assms(1)
proof (rule Login_runs)
  fix u nonce acc ref and w1 w2 w4 w5 :: "'x world_scheme"
  let ?start = "w_clock w (w_tick w)" and ?t = "session_token world_runtime sha u nonce w2"
  let ?w3 = "snd (rt_now world_runtime (snd (rt_now world_runtime (snd (rt_uuid world_runtime (snd (rt_now world_runtime w2)))))))"
  assume f: "ur_FindByEmail (vu_userRepo uc) (li_Email inp) w = (Ret u, w1)" "u_IsActive u"
    and n: "GenerateAPIKey world_runtime uuid_text w1 = (Ret nonce, w2)" and k: "kr_Create (vu_tokenRepo uc) ?t ?w3 = (Ret (), w4)"
    and a: "GenerateAccessToken world_runtime lib (vu_jwtMgr uc) (u_ID u) (t_ID ?t) w4 = (Ret acc, w5)"
    and r: "GenerateRefreshToken world_runtime lib (vu_jwtMgr uc) (u_ID u) (t_ID ?t) w5 = (Ret ref, w')"
    and out: "out = \<lparr>lg_AccessToken = acc, lg_RefreshToken = ref, lg_TokenType = ''Bearer'', lg_ExpiresIn = 900, lg_User = u\<rparr>"
  have "later w w1" using f(1) assms(2) later_statements(1) by (auto simp: UserRepository_def intro: preservesD)
  moreover have "preserves later (GenerateAPIKey (world_runtime :: 'x world_scheme runtime) uuid_text)"
    unfolding GenerateAPIKey_def by (intro time.preserves_steps later_runtime)
  then have "later w1 w2" using n by (rule preservesD)
  moreover have "later w2 ?w3" by (simp add: later_def world_runtime_def)
  moreover have "later ?w3 w4" using k assms(3) later_statements(2) by (auto simp: TokenRepository_def intro: preservesD)
  ultimately have "later w w2" "later w w4" using time.trans by blast+
  then have late: "?start \<le> w_clock w2 (w_tick w2)" "?start \<le> w_clock w4 (w_tick w4)"
    using monoD [OF assms(4)] by (simp_all add: later_def)
  obtain cl t1 where cl: "jl_Sign lib (jm_secret (vu_jwtMgr uc)) cl = Inr acc" "cl_UserID cl = u_ID u" "cl_TokenID cl = t_ID ?t"
      "cl_ExpiresAt cl = jl_NewNumericDate lib (w_clock w4 (w_tick w4) + jm_accessTokenTTL (vu_jwtMgr uc))" "cl_IssuedAt cl = jl_NewNumericDate lib t1"
      and w5: "w_tokens w5 = w_tokens w4" "w_users w5 = w_users w4"
    using access_token_claims [OF a] by blast
  have w': "w_tokens w' = w_tokens w5" "w_users w' = w_users w5"
    using r by (auto simp: GenerateRefreshToken_def generate_token_def bindG_eq_Ret resultG_Ret world_runtime_def)
  obtain m where m: "w_tokens w4 = w_tokens ?w3 @ [?t\<lparr>t_LastUsedAt := None, t_Metadata := m\<rparr>]" "w_users w4 = w_users ?w3"
    using pg_identity.create_token_Ret [of ?t ?w3 w4] k assms(3) by auto
  have "u \<in> set (w_users w)" using pg_identity.user_by_email f(1) assms(2) by metis
  moreover have "w_users w1 = w_users w" using pg_identity.reads_keep_users(4) f(1) assms(2) keepsD by metis
  moreover have "w_users w2 = w_users w1" using n by (auto simp: GenerateAPIKey_def bindG_eq_Ret world_runtime_def)
  ultimately have u: "u \<in> set (w_users w')" using w' w5 m(2) by (simp add: world_runtime_def)
  have exp: "?start + 7 * 24 * hour \<le> t_ExpiresAt ?t" "\<not> t_IsRevoked ?t"
    using late(1) by (simp_all add: session_token_def NewAPIKey_def world_runtime_def Let_def)
  have signed: "access_signed lib (vu_jwtMgr uc) ?start u acc (t_ID ?t)" unfolding access_signed_def using cl late(2) by blast
  show ?thesis
    unfolding session_def out
    by (rule exI [of _ "?t\<lparr>t_LastUsedAt := None, t_Metadata := m\<rparr>"]) (use u f(2) exp signed m(1) w' w5 in simp)
qed

section \<open>A session lasts\<close>

lemma core_kept:
  assumes "prefix (map token_core ts) (map token_core ts')" "t \<in> set ts"
  obtains t' where "t' \<in> set ts'" "token_core t' = token_core t"
proof -
  have "token_core t \<in> set (map token_core ts')" using set_mono_prefix [OF assms(1)] assms(2) by auto
  with that show ?thesis by force
qed

lemma token_coreD:
  assumes "token_core t' = token_core t"
  shows "t_ID t' = t_ID t" "t_IsRevoked t' = t_IsRevoked t" "t_ExpiresAt t' = t_ExpiresAt t"
  using arg_cong [OF assms, of t_ID] arg_cong [OF assms, of t_IsRevoked] arg_cong [OF assms, of t_ExpiresAt] by (simp_all add: token_core_def)

lemma session_grows:
  assumes "grows w w'" "session lib m start u tok w t"
  shows "\<exists>t'. session lib m start u tok w' t'"
proof -
  from assms obtain t' where t': "t' \<in> set (w_tokens w')" "token_core t' = token_core t"
    unfolding grows_def session_def by (meson core_kept)
  have "u \<in> set (w_users w')" using assms set_mono_prefix by (fastforce simp: grows_def session_def)
  with t'(1) token_coreD [OF t'(2)] assms(2) show ?thesis by (auto simp: session_def)
qed

section \<open>A session is accepted\<close>

lemma find_unique: "distinct (map key xs) \<Longrightarrow> x \<in> set xs \<Longrightarrow> find (\<lambda>y. key y = key x) xs = Some x"
  by (induction xs) auto

lemma find_rows:
  fixes w :: "'x world_scheme"
  assumes "db_ok w" "w_fault w (w_tick w) = None"
  shows "t \<in> set (w_tokens w) \<Longrightarrow> TokenRepository_FindByID (t_ID t) w = (Ret t, tick w)"
    "u \<in> set (w_users w) \<Longrightarrow> UserRepository_FindByID (u_ID u) w = (Ret u, tick w)"
  using assms find_unique [of t_ID "w_tokens w" t] find_unique [of u_ID "w_users w" u]
  by (simp_all add: TokenRepository_FindByID_def scanToken_def UserRepository_FindByID_def no_rows_or_def run_sql_def query_row_def
      bindG_def attemptG_def db_ok_def tokens_ok_def users_ok_def)

lemma UpdateLastUsed_returns: "\<exists>w'. spawnG (TokenRepository_UpdateLastUsed i) w = (Ret (), w')"
  by (simp add: TokenRepository_UpdateLastUsed_def spawnG_def bindG_def wrapG_def run_sql_def update_tokens_def command_def world_runtime_def
      split: option.split)

lemma session_accepted:
  fixes w :: "'x world_scheme"
  assumes "session lib (vu_jwtMgr uc) start u tok w t" "db_ok w" "jwt_verifies lib"
    and "vu_userRepo uc = UserRepository" "vu_tokenRepo uc = TokenRepository"
    and "\<And>n. n < 4 \<Longrightarrow> w_fault w (w_tick w + n) = None"
    and "\<And>n. n < 4 \<Longrightarrow> w_clock w (w_tick w + n) + second \<le> start + min (jm_accessTokenTTL (vu_jwtMgr uc)) (7 * 24 * hour)"
  shows "\<exists>w'. ValidateToken_Execute world_runtime lib sha uc tok w = (Ret \<lparr>vr_User = u, vr_Token = t\<rparr>, w')"
proof -
  let ?m = "vu_jwtMgr uc" and ?w1 = "tick w" and ?w2 = "tick (tick w)" and ?w3 = "tick (tick (tick w))" and ?w4 = "tick (tick (tick (tick w)))"
  note t = assms(1) [unfolded session_def]
  then obtain cl t0 t1 where cl: "jl_Sign lib (jm_secret ?m) cl = Inr tok" "cl_UserID cl = u_ID u" "cl_TokenID cl = t_ID t"
      "cl_ExpiresAt cl = jl_NewNumericDate lib (t0 + jm_accessTokenTTL ?m)" "start \<le> t0" "cl_IssuedAt cl = jl_NewNumericDate lib t1"
    unfolding access_signed_def by blast
  have clock: "w_clock w (w_tick w) + second \<le> t0 + jm_accessTokenTTL ?m" "w_clock w (w_tick w + 2) \<le> t_ExpiresAt t"
    using assms(7) [of 0] assms(7) [of 2] cl(5) t by (auto simp: second_def)
  have "jl_Parse lib (key_func ?m) (w_clock w (w_tick w)) tok = Inr (Some cl, True)"
    by (rule jwt_verifiesD(2) [OF assms(3) cl(1,4,6) _ clock(1)]) (simp add: key_func_def)
  then have claims: "ValidateToken world_runtime lib ?m tok w = (Ret cl, ?w1)"
    by (simp add: ValidateToken_def validate_claims_def world_runtime_def bindG_def resultG_def)
  have "kr_FindByID (vu_tokenRepo uc) (t_ID t) ?w1 = (Ret t, ?w2)"
    using find_rows(1) [of ?w1 t] t assms(2,5) assms(6) [of 1] by (simp add: TokenRepository_def)
  moreover have "ur_FindByID (vu_userRepo uc) (u_ID u) ?w3 = (Ret u, ?w4)"
    using find_rows(2) [of ?w3 u] t assms(2,4) assms(6) [of 3] by (simp add: UserRepository_def eval_nat_numeral)
  moreover have "rt_now world_runtime ?w2 = (w_clock w (w_tick w + 2), ?w3)" by (simp add: world_runtime_def)
  moreover have "Token_IsValid (w_clock w (w_tick w + 2)) t" using t clock(2) by (simp add: Token_IsValid_def Token_IsExpired_def)
  moreover obtain w' where "spawnG (kr_UpdateLastUsed (vu_tokenRepo uc) (t_ID t)) ?w4 = (Ret (), w')"
    using UpdateLastUsed_returns assms(5) by (metis TokenRepository_def token_repository.select_convs(5))
  ultimately have "validateJWT world_runtime lib uc tok w = (Ret \<lparr>vr_User = u, vr_Token = t\<rparr>, w')"
    using claims cl(2,3) t by (simp add: validateJWT_def check_token_def bindG_def wrapG_def maskG_def)
  then show ?thesis using jwt_verifiesD(1) [OF assms(3) cl(1,4,6)] by (simp add: ValidateToken_Execute_def)
qed

text \<open>The authentication of the program main constructs.\<close>

lemma main_server_auth:
  assumes "main_server lib cfg = Inr srv"
  obtains auth where "ah_login (ms_auth srv) = Login_Execute world_runtime (lb_jwt lib) (lb_sha256 lib) format_uuid (lb_bcrypt lib) auth"
    "ms_validate srv = ValidateToken_Execute world_runtime (lb_jwt lib) (lb_sha256 lib) auth" "vu_userRepo auth = UserRepository"
    "vu_tokenRepo auth = TokenRepository" "jm_accessTokenTTL (vu_jwtMgr auth) = jc_AccessTokenTTL (cfg_JWT cfg)"
  by (rule that [of "\<lparr>vu_tokenRepo = TokenRepository, vu_userRepo = UserRepository,
      vu_jwtMgr = NewJWTManager (jc_Secret (cfg_JWT cfg)) (jc_AccessTokenTTL (cfg_JWT cfg)) (jc_RefreshTokenTTL (cfg_JWT cfg))\<rparr>"])
    (use assms in \<open>auto simp: main_server_def NewJWTManager_def Let_def simp del: RegisterAll.simps split: sum.splits\<close>)

lemma session_lasts:
  assumes srv: "main_server lib cfg = Inr srv" "quiet_libraries lib" and jwt: "jwt_verifies (lb_jwt lib)" and w: "db_ok w" "mono (w_clock w)"
    and login: "ah_login (ms_auth srv) inp w = (Ret out, w1)" and w2: "w2 = serve_all world_runtime lib srv rs w1"
    and fault: "\<And>n. n < 4 \<Longrightarrow> w_fault w2 (w_tick w2 + n) = None"
    and clock: "\<And>n. n < 4 \<Longrightarrow> w_clock w2 (w_tick w2 + n) + second \<le> w_clock w (w_tick w) + min (jc_AccessTokenTTL (cfg_JWT cfg)) (7 * 24 * hour)"
  shows "\<exists>t w3. ms_validate srv (lg_AccessToken out) w2 = (Ret \<lparr>vr_User = lg_User out, vr_Token = t\<rparr>, w3)"
proof -
  obtain auth where auth: "ah_login (ms_auth srv) = Login_Execute world_runtime (lb_jwt lib) (lb_sha256 lib) format_uuid (lb_bcrypt lib) auth"
      "ms_validate srv = ValidateToken_Execute world_runtime (lb_jwt lib) (lb_sha256 lib) auth"
      and repos: "vu_userRepo auth = UserRepository" "vu_tokenRepo auth = TokenRepository"
      and ttl: "jm_accessTokenTTL (vu_jwtMgr auth) = jc_AccessTokenTTL (cfg_JWT cfg)"
    by (rule main_server_auth [OF srv(1)])
  obtain t1 where "session (lb_jwt lib) (vu_jwtMgr auth) (w_clock w (w_tick w)) (lg_User out) (lg_AccessToken out) w1 t1"
    using login_session [OF login [unfolded auth(1)] repos w(2)] by blast
  with growth.serve_all_steps [OF srv] obtain t where t: "session (lb_jwt lib) (vu_jwtMgr auth) (w_clock w (w_tick w)) (lg_User out) (lg_AccessToken out) w2 t"
    unfolding w2 using session_grows by blast
  have "preserves (\<lambda>w w'. db_ok w \<longrightarrow> db_ok w') (ah_login (ms_auth srv) inp)"
    using integrity.main_server_steps [OF srv] unfolding integrity.steady_server_def by blast
  from preservesD [OF this login] w(1) integrity.serve_all_steps [OF srv] have "db_ok w2" unfolding w2 by blast
  from session_accepted [OF t this jwt repos fault clock [folded ttl]] show ?thesis unfolding auth(2) by blast
qed

end
