(* ===== verification/Status_Codes.thy ===== *)
theory Status_Codes
  imports Http_Correct
begin

text \<open>
  Which status codes a handler can send. The first header that is sent stays; so it is enough
  that every step of a handler sends, if anything, an allowed code.
\<close>

section \<open>Sending only allowed codes\<close>

definition codes_in :: "(int \<Rightarrow> bool) \<Rightarrow> 'w served \<Rightarrow> bool" where
  "codes_in S s \<longleftrightarrow> (\<forall>st hdr. rw_Sent (sv_Writer s) = Some (st, hdr) \<longrightarrow> S st)"

abbreviation sends_within :: "(int \<Rightarrow> bool) \<Rightarrow> ('w served, 'a) go \<Rightarrow> bool" where
  "sends_within S h \<equiv> maintains (codes_in S) h"

lemma within_writer: "(\<And>rw st hdr. rw_Sent (f rw) = Some (st, hdr) \<Longrightarrow> rw_Sent rw = Some (st, hdr) \<or> S st) \<Longrightarrow> sends_within S (writerG f)"
  by (fastforce simp: maintains_def codes_in_def writerG_def)

lemma within_lift: "sends_within S (liftG m)"
  by (auto simp: maintains_def codes_in_def liftG_def split: prod.split)

lemma within_send:
  "rw_Sent (send_header c rw) = Some (st, hdr) \<Longrightarrow> rw_Sent rw = Some (st, hdr) \<or> st = c"
  "rw_Sent (WriteHeader c rw) = Some (st, hdr) \<Longrightarrow> rw_Sent rw = Some (st, hdr) \<or> st = c"
  "rw_Sent (Writer_Write x rw) = Some (st, hdr) \<Longrightarrow> rw_Sent rw = Some (st, hdr) \<or> st = 200"
  "rw_Sent (Writer_Flush rw) = Some (st, hdr) \<Longrightarrow> rw_Sent rw = Some (st, hdr) \<or> st = 200"
  by (auto simp: send_header_def WriteHeader_def Writer_Write_def Writer_Flush_def Let_def split: option.splits if_splits)

lemma sent_stays: "rw_Sent (WriteHeader c rw) = Some x \<Longrightarrow> rw_Sent (encode_line d (WriteHeader c rw)) = Some x"
  by (cases d) (auto simp: encode_line_def Writer_Write_def send_header_def Let_def)

lemma within_answer_line:
  assumes "S c"
  shows "rw_Sent (encode_line d (WriteHeader c (Header_Set k v rw))) = Some (st, hdr) \<Longrightarrow> rw_Sent rw = Some (st, hdr) \<or> S st"
proof -
  assume sent: "rw_Sent (encode_line d (WriteHeader c (Header_Set k v rw))) = Some (st, hdr)"
  obtain x where x: "rw_Sent (WriteHeader c (Header_Set k v rw)) = Some x"
    using WriteHeader_sends by blast
  with sent sent_stays [OF x, of d] have "x = (st, hdr)" by simp
  with within_send(2) [of c "Header_Set k v rw"] x assms show ?thesis by (auto simp: Header_Set_def)
qed

lemma within_JSON: "S c \<Longrightarrow> sends_within S (response_JSON c d)"
  unfolding response_JSON_def by (intro within_writer within_answer_line)

lemma within_Error: "S c \<Longrightarrow> sends_within S (response_Error c code m)"
  unfolding response_Error_def by (intro within_writer within_answer_line)

lemma within_SSE: "S 200 \<Longrightarrow> sends_within S (SSEData d)" "S 200 \<Longrightarrow> sends_within S (SSEEvent ev t)"
  unfolding SSEData_def SSEEvent_def by (intro within_writer; auto dest!: within_send(3,4) split: if_splits)+

lemma within_Stream: "sends_within S response_Stream"
  unfolding response_Stream_def by (intro within_writer) (simp add: Header_Set_def)

lemma within_if: "sends_within S h \<Longrightarrow> sends_within S k \<Longrightarrow> sends_within S (if b then h else k)"
  by simp

lemma within_with_answer: "(\<And>e. sends_within S (h e)) \<Longrightarrow> (\<And>x. sends_within S (k x)) \<Longrightarrow> sends_within S (answer m h k)"
  unfolding answer_def by (intro maintains_bindG maintains_attemptG within_lift) (simp split: sum.split)

lemma within_body: "S 400 \<Longrightarrow> (\<And>x. sends_within S (k x)) \<Longrightarrow> sends_within S (with_body dec msg r k)"
  by (simp add: with_body_def within_Error split: option.split)

lemma within_conversation_id: "S 400 \<Longrightarrow> (\<And>x. sends_within S (k x)) \<Longrightarrow> sends_within S (with_conversation_id r k)"
  by (simp add: with_conversation_id_def within_Error split: option.split)

lemma within_user_id: "(\<And>x. sends_within S (k x)) \<Longrightarrow> sends_within S (with_user_id r k)"
  by (simp add: with_user_id_def split: option.split)

lemma within_stream_loop: "S 200 \<Longrightarrow> sends_within S (stream_loop es)"
proof (induction es)
  case (Cons e es)
  then show ?case
    by (cases "se_Error e"; cases "se_Done e")
      (simp_all only: stream_loop.simps option.case if_True if_False within_SSE maintains_bindG maintains_basic)
qed (simp only: stream_loop.simps maintains_basic)

lemma within_crash: "codes_in S (s\<lparr>sv_Crashed := b\<rparr>) = codes_in S s"
  by (simp add: codes_in_def)

lemma within_batch_loop: "sends_within S (batch_loop (h :: 'w tool_handler) r calls order results)"
proof (induction order arbitrary: results)
  case (Cons i order)
  let ?call = "attemptG (liftG (th_executeTool h (calls ! i) (GetUserFromContext r) (GetTokenFromContext r)))"
  have "sends_within S ?call" by (intro maintains_attemptG within_lift)
  show ?case
    unfolding maintains_def
  proof (intro allI impI)
    fix s :: "'w served" assume s: "codes_in S s"
    obtain o1 s1 where call: "?call s = (o1, s1)" by fastforce
    have "codes_in S s1" by (rule maintainsD [OF \<open>sends_within S ?call\<close> s call])
    with Cons.IH call show "codes_in S (snd (batch_loop h r calls (i # order) results s))"
      by (cases o1) (auto simp: maintains_def within_crash split: sum.split)
  qed
qed (simp only: batch_loop.simps maintains_basic)

lemmas within_steps = within_body within_conversation_id within_user_id within_with_answer within_JSON within_Error within_SSE
  within_stream_loop within_Stream within_batch_loop within_lift within_if maintains_bindG

end
