(* ===== verification/Api_Docs.thy ===== *)
theory Api_Docs
  imports Server
begin

text \<open>
  \<open>internal/pkg/response/swagger_types.go\<close>: the answers as the API documentation describes
  them, and which of the program's answers have the described form. The types are never
  instantiated; each is a schema, the list of its JSON keys with their types.
\<close>

section \<open>Schemas\<close>

datatype schema = SString | SBool | SInt | SAny | SArr schema | SObj "(string \<times> schema) list"

text \<open>A document has the described form when it has every described key with its type.\<close>

fun conforms :: "schema \<Rightarrow> json \<Rightarrow> bool" where
  "conforms SAny j = True"
| "conforms SString j = (case j of JStr s \<Rightarrow> True | _ \<Rightarrow> False)"
| "conforms SBool j = (case j of JBool b \<Rightarrow> True | _ \<Rightarrow> False)"
| "conforms SInt j = (case j of JNum n \<Rightarrow> True | _ \<Rightarrow> False)"
| "conforms (SArr s) j = (case j of JArr js \<Rightarrow> list_all (conforms s) js | _ \<Rightarrow> False)"
| "conforms (SObj fs) j = (case j of
     JObj kvs \<Rightarrow> (\<forall>(k, s) \<in> set fs. case map_of kvs k of None \<Rightarrow> False | Some v \<Rightarrow> conforms s v) | _ \<Rightarrow> False)"

section \<open>The documented types\<close>

definition SwaggerErr :: schema where
  "SwaggerErr = SObj [(''code'', SString), (''message'', SString)]"

definition SwaggerErrorResponse :: schema where
  "SwaggerErrorResponse = SObj [(''success'', SBool), (''error'', SwaggerErr)]"

text \<open>The wrappers have \<open>success\<close> and \<open>data\<close>.\<close>

definition swagger_response :: "schema \<Rightarrow> schema" where
  "swagger_response d = SObj [(''success'', SBool), (''data'', d)]"

definition SwaggerHealthData :: schema where
  "SwaggerHealthData = SObj [(''status'', SString)]"

definition SwaggerHealthResponse :: schema where
  "SwaggerHealthResponse = swagger_response SwaggerHealthData"

definition SwaggerUserData :: schema where
  "SwaggerUserData = SObj [(''id'', SString), (''email'', SString), (''name'', SString), (''role'', SString),
     (''is_active'', SBool), (''created_at'', SString)]"

definition SwaggerRegisterData :: schema where
  "SwaggerRegisterData = SObj [(''user'', SwaggerUserData)]"

definition SwaggerRegisterResponse :: schema where
  "SwaggerRegisterResponse = swagger_response SwaggerRegisterData"

definition SwaggerLoginData :: schema where
  "SwaggerLoginData = SObj [(''access_token'', SString), (''refresh_token'', SString), (''token_type'', SString),
     (''expires_in'', SInt), (''user'', SwaggerUserData)]"

definition SwaggerLoginResponse :: schema where
  "SwaggerLoginResponse = swagger_response SwaggerLoginData"

definition SwaggerConversationData :: schema where
  "SwaggerConversationData = SObj [(''id'', SString), (''user_id'', SString), (''title'', SString), (''status'', SString),
     (''agent_type'', SString), (''model'', SString), (''message_count'', SInt), (''total_tokens'', SInt),
     (''created_at'', SString), (''updated_at'', SString)]"

definition SwaggerMessageData :: schema where
  "SwaggerMessageData = SObj [(''id'', SString), (''conversation_id'', SString), (''role'', SString), (''content'', SString),
     (''model'', SString), (''created_at'', SString)]"

definition SwaggerSendMessageData :: schema where
  "SwaggerSendMessageData = SObj [(''conversation'', SwaggerConversationData), (''message'', SwaggerMessageData)]"

definition SwaggerSendMessageResponse :: schema where
  "SwaggerSendMessageResponse = swagger_response SwaggerSendMessageData"

definition SwaggerConversationResponse :: schema where
  "SwaggerConversationResponse = swagger_response SwaggerConversationData"

definition SwaggerConversationListResponse :: schema where
  "SwaggerConversationListResponse = swagger_response (SArr SwaggerConversationData)"

definition SwaggerApprovalData :: schema where
  "SwaggerApprovalData = SObj [(''status'', SString), (''message'', SString)]"

definition SwaggerApprovalResponse :: schema where
  "SwaggerApprovalResponse = swagger_response SwaggerApprovalData"

definition SwaggerChatCompletionChoice :: schema where
  "SwaggerChatCompletionChoice = SObj [(''index'', SInt), (''message'', SwaggerMessageData), (''finish_reason'', SString)]"

definition SwaggerChatCompletionData :: schema where
  "SwaggerChatCompletionData = SObj [(''id'', SString), (''object'', SString), (''model'', SString),
     (''choices'', SArr SwaggerChatCompletionChoice)]"

definition SwaggerChatCompletionResponse :: schema where
  "SwaggerChatCompletionResponse = swagger_response SwaggerChatCompletionData"

definition SwaggerToolFunction :: schema where
  "SwaggerToolFunction = SObj [(''name'', SString), (''description'', SString)]"

definition SwaggerToolData :: schema where
  "SwaggerToolData = SObj [(''type'', SString), (''function'', SwaggerToolFunction)]"

definition SwaggerToolsData :: schema where
  "SwaggerToolsData = SObj [(''tools'', SArr SwaggerToolData)]"

definition SwaggerToolsResponse :: schema where
  "SwaggerToolsResponse = swagger_response SwaggerToolsData"

definition SwaggerToolResultResponse :: schema where
  "SwaggerToolResultResponse = swagger_response SAny"

definition SwaggerBatchResultData :: schema where
  "SwaggerBatchResultData = SObj [(''results'', SArr SAny)]"

definition SwaggerBatchResultResponse :: schema where
  "SwaggerBatchResultResponse = swagger_response SwaggerBatchResultData"

text \<open>The \<open>@Success\<close> annotations of the handlers.\<close>

fun documented :: "endpoint \<Rightarrow> schema" where
  "documented Health = SwaggerHealthResponse"
| "documented Ready = SwaggerHealthResponse"
| "documented Register_Endpoint = SwaggerRegisterResponse"
| "documented Login_Endpoint = SwaggerLoginResponse"
| "documented Refresh_Endpoint = SwaggerLoginResponse"
| "documented Completions = SwaggerChatCompletionResponse"
| "documented CreateConversation = SwaggerSendMessageResponse"
| "documented SendMessage = SwaggerSendMessageResponse"
| "documented GetConversation = SwaggerConversationResponse"
| "documented ListConversations = SwaggerConversationListResponse"
| "documented Approve = SwaggerApprovalResponse"
| "documented ListTools = SwaggerToolsResponse"
| "documented ExecuteTool = SwaggerToolResultResponse"
| "documented ExecuteToolBatch = SwaggerBatchResultResponse"

section \<open>Which answers have the documented form\<close>

abbreviation answer_doc :: "json \<Rightarrow> json" where
  "answer_doc d \<equiv> api_response_json True [(''data'', d)] None"

lemma tool_spec_conforms: "tool_spec_json t = Some j \<Longrightarrow> conforms SwaggerToolData j"
  by (auto simp: tool_spec_json_def function_spec_json_def SwaggerToolData_def SwaggerToolFunction_def)

lemma tool_specs_conform: "sequence_opt (map tool_spec_json ts) = Some js \<Longrightarrow> list_all (conforms SwaggerToolData) js"
proof (induction ts arbitrary: js)
  case (Cons t ts)
  then show ?case using tool_spec_conforms by (cases "tool_spec_json t") auto
qed simp

text \<open>Errors, the health checks and the tool endpoints answer as documented.\<close>

lemma documented_answers:
  "conforms SwaggerErrorResponse (api_response_json False [] (Some e))"
  "conforms (documented Health) (answer_doc (JObj [(''status'', JStr st)]))"
  "conforms (documented Ready) (answer_doc (JObj [(''status'', JStr st)]))"
  "sequence_opt (map tool_spec_json ts) = Some js \<Longrightarrow> conforms (documented ListTools) (answer_doc (JObj [(''tools'', JArr js)]))"
  "conforms (documented ExecuteTool) (answer_doc d)"
  "conforms (documented ExecuteToolBatch) (answer_doc (JObj [(''results'', JArr ds)]))"
  by (simp_all add: api_response_json_def swagger_response_def SwaggerErrorResponse_def SwaggerErr_def SwaggerHealthResponse_def SwaggerHealthData_def
      SwaggerToolsResponse_def SwaggerToolsData_def SwaggerToolResultResponse_def SwaggerBatchResultResponse_def SwaggerBatchResultData_def
      tool_specs_conform [unfolded list_all_iff] list_all_iff)

text \<open>No successful answer about users, conversations or messages does.\<close>

lemma undocumented_answers:
  "create_user_output_json u = Some d \<Longrightarrow> \<not> conforms (documented Register_Endpoint) (answer_doc d)"
  "login_output_json lo = Some d \<Longrightarrow> \<not> conforms (documented Login_Endpoint) (answer_doc d)"
  "\<not> conforms (documented Refresh_Endpoint) (answer_doc (refresh_output_json ro))"
  "\<not> conforms (documented Completions) (answer_doc (send_message_output_json so))"
  "\<not> conforms (documented CreateConversation) (answer_doc (send_message_output_json so))"
  "\<not> conforms (documented SendMessage) (answer_doc (send_message_output_json so))"
  "get_conversation_output_json gc = Some d \<Longrightarrow> \<not> conforms (documented GetConversation) (answer_doc d)"
  "list_conversations_output_json lc = Some d \<Longrightarrow> \<not> conforms (documented ListConversations) (answer_doc d)"
  "approve_output_json ao = Some d \<Longrightarrow> \<not> conforms (documented Approve) (answer_doc d)"
  by (auto simp: api_response_json_def swagger_response_def create_user_output_json_def user_json_def login_output_json_def refresh_output_json_def
      send_message_output_json_def get_conversation_output_json_def list_conversations_output_json_def approve_output_json_def omit_string_def
      SwaggerRegisterResponse_def SwaggerRegisterData_def SwaggerUserData_def SwaggerLoginResponse_def SwaggerLoginData_def
      SwaggerChatCompletionResponse_def SwaggerChatCompletionData_def SwaggerSendMessageResponse_def SwaggerSendMessageData_def
      SwaggerConversationResponse_def SwaggerConversationData_def SwaggerConversationListResponse_def SwaggerApprovalResponse_def SwaggerApprovalData_def split: if_splits)

end
