(* ===== verification/Answers.thy ===== *)
theory Answers
  imports Status_Codes Litellm_Correct Api_Docs
begin

text \<open>
  The form of every answer: a document in the envelope of \<open>response.go\<close>, a successful one with
  the result of its endpoint, any other with an error; and which of them have the documented
  form.
\<close>

section \<open>What an endpoint answers with\<close>

inductive success_doc :: "endpoint \<Rightarrow> json \<Rightarrow> bool" where
  health: "success_doc Health (answer_doc (JObj [(''status'', JStr ''ok'')]))"
| ready: "success_doc Ready (answer_doc (JObj [(''status'', JStr ''ready'')]))"
| register: "create_user_output_json u = Some d \<Longrightarrow> success_doc Register_Endpoint (answer_doc d)"
| login: "login_output_json lo = Some d \<Longrightarrow> success_doc Login_Endpoint (answer_doc d)"
| refresh: "success_doc Refresh_Endpoint (answer_doc (refresh_output_json ro))"
| completion: "success_doc Completions (answer_doc (send_message_output_json so))"
| create: "success_doc CreateConversation (answer_doc (send_message_output_json so))"
| send: "success_doc SendMessage (answer_doc (send_message_output_json so))"
| get: "get_conversation_output_json gc = Some d \<Longrightarrow> success_doc GetConversation (answer_doc d)"
| list: "list_conversations_output_json lc = Some d \<Longrightarrow> success_doc ListConversations (answer_doc d)"
| approve: "approve_output_json ao = Some d \<Longrightarrow> success_doc Approve (answer_doc d)"
| tools: "sequence_opt (map tool_spec_json ts) = Some js \<Longrightarrow> success_doc ListTools (answer_doc (JObj [(''tools'', JArr js)]))"
| execute: "any_member ''data'' v = Some d \<Longrightarrow> success_doc ExecuteTool (api_response_json True d None)"
| batch: "sequence_opt (map any_json vs) = Some js \<Longrightarrow> success_doc ExecuteToolBatch (answer_doc (JObj [(''results'', JArr js)]))"

inductive_cases success_docE: "success_doc ep j"

lemma success_doc_documented:
  "success_doc ep j \<Longrightarrow> ep \<noteq> ExecuteTool \<Longrightarrow> conforms (documented ep) j \<longleftrightarrow> ep \<in> {Health, Ready, ListTools, ExecuteToolBatch}"
  by (erule success_docE) (simp_all only: documented_answers undocumented_answers, simp_all)

text \<open>
  The body of a success: the document and a newline; of a streamed completion one frame for every
  event, then \<open>[DONE]\<close>, or one frame with the error when the stream could not be opened.
\<close>

definition event_stream :: "string \<Rightarrow> bool" where
  "event_stream b \<longleftrightarrow> (\<exists>js. b = concat (map (\<lambda>j. sse_frame (json_print j)) js) @ sse_frame ''[DONE]'')
     \<or> (\<exists>e. b = sse_frame (json_print (error_map e)))"

definition success_body :: "endpoint \<Rightarrow> string \<Rightarrow> bool" where
  "success_body ep b \<longleftrightarrow> (\<exists>j. success_doc ep j \<and> b = json_print j @ [CHR 10]) \<or> ep = Completions \<and> event_stream b"

lemma success_body_doc: "success_doc ep j \<Longrightarrow> success_body ep (json_print j @ [CHR 10])"
  by (auto simp: success_body_def)

section \<open>Handlers that answer so\<close>

text \<open>Nothing is sent yet; the answer is sent, and \<open>Q\<close> holds for the body of a success.\<close>

definition fresh :: "'w served \<Rightarrow> bool" where
  "fresh s \<longleftrightarrow> rw_Sent (sv_Writer s) = None \<and> rw_Body (sv_Writer s) = []"

definition replied :: "(string \<Rightarrow> bool) \<Rightarrow> response_writer \<Rightarrow> bool" where
  "replied Q rw \<longleftrightarrow> (\<exists>st hdr. rw_Sent rw = Some (st, hdr) \<and>
     (if st < 400 then rw_Body rw = [] \<or> Q (rw_Body rw)
      else \<exists>e. rw_Body rw = json_print (api_response_json False [] (Some e)) @ [CHR 10]))"

definition replies :: "(string \<Rightarrow> bool) \<Rightarrow> ('w served, unit) go \<Rightarrow> bool" where
  "replies Q h \<longleftrightarrow> (\<forall>s out s'. fresh s \<longrightarrow> h s = (out, s') \<longrightarrow> (if out = Ret () then replied Q (sv_Writer s') else fresh s'))"

lemma replies_bind:
  assumes "maintains fresh m" "\<And>x. replies Q (k x)"
  shows "replies Q (bindG m k)"
  unfolding replies_def
proof (intro allI impI)
  fix s out s' assume fresh: "fresh s" and run: "bindG m k s = (out, s')"
  obtain r1 s1 where m: "m s = (r1, s1)" by fastforce
  have "fresh s1" by (rule maintainsD [OF assms(1) fresh m])
  with run m assms(2) show "if out = Ret () then replied Q (sv_Writer s') else fresh s'"
    by (cases r1) (auto simp: bindG_def replies_def split: if_splits)
qed

lemma repliesD: "replies Q h \<Longrightarrow> fresh s \<Longrightarrow> h s = (Ret (), s') \<Longrightarrow> replied Q (sv_Writer s')"
  by (auto simp: replies_def)

lemma replies_if: "replies Q h \<Longrightarrow> replies Q k \<Longrightarrow> replies Q (if b then h else k)"
  by simp

lemma replies_panic: "replies Q (panicG p)"
  by (simp add: replies_def panicG_def)

lemma replies_Error: "400 \<le> st \<Longrightarrow> replies Q (response_Error st c m)"
  by (auto simp: replies_def replied_def fresh_def response_Error_def encode_line_def Writer_Write_def send_header_def WriteHeader_def Header_Set_def Let_def)

lemma replies_JSON: "st < 400 \<Longrightarrow> (\<And>d'. d = Some d' \<Longrightarrow> Q (json_print (api_response_json True d' None) @ [CHR 10])) \<Longrightarrow> replies Q (response_JSON st d)"
  by (cases d) (auto simp: replies_def replied_def fresh_def response_JSON_def encode_line_def Writer_Write_def send_header_def WriteHeader_def
      Header_Set_def Let_def)

lemma fresh_lift: "maintains fresh (liftG m)" "maintains fresh (attemptG (liftG m))"
  by (auto simp: maintains_def fresh_def liftG_def attemptG_def split: prod.split outcome.split)

lemma fresh_headers: "(\<And>rw. rw_Sent (f rw) = rw_Sent rw \<and> rw_Body (f rw) = rw_Body rw) \<Longrightarrow> maintains fresh (writerG f)"
  by (simp add: maintains_def fresh_def)

lemma replies_answer: "(\<And>e. replies Q (h e)) \<Longrightarrow> (\<And>x. replies Q (k x)) \<Longrightarrow> replies Q (answer m h k)"
  unfolding answer_def by (rule replies_bind [OF fresh_lift(2)]) (simp split: sum.split)

lemma replies_body: "(\<And>x. replies Q (k x)) \<Longrightarrow> replies Q (with_body dec msg r k)"
  by (simp add: with_body_def replies_Error split: option.split)

lemma replies_conversation_id: "(\<And>x. replies Q (k x)) \<Longrightarrow> replies Q (with_conversation_id r k)"
  by (simp add: with_conversation_id_def replies_Error split: option.split)

lemma replies_user_id: "(\<And>x. replies Q (k x)) \<Longrightarrow> replies Q (with_user_id r k)"
  by (simp add: with_user_id_def replies_panic split: option.split)

lemma fresh_batch_loop: "maintains fresh (batch_loop h r calls order results)"
proof (induction order arbitrary: results)
  case (Cons i order)
  have "maintains fresh (attemptG (liftG (th_executeTool h (calls ! i) (GetUserFromContext r) (GetTokenFromContext r))))" by (rule fresh_lift)
  with Cons.IH show ?case
    by (auto simp: maintains_def fresh_def split: prod.split outcome.split sum.split)
qed (simp add: maintains_def)

text \<open>The stream sends only frames, and the first one sends 200.\<close>

lemma stream_loop_frames:
  "\<exists>s' js. stream_loop es s = (Ret (), s') \<and> rw_Body (sv_Writer s') = rw_Body (sv_Writer s) @ concat (map (\<lambda>j. sse_frame (json_print j)) js)"
proof (induction es arbitrary: s)
  case Nil
  have "stream_loop [] s = (Ret (), s) \<and> rw_Body (sv_Writer s) = rw_Body (sv_Writer s) @ concat (map (\<lambda>j. sse_frame (json_print j)) [])" by simp
  then show ?case by blast
next
  case (Cons e es)
  define j where "j = (case se_Error e of Some err \<Rightarrow> error_map err | None \<Rightarrow> stream_event_json e)"
  obtain s1 where s1: "SSEData (Some j) s = (Ret (), s1)" "rw_Body (sv_Writer s1) = rw_Body (sv_Writer s) @ sse_frame (json_print j)"
    using SSEData_writes by blast
  obtain s2 js where s2: "stream_loop es s1 = (Ret (), s2)"
      "rw_Body (sv_Writer s2) = rw_Body (sv_Writer s1) @ concat (map (\<lambda>j. sse_frame (json_print j)) js)"
    using Cons.IH by blast
  show ?case
  proof (cases "se_Error e = None \<and> \<not> se_Done e")
    case True
    then have "stream_loop (e # es) s = (Ret (), s2) \<and> rw_Body (sv_Writer s2) = rw_Body (sv_Writer s) @ concat (map (\<lambda>j. sse_frame (json_print j)) (j # js))"
      using s1 s2 by (simp add: j_def bindG_def)
    then show ?thesis by blast
  next
    case False
    then have "stream_loop (e # es) s = (Ret (), s1) \<and> rw_Body (sv_Writer s1) = rw_Body (sv_Writer s) @ concat (map (\<lambda>j. sse_frame (json_print j)) [j])"
      using s1 by (cases "se_Error e") (auto simp: j_def bindG_def)
    then show ?thesis by blast
  qed
qed

lemma replies_frames:
  assumes "sends_within ((=) 200) h" "\<And>s. \<exists>s'. h s = (Ret (), s') \<and> rw_Sent (sv_Writer s') \<noteq> None
      \<and> (rw_Body (sv_Writer s) = [] \<longrightarrow> Q (rw_Body (sv_Writer s')))"
  shows "replies Q h"
  unfolding replies_def
proof (intro allI impI)
  fix s out s' assume s: "fresh s" and run: "h s = (out, s')"
  have "codes_in ((=) 200) s" using s by (simp add: fresh_def codes_in_def)
  then have "codes_in ((=) 200) s'" by (rule maintainsD [OF assms(1) _ run])
  with assms(2) [of s] s run show "if out = Ret () then replied Q (sv_Writer s') else fresh s'"
    by (auto simp: fresh_def replied_def codes_in_def)
qed

lemma replies_streaming: "replies (success_body Completions) (handleStreamingChat (h :: 'a chat_handler) r req)"
proof -
  have sends: "\<exists>s'. SSEEvent ev d s = (Ret (), s') \<and> rw_Sent (sv_Writer s') \<noteq> None" "\<exists>s'. SSEData j s = (Ret (), s') \<and> rw_Sent (sv_Writer s') \<noteq> None"
    for ev d j and s :: "'a served"
    unfolding SSEEvent_def SSEData_def writerG_def using Flush_sends [OF Write_sends] by auto
  have one: "replies (success_body Completions) (SSEData (Some (error_map e)) :: ('a served, unit) go)" for e
  proof (rule replies_frames)
    fix s :: "'a served"
    from sends(2) [of "Some (error_map e)" s] SSEData_writes [of "error_map e" s]
    show "\<exists>s'. SSEData (Some (error_map e)) s = (Ret (), s') \<and> rw_Sent (sv_Writer s') \<noteq> None
        \<and> (rw_Body (sv_Writer s) = [] \<longrightarrow> success_body Completions (rw_Body (sv_Writer s')))"
      by (auto simp: success_body_def event_stream_def)
  qed (intro within_SSE HOL.refl)
  have two: "replies (success_body Completions) (bindG (stream_loop es) (\<lambda>_. SSEEvent [] ''[DONE]'') :: ('a served, unit) go)" for es
  proof (rule replies_frames)
    show "sends_within ((=) 200) (bindG (stream_loop es) (\<lambda>_. SSEEvent [] ''[DONE]'') :: ('a served, unit) go)"
      by (intro maintains_bindG within_stream_loop within_SSE HOL.refl)
    fix s :: "'a served"
    obtain s1 js where s1: "stream_loop es s = (Ret (), s1)" "rw_Body (sv_Writer s1) = rw_Body (sv_Writer s) @ concat (map (\<lambda>j. sse_frame (json_print j)) js)"
      using stream_loop_frames by blast
    from sends(1) [of "[]" "''[DONE]''" s1] SSEEvent_writes [of "''[DONE]''" s1] s1
    show "\<exists>s'. bindG (stream_loop es) (\<lambda>_. SSEEvent [] ''[DONE]'') s = (Ret (), s') \<and> rw_Sent (sv_Writer s') \<noteq> None
        \<and> (rw_Body (sv_Writer s) = [] \<longrightarrow> success_body Completions (rw_Body (sv_Writer s')))"
      by (auto simp: success_body_def event_stream_def bindG_def)
  qed
  have "maintains fresh (response_Stream :: ('a served, unit) go)" unfolding response_Stream_def by (intro fresh_headers) (simp add: Header_Set_def)
  then show ?thesis
    unfolding handleStreamingChat_def by (intro replies_bind [where k = "\<lambda>_. with_user_id r _"] replies_user_id replies_answer one two)
qed

lemma replies_endpoint: "replies (success_body ep) (endpoint_handler rt lib srv ep r)"
proof -
  note steps = replies_body replies_conversation_id replies_user_id replies_answer replies_Error
  have docs: "replies (success_body ep) (response_JSON st (data_member d))" if "st < 400" "\<And>j. d = Some j \<Longrightarrow> success_doc ep (answer_doc j)" for ep st d
    using that by (intro replies_JSON) (auto simp: data_member_def success_body_doc)
  have one: "replies (success_body Health) (HealthHandler_Health r)" "replies (success_body Ready) (HealthHandler_Ready (ms_health srv) r)"
    unfolding HealthHandler_Health_def HealthHandler_Ready_def by (intro steps replies_JSON; auto intro!: success_body_doc success_doc.intros)+
  have two: "replies (success_body Register_Endpoint) (AuthHandler_Register (ms_auth srv) r)"
      "replies (success_body Login_Endpoint) (AuthHandler_Login (ms_auth srv) r)"
      "replies (success_body Refresh_Endpoint) (AuthHandler_RefreshToken (ms_auth srv) r)"
      "replies (success_body CreateConversation) (ChatHandler_CreateConversation (ms_chat srv) r)"
      "replies (success_body ListConversations) (ChatHandler_ListConversations (ms_chat srv) r)"
      "replies (success_body GetConversation) (ChatHandler_GetConversation (ms_chat srv) r)"
      "replies (success_body SendMessage) (ChatHandler_SendMessage (ms_chat srv) r)"
      "replies (success_body Approve) (ChatHandler_ApproveAction (ms_chat srv) r)"
    unfolding AuthHandler_Register_def AuthHandler_Login_def AuthHandler_RefreshToken_def ChatHandler_CreateConversation_def
      ChatHandler_ListConversations_def ChatHandler_GetConversation_def ChatHandler_SendMessage_def ChatHandler_ApproveAction_def
    by (intro steps docs; auto intro: success_doc.intros)+
  have "maintains fresh (liftG (m :: ('a, tool_spec list) go))" for m by (rule fresh_lift)
  then have three: "replies (success_body ListTools) (ToolHandler_ListTools rt (ms_tools srv) r)"
    unfolding ToolHandler_ListTools_def by (intro replies_bind docs) (auto intro: success_doc.intros)
  have four: "replies (success_body ExecuteTool) (ToolHandler_ExecuteTool (ms_tools srv) r)"
    unfolding ToolHandler_ExecuteTool_def by (intro steps replies_JSON) (auto intro!: success_body_doc intro: success_doc.intros)
  have five: "replies (success_body ExecuteToolBatch) (ToolHandler_ExecuteToolBatch (lb_schedule lib) (ms_tools srv) r)"
    unfolding ToolHandler_ExecuteToolBatch_def
    by (intro replies_body replies_bind fresh_batch_loop docs) (auto intro: success_doc.intros)
  have six: "replies (success_body Completions) (ChatHandler_ChatCompletions (ms_chat srv) r)"
    unfolding ChatHandler_ChatCompletions_def by (intro steps replies_if replies_streaming docs; auto intro: success_doc.intros)
  show ?thesis using one two three four five six by (cases ep) simp_all
qed

lemma replies_Limit: "replies Q (next r) \<Longrightarrow> replies Q (Limit rt rc next r)"
proof (cases "sr_Token r")
  case (Some t)
  assume nxt: "replies Q (next r)"
  have headers: "maintains fresh (writerG (Header_Set a b \<circ> Header_Set c d))" "maintains fresh (writerG (Header_Set a b \<circ> Header_Set c d \<circ> Header_Set e f))"
    for a b c d e f :: string
    by (intro fresh_headers; simp add: Header_Set_def)+
  show ?thesis
    unfolding Limit_def Some option.case
    by (intro replies_bind replies_if replies_Error fresh_lift headers nxt) simp_all
qed (simp add: Limit_def)

lemma replies_Authenticate: "(\<And>r. replies Q (next r)) \<Longrightarrow> replies Q (Authenticate validate next r)"
  unfolding Authenticate_def Let_def
  by (intro replies_if replies_bind fresh_lift) (auto simp: replies_Error split: sum.split)

lemma replies_chain: "replies (success_body ep) (endpoint_chain rt lib srv ep r)"
  unfolding endpoint_chain_def Let_def by (auto intro: replies_Authenticate replies_Limit replies_endpoint)

lemma replies_CORS:
  assumes "replies Q (next r)" "sr_Method r \<noteq> ''OPTIONS''"
  shows "replies Q (CORS next r)"
  unfolding CORS_def using assms
  by (intro replies_bind fresh_headers) (simp_all add: Header_Set_def)

text \<open>A panic is answered like any other failure.\<close>

lemma replies_Recoverer:
  assumes "replies Q (next r)" "fresh s" "Recoverer next r s = (Ret (), s')"
  shows "replied Q (sv_Writer s')"
proof -
  obtain o1 s1 where run: "next r s = (o1, s1)" by fastforce
  with assms(1,2) have "if o1 = Ret () then replied Q (sv_Writer s1) else fresh s1" by (auto simp: replies_def)
  moreover have "replied Q (sv_Writer s')" if f: "fresh s1" and p: "o1 = Panic p" for p
  proof -
    have "replies Q (response_Error 500 ''INTERNAL_ERROR'' ''Internal server error'')" by (rule replies_Error) simp
    moreover obtain log where "response_Error 500 ''INTERNAL_ERROR'' ''Internal server error'' (s1\<lparr>sv_Log := log\<rparr>) = (Ret (), s')"
      using p run assms(3) by (auto simp: Recoverer_def split: if_splits)
    moreover have "fresh (s1\<lparr>sv_Log := log\<rparr>)" using f by (simp add: fresh_def)
    ultimately show ?thesis using repliesD by blast
  qed
  ultimately show ?thesis using run assms(3) by (cases o1) (auto simp: Recoverer_def split: if_splits)
qed

lemma handle_request_replies:
  assumes "routed lib r = Some (ep, i)" "sr_Method (lb_router_pre lib r) \<noteq> ''OPTIONS''"
    and "handle_request rt lib srv r w = (Ret (), s')"
  shows "replied (success_body ep) (sv_Writer s')"
  using assms(3)
proof (rule handle_request_run)
  fix s1 s2
  assume rec: "Recoverer (CORS (route rt lib srv)) (lb_router_pre lib r) s1 = (Ret (), s2)" and s1: "rw_Sent (sv_Writer s1) = None"
    "rw_Body (sv_Writer s1) = []" and s': "sv_Writer s' = sv_Writer s2"
  have "replies (success_body ep) (route rt lib srv (lb_router_pre lib r))"
    using assms(1) replies_chain by (simp add: route_def routed_def)
  then have "replies (success_body ep) (CORS (route rt lib srv) (lb_router_pre lib r))" by (rule replies_CORS) (rule assms(2))
  from replies_Recoverer [OF this _ rec] s1 s' show ?thesis by (simp add: fresh_def)
qed

text \<open>What a client reads.\<close>

lemma replied_typed:
  assumes "replied (success_body ep) rw"
  shows "\<exists>st hdr. rw_Sent rw = Some (st, hdr) \<and>
    (if st < 400 then rw_Body rw = [] \<or> ep = Completions \<and> event_stream (rw_Body rw)
         \<or> (\<exists>j. rw_Body rw = json_print j @ [CHR 10] \<and> success_doc ep j
           \<and> (ep = ExecuteTool \<or> conforms (documented ep) j = (ep \<in> {Health, Ready, ListTools, ExecuteToolBatch})))
     else \<exists>j. rw_Body rw = json_print j @ [CHR 10] \<and> conforms SwaggerErrorResponse j)"
proof -
  from assms obtain st hdr where sent: "rw_Sent rw = Some (st, hdr)"
      and body: "if st < 400 then rw_Body rw = [] \<or> success_body ep (rw_Body rw)
        else \<exists>e. rw_Body rw = json_print (api_response_json False [] (Some e)) @ [CHR 10]"
    unfolding replied_def by blast
  from body have "if st < 400 then rw_Body rw = [] \<or> ep = Completions \<and> event_stream (rw_Body rw)
         \<or> (\<exists>j. rw_Body rw = json_print j @ [CHR 10] \<and> success_doc ep j
           \<and> (ep = ExecuteTool \<or> conforms (documented ep) j = (ep \<in> {Health, Ready, ListTools, ExecuteToolBatch})))
      else \<exists>j. rw_Body rw = json_print j @ [CHR 10] \<and> conforms SwaggerErrorResponse j"
    using success_doc_documented [of ep] documented_answers(1)
    by (cases "st < 400") (simp_all only: if_True if_False success_body_def, blast+)
  with sent show ?thesis by blast
qed

end
