(* ===== verification/Service_Theorems.thy ===== *)
theory Service_Theorems
  imports Http_Theorems Sessions Answers Chat_Theorems Auth_Theorems
begin

text \<open>
  The service over a history of requests: the database keeps its integrity and its past, every
  answer has the form of its endpoint, and two turns of one conversation at once lose a count.
\<close>

section \<open>Histories\<close>

lemma demo_tenants_server: "\<exists>srv. main_server demo_tenants (Load (\<lambda>_. [])) = Inr srv"
  by (auto simp: main_server_def BuildRunnable_def demo_tenants_def build_start Let_def)

definition demo_tenants_world :: world where
  "demo_tenants_world = demo_world [demo_user, demo_other] [NewAPIKey 51 0 0 8 ''sk-2'' ''laptop'' 1000] [(demo_foreign, None)]"

lemma demo_tenants_ok: "db_ok demo_tenants_world"
  by (simp add: db_ok_def table_ok_defs demo_tenants_world_def demo_world_def demo_user_def demo_other_def demo_foreign_def NewUser_def
      NewConversation_def NewAPIKey_def)

text \<open>C8: whatever requests the program main constructs is sent, and however they end, every constraint of the database holds after them: the keys are unique, the references resolve and the messages are numbered in the order they were stored.\<close>

theorem requests_keep_integrity:
  fixes w :: "'x world_scheme"
  assumes "main_server lib cfg = Inr srv" "quiet_libraries lib" "db_ok w"
  shows "db_ok (serve_all world_runtime lib srv rs w)"
  using integrity.serve_all_steps [OF assms(1,2)] assms(3) by blast

theorem requests_keep_integrity_witness:
  "\<exists>srv. main_server demo_tenants (Load (\<lambda>_. [])) = Inr srv
     \<and> db_ok (serve_all world_runtime demo_tenants srv [demo_intrusion, demo_request ''GET'' ''/v1/tools'' []] demo_tenants_world)"
proof -
  obtain srv where srv: "main_server demo_tenants (Load (\<lambda>_. [])) = Inr srv" using demo_tenants_server by blast
  with requests_keep_integrity [OF srv demo_tenants_quiet demo_tenants_ok] show ?thesis by blast
qed

text \<open>C7: requests only add to the database: users and messages stay as stored and in order, of a token only the time of its last use changes, so none is ever revoked or prolonged, a conversation keeps its owner and is not deleted, and no tool execution is recorded.\<close>

theorem requests_keep_history:
  fixes w :: "'x world_scheme"
  assumes "main_server lib cfg = Inr srv" "quiet_libraries lib" "w' = serve_all world_runtime lib srv rs w"
  shows "prefix (w_users w) (w_users w') \<and> prefix (w_messages w) (w_messages w') \<and> w_executions w' = w_executions w
    \<and> prefix (map token_core (w_tokens w)) (map token_core (w_tokens w'))
    \<and> prefix (map conversation_core (w_conversations w)) (map conversation_core (w_conversations w'))"
  using growth.serve_all_steps [OF assms(1,2), of w rs] unfolding assms(3) grows_def by simp

theorem requests_keep_history_witness:
  "\<exists>srv. main_server demo_tenants (Load (\<lambda>_. [])) = Inr srv
     \<and> prefix [demo_user, demo_other] (w_users (serve_all world_runtime demo_tenants srv [demo_intrusion] demo_tenants_world))
     \<and> w_executions (serve_all world_runtime demo_tenants srv [demo_intrusion] demo_tenants_world) = []"
proof -
  obtain srv where srv: "main_server demo_tenants (Load (\<lambda>_. [])) = Inr srv" using demo_tenants_server by blast
  with requests_keep_history [OF srv demo_tenants_quiet refl, where rs = "[demo_intrusion]" and w = demo_tenants_world] show ?thesis
    by (auto simp: demo_tenants_world_def demo_world_def)
qed

section \<open>Sessions\<close>

text \<open>C9: an access token that a login answered with is accepted, as its user and with a stored token, after any sequence of requests, as long as neither it nor the stored token has expired: nothing a client can ask for ends a session.\<close>

theorem sessions_last:
  fixes w :: "'x world_scheme"
  assumes "main_server lib cfg = Inr srv" "quiet_libraries lib" "jwt_verifies (lb_jwt lib)" "db_ok w" "mono (w_clock w)"
    and "ah_login (ms_auth srv) inp w = (Ret out, w1)" "w2 = serve_all world_runtime lib srv rs w1"
    and "\<And>n. n < 4 \<Longrightarrow> w_fault w2 (w_tick w2 + n) = None"
    and "\<And>n. n < 4 \<Longrightarrow> w_clock w2 (w_tick w2 + n) + second \<le> w_clock w (w_tick w) + min (jc_AccessTokenTTL (cfg_JWT cfg)) (7 * 24 * hour)"
  shows "\<exists>t w3. ms_validate srv (lg_AccessToken out) w2 = (Ret \<lparr>vr_User = lg_User out, vr_Token = t\<rparr>, w3)"
  by (rule session_lasts [OF assms])

text \<open>A JWT library that signs and verifies the two tokens of one login.\<close>

definition demo_session_claims :: "string \<Rightarrow> claims" where
  "demo_session_claims typ = \<lparr>cl_UserID = 7, cl_TokenID = 103, cl_TokenType = typ,
     cl_ExpiresAt = (if typ = ''access'' then 7 + 15 * minute else 9 + 7 * 24 * hour), cl_IssuedAt = (if typ = ''access'' then 8 else 10),
     cl_Issuer = ''go-agent-api''\<rparr>"

definition demo_session_jwt :: jwt_library where
  "demo_session_jwt = \<lparr>jl_Sign = (\<lambda>secret cl. if cl_TokenType cl \<in> {''access'', ''refresh''} \<and> cl = demo_session_claims (cl_TokenType cl)
       then Inr (cl_TokenType cl) else Inl (Errorf ''key'')),
     jl_Parse = (\<lambda>key now tok. if tok \<in> {''access'', ''refresh''} \<and> now < cl_ExpiresAt (demo_session_claims tok)
       then Inr (Some (demo_session_claims tok), True) else Inl (Errorf ''token is expired'')),
     jl_NewNumericDate = (\<lambda>t. t)\<rparr>"

definition demo_sessions :: "world libraries" where
  "demo_sessions = demo_tenants\<lparr>lb_jwt := demo_session_jwt, lb_sha256 := (\<lambda>s. ''digest''), lb_match := lb_match demo_lib\<rparr>"

lemma demo_sessions_quiet: "quiet_libraries demo_sessions"
  using demo_tenants_quiet by (simp add: quiet_libraries_def demo_sessions_def)

lemma demo_sessions_server: "\<exists>srv. main_server demo_sessions (Load (\<lambda>_. [])) = Inr srv"
  by (auto simp: main_server_def BuildRunnable_def demo_sessions_def demo_tenants_def build_start Let_def)

lemma demo_session_verifies: "jwt_verifies demo_session_jwt"
  by (auto simp: jwt_verifies_def demo_session_jwt_def second_def has_prefix_def)

lemma demo_session_login:
  assumes "main_server demo_sessions (Load (\<lambda>_. [])) = Inr srv"
  shows "\<exists>out w1. ah_login (ms_auth srv) \<lparr>li_Email = ''ann@example.org'', li_Password = ''hash''\<rparr> (demo_world [demo_user] [] []) = (Ret out, w1)
     \<and> lg_User out = demo_user \<and> lg_AccessToken out = ''access'' \<and> w_tick w1 = 11 \<and> w_clock w1 = (\<lambda>n. int n) \<and> w_fault w1 = (\<lambda>n. None)"
proof -
  let ?auth = "\<lparr>vu_tokenRepo = TokenRepository, vu_userRepo = UserRepository,
      vu_jwtMgr = NewJWTManager ''change-me-in-production-please'' (15 * minute) (7 * 24 * hour)\<rparr> :: world auth_usecase"
  have "ah_login (ms_auth srv) = Login_Execute world_runtime demo_session_jwt (\<lambda>s. ''digest'') format_uuid demo_bcrypt ?auth"
    using assms by (auto simp: main_server_def Let_def Load_def getDuration_def getEnv_def demo_sessions_def demo_tenants_def demo_lib_def
        simp del: RegisterAll.simps split: sum.splits)
  then show ?thesis
    by (simp add: Login_Execute_def GenerateAPIKey_def GenerateAccessToken_def GenerateRefreshToken_def generate_token_def resultG_def HashToken_def
        demo_session_jwt_def demo_session_claims_def Let_def bindG_def maskG_def wrapG_def attemptG_def auth_store_defs auth_demo_defs)
qed

lemma demo_health_world: "serve_all world_runtime demo_sessions srv [demo_request ''GET'' ''/health'' []] w = tick (tick w)"
  by (simp add: handle_request_def ServeHTTP_def Logger_def Recoverer_def CORS_def demo_sessions_def demo_tenants_def demo_lib_def demo_request_def public_routes_def
      endpoint_chain_def endpoint_protected_def protected_routes_def HealthHandler_Health_def response_JSON_def encode_line_def Writer_Write_def
      send_header_def WriteHeader_def Header_Set_def new_writer_def world_runtime_def bindG_def liftG_def
      writerG_def Let_def)

theorem sessions_last_witness:
  "\<exists>srv out w1 t w3. main_server demo_sessions (Load (\<lambda>_. [])) = Inr srv
     \<and> ah_login (ms_auth srv) \<lparr>li_Email = ''ann@example.org'', li_Password = ''hash''\<rparr> (demo_world [demo_user] [] []) = (Ret out, w1)
     \<and> ms_validate srv (lg_AccessToken out) (serve_all world_runtime demo_sessions srv [demo_request ''GET'' ''/health'' []] w1)
         = (Ret \<lparr>vr_User = demo_user, vr_Token = t\<rparr>, w3)"
proof -
  let ?w = "demo_world [demo_user] [] []" and ?rs = "[demo_request ''GET'' ''/health'' []]"
  obtain srv where srv: "main_server demo_sessions (Load (\<lambda>_. [])) = Inr srv" using demo_sessions_server by blast
  from demo_session_login [OF this] obtain out w1 where
      login: "ah_login (ms_auth srv) \<lparr>li_Email = ''ann@example.org'', li_Password = ''hash''\<rparr> ?w = (Ret out, w1)" "lg_User out = demo_user"
      and w1: "w_tick w1 = 11" "w_clock w1 = (\<lambda>n. int n)" "w_fault w1 = (\<lambda>n. None)"
    by blast
  have "jwt_verifies (lb_jwt demo_sessions)" by (simp add: demo_sessions_def demo_session_verifies)
  moreover have "db_ok ?w" by (rule demo_db_ok)
  moreover have "mono (w_clock ?w)" by (simp add: demo_world_def mono_def)
  ultimately have "\<exists>t w3. ms_validate srv (lg_AccessToken out) (tick (tick w1)) = (Ret \<lparr>vr_User = lg_User out, vr_Token = t\<rparr>, w3)"
    by (rule sessions_last [OF srv demo_sessions_quiet _ _ _ login(1) demo_health_world [symmetric]])
      (simp_all add: w1 demo_world_def Load_def getDuration_def duration_defs)
  with srv login show ?thesis unfolding demo_health_world by metis
qed

section \<open>Answers\<close>


lemma demo_health:
  "\<exists>s' hdr. handle_request world_runtime demo_lib undefined (demo_request ''GET'' ''/health'' []) (demo_world [] [] []) = (Ret (), s')
     \<and> rw_Sent (sv_Writer s') = Some (200, hdr) \<and> rw_Body (sv_Writer s') \<noteq> []"
  by (simp add: handle_request_def ServeHTTP_def Logger_def Recoverer_def CORS_def demo_lib_def demo_request_def public_routes_def
      endpoint_chain_def endpoint_protected_def protected_routes_def HealthHandler_Health_def response_JSON_def encode_line_def Writer_Write_def
      send_header_def WriteHeader_def Header_Set_def new_writer_def demo_world_def world_runtime_def tick_def bindG_def liftG_def
      writerG_def Let_def)


section \<open>Turns at the same time\<close>

text \<open>C14: a turn writes back the conversation as it was when the turn began: whatever happened to it while the model was answering, other turns that completed included, the count of its messages ends one above the old one, and its status and workflow state are the old ones.\<close>

theorem concurrent_turns_lost:
  assumes "SendMessage_Execute world_runtime uc input w = (Ret out, w')" "si_Messages input = []" "si_ConversationID input = Some i"
    "so_Message out \<noteq> None" and "su_convRepo uc = ConversationRepository" "su_msgRepo uc = MessageRepository" "db_ok w"
    and "\<And>inp. maintains db_ok (we_Run (su_engine uc) inp)" and "pg_conv_of w i = Some c" "pg_conv_of w' i = Some c'"
  shows "c_MessageCount c' = c_MessageCount c + 1 \<and> c_Status c' = c_Status c \<and> c_WorkflowState c' = jsonb_col (c_WorkflowState c)"
  by (rule pg_chat.send_overwrites [OF assms])

text \<open>While one turn waits for the model a second turn of the same conversation runs and completes.\<close>

definition demo_busy :: "world send_message_usecase" where
  "demo_busy = NewSendMessageUseCase ConversationRepository MessageRepository (demo_llm [])
     ((demo_engine False)\<lparr>we_Run := (\<lambda>inp. bindG (SendMessage_Execute world_runtime (demo_sender False) (demo_message (Some 100) 7))
       (\<lambda>_. returnG (demo_output False)))\<rparr>) []"

definition demo_busy_world :: world where
  "demo_busy_world = demo_world [demo_user] [] [(NewConversation 100 1 2 7 ''general'', None)]"

lemma demo_busy_run:
  "\<exists>out w'. SendMessage_Execute world_runtime demo_busy (demo_message (Some 100) 7) demo_busy_world = (Ret out, w')
     \<and> so_Message out \<noteq> None \<and> length (pg_msgs_of w' 100) = 4 \<and> pg_conv_of w' 100 \<noteq> None"
  by (simp add: demo_busy_def demo_busy_world_def demo_defs chat_defs store_defs pg_conv_of_def pg_msgs_of_def conversation_messages_def order_rows_def Let_def)

lemma demo_busy_keeps: "maintains db_ok (we_Run (su_engine demo_busy) inp)"
proof -
  have "preserves (\<lambda>w w'. db_ok w \<longrightarrow> db_ok w') (SendMessage_Execute world_runtime (demo_sender False) (demo_message (Some 100) 7))"
    by (intro integrity.SendMessage_steps) (simp_all add: demo_sender_def NewSendMessageUseCase_def demo_engine_def demo_llm_def integrity.preserves_basic
        del: returnG_apply)
  then show ?thesis
    unfolding preserves_maintains [symmetric] by (simp add: demo_busy_def NewSendMessageUseCase_def integrity.preserves_steps del: returnG_apply)
qed

theorem concurrent_turns_lost_witness:
  "\<exists>out w' c'. SendMessage_Execute world_runtime demo_busy (demo_message (Some 100) 7) demo_busy_world = (Ret out, w')
     \<and> length (pg_msgs_of w' 100) = 4 \<and> pg_conv_of w' 100 = Some c' \<and> c_MessageCount c' = 1"
proof -
  obtain out w' c' where run: "SendMessage_Execute world_runtime demo_busy (demo_message (Some 100) 7) demo_busy_world = (Ret out, w')"
      "so_Message out \<noteq> None" "length (pg_msgs_of w' 100) = 4" "pg_conv_of w' 100 = Some c'"
    using demo_busy_run by blast
  have "db_ok demo_busy_world" "pg_conv_of demo_busy_world 100 = Some (NewConversation 100 1 2 7 ''general'')"
    by (simp_all add: demo_busy_world_def demo_world_def db_ok_def table_ok_defs pg_conv_of_def live_conversations_def NewConversation_def
        demo_user_def NewUser_def)
  then have "c_MessageCount c' = c_MessageCount (NewConversation 100 1 2 7 ''general'') + 1"
    using concurrent_turns_lost [OF run(1) _ _ run(2) _ _ _ demo_busy_keeps _ run(4)]
    by (simp add: demo_busy_def NewSendMessageUseCase_def demo_message_def)
  with run show ?thesis by (auto simp: NewConversation_def)
qed

end
