(* ===== verification/Swagger_Docs.thy ===== *)
theory Swagger_Docs
  imports Go_Json
begin

text \<open>
  \<open>docs/docs.go\<close>: the published description of the API, as the JSON document the template is
  the text of. Every path and every type is one definition, with the members in the order of the
  file; \<open>docTemplate\<close> puts them together and fills in the fields of the \<open>swag.Spec\<close>.
\<close>

section \<open>Recurring members\<close>

text \<open>The packages the names of the types begin with.\<close>

definition dto_request :: "string \<Rightarrow> string" where
  "dto_request n = ''github_com_wyuneed_go-agent-api_internal_application_dto_request.'' @ n"

definition port_pkg :: "string \<Rightarrow> string" where
  "port_pkg n = ''github_com_wyuneed_go-agent-api_internal_application_port.'' @ n"

definition response_pkg :: "string \<Rightarrow> string" where
  "response_pkg n = ''github_com_wyuneed_go-agent-api_internal_pkg_response.'' @ n"

definition toolspec_pkg :: "string \<Rightarrow> string" where
  "toolspec_pkg n = ''github_com_wyuneed_go-agent-api_pkg_toolspec.'' @ n"

definition docs_strings :: "string list \<Rightarrow> json" where
  "docs_strings ss = JArr (map JStr ss)"

definition schema_ref :: "string \<Rightarrow> json" where
  "schema_ref n = JObj [(''$ref'', JStr (''#/definitions/'' @ n))]"

definition schema_type :: "string \<Rightarrow> json" where
  "schema_type t = JObj [(''type'', JStr t)]"

definition schema_example :: "string \<Rightarrow> json \<Rightarrow> json" where
  "schema_example t ex = JObj [(''type'', JStr t), (''example'', ex)]"

definition schema_array :: "json \<Rightarrow> json" where
  "schema_array items = JObj [(''type'', JStr ''array''), (''items'', items)]"

definition schema_object :: "(string \<times> json) list \<Rightarrow> json" where
  "schema_object props = JObj [(''type'', JStr ''object''), (''properties'', JObj props)]"

definition docs_response :: "string \<Rightarrow> json \<Rightarrow> json" where
  "docs_response descr sch = JObj [(''description'', JStr descr), (''schema'', sch)]"

definition body_parameter :: "string \<Rightarrow> json \<Rightarrow> json" where
  "body_parameter descr sch = JObj [(''description'', JStr descr), (''name'', JStr ''body''), (''in'', JStr ''body''),
     (''required'', JBool True), (''schema'', sch)]"

definition path_parameter :: "string \<Rightarrow> string \<Rightarrow> string \<Rightarrow> json" where
  "path_parameter t descr n = JObj [(''type'', JStr t), (''description'', JStr descr), (''name'', JStr n),
     (''in'', JStr ''path''), (''required'', JBool True)]"

definition bearer_security :: "string \<times> json" where
  "bearer_security = (''security'', JArr [JObj [(''BearerAuth'', JArr [])]])"

section \<open>The operations\<close>

definition docs_path_health :: "string \<times> json" where
  "docs_path_health = (''/health'', JObj [(''get'', JObj [
       (''description'', JStr ''Returns 200 OK when the server process is running''),
       (''produces'', docs_strings [''application/json'']),
       (''tags'', docs_strings [''health'']),
       (''summary'', JStr ''Liveness check''),
       (''responses'', JObj [
          (''200'', docs_response ''OK'' (schema_ref (response_pkg ''SwaggerHealthResponse'')))])])])"

definition docs_path_ready :: "string \<times> json" where
  "docs_path_ready = (''/ready'', JObj [(''get'', JObj [
       (''description'', JStr ''Returns 200 OK when the server is ready (DB + Redis connected)''),
       (''produces'', docs_strings [''application/json'']),
       (''tags'', docs_strings [''health'']),
       (''summary'', JStr ''Readiness check''),
       (''responses'', JObj [
          (''200'', docs_response ''OK'' (schema_ref (response_pkg ''SwaggerHealthResponse''))),
          (''503'', docs_response ''Service Unavailable'' (schema_ref (response_pkg ''SwaggerErrorResponse'')))])])])"

definition docs_path_auth_login :: "string \<times> json" where
  "docs_path_auth_login = (''/v1/auth/login'', JObj [(''post'', JObj [
       (''description'', JStr ''Authenticates a user and returns JWT access + refresh tokens''),
       (''consumes'', docs_strings [''application/json'']),
       (''produces'', docs_strings [''application/json'']),
       (''tags'', docs_strings [''auth'']),
       (''summary'', JStr ''Login''),
       (''parameters'', JArr [body_parameter ''Login credentials'' (schema_ref (dto_request ''LoginRequest''))]),
       (''responses'', JObj [
          (''200'', docs_response ''OK'' (schema_ref (response_pkg ''SwaggerLoginResponse''))),
          (''400'', docs_response ''Bad Request'' (schema_ref (response_pkg ''SwaggerErrorResponse''))),
          (''401'', docs_response ''Unauthorized'' (schema_ref (response_pkg ''SwaggerErrorResponse'')))])])])"

definition docs_path_auth_refresh :: "string \<times> json" where
  "docs_path_auth_refresh = (''/v1/auth/refresh'', JObj [(''post'', JObj [
       (''description'', JStr ''Uses a valid refresh token to issue a new access token''),
       (''consumes'', docs_strings [''application/json'']),
       (''produces'', docs_strings [''application/json'']),
       (''tags'', docs_strings [''auth'']),
       (''summary'', JStr ''Refresh access token''),
       (''parameters'', JArr [body_parameter ''Refresh token'' (schema_ref (dto_request ''RefreshTokenRequest''))]),
       (''responses'', JObj [
          (''200'', docs_response ''OK'' (schema_ref (response_pkg ''SwaggerLoginResponse''))),
          (''400'', docs_response ''Bad Request'' (schema_ref (response_pkg ''SwaggerErrorResponse''))),
          (''401'', docs_response ''Unauthorized'' (schema_ref (response_pkg ''SwaggerErrorResponse'')))])])])"

definition docs_path_auth_register :: "string \<times> json" where
  "docs_path_auth_register = (''/v1/auth/register'', JObj [(''post'', JObj [
       (''description'', JStr ''Creates a new user account with email and password''),
       (''consumes'', docs_strings [''application/json'']),
       (''produces'', docs_strings [''application/json'']),
       (''tags'', docs_strings [''auth'']),
       (''summary'', JStr ''Register a new user''),
       (''parameters'', JArr [body_parameter ''Registration details'' (schema_ref (dto_request ''RegisterRequest''))]),
       (''responses'', JObj [
          (''201'', docs_response ''Created'' (schema_ref (response_pkg ''SwaggerRegisterResponse''))),
          (''400'', docs_response ''Bad Request'' (schema_ref (response_pkg ''SwaggerErrorResponse'')))])])])"

definition docs_path_chat_completions :: "string \<times> json" where
  "docs_path_chat_completions = (''/v1/chat/completions'', JObj [(''post'', JObj [
       bearer_security,
       (''description'', JStr ''Sends messages to the AI agent and returns a completion. Set stream=true to receive Server-Sent Events.''),
       (''consumes'', docs_strings [''application/json'']),
       (''produces'', docs_strings [''application/json'']),
       (''tags'', docs_strings [''chat'']),
       (''summary'', JStr ''Chat completions (OpenAI-compatible)''),
       (''parameters'', JArr [body_parameter ''Chat completion request'' (schema_ref (dto_request ''ChatCompletionRequest''))]),
       (''responses'', JObj [
          (''200'', docs_response ''OK'' (schema_ref (response_pkg ''SwaggerChatCompletionResponse''))),
          (''400'', docs_response ''Bad Request'' (schema_ref (response_pkg ''SwaggerErrorResponse''))),
          (''401'', docs_response ''Unauthorized'' (schema_ref (response_pkg ''SwaggerErrorResponse''))),
          (''500'', docs_response ''Internal Server Error'' (schema_ref (response_pkg ''SwaggerErrorResponse'')))])])])"

definition docs_path_conversations :: "string \<times> json" where
  "docs_path_conversations = (''/v1/conversations'', JObj [(''get'', JObj [
       bearer_security,
       (''description'', JStr ''Returns all conversations belonging to the authenticated user''),
       (''produces'', docs_strings [''application/json'']),
       (''tags'', docs_strings [''conversations'']),
       (''summary'', JStr ''List conversations''),
       (''responses'', JObj [
          (''200'', docs_response ''OK'' (schema_ref (response_pkg ''SwaggerConversationListResponse''))),
          (''401'', docs_response ''Unauthorized'' (schema_ref (response_pkg ''SwaggerErrorResponse''))),
          (''500'', docs_response ''Internal Server Error'' (schema_ref (response_pkg ''SwaggerErrorResponse'')))])]), (''post'', JObj [
       bearer_security,
       (''description'', JStr ''Creates a new conversation and sends the first message to the agent''),
       (''consumes'', docs_strings [''application/json'']),
       (''produces'', docs_strings [''application/json'']),
       (''tags'', docs_strings [''conversations'']),
       (''summary'', JStr ''Create a conversation''),
       (''parameters'', JArr [body_parameter ''Conversation details'' (schema_ref (dto_request ''CreateConversationRequest''))]),
       (''responses'', JObj [
          (''201'', docs_response ''Created'' (schema_ref (response_pkg ''SwaggerSendMessageResponse''))),
          (''400'', docs_response ''Bad Request'' (schema_ref (response_pkg ''SwaggerErrorResponse''))),
          (''401'', docs_response ''Unauthorized'' (schema_ref (response_pkg ''SwaggerErrorResponse''))),
          (''500'', docs_response ''Internal Server Error'' (schema_ref (response_pkg ''SwaggerErrorResponse'')))])])])"

definition docs_path_conversations_id :: "string \<times> json" where
  "docs_path_conversations_id = (''/v1/conversations/{id}'', JObj [(''get'', JObj [
       bearer_security,
       (''description'', JStr ''Returns a conversation with its full message history''),
       (''produces'', docs_strings [''application/json'']),
       (''tags'', docs_strings [''conversations'']),
       (''summary'', JStr ''Get a conversation''),
       (''parameters'', JArr [path_parameter ''string'' ''Conversation ID (UUID)'' ''id'']),
       (''responses'', JObj [
          (''200'', docs_response ''OK'' (schema_ref (response_pkg ''SwaggerConversationResponse''))),
          (''400'', docs_response ''Bad Request'' (schema_ref (response_pkg ''SwaggerErrorResponse''))),
          (''401'', docs_response ''Unauthorized'' (schema_ref (response_pkg ''SwaggerErrorResponse''))),
          (''404'', docs_response ''Not Found'' (schema_ref (response_pkg ''SwaggerErrorResponse'')))])])])"

definition docs_path_conversations_id_approve :: "string \<times> json" where
  "docs_path_conversations_id_approve = (''/v1/conversations/{id}/approve'', JObj [(''post'', JObj [
       bearer_security,
       (''description'', JStr ''Resumes a conversation that is paused waiting for human-in-the-loop approval''),
       (''consumes'', docs_strings [''application/json'']),
       (''produces'', docs_strings [''application/json'']),
       (''tags'', docs_strings [''conversations'']),
       (''summary'', JStr ''Approve or reject a pending action''),
       (''parameters'', JArr [path_parameter ''string'' ''Conversation ID (UUID)'' ''id'',
          body_parameter ''Approval decision'' (schema_ref (dto_request ''ApprovalRequest''))]),
       (''responses'', JObj [
          (''200'', docs_response ''OK'' (schema_ref (response_pkg ''SwaggerApprovalResponse''))),
          (''400'', docs_response ''Bad Request'' (schema_ref (response_pkg ''SwaggerErrorResponse''))),
          (''401'', docs_response ''Unauthorized'' (schema_ref (response_pkg ''SwaggerErrorResponse''))),
          (''500'', docs_response ''Internal Server Error'' (schema_ref (response_pkg ''SwaggerErrorResponse'')))])])])"

definition docs_path_conversations_id_messages :: "string \<times> json" where
  "docs_path_conversations_id_messages = (''/v1/conversations/{id}/messages'', JObj [(''post'', JObj [
       bearer_security,
       (''description'', JStr ''Sends a message to an existing conversation and returns the agent's reply''),
       (''consumes'', docs_strings [''application/json'']),
       (''produces'', docs_strings [''application/json'']),
       (''tags'', docs_strings [''conversations'']),
       (''summary'', JStr ''Send a message''),
       (''parameters'', JArr [path_parameter ''string'' ''Conversation ID (UUID)'' ''id'',
          body_parameter ''Message content'' (schema_ref (dto_request ''SendMessageRequest''))]),
       (''responses'', JObj [
          (''200'', docs_response ''OK'' (schema_ref (response_pkg ''SwaggerSendMessageResponse''))),
          (''400'', docs_response ''Bad Request'' (schema_ref (response_pkg ''SwaggerErrorResponse''))),
          (''401'', docs_response ''Unauthorized'' (schema_ref (response_pkg ''SwaggerErrorResponse''))),
          (''500'', docs_response ''Internal Server Error'' (schema_ref (response_pkg ''SwaggerErrorResponse'')))])])])"

definition docs_path_tools :: "string \<times> json" where
  "docs_path_tools = (''/v1/tools'', JObj [(''get'', JObj [
       bearer_security,
       (''description'', JStr ''Returns the list of tools the authenticated token is allowed to use''),
       (''produces'', docs_strings [''application/json'']),
       (''tags'', docs_strings [''tools'']),
       (''summary'', JStr ''List available tools''),
       (''responses'', JObj [
          (''200'', docs_response ''OK'' (schema_ref (response_pkg ''SwaggerToolsResponse''))),
          (''401'', docs_response ''Unauthorized'' (schema_ref (response_pkg ''SwaggerErrorResponse'')))])])])"

definition docs_path_tools_batch :: "string \<times> json" where
  "docs_path_tools_batch = (''/v1/tools/batch'', JObj [(''post'', JObj [
       bearer_security,
       (''description'', JStr ''Executes multiple tool calls concurrently and returns all results''),
       (''consumes'', docs_strings [''application/json'']),
       (''produces'', docs_strings [''application/json'']),
       (''tags'', docs_strings [''tools'']),
       (''summary'', JStr ''Execute tools in parallel''),
       (''parameters'', JArr [body_parameter ''Array of tool calls'' (schema_array (schema_ref (toolspec_pkg ''ToolCall'')))]),
       (''responses'', JObj [
          (''200'', docs_response ''OK'' (schema_ref (response_pkg ''SwaggerBatchResultResponse''))),
          (''400'', docs_response ''Bad Request'' (schema_ref (response_pkg ''SwaggerErrorResponse''))),
          (''401'', docs_response ''Unauthorized'' (schema_ref (response_pkg ''SwaggerErrorResponse''))),
          (''500'', docs_response ''Internal Server Error'' (schema_ref (response_pkg ''SwaggerErrorResponse'')))])])])"

definition docs_path_tools_execute :: "string \<times> json" where
  "docs_path_tools_execute = (''/v1/tools/execute'', JObj [(''post'', JObj [
       bearer_security,
       (''description'', JStr ''Executes a single tool call and returns the result''),
       (''consumes'', docs_strings [''application/json'']),
       (''produces'', docs_strings [''application/json'']),
       (''tags'', docs_strings [''tools'']),
       (''summary'', JStr ''Execute a tool''),
       (''parameters'', JArr [body_parameter ''Tool call'' (schema_ref (toolspec_pkg ''ToolCall''))]),
       (''responses'', JObj [
          (''200'', docs_response ''OK'' (schema_ref (response_pkg ''SwaggerToolResultResponse''))),
          (''400'', docs_response ''Bad Request'' (schema_ref (response_pkg ''SwaggerErrorResponse''))),
          (''401'', docs_response ''Unauthorized'' (schema_ref (response_pkg ''SwaggerErrorResponse''))),
          (''500'', docs_response ''Internal Server Error'' (schema_ref (response_pkg ''SwaggerErrorResponse'')))])])])"

section \<open>The types\<close>

definition docs_ApprovalRequest :: "string \<times> json" where
  "docs_ApprovalRequest = (dto_request ''ApprovalRequest'', schema_object [
     (''approved'', schema_type ''boolean''),
     (''reason'', schema_type ''string'')])"

definition docs_ChatCompletionRequest :: "string \<times> json" where
  "docs_ChatCompletionRequest = (dto_request ''ChatCompletionRequest'', schema_object [
     (''max_tokens'', schema_type ''integer''),
     (''messages'', schema_array (schema_ref (port_pkg ''ChatMessage''))),
     (''model'', schema_type ''string''),
     (''stream'', schema_type ''boolean''),
     (''temperature'', schema_type ''number''),
     (''tool_choice'', JObj []),
     (''tools'', schema_array (JObj []))])"

definition docs_CreateConversationRequest :: "string \<times> json" where
  "docs_CreateConversationRequest = (dto_request ''CreateConversationRequest'', schema_object [
     (''agent_type'', schema_type ''string''),
     (''message'', schema_type ''string'')])"

definition docs_LoginRequest :: "string \<times> json" where
  "docs_LoginRequest = (dto_request ''LoginRequest'', schema_object [
     (''email'', schema_type ''string''),
     (''password'', schema_type ''string'')])"

definition docs_RefreshTokenRequest :: "string \<times> json" where
  "docs_RefreshTokenRequest = (dto_request ''RefreshTokenRequest'', schema_object [
     (''refresh_token'', schema_type ''string'')])"

definition docs_RegisterRequest :: "string \<times> json" where
  "docs_RegisterRequest = (dto_request ''RegisterRequest'', schema_object [
     (''email'', schema_type ''string''),
     (''name'', schema_type ''string''),
     (''password'', schema_type ''string'')])"

definition docs_SendMessageRequest :: "string \<times> json" where
  "docs_SendMessageRequest = (dto_request ''SendMessageRequest'', schema_object [
     (''message'', schema_type ''string'')])"

definition docs_ChatMessage :: "string \<times> json" where
  "docs_ChatMessage = (port_pkg ''ChatMessage'', schema_object [
     (''content'', schema_type ''string''),
     (''name'', schema_type ''string''),
     (''role'', schema_type ''string''),
     (''tool_call_id'', schema_type ''string''),
     (''tool_calls'', schema_array (schema_ref (toolspec_pkg ''ToolCall'')))])"

definition docs_SwaggerApprovalData :: "string \<times> json" where
  "docs_SwaggerApprovalData = (response_pkg ''SwaggerApprovalData'', schema_object [
     (''message'', schema_example ''string'' (JStr ''Action approved, resuming workflow'')),
     (''status'', schema_example ''string'' (JStr ''approved''))])"

definition docs_SwaggerApprovalResponse :: "string \<times> json" where
  "docs_SwaggerApprovalResponse = (response_pkg ''SwaggerApprovalResponse'', schema_object [
     (''data'', schema_ref (response_pkg ''SwaggerApprovalData'')),
     (''success'', schema_example ''boolean'' (JBool True))])"

definition docs_SwaggerBatchResultData :: "string \<times> json" where
  "docs_SwaggerBatchResultData = (response_pkg ''SwaggerBatchResultData'', schema_object [
     (''results'', schema_array (JObj []))])"

definition docs_SwaggerBatchResultResponse :: "string \<times> json" where
  "docs_SwaggerBatchResultResponse = (response_pkg ''SwaggerBatchResultResponse'', schema_object [
     (''data'', schema_ref (response_pkg ''SwaggerBatchResultData'')),
     (''success'', schema_example ''boolean'' (JBool True))])"

definition docs_SwaggerChatCompletionChoice :: "string \<times> json" where
  "docs_SwaggerChatCompletionChoice = (response_pkg ''SwaggerChatCompletionChoice'', schema_object [
     (''finish_reason'', schema_example ''string'' (JStr ''stop'')),
     (''index'', schema_example ''integer'' (JNum ''0'')),
     (''message'', schema_ref (response_pkg ''SwaggerMessageData''))])"

definition docs_SwaggerChatCompletionData :: "string \<times> json" where
  "docs_SwaggerChatCompletionData = (response_pkg ''SwaggerChatCompletionData'', schema_object [
     (''choices'', schema_array (schema_ref (response_pkg ''SwaggerChatCompletionChoice''))),
     (''id'', schema_example ''string'' (JStr ''chatcmpl-abc123'')),
     (''model'', schema_example ''string'' (JStr ''gpt-4o-mini'')),
     (''object'', schema_example ''string'' (JStr ''chat.completion''))])"

definition docs_SwaggerChatCompletionResponse :: "string \<times> json" where
  "docs_SwaggerChatCompletionResponse = (response_pkg ''SwaggerChatCompletionResponse'', schema_object [
     (''data'', schema_ref (response_pkg ''SwaggerChatCompletionData'')),
     (''success'', schema_example ''boolean'' (JBool True))])"

definition docs_SwaggerConversationData :: "string \<times> json" where
  "docs_SwaggerConversationData = (response_pkg ''SwaggerConversationData'', schema_object [
     (''agent_type'', schema_example ''string'' (JStr ''general'')),
     (''created_at'', schema_example ''string'' (JStr ''2024-01-01T00:00:00Z'')),
     (''id'', schema_example ''string'' (JStr ''550e8400-e29b-41d4-a716-446655440000'')),
     (''message_count'', schema_example ''integer'' (JNum ''5'')),
     (''model'', schema_example ''string'' (JStr ''gpt-4o-mini'')),
     (''status'', schema_example ''string'' (JStr ''active'')),
     (''title'', schema_example ''string'' (JStr ''My first conversation'')),
     (''total_tokens'', schema_example ''integer'' (JNum ''1024'')),
     (''updated_at'', schema_example ''string'' (JStr ''2024-01-01T00:01:00Z'')),
     (''user_id'', schema_example ''string'' (JStr ''550e8400-e29b-41d4-a716-446655440000''))])"

definition docs_SwaggerConversationListResponse :: "string \<times> json" where
  "docs_SwaggerConversationListResponse = (response_pkg ''SwaggerConversationListResponse'', schema_object [
     (''data'', schema_array (schema_ref (response_pkg ''SwaggerConversationData''))),
     (''success'', schema_example ''boolean'' (JBool True))])"

definition docs_SwaggerConversationResponse :: "string \<times> json" where
  "docs_SwaggerConversationResponse = (response_pkg ''SwaggerConversationResponse'', schema_object [
     (''data'', schema_ref (response_pkg ''SwaggerConversationData'')),
     (''success'', schema_example ''boolean'' (JBool True))])"

definition docs_SwaggerErr :: "string \<times> json" where
  "docs_SwaggerErr = (response_pkg ''SwaggerErr'', schema_object [
     (''code'', schema_example ''string'' (JStr ''INVALID_REQUEST'')),
     (''message'', schema_example ''string'' (JStr ''Invalid request body''))])"

definition docs_SwaggerErrorResponse :: "string \<times> json" where
  "docs_SwaggerErrorResponse = (response_pkg ''SwaggerErrorResponse'', schema_object [
     (''error'', schema_ref (response_pkg ''SwaggerErr'')),
     (''success'', schema_example ''boolean'' (JBool False))])"

definition docs_SwaggerHealthData :: "string \<times> json" where
  "docs_SwaggerHealthData = (response_pkg ''SwaggerHealthData'', schema_object [
     (''status'', schema_example ''string'' (JStr ''ok''))])"

definition docs_SwaggerHealthResponse :: "string \<times> json" where
  "docs_SwaggerHealthResponse = (response_pkg ''SwaggerHealthResponse'', schema_object [
     (''data'', schema_ref (response_pkg ''SwaggerHealthData'')),
     (''success'', schema_example ''boolean'' (JBool True))])"

definition docs_SwaggerLoginData :: "string \<times> json" where
  "docs_SwaggerLoginData = (response_pkg ''SwaggerLoginData'', schema_object [
     (''access_token'', schema_example ''string'' (JStr ''eyJhbGciOiJIUzI1NiIsInR5cCI6IkpXVCJ9...'')),
     (''expires_in'', schema_example ''integer'' (JNum ''900'')),
     (''refresh_token'', schema_example ''string'' (JStr ''eyJhbGciOiJIUzI1NiIsInR5cCI6IkpXVCJ9...'')),
     (''token_type'', schema_example ''string'' (JStr ''Bearer'')),
     (''user'', schema_ref (response_pkg ''SwaggerUserData''))])"

definition docs_SwaggerLoginResponse :: "string \<times> json" where
  "docs_SwaggerLoginResponse = (response_pkg ''SwaggerLoginResponse'', schema_object [
     (''data'', schema_ref (response_pkg ''SwaggerLoginData'')),
     (''success'', schema_example ''boolean'' (JBool True))])"

definition docs_SwaggerMessageData :: "string \<times> json" where
  "docs_SwaggerMessageData = (response_pkg ''SwaggerMessageData'', schema_object [
     (''content'', schema_example ''string'' (JStr ''Hello! How can I help you today?'')),
     (''conversation_id'', schema_example ''string'' (JStr ''550e8400-e29b-41d4-a716-446655440000'')),
     (''created_at'', schema_example ''string'' (JStr ''2024-01-01T00:00:00Z'')),
     (''id'', schema_example ''string'' (JStr ''550e8400-e29b-41d4-a716-446655440000'')),
     (''model'', schema_example ''string'' (JStr ''gpt-4o-mini'')),
     (''role'', schema_example ''string'' (JStr ''assistant''))])"

definition docs_SwaggerRegisterData :: "string \<times> json" where
  "docs_SwaggerRegisterData = (response_pkg ''SwaggerRegisterData'', schema_object [
     (''user'', schema_ref (response_pkg ''SwaggerUserData''))])"

definition docs_SwaggerRegisterResponse :: "string \<times> json" where
  "docs_SwaggerRegisterResponse = (response_pkg ''SwaggerRegisterResponse'', schema_object [
     (''data'', schema_ref (response_pkg ''SwaggerRegisterData'')),
     (''success'', schema_example ''boolean'' (JBool True))])"

definition docs_SwaggerSendMessageData :: "string \<times> json" where
  "docs_SwaggerSendMessageData = (response_pkg ''SwaggerSendMessageData'', schema_object [
     (''conversation'', schema_ref (response_pkg ''SwaggerConversationData'')),
     (''message'', schema_ref (response_pkg ''SwaggerMessageData''))])"

definition docs_SwaggerSendMessageResponse :: "string \<times> json" where
  "docs_SwaggerSendMessageResponse = (response_pkg ''SwaggerSendMessageResponse'', schema_object [
     (''data'', schema_ref (response_pkg ''SwaggerSendMessageData'')),
     (''success'', schema_example ''boolean'' (JBool True))])"

definition docs_SwaggerToolData :: "string \<times> json" where
  "docs_SwaggerToolData = (response_pkg ''SwaggerToolData'', schema_object [
     (''function'', schema_ref (response_pkg ''SwaggerToolFunction'')),
     (''type'', schema_example ''string'' (JStr ''function''))])"

definition docs_SwaggerToolFunction :: "string \<times> json" where
  "docs_SwaggerToolFunction = (response_pkg ''SwaggerToolFunction'', schema_object [
     (''description'', schema_example ''string'' (JStr ''Perform mathematical calculations'')),
     (''name'', schema_example ''string'' (JStr ''calculator''))])"

definition docs_SwaggerToolResultResponse :: "string \<times> json" where
  "docs_SwaggerToolResultResponse = (response_pkg ''SwaggerToolResultResponse'', schema_object [
     (''data'', JObj []),
     (''success'', schema_example ''boolean'' (JBool True))])"

definition docs_SwaggerToolsData :: "string \<times> json" where
  "docs_SwaggerToolsData = (response_pkg ''SwaggerToolsData'', schema_object [
     (''tools'', schema_array (schema_ref (response_pkg ''SwaggerToolData'')))])"

definition docs_SwaggerToolsResponse :: "string \<times> json" where
  "docs_SwaggerToolsResponse = (response_pkg ''SwaggerToolsResponse'', schema_object [
     (''data'', schema_ref (response_pkg ''SwaggerToolsData'')),
     (''success'', schema_example ''boolean'' (JBool True))])"

definition docs_SwaggerUserData :: "string \<times> json" where
  "docs_SwaggerUserData = (response_pkg ''SwaggerUserData'', schema_object [
     (''created_at'', schema_example ''string'' (JStr ''2024-01-01T00:00:00Z'')),
     (''email'', schema_example ''string'' (JStr ''user@example.com'')),
     (''id'', schema_example ''string'' (JStr ''550e8400-e29b-41d4-a716-446655440000'')),
     (''is_active'', schema_example ''boolean'' (JBool True)),
     (''name'', schema_example ''string'' (JStr ''John Doe'')),
     (''role'', schema_example ''string'' (JStr ''user''))])"

definition docs_FunctionCall :: "string \<times> json" where
  "docs_FunctionCall = (toolspec_pkg ''FunctionCall'', schema_object [
     (''arguments'', schema_type ''string''),
     (''name'', schema_type ''string'')])"

definition docs_ToolCall :: "string \<times> json" where
  "docs_ToolCall = (toolspec_pkg ''ToolCall'', schema_object [
     (''function'', schema_ref (toolspec_pkg ''FunctionCall'')),
     (''id'', schema_type ''string''),
     (''type'', schema_type ''string'')])"

section \<open>The document\<close>

definition docs_paths :: "(string \<times> json) list" where
  "docs_paths = [docs_path_health, docs_path_ready, docs_path_auth_login, docs_path_auth_refresh, docs_path_auth_register,
     docs_path_chat_completions, docs_path_conversations, docs_path_conversations_id,
     docs_path_conversations_id_approve, docs_path_conversations_id_messages, docs_path_tools, docs_path_tools_batch,
     docs_path_tools_execute]"

definition docs_definitions :: "(string \<times> json) list" where
  "docs_definitions = [docs_ApprovalRequest, docs_ChatCompletionRequest, docs_CreateConversationRequest, docs_LoginRequest,
     docs_RefreshTokenRequest, docs_RegisterRequest, docs_SendMessageRequest, docs_ChatMessage,
     docs_SwaggerApprovalData, docs_SwaggerApprovalResponse, docs_SwaggerBatchResultData,
     docs_SwaggerBatchResultResponse, docs_SwaggerChatCompletionChoice, docs_SwaggerChatCompletionData,
     docs_SwaggerChatCompletionResponse, docs_SwaggerConversationData, docs_SwaggerConversationListResponse,
     docs_SwaggerConversationResponse, docs_SwaggerErr, docs_SwaggerErrorResponse, docs_SwaggerHealthData,
     docs_SwaggerHealthResponse, docs_SwaggerLoginData, docs_SwaggerLoginResponse, docs_SwaggerMessageData,
     docs_SwaggerRegisterData, docs_SwaggerRegisterResponse, docs_SwaggerSendMessageData,
     docs_SwaggerSendMessageResponse, docs_SwaggerToolData, docs_SwaggerToolFunction, docs_SwaggerToolResultResponse,
     docs_SwaggerToolsData, docs_SwaggerToolsResponse, docs_SwaggerUserData, docs_FunctionCall, docs_ToolCall]"

definition docs_security :: "(string \<times> json) list" where
  \<open>docs_security = [(''BearerAuth'', JObj [
     (''description'', JStr ''Enter "Bearer" followed by a space and your JWT token. Example: "Bearer eyJhbGci..."''),
     (''type'', JStr ''apiKey''), (''name'', JStr ''Authorization''), (''in'', JStr ''header'')])]\<close>

text \<open>The values the template takes from \<open>swag.Spec\<close>.\<close>

record swag_spec =
  sg_Version :: string
  sg_Host :: string
  sg_BasePath :: string
  sg_Schemes :: "string list"
  sg_Title :: string
  sg_Description :: string
  sg_InfoInstanceName :: string
  sg_LeftDelim :: string
  sg_RightDelim :: string

text \<open>
  The text of the template after substitution, read as JSON. Only the description is escaped, so
  this is for a title, version, host and base path without quotes and backslashes.
\<close>

definition docTemplate :: "swag_spec \<Rightarrow> json" where
  "docTemplate sp = JObj [
     (''schemes'', docs_strings (sg_Schemes sp)),
     (''swagger'', JStr ''2.0''),
     (''info'', JObj [
        (''description'', JStr (sg_Description sp)),
        (''title'', JStr (sg_Title sp)),
        (''termsOfService'', JStr ''http://swagger.io/terms/''),
        (''contact'', JObj [(''name'', JStr ''API Support''), (''url'', JStr ''https://github.com/wyuneed/go-agent-api/issues'')]),
        (''license'', JObj [(''name'', JStr ''MIT''), (''url'', JStr ''https://github.com/wyuneed/go-agent-api/blob/main/LICENSE'')]),
        (''version'', JStr (sg_Version sp))]),
     (''host'', JStr (sg_Host sp)),
     (''basePath'', JStr (sg_BasePath sp)),
     (''paths'', JObj docs_paths),
     (''definitions'', JObj docs_definitions),
     (''securityDefinitions'', JObj docs_security)]"

definition SwaggerInfo :: swag_spec where
  "SwaggerInfo = \<lparr>sg_Version = ''1.0'', sg_Host = ''127.0.0.1:8080'', sg_BasePath = ''/'', sg_Schemes = [],
     sg_Title = ''Go Agent API'',
     sg_Description = ''Production-ready AI Agent API with DDD architecture and Eino workflow engine. Supports OpenAI-compatible tool calling, human-in-the-loop approval, JWT authentication, and streaming responses.'',
     sg_InfoInstanceName = ''swagger'', sg_LeftDelim = ''{{'', sg_RightDelim = ''}}''\<rparr>"

end
