(* ===== verification/Swagger_Reading.thy ===== *)
theory Swagger_Reading
  imports Swagger_Docs Api_Docs
begin

text \<open>
  What a client reads in the published description (Swagger 2.0): the operations with their
  security, parameters and answers, and the type a schema describes. A missing member reads as
  \<open>null\<close>, so every reader is total.
\<close>

section \<open>Members of documents\<close>

definition json_at :: "string \<Rightarrow> json \<Rightarrow> json" where
  "json_at k j = (case j of JObj kvs \<Rightarrow> (case map_of kvs k of Some v \<Rightarrow> v | None \<Rightarrow> JNull) | _ \<Rightarrow> JNull)"

definition entries :: "json \<Rightarrow> (string \<times> json) list" where
  "entries j = (case j of JObj kvs \<Rightarrow> kvs | _ \<Rightarrow> [])"

definition elements :: "json \<Rightarrow> json list" where
  "elements j = (case j of JArr js \<Rightarrow> js | _ \<Rightarrow> [])"

definition text_of :: "json \<Rightarrow> string" where
  "text_of j = (case j of JStr s \<Rightarrow> s | _ \<Rightarrow> [])"

section \<open>Operations\<close>

text \<open>Method, path and operation object, in the order of the document.\<close>

definition doc_operations :: "json \<Rightarrow> (string \<times> string \<times> json) list" where
  "doc_operations d = concat (map (\<lambda>(p, item). map (\<lambda>(m, op). (m, p, op)) (entries item)) (entries (json_at ''paths'' d)))"

definition op_security :: "json \<Rightarrow> string list" where
  "op_security op = concat (map (\<lambda>j. map fst (entries j)) (elements (json_at ''security'' op)))"

definition op_responses :: "json \<Rightarrow> (string \<times> json) list" where
  "op_responses op = map (\<lambda>(c, r). (c, json_at ''schema'' r)) (entries (json_at ''responses'' op))"

definition op_parameters :: "json \<Rightarrow> json list" where
  "op_parameters op = elements (json_at ''parameters'' op)"

text \<open>The route of an endpoint, and the operation the document has for it.\<close>

definition endpoint_route :: "endpoint \<Rightarrow> string \<times> string" where
  "endpoint_route ep = (case find (\<lambda>(m, p, e). e = ep) (public_routes @ protected_routes) of
     Some (m, p, e) \<Rightarrow> (to_lower m, p) | None \<Rightarrow> ([], []))"

definition operation_of :: "json \<Rightarrow> endpoint \<Rightarrow> json" where
  "operation_of d ep = (case find (\<lambda>x. (fst x, fst (snd x)) = endpoint_route ep) (doc_operations d) of
     Some (m, p, op) \<Rightarrow> op | None \<Rightarrow> JNull)"

section \<open>Types\<close>

text \<open>A reference is looked up among the definitions; \<open>fuel\<close> bounds the depth of the type.\<close>

fun read_schema :: "nat \<Rightarrow> (string \<times> json) list \<Rightarrow> json \<Rightarrow> schema option" where
  "read_schema 0 defs j = None"
| "read_schema (Suc fuel) defs j = (case json_at ''$ref'' j of
     JStr r \<Rightarrow> Option.bind (map_of defs (drop (length ''#/definitions/'') r)) (read_schema fuel defs)
   | _ \<Rightarrow> (case json_at ''type'' j of
       JStr t \<Rightarrow>
         if t = ''string'' then Some SString
         else if t = ''boolean'' then Some SBool
         else if t = ''integer'' \<or> t = ''number'' then Some SInt
         else if t = ''array'' then map_option SArr (read_schema fuel defs (json_at ''items'' j))
         else if t = ''object'' then map_option SObj
           (sequence_opt (map (\<lambda>(k, v). map_option (Pair k) (read_schema fuel defs v)) (entries (json_at ''properties'' j))))
         else None
     | _ \<Rightarrow> Some SAny))"

text \<open>No type of the API is nested deeper.\<close>

definition schema_depth :: nat where
  "schema_depth = 10"

definition published_answers :: "json \<Rightarrow> endpoint \<Rightarrow> (string \<times> schema option) list" where
  "published_answers d ep =
     map (\<lambda>(c, s). (c, read_schema schema_depth (entries (json_at ''definitions'' d)) s)) (op_responses (operation_of d ep))"

text \<open>The answers of an operation as its status codes.\<close>

definition documented_statuses :: "json \<Rightarrow> endpoint \<Rightarrow> string list" where
  "documented_statuses d ep = map fst (op_responses (operation_of d ep))"

section \<open>The order of members does not matter\<close>

fun sort_schema :: "schema \<Rightarrow> schema" where
  "sort_schema (SObj fs) = SObj (sort_key fst (map (\<lambda>(k, s). (k, sort_schema s)) fs))"
| "sort_schema (SArr s) = SArr (sort_schema s)"
| "sort_schema s = s"

end
