(* ===== verification/Swagger_Annotations.thy ===== *)
theory Swagger_Annotations
  imports Swagger_Reading
begin

text \<open>
  The annotations \<open>docs/docs.go\<close> is generated from: the comment in front of every handler and the
  general one of \<open>cmd/api/main.go\<close>, each line a field; and the same data read back from the
  published description.
\<close>

section \<open>The annotations of the handlers\<close>

text \<open>Types are named as in the comments, with the last part of their package's path.\<close>

record annotated_param =
  ap_Name :: string
  ap_In :: string
  ap_Type :: string
  ap_Required :: bool
  ap_Text :: string

record annotation =
  an_Summary :: string
  an_Description :: string
  an_Tags :: "string list"
  an_Accept :: "string list"
  an_Produce :: "string list"
  an_Security :: "string list"
  an_Params :: "annotated_param list"
  an_Success :: "string \<times> string"
  an_Failure :: "(string \<times> string) list"
  an_Router :: "string \<times> string"

definition annot_Health :: annotation where
  "annot_Health = \<lparr>an_Summary = ''Liveness check'',
     an_Description = ''Returns 200 OK when the server process is running'',
     an_Tags = [''health''], an_Accept = [], an_Produce = [''json''], an_Security = [],
     an_Params = [],
     an_Success = (''200'', ''response.SwaggerHealthResponse''),
     an_Failure = [],
     an_Router = (''/health'', ''get'')\<rparr>"

definition annot_Ready :: annotation where
  "annot_Ready = \<lparr>an_Summary = ''Readiness check'',
     an_Description = ''Returns 200 OK when the server is ready (DB + Redis connected)'',
     an_Tags = [''health''], an_Accept = [], an_Produce = [''json''], an_Security = [],
     an_Params = [],
     an_Success = (''200'', ''response.SwaggerHealthResponse''),
     an_Failure = [(''503'', ''response.SwaggerErrorResponse'')],
     an_Router = (''/ready'', ''get'')\<rparr>"

definition annot_Register :: annotation where
  "annot_Register = \<lparr>an_Summary = ''Register a new user'',
     an_Description = ''Creates a new user account with email and password'',
     an_Tags = [''auth''], an_Accept = [''json''], an_Produce = [''json''], an_Security = [],
     an_Params = [\<lparr>ap_Name = ''body'', ap_In = ''body'', ap_Type = ''request.RegisterRequest'', ap_Required = True, ap_Text = ''Registration details''\<rparr>],
     an_Success = (''201'', ''response.SwaggerRegisterResponse''),
     an_Failure = [(''400'', ''response.SwaggerErrorResponse'')],
     an_Router = (''/v1/auth/register'', ''post'')\<rparr>"

definition annot_Login :: annotation where
  "annot_Login = \<lparr>an_Summary = ''Login'',
     an_Description = ''Authenticates a user and returns JWT access + refresh tokens'',
     an_Tags = [''auth''], an_Accept = [''json''], an_Produce = [''json''], an_Security = [],
     an_Params = [\<lparr>ap_Name = ''body'', ap_In = ''body'', ap_Type = ''request.LoginRequest'', ap_Required = True, ap_Text = ''Login credentials''\<rparr>],
     an_Success = (''200'', ''response.SwaggerLoginResponse''),
     an_Failure = [(''400'', ''response.SwaggerErrorResponse''), (''401'', ''response.SwaggerErrorResponse'')],
     an_Router = (''/v1/auth/login'', ''post'')\<rparr>"

definition annot_RefreshToken :: annotation where
  "annot_RefreshToken = \<lparr>an_Summary = ''Refresh access token'',
     an_Description = ''Uses a valid refresh token to issue a new access token'',
     an_Tags = [''auth''], an_Accept = [''json''], an_Produce = [''json''], an_Security = [],
     an_Params = [\<lparr>ap_Name = ''body'', ap_In = ''body'', ap_Type = ''request.RefreshTokenRequest'', ap_Required = True, ap_Text = ''Refresh token''\<rparr>],
     an_Success = (''200'', ''response.SwaggerLoginResponse''),
     an_Failure = [(''400'', ''response.SwaggerErrorResponse''), (''401'', ''response.SwaggerErrorResponse'')],
     an_Router = (''/v1/auth/refresh'', ''post'')\<rparr>"

definition annot_ChatCompletions :: annotation where
  "annot_ChatCompletions = \<lparr>an_Summary = ''Chat completions (OpenAI-compatible)'',
     an_Description = ''Sends messages to the AI agent and returns a completion. Set stream=true to receive Server-Sent Events.'',
     an_Tags = [''chat''], an_Accept = [''json''], an_Produce = [''json''], an_Security = [''BearerAuth''],
     an_Params = [\<lparr>ap_Name = ''body'', ap_In = ''body'', ap_Type = ''request.ChatCompletionRequest'', ap_Required = True, ap_Text = ''Chat completion request''\<rparr>],
     an_Success = (''200'', ''response.SwaggerChatCompletionResponse''),
     an_Failure = [(''400'', ''response.SwaggerErrorResponse''), (''401'', ''response.SwaggerErrorResponse''), (''500'', ''response.SwaggerErrorResponse'')],
     an_Router = (''/v1/chat/completions'', ''post'')\<rparr>"

definition annot_CreateConversation :: annotation where
  "annot_CreateConversation = \<lparr>an_Summary = ''Create a conversation'',
     an_Description = ''Creates a new conversation and sends the first message to the agent'',
     an_Tags = [''conversations''], an_Accept = [''json''], an_Produce = [''json''], an_Security = [''BearerAuth''],
     an_Params = [\<lparr>ap_Name = ''body'', ap_In = ''body'', ap_Type = ''request.CreateConversationRequest'', ap_Required = True, ap_Text = ''Conversation details''\<rparr>],
     an_Success = (''201'', ''response.SwaggerSendMessageResponse''),
     an_Failure = [(''400'', ''response.SwaggerErrorResponse''), (''401'', ''response.SwaggerErrorResponse''), (''500'', ''response.SwaggerErrorResponse'')],
     an_Router = (''/v1/conversations'', ''post'')\<rparr>"

definition annot_SendMessage :: annotation where
  "annot_SendMessage = \<lparr>an_Summary = ''Send a message'',
     an_Description = ''Sends a message to an existing conversation and returns the agent's reply'',
     an_Tags = [''conversations''], an_Accept = [''json''], an_Produce = [''json''], an_Security = [''BearerAuth''],
     an_Params = [\<lparr>ap_Name = ''id'', ap_In = ''path'', ap_Type = ''string'', ap_Required = True, ap_Text = ''Conversation ID (UUID)''\<rparr>,
        \<lparr>ap_Name = ''body'', ap_In = ''body'', ap_Type = ''request.SendMessageRequest'', ap_Required = True, ap_Text = ''Message content''\<rparr>],
     an_Success = (''200'', ''response.SwaggerSendMessageResponse''),
     an_Failure = [(''400'', ''response.SwaggerErrorResponse''), (''401'', ''response.SwaggerErrorResponse''), (''500'', ''response.SwaggerErrorResponse'')],
     an_Router = (''/v1/conversations/{id}/messages'', ''post'')\<rparr>"

definition annot_GetConversation :: annotation where
  "annot_GetConversation = \<lparr>an_Summary = ''Get a conversation'',
     an_Description = ''Returns a conversation with its full message history'',
     an_Tags = [''conversations''], an_Accept = [], an_Produce = [''json''], an_Security = [''BearerAuth''],
     an_Params = [\<lparr>ap_Name = ''id'', ap_In = ''path'', ap_Type = ''string'', ap_Required = True, ap_Text = ''Conversation ID (UUID)''\<rparr>],
     an_Success = (''200'', ''response.SwaggerConversationResponse''),
     an_Failure = [(''400'', ''response.SwaggerErrorResponse''), (''401'', ''response.SwaggerErrorResponse''), (''404'', ''response.SwaggerErrorResponse'')],
     an_Router = (''/v1/conversations/{id}'', ''get'')\<rparr>"

definition annot_ListConversations :: annotation where
  "annot_ListConversations = \<lparr>an_Summary = ''List conversations'',
     an_Description = ''Returns all conversations belonging to the authenticated user'',
     an_Tags = [''conversations''], an_Accept = [], an_Produce = [''json''], an_Security = [''BearerAuth''],
     an_Params = [],
     an_Success = (''200'', ''response.SwaggerConversationListResponse''),
     an_Failure = [(''401'', ''response.SwaggerErrorResponse''), (''500'', ''response.SwaggerErrorResponse'')],
     an_Router = (''/v1/conversations'', ''get'')\<rparr>"

definition annot_ApproveAction :: annotation where
  "annot_ApproveAction = \<lparr>an_Summary = ''Approve or reject a pending action'',
     an_Description = ''Resumes a conversation that is paused waiting for human-in-the-loop approval'',
     an_Tags = [''conversations''], an_Accept = [''json''], an_Produce = [''json''], an_Security = [''BearerAuth''],
     an_Params = [\<lparr>ap_Name = ''id'', ap_In = ''path'', ap_Type = ''string'', ap_Required = True, ap_Text = ''Conversation ID (UUID)''\<rparr>,
        \<lparr>ap_Name = ''body'', ap_In = ''body'', ap_Type = ''request.ApprovalRequest'', ap_Required = True, ap_Text = ''Approval decision''\<rparr>],
     an_Success = (''200'', ''response.SwaggerApprovalResponse''),
     an_Failure = [(''400'', ''response.SwaggerErrorResponse''), (''401'', ''response.SwaggerErrorResponse''), (''500'', ''response.SwaggerErrorResponse'')],
     an_Router = (''/v1/conversations/{id}/approve'', ''post'')\<rparr>"

definition annot_ListTools :: annotation where
  "annot_ListTools = \<lparr>an_Summary = ''List available tools'',
     an_Description = ''Returns the list of tools the authenticated token is allowed to use'',
     an_Tags = [''tools''], an_Accept = [], an_Produce = [''json''], an_Security = [''BearerAuth''],
     an_Params = [],
     an_Success = (''200'', ''response.SwaggerToolsResponse''),
     an_Failure = [(''401'', ''response.SwaggerErrorResponse'')],
     an_Router = (''/v1/tools'', ''get'')\<rparr>"

definition annot_ExecuteTool :: annotation where
  "annot_ExecuteTool = \<lparr>an_Summary = ''Execute a tool'',
     an_Description = ''Executes a single tool call and returns the result'',
     an_Tags = [''tools''], an_Accept = [''json''], an_Produce = [''json''], an_Security = [''BearerAuth''],
     an_Params = [\<lparr>ap_Name = ''body'', ap_In = ''body'', ap_Type = ''toolspec.ToolCall'', ap_Required = True, ap_Text = ''Tool call''\<rparr>],
     an_Success = (''200'', ''response.SwaggerToolResultResponse''),
     an_Failure = [(''400'', ''response.SwaggerErrorResponse''), (''401'', ''response.SwaggerErrorResponse''), (''500'', ''response.SwaggerErrorResponse'')],
     an_Router = (''/v1/tools/execute'', ''post'')\<rparr>"

definition annot_ExecuteToolBatch :: annotation where
  "annot_ExecuteToolBatch = \<lparr>an_Summary = ''Execute tools in parallel'',
     an_Description = ''Executes multiple tool calls concurrently and returns all results'',
     an_Tags = [''tools''], an_Accept = [''json''], an_Produce = [''json''], an_Security = [''BearerAuth''],
     an_Params = [\<lparr>ap_Name = ''body'', ap_In = ''body'', ap_Type = ''[]toolspec.ToolCall'', ap_Required = True, ap_Text = ''Array of tool calls''\<rparr>],
     an_Success = (''200'', ''response.SwaggerBatchResultResponse''),
     an_Failure = [(''400'', ''response.SwaggerErrorResponse''), (''401'', ''response.SwaggerErrorResponse''), (''500'', ''response.SwaggerErrorResponse'')],
     an_Router = (''/v1/tools/batch'', ''post'')\<rparr>"

fun handler_annotation :: "endpoint \<Rightarrow> annotation" where
  "handler_annotation Health = annot_Health"
| "handler_annotation Ready = annot_Ready"
| "handler_annotation Register_Endpoint = annot_Register"
| "handler_annotation Login_Endpoint = annot_Login"
| "handler_annotation Refresh_Endpoint = annot_RefreshToken"
| "handler_annotation Completions = annot_ChatCompletions"
| "handler_annotation CreateConversation = annot_CreateConversation"
| "handler_annotation SendMessage = annot_SendMessage"
| "handler_annotation GetConversation = annot_GetConversation"
| "handler_annotation ListConversations = annot_ListConversations"
| "handler_annotation Approve = annot_ApproveAction"
| "handler_annotation ListTools = annot_ListTools"
| "handler_annotation ExecuteTool = annot_ExecuteTool"
| "handler_annotation ExecuteToolBatch = annot_ExecuteToolBatch"

section \<open>The general annotation\<close>

record general_annotation =
  ga_title :: string
  ga_version :: string
  ga_description :: string
  ga_termsOfService :: string
  ga_contact :: "string \<times> string"
  ga_license :: "string \<times> string"
  ga_host :: string
  ga_BasePath :: string
  ga_apikey :: "string \<times> string \<times> string \<times> string"

text \<open>Of the security definition: its name, the place and name of the credential, the description.\<close>

definition main_annotation :: general_annotation where
  \<open>main_annotation = \<lparr>ga_title = ''Go Agent API'', ga_version = ''1.0'',
     ga_description = ''Production-ready AI Agent API with DDD architecture and Eino workflow engine. Supports OpenAI-compatible tool calling, human-in-the-loop approval, JWT authentication, and streaming responses.'',
     ga_termsOfService = ''http://swagger.io/terms/'',
     ga_contact = (''API Support'', ''https://github.com/wyuneed/go-agent-api/issues''),
     ga_license = (''MIT'', ''https://github.com/wyuneed/go-agent-api/blob/main/LICENSE''),
     ga_host = ''127.0.0.1:8080'', ga_BasePath = ''/'',
     ga_apikey = (''BearerAuth'', ''header'', ''Authorization'',
       ''Enter "Bearer" followed by a space and your JWT token. Example: "Bearer eyJhbGci..."'')\<rparr>\<close>

section \<open>Reading them back\<close>

text \<open>\<open>#/definitions/..._pkg_response.T\<close> is \<open>response.T\<close>: what follows the last underscore.\<close>

definition short_name :: "string \<Rightarrow> string" where
  "short_name r = rev (takeWhile (\<lambda>c. c \<noteq> CHR ''_'') (rev r))"

definition type_name :: "json \<Rightarrow> string" where
  "type_name j = (case json_at ''$ref'' j of JStr r \<Rightarrow> short_name r
   | _ \<Rightarrow> (case (json_at ''type'' j, json_at ''items'' j) of
       (JStr t, JNull) \<Rightarrow> t
     | (_, items) \<Rightarrow> ''[]'' @ (case json_at ''$ref'' items of JStr r \<Rightarrow> short_name r | _ \<Rightarrow> text_of (json_at ''type'' items))))"

definition mime_alias :: "string \<Rightarrow> string" where
  "mime_alias t = (if t = ''application/json'' then ''json'' else t)"

definition read_texts :: "json \<Rightarrow> string list" where
  "read_texts j = map text_of (elements j)"

definition read_param :: "json \<Rightarrow> annotated_param" where
  "read_param j = \<lparr>ap_Name = text_of (json_at ''name'' j), ap_In = text_of (json_at ''in'' j),
     ap_Type = (case json_at ''schema'' j of JNull \<Rightarrow> type_name j | s \<Rightarrow> type_name s),
     ap_Required = (json_at ''required'' j = JBool True), ap_Text = text_of (json_at ''description'' j)\<rparr>"

definition read_operation :: "string \<times> string \<times> json \<Rightarrow> annotation" where
  "read_operation = (\<lambda>(m, p, op).
     let answers = map (\<lambda>(c, s). (c, type_name s)) (op_responses op) in
     \<lparr>an_Summary = text_of (json_at ''summary'' op), an_Description = text_of (json_at ''description'' op),
      an_Tags = read_texts (json_at ''tags'' op), an_Accept = map mime_alias (read_texts (json_at ''consumes'' op)),
      an_Produce = map mime_alias (read_texts (json_at ''produces'' op)), an_Security = op_security op,
      an_Params = map read_param (op_parameters op), an_Success = hd answers, an_Failure = tl answers, an_Router = (p, m)\<rparr>)"

definition read_general :: "json \<Rightarrow> general_annotation" where
  "read_general d =
     (let info = json_at ''info'' d; pair = (\<lambda>k. (text_of (json_at ''name'' (json_at k info)), text_of (json_at ''url'' (json_at k info))));
          (key, sec) = hd (entries (json_at ''securityDefinitions'' d)) in
     \<lparr>ga_title = text_of (json_at ''title'' info), ga_version = text_of (json_at ''version'' info),
      ga_description = text_of (json_at ''description'' info), ga_termsOfService = text_of (json_at ''termsOfService'' info),
      ga_contact = pair ''contact'', ga_license = pair ''license'', ga_host = text_of (json_at ''host'' d),
      ga_BasePath = text_of (json_at ''basePath'' d),
      ga_apikey = (key, text_of (json_at ''in'' sec), text_of (json_at ''name'' sec), text_of (json_at ''description'' sec))\<rparr>)"

end
