(* ===== verification/Documentation.thy ===== *)
theory Documentation
  imports Swagger_Annotations
begin

text \<open>
  What the published description says, computed once: its operations, their answers and the
  types of these. References are resolved by rewriting, so that no long name is compared
  character by character.
\<close>

section \<open>The operations\<close>

lemma template_sections [simp]:
  "json_at ''paths'' (docTemplate sp) = JObj docs_paths"
  "json_at ''definitions'' (docTemplate sp) = JObj docs_definitions"
  by (simp_all add: json_at_def docTemplate_def)

definition published_operations :: "(string \<times> string \<times> json) list" where
  "published_operations = concat (map (\<lambda>(p, item). map (\<lambda>(m, op). (m, p, op)) (entries item)) docs_paths)"

lemma doc_operations_template: "doc_operations (docTemplate sp) = published_operations"
  by (simp add: doc_operations_def published_operations_def entries_def)

definition endpoints_in_docs :: "endpoint list" where
  "endpoints_in_docs = [Health, Ready, Login_Endpoint, Refresh_Endpoint, Register_Endpoint, Completions,
     ListConversations, CreateConversation, GetConversation, Approve, SendMessage, ListTools, ExecuteToolBatch, ExecuteTool]"

lemma published_annotations: "map read_operation published_operations = map handler_annotation endpoints_in_docs"
  by code_simp

lemma published_routes:
  "map (\<lambda>x. (fst x, fst (snd x))) published_operations = map endpoint_route endpoints_in_docs"
  by code_simp

section \<open>The answers\<close>

text \<open>The type of the success of an endpoint, its status and those of the failures.\<close>

fun success_name :: "endpoint \<Rightarrow> string" where
  "success_name Health = ''SwaggerHealthResponse''"
| "success_name Ready = ''SwaggerHealthResponse''"
| "success_name Register_Endpoint = ''SwaggerRegisterResponse''"
| "success_name Login_Endpoint = ''SwaggerLoginResponse''"
| "success_name Refresh_Endpoint = ''SwaggerLoginResponse''"
| "success_name Completions = ''SwaggerChatCompletionResponse''"
| "success_name CreateConversation = ''SwaggerSendMessageResponse''"
| "success_name SendMessage = ''SwaggerSendMessageResponse''"
| "success_name GetConversation = ''SwaggerConversationResponse''"
| "success_name ListConversations = ''SwaggerConversationListResponse''"
| "success_name Approve = ''SwaggerApprovalResponse''"
| "success_name ListTools = ''SwaggerToolsResponse''"
| "success_name ExecuteTool = ''SwaggerToolResultResponse''"
| "success_name ExecuteToolBatch = ''SwaggerBatchResultResponse''"

definition success_code :: "endpoint \<Rightarrow> string" where
  "success_code ep = (if ep \<in> {Register_Endpoint, CreateConversation} then ''201'' else ''200'')"

fun failure_codes :: "endpoint \<Rightarrow> string list" where
  "failure_codes Health = []"
| "failure_codes Ready = [''503'']"
| "failure_codes Register_Endpoint = [''400'']"
| "failure_codes Login_Endpoint = [''400'', ''401'']"
| "failure_codes Refresh_Endpoint = [''400'', ''401'']"
| "failure_codes GetConversation = [''400'', ''401'', ''404'']"
| "failure_codes ListConversations = [''401'', ''500'']"
| "failure_codes ListTools = [''401'']"
| "failure_codes ep = [''400'', ''401'', ''500'']"

definition doc_answers :: "endpoint \<Rightarrow> (string \<times> json) list" where
  "doc_answers ep = (success_code ep, schema_ref (response_pkg (success_name ep)))
     # map (\<lambda>c. (c, schema_ref (response_pkg ''SwaggerErrorResponse''))) (failure_codes ep)"

lemma published_doc_answers: "map (\<lambda>x. op_responses (snd (snd x))) published_operations = map doc_answers endpoints_in_docs"
  by code_simp

text \<open>Looking an operation up by its route.\<close>

lemma find_in_zip:
  assumes "map f xs = map g es" "distinct (map g es)" "e \<in> set es" "map h xs = map k es"
  shows "\<exists>x. find (\<lambda>x. f x = g e) xs = Some x \<and> h x = k e"
  using assms
proof (induction xs arbitrary: es)
  case (Cons x xs)
  then obtain e' es' where es: "es = e' # es'" by (cases es) auto
  with Cons.prems show ?case using Cons.IH [of es'] by (cases "f x = g e") (auto simp: image_iff)
qed simp

lemma every_endpoint: "ep \<in> set endpoints_in_docs"
  by (cases ep) (simp_all add: endpoints_in_docs_def)

lemma distinct_routes: "distinct (map endpoint_route endpoints_in_docs)"
  by code_simp

lemma operation_answers: "op_responses (operation_of (docTemplate sp) ep) = doc_answers ep"
proof -
  have "\<exists>x. find (\<lambda>x. (fst x, fst (snd x)) = endpoint_route ep) published_operations = Some x \<and> op_responses (snd (snd x)) = doc_answers ep"
    using published_routes distinct_routes every_endpoint published_doc_answers by (rule find_in_zip)
  then show ?thesis by (auto simp: operation_of_def doc_operations_template)
qed

lemma documented_statuses_template: "documented_statuses (docTemplate sp) ep = success_code ep # failure_codes ep"
  by (simp add: documented_statuses_def operation_answers doc_answers_def comp_def)

section \<open>Types\<close>

lemma read_schema_forms:
  "read_schema (Suc n) defs (schema_ref r) = Option.bind (map_of defs r) (read_schema n defs)"
  "read_schema (Suc n) defs (schema_type ''string'') = Some SString"
  "read_schema (Suc n) defs (schema_example ''string'' ex) = Some SString"
  "read_schema (Suc n) defs (schema_example ''boolean'' ex) = Some SBool"
  "read_schema (Suc n) defs (schema_example ''integer'' ex) = Some SInt"
  "read_schema (Suc n) defs (schema_array items) = map_option SArr (read_schema n defs items)"
  "read_schema (Suc n) defs (schema_object fs) = map_option SObj (sequence_opt (map (\<lambda>(k, v). map_option (Pair k) (read_schema n defs v)) fs))"
  "read_schema (Suc n) defs (JObj []) = Some SAny"
  by (simp_all add: json_at_def schema_ref_def schema_type_def schema_example_def schema_array_def schema_object_def entries_def)

lemma package_names:
  "response_pkg a = response_pkg b \<longleftrightarrow> a = b"
  "dto_request a = dto_request b \<longleftrightarrow> a = b" "toolspec_pkg a = toolspec_pkg b \<longleftrightarrow> a = b"
  "dto_request a \<noteq> response_pkg b" "dto_request a \<noteq> port_pkg b" "dto_request a \<noteq> toolspec_pkg b" "port_pkg a \<noteq> response_pkg b" "toolspec_pkg a \<noteq> response_pkg b"
  "response_pkg b \<noteq> dto_request a" "port_pkg b \<noteq> dto_request a" "toolspec_pkg b \<noteq> dto_request a"
  "response_pkg b \<noteq> port_pkg a" "response_pkg b \<noteq> toolspec_pkg a" "toolspec_pkg a \<noteq> port_pkg b" "port_pkg b \<noteq> toolspec_pkg a"
  by (simp_all add: response_pkg_def dto_request_def port_pkg_def toolspec_pkg_def)

lemmas docs_types =
  docs_ApprovalRequest_def docs_ChatCompletionRequest_def docs_CreateConversationRequest_def docs_LoginRequest_def
  docs_RefreshTokenRequest_def docs_RegisterRequest_def docs_SendMessageRequest_def docs_ChatMessage_def
  docs_SwaggerApprovalData_def docs_SwaggerApprovalResponse_def docs_SwaggerBatchResultData_def
  docs_SwaggerBatchResultResponse_def docs_SwaggerChatCompletionChoice_def docs_SwaggerChatCompletionData_def
  docs_SwaggerChatCompletionResponse_def docs_SwaggerConversationData_def docs_SwaggerConversationListResponse_def
  docs_SwaggerConversationResponse_def docs_SwaggerErr_def docs_SwaggerErrorResponse_def docs_SwaggerHealthData_def
  docs_SwaggerHealthResponse_def docs_SwaggerLoginData_def docs_SwaggerLoginResponse_def docs_SwaggerMessageData_def
  docs_SwaggerRegisterData_def docs_SwaggerRegisterResponse_def docs_SwaggerSendMessageData_def
  docs_SwaggerSendMessageResponse_def docs_SwaggerToolData_def docs_SwaggerToolFunction_def
  docs_SwaggerToolResultResponse_def docs_SwaggerToolsData_def docs_SwaggerToolsResponse_def docs_SwaggerUserData_def
  docs_FunctionCall_def docs_ToolCall_def

text \<open>The names of the definitions are distinct, so each is found under its name.\<close>

definition response_types :: "string list" where
  "response_types = [
     ''SwaggerApprovalData'', ''SwaggerApprovalResponse'', ''SwaggerBatchResultData'',
     ''SwaggerBatchResultResponse'', ''SwaggerChatCompletionChoice'', ''SwaggerChatCompletionData'',
     ''SwaggerChatCompletionResponse'', ''SwaggerConversationData'', ''SwaggerConversationListResponse'',
     ''SwaggerConversationResponse'', ''SwaggerErr'', ''SwaggerErrorResponse'', ''SwaggerHealthData'',
     ''SwaggerHealthResponse'', ''SwaggerLoginData'', ''SwaggerLoginResponse'', ''SwaggerMessageData'',
     ''SwaggerRegisterData'', ''SwaggerRegisterResponse'', ''SwaggerSendMessageData'',
     ''SwaggerSendMessageResponse'', ''SwaggerToolData'', ''SwaggerToolFunction'', ''SwaggerToolResultResponse'',
     ''SwaggerToolsData'', ''SwaggerToolsResponse'', ''SwaggerUserData'']"

lemma docs_names: "map fst docs_definitions =
    map dto_request [''ApprovalRequest'', ''ChatCompletionRequest'', ''CreateConversationRequest'', ''LoginRequest'',
      ''RefreshTokenRequest'', ''RegisterRequest'', ''SendMessageRequest'']
    @ [port_pkg ''ChatMessage''] @ map response_pkg response_types @ map toolspec_pkg [''FunctionCall'', ''ToolCall'']"
  by (simp only: docs_definitions_def docs_types response_types_def list.map append.simps fst_conv)

lemma distinct_names: "distinct (map fst docs_definitions)"
proof -
  have "distinct response_types" by code_simp
  then have "distinct (map response_pkg response_types)" by (simp add: distinct_map inj_on_def package_names)
  moreover have "set (map response_pkg response_types) \<inter> insert (port_pkg n) (range dto_request \<union> range toolspec_pkg) = {}" for n
    by (auto simp: package_names)
  ultimately show ?thesis by (auto simp: docs_names package_names)
qed

lemma docs_lookup: "d \<in> set docs_definitions \<Longrightarrow> fst d = k \<Longrightarrow> map_of docs_definitions k = Some (snd d)"
  using distinct_names by (auto simp: map_of_is_SomeI)

lemma resolve:
  "map_of docs_definitions (response_pkg ''SwaggerApprovalData'') = Some (snd docs_SwaggerApprovalData)"
  "map_of docs_definitions (response_pkg ''SwaggerApprovalResponse'') = Some (snd docs_SwaggerApprovalResponse)"
  "map_of docs_definitions (response_pkg ''SwaggerBatchResultData'') = Some (snd docs_SwaggerBatchResultData)"
  "map_of docs_definitions (response_pkg ''SwaggerBatchResultResponse'') = Some (snd docs_SwaggerBatchResultResponse)"
  "map_of docs_definitions (response_pkg ''SwaggerChatCompletionChoice'') = Some (snd docs_SwaggerChatCompletionChoice)"
  "map_of docs_definitions (response_pkg ''SwaggerChatCompletionData'') = Some (snd docs_SwaggerChatCompletionData)"
  "map_of docs_definitions (response_pkg ''SwaggerChatCompletionResponse'') = Some (snd docs_SwaggerChatCompletionResponse)"
  "map_of docs_definitions (response_pkg ''SwaggerConversationData'') = Some (snd docs_SwaggerConversationData)"
  "map_of docs_definitions (response_pkg ''SwaggerConversationListResponse'') = Some (snd docs_SwaggerConversationListResponse)"
  "map_of docs_definitions (response_pkg ''SwaggerConversationResponse'') = Some (snd docs_SwaggerConversationResponse)"
  "map_of docs_definitions (response_pkg ''SwaggerErr'') = Some (snd docs_SwaggerErr)"
  "map_of docs_definitions (response_pkg ''SwaggerErrorResponse'') = Some (snd docs_SwaggerErrorResponse)"
  "map_of docs_definitions (response_pkg ''SwaggerHealthData'') = Some (snd docs_SwaggerHealthData)"
  "map_of docs_definitions (response_pkg ''SwaggerHealthResponse'') = Some (snd docs_SwaggerHealthResponse)"
  "map_of docs_definitions (response_pkg ''SwaggerLoginData'') = Some (snd docs_SwaggerLoginData)"
  "map_of docs_definitions (response_pkg ''SwaggerLoginResponse'') = Some (snd docs_SwaggerLoginResponse)"
  "map_of docs_definitions (response_pkg ''SwaggerMessageData'') = Some (snd docs_SwaggerMessageData)"
  "map_of docs_definitions (response_pkg ''SwaggerRegisterData'') = Some (snd docs_SwaggerRegisterData)"
  "map_of docs_definitions (response_pkg ''SwaggerRegisterResponse'') = Some (snd docs_SwaggerRegisterResponse)"
  "map_of docs_definitions (response_pkg ''SwaggerSendMessageData'') = Some (snd docs_SwaggerSendMessageData)"
  "map_of docs_definitions (response_pkg ''SwaggerSendMessageResponse'') = Some (snd docs_SwaggerSendMessageResponse)"
  "map_of docs_definitions (response_pkg ''SwaggerToolData'') = Some (snd docs_SwaggerToolData)"
  "map_of docs_definitions (response_pkg ''SwaggerToolFunction'') = Some (snd docs_SwaggerToolFunction)"
  "map_of docs_definitions (response_pkg ''SwaggerToolResultResponse'') = Some (snd docs_SwaggerToolResultResponse)"
  "map_of docs_definitions (response_pkg ''SwaggerToolsData'') = Some (snd docs_SwaggerToolsData)"
  "map_of docs_definitions (response_pkg ''SwaggerToolsResponse'') = Some (snd docs_SwaggerToolsResponse)"
  "map_of docs_definitions (response_pkg ''SwaggerUserData'') = Some (snd docs_SwaggerUserData)"
  by (rule docs_lookup, (simp only: docs_definitions_def list.set insert_iff simp_thms), (simp only: docs_types fst_conv))+

lemma conforms_sort_schema: "conforms (sort_schema s) j = conforms s j"
proof (induction s arbitrary: j rule: sort_schema.induct)
  case (1 fs)
  have "conforms (sort_schema s) v = conforms s v" if "(k, s) \<in> set fs" for k s v using 1 [OF that] by simp
  then show ?case by (auto simp: Ball_def split: json.split option.split; force split: option.splits)
next
  case (2 s)
  then show ?case by (simp add: list_all_def split: json.split)
qed simp_all

lemma depth_unfold: "schema_depth = Suc (Suc (Suc (Suc (Suc (Suc 4)))))"
  by (simp add: schema_depth_def)

lemmas read_steps = depth_unfold read_schema_forms resolve docs_types snd_conv list.map prod.case option.map sequence_opt.simps
  Option.bind.simps option.case

lemma published_success:
  "map_option sort_schema (read_schema schema_depth docs_definitions (schema_ref (response_pkg (success_name ep)))) = Some (sort_schema (documented ep))"
  by (cases ep; simp only: success_name.simps read_steps; code_simp)

lemma published_error:
  "map_option sort_schema (read_schema schema_depth docs_definitions (schema_ref (response_pkg ''SwaggerErrorResponse''))) = Some (sort_schema SwaggerErrorResponse)"
  by (simp only: read_steps; code_simp)

lemma sorted_type: "map_option sort_schema t = Some (sort_schema s) \<Longrightarrow> \<exists>s'. t = Some s' \<and> (\<forall>j. conforms s' j = conforms s j)"
proof (cases t)
  case (Some s')
  assume "map_option sort_schema t = Some (sort_schema s)"
  with Some have "sort_schema s' = sort_schema s" by simp
  then have "conforms s' j = conforms s j" for j using conforms_sort_schema [of s' j] conforms_sort_schema [of s j] by (simp only:)
  with Some show ?thesis by blast
qed simp

text \<open>The codes are those of the annotations.\<close>

lemma annotated_codes:
  "fst (an_Success (handler_annotation ep)) = success_code ep"
  "map fst (an_Failure (handler_annotation ep)) = failure_codes ep"
  "success_code ep \<notin> set (failure_codes ep)"
proof -
  have "list_all (\<lambda>ep. fst (an_Success (handler_annotation ep)) = success_code ep \<and> map fst (an_Failure (handler_annotation ep)) = failure_codes ep
      \<and> success_code ep \<notin> set (failure_codes ep)) endpoints_in_docs"
    by code_simp
  then show "fst (an_Success (handler_annotation ep)) = success_code ep" "map fst (an_Failure (handler_annotation ep)) = failure_codes ep"
    "success_code ep \<notin> set (failure_codes ep)"
    using every_endpoint by (auto simp: list_all_iff)
qed

end
