(* ===== verification/Statuses.thy ===== *)
theory Statuses
  imports Answers Documentation
begin

text \<open>
  The status codes a request can be answered with, endpoint by endpoint, against the codes the
  published description lists for it.
\<close>

section \<open>The codes of the handlers\<close>

text \<open>\<open>c\<close> is a code the description lists for \<open>ep\<close>.\<close>

definition listed :: "endpoint \<Rightarrow> int \<Rightarrow> bool" where
  "listed ep c \<longleftrightarrow> int_digits c \<in> set (success_code ep # failure_codes ep)"

lemma code_digits: "int_digits 200 = ''200''" "int_digits 201 = ''201''" "int_digits 400 = ''400''" "int_digits 401 = ''401''"
  "int_digits 404 = ''404''" "int_digits 500 = ''500''" "int_digits 503 = ''503''"
  by code_simp+

lemma handler_within:
  assumes "\<And>c. listed ep c \<Longrightarrow> S c"
  shows "sends_within S (endpoint_handler rt lib srv ep r)"
proof (cases ep)
  case Completions
  have "S 200" "S 400" "S 500" using assms by (simp_all add: Completions listed_def success_code_def code_digits)
  then show ?thesis
    unfolding Completions endpoint_handler.simps ChatHandler_ChatCompletions_def handleStreamingChat_def by (intro within_steps)
qed (simp only: endpoint_handler.simps,
    unfold HealthHandler_Health_def HealthHandler_Ready_def AuthHandler_Register_def AuthHandler_Login_def
      AuthHandler_RefreshToken_def ChatHandler_CreateConversation_def ChatHandler_ListConversations_def ChatHandler_GetConversation_def
      ChatHandler_SendMessage_def ChatHandler_ApproveAction_def ToolHandler_ListTools_def ToolHandler_ExecuteTool_def ToolHandler_ExecuteToolBatch_def,
    (intro within_steps; simp add: assms listed_def success_code_def code_digits))+

section \<open>The codes of a request\<close>

text \<open>The limiter adds 429; a failed authentication is listed with every protected endpoint.\<close>

definition answerable :: "'w server \<Rightarrow> endpoint \<Rightarrow> int \<Rightarrow> bool" where
  "answerable srv ep c \<longleftrightarrow> listed ep c \<or> c = 429 \<and> endpoint_protected ep \<and> ms_rateLimit srv"

lemma within_headers: "(\<And>rw. rw_Sent (f rw) = rw_Sent rw) \<Longrightarrow> sends_within S (writerG f)"
  by (intro within_writer) simp

lemma within_Limit: "S 429 \<Longrightarrow> sends_within S (next r) \<Longrightarrow> sends_within S (Limit rt rc next r)"
  unfolding Limit_def
  by (cases "sr_Token r", simp_all only: option.case)
    (intro maintains_bindG within_if within_lift within_Error within_headers; simp add: Header_Set_def)

lemma within_Authenticate: "S 401 \<Longrightarrow> (\<And>r. sends_within S (next r)) \<Longrightarrow> sends_within S (Authenticate validate next r)"
  unfolding Authenticate_def Let_def
  by (intro within_if within_Error maintains_bindG maintains_attemptG within_lift) (simp_all add: within_Error split: sum.split)

lemma protected_lists_401: "endpoint_protected ep \<Longrightarrow> listed ep 401"
  by (cases ep) (simp_all add: endpoint_protected_def protected_routes_def listed_def code_digits)

lemma chain_within: "sends_within (answerable srv ep) (endpoint_chain rt lib srv ep r)"
proof -
  have handler: "sends_within (answerable srv ep) (endpoint_handler rt lib srv ep r)" for r
    by (rule handler_within) (simp add: answerable_def)
  show ?thesis
  proof (cases "endpoint_protected ep")
    case True
    have "answerable srv ep 401" using protected_lists_401 [OF True] by (simp add: answerable_def)
    moreover have "answerable srv ep 429" if "ms_rateLimit srv" using True that by (simp add: answerable_def)
    ultimately show ?thesis
      using handler True by (auto simp: endpoint_chain_def Let_def intro!: within_Authenticate within_Limit)
  qed (simp add: endpoint_chain_def handler)
qed

lemma within_CORS: "sends_within S (next r) \<Longrightarrow> sr_Method r \<noteq> ''OPTIONS'' \<Longrightarrow> sends_within S (CORS next r)"
  unfolding CORS_def by (intro maintains_bindG within_headers) (simp_all add: Header_Set_def)

text \<open>A recovered panic is logged, and adds 500.\<close>

definition panic_logged :: "'w served \<Rightarrow> bool" where
  "panic_logged s \<longleftrightarrow> list_ex (\<lambda>e. le_Message e = ''panic recovered'') (sv_Log s)"

lemma response_Error_log: "response_Error c code m s = (out, s') \<Longrightarrow> sv_Log s' = sv_Log s"
  by (auto simp: response_Error_def writerG_def)

lemma within_Recoverer:
  assumes "sends_within S (next r)" "codes_in S s" "Recoverer next r s = (Ret (), s')"
  shows "codes_in (\<lambda>c. S c \<or> c = 500 \<and> panic_logged s') s'"
proof -
  obtain o1 s1 where run: "next r s = (o1, s1)" by fastforce
  have s1: "codes_in S s1" by (rule maintainsD [OF assms(1,2) run])
  show ?thesis
  proof (cases o1)
    case (Panic p)
    let ?s2 = "s1\<lparr>sv_Log := sv_Log s1 @ [\<lparr>le_Message = ''panic recovered'', le_Method = [], le_Path = sr_Path r,
            le_Status = 0, le_Duration = 0, le_IP = [], le_Error = p\<rparr>]\<rparr>"
    have err: "response_Error 500 ''INTERNAL_ERROR'' ''Internal server error'' ?s2 = (Ret (), s')"
      using assms(3) run Panic by (simp add: Recoverer_def split: if_splits)
    have logged: "panic_logged s'" using response_Error_log [OF err] by (simp add: panic_logged_def)
    have "codes_in (\<lambda>c. S c \<or> c = 500) ?s2" using s1 by (simp add: codes_in_def)
    then have "codes_in (\<lambda>c. S c \<or> c = 500) s'"
      using maintainsD [OF within_Error [of "\<lambda>c. S c \<or> c = 500" 500 "''INTERNAL_ERROR''" "''Internal server error''"] _ err] by simp
    with logged show ?thesis by (simp add: codes_in_def)
  qed (use assms(3) run s1 in \<open>auto simp: Recoverer_def codes_in_def\<close>)
qed

lemma request_codes:
  assumes "routed lib r = Some (ep, i)" "sr_Method (lb_router_pre lib r) \<noteq> ''OPTIONS''"
    and "handle_request rt lib srv r w = (Ret (), s')"
  shows "codes_in (\<lambda>c. answerable srv ep c \<or> c = 500 \<and> panic_logged s') s'"
proof -
  have "sends_within (answerable srv ep) (CORS (route rt lib srv) (lb_router_pre lib r))"
    using assms(1) chain_within by (intro within_CORS assms(2)) (simp add: route_def routed_def)
  note rec = within_Recoverer [of _ "CORS (route rt lib srv)", OF this]
  from assms(3) show ?thesis
  proof (rule handle_request_run)
    fix s1 s2 assume *: "Recoverer (CORS (route rt lib srv)) (lb_router_pre lib r) s1 = (Ret (), s2)"
      "rw_Sent (sv_Writer s1) = None" "sv_Writer s' = sv_Writer s2" "\<exists>e. sv_Log s' = sv_Log s2 @ e"
    have "codes_in (\<lambda>c. answerable srv ep c \<or> c = 500 \<and> panic_logged s2) s2"
      by (rule rec [OF _ *(1)]) (simp add: codes_in_def *(2))
    with * show ?thesis by (auto simp: codes_in_def panic_logged_def)
  qed
qed

lemma request_answered:
  assumes "routed lib r = Some (ep, i)" "sr_Method (lb_router_pre lib r) \<noteq> ''OPTIONS''"
    and "handle_request rt lib srv r w = (Ret (), s')"
  shows "rw_Sent (sv_Writer s') \<noteq> None"
  using assms(3)
proof (rule handle_request_run)
  fix s1 s2 assume *: "Recoverer (CORS (route rt lib srv)) (lb_router_pre lib r) s1 = (Ret (), s2)" "\<not> sv_Crashed s1"
      "sv_Writer s' = sv_Writer s2"
  have "answers (ep = ExecuteToolBatch) (CORS (route rt lib srv) (lb_router_pre lib r))"
    using assms(1) answers_chain by (intro answers_CORS) (simp add: route_def routed_def)
  from Recoverer_answers [of _ "CORS (route rt lib srv)", OF this *(2)] * show ?thesis by auto
qed

end
