(* ===== verification/Documentation_Theorems.thy ===== *)
theory Documentation_Theorems
  imports Service_Theorems Statuses "HOL-Library.Multiset"
begin

text \<open>
  The published description of the API against the program: its operations and their security
  are the routes, its types are those of \<open>swagger_types.go\<close>, and the program answers with the
  codes it lists.
\<close>

section \<open>Codes\<close>

text \<open>C11: every answer to a request the router accepts, streamed ones included, has a status code the published description lists for the endpoint; the two exceptions are 429, which the rate limiter sends for protected endpoints and no operation lists, and 500 after a panic that was recovered and logged.\<close>

theorem answers_listed:
  assumes "routed lib r = Some (ep, i)" "sr_Method (lb_router_pre lib r) \<noteq> ''OPTIONS''"
    and "handle_request rt lib srv r w = (Ret (), s')"
  shows "\<exists>st hdr. rw_Sent (sv_Writer s') = Some (st, hdr) \<and>
    (int_digits st \<in> set (documented_statuses (docTemplate sp) ep)
     \<or> st = 429 \<and> endpoint_protected ep \<and> ms_rateLimit srv
     \<or> st = 500 \<and> list_ex (\<lambda>e. le_Message e = ''panic recovered'') (sv_Log s'))"
proof -
  have "rw_Sent (sv_Writer s') \<noteq> None" by (rule request_answered [OF assms])
  then obtain st hdr where sent: "rw_Sent (sv_Writer s') = Some (st, hdr)" by auto
  with request_codes [OF assms] show ?thesis
    by (auto simp: codes_in_def answerable_def listed_def documented_statuses_template panic_logged_def)
qed

theorem answers_listed_witness:
  "\<exists>s' st hdr. handle_request world_runtime demo_lib undefined (demo_request ''GET'' ''/health'' []) (demo_world [] [] []) = (Ret (), s')
     \<and> rw_Sent (sv_Writer s') = Some (st, hdr) \<and> int_digits st \<in> set (documented_statuses (docTemplate SwaggerInfo) Health)"
proof -
  let ?r = "demo_request ''GET'' ''/health'' []"
  have rt: "routed demo_lib ?r = Some (Health, [])"
    by (simp add: routed_def demo_lib_def demo_request_def public_routes_def protected_routes_def)
  obtain s' hdr where run: "handle_request world_runtime demo_lib undefined ?r (demo_world [] [] []) = (Ret (), s')"
      "rw_Sent (sv_Writer s') = Some (200, hdr)"
    using demo_health by blast
  have "sr_Method (lb_router_pre demo_lib ?r) \<noteq> ''OPTIONS''" by (simp add: demo_lib_def demo_request_def)
  from answers_listed [OF rt this run(1), of SwaggerInfo] run
  have "int_digits 200 \<in> set (documented_statuses (docTemplate SwaggerInfo) Health)" by auto
  with run show ?thesis by blast
qed

section \<open>Operations\<close>


section \<open>Types\<close>

text \<open>C13: every answer the published description lists has a type that resolves, through any number of references: for a success a document has the published type exactly when it has the type of \<open>swagger_types.go\<close> named by the handler, for a failure exactly when it has the error type; and the codes are those of the handler's annotation.\<close>

theorem docs_types_resolve:
  "map fst (published_answers (docTemplate sp) ep) = map fst (an_Success (handler_annotation ep) # an_Failure (handler_annotation ep))
   \<and> list_all (\<lambda>(c, t). \<exists>s. t = Some s \<and>
       (\<forall>j. conforms s j = conforms (if c = fst (an_Success (handler_annotation ep)) then documented ep else SwaggerErrorResponse) j))
     (published_answers (docTemplate sp) ep)"
proof -
  obtain s e where "read_schema schema_depth docs_definitions (schema_ref (response_pkg (success_name ep))) = Some s"
      "\<And>j. conforms s j = conforms (documented ep) j"
      "read_schema schema_depth docs_definitions (schema_ref (response_pkg ''SwaggerErrorResponse'')) = Some e"
      "\<And>j. conforms e j = conforms SwaggerErrorResponse j"
    using sorted_type [OF published_success] sorted_type [OF published_error] by blast
  then show ?thesis
    using annotated_codes [of ep]
    by (auto simp: published_answers_def operation_answers doc_answers_def entries_def list_all_iff comp_def)
qed

end
