(* ===== verification/Worker_Pool.thy ===== *)
theory Worker_Pool
  imports Go_Prelude
begin

text \<open>
  \<open>internal/infrastructure/worker/pool.go\<close>: a buffered channel of jobs, the goroutines that
  take from it, and the goroutine that shuts the pool down. An operation gives the list of the
  outcomes its \<open>select\<close> may choose between; the pool runs by interleaving them.
\<close>

section \<open>State\<close>

text \<open>
  A worker is on its way to the \<open>select\<close>, parked there, running a job, or gone (its
  \<open>wg.Done\<close> is done). \<open>Shutdown\<close> has three steps; its phase says how many are done.
  \<open>pl_accepted\<close> and \<open>pl_started\<close> record the jobs in the order they were accepted and begun.
\<close>

datatype 'j worker_state = Outside | Waiting | Running 'j | Exited

datatype shutdown_phase = Not_Called | Has_Cancelled | Has_Closed | Has_Returned

record 'j pool =
  pl_size :: nat
  pl_jobs :: "'j list"
  pl_closed :: bool
  pl_cancelled :: bool
  pl_workers :: "'j worker_state list"
  pl_phase :: shutdown_phase
  pl_panicked :: bool
  pl_accepted :: "'j list"
  pl_started :: "'j list"

definition NewPool :: "nat \<Rightarrow> nat \<Rightarrow> 'j pool" where
  "NewPool workers queueSize = \<lparr>pl_size = queueSize, pl_jobs = [], pl_closed = False, pl_cancelled = False,
     pl_workers = replicate workers Outside, pl_phase = Not_Called, pl_panicked = False, pl_accepted = [], pl_started = []\<rparr>"

section \<open>Operations\<close>

definition set_worker :: "nat \<Rightarrow> 'j worker_state \<Rightarrow> 'j pool \<Rightarrow> 'j pool" where
  "set_worker i ws p = p\<lparr>pl_workers := (pl_workers p)[i := ws]\<rparr>"

definition begin_job :: "nat \<Rightarrow> 'j \<Rightarrow> 'j pool \<Rightarrow> 'j pool" where
  "begin_job i j p = (set_worker i (Running j) p)\<lparr>pl_started := pl_started p @ [j]\<rparr>"

definition waiting :: "'j pool \<Rightarrow> nat list" where
  "waiting p = filter (\<lambda>i. case pl_workers p ! i of Waiting \<Rightarrow> True | _ \<Rightarrow> False) [0..<length (pl_workers p)]"

text \<open>
  The case \<open>p.jobs <- job\<close>: into the buffer, or to a parked worker. On a closed channel it is
  ready and panics, shown as \<open>None\<close>.
\<close>

definition send_cases :: "'j \<Rightarrow> 'j pool \<Rightarrow> (bool option \<times> 'j pool) list" where
  "send_cases j p =
     (if pl_closed p then [(None, p\<lparr>pl_panicked := True\<rparr>)]
      else (let a = p\<lparr>pl_accepted := pl_accepted p @ [j]\<rparr> in
        (if length (pl_jobs p) < pl_size p then [(Some True, a\<lparr>pl_jobs := pl_jobs p @ [j]\<rparr>)] else [])
        @ (if pl_jobs p = [] then map (\<lambda>i. (Some True, begin_job i j a)) (waiting p) else [])))"

definition done_case :: "'j pool \<Rightarrow> (bool option \<times> 'j pool) list" where
  "done_case p = (if pl_cancelled p then [(Some False, p)] else [])"

text \<open>\<open>default\<close> is taken when no case is ready; without it the call blocks, an empty list.\<close>

definition Submit :: "'j \<Rightarrow> 'j pool \<Rightarrow> (bool option \<times> 'j pool) list" where
  "Submit j p = (let ready = send_cases j p @ done_case p in if ready = [] then [(Some False, p)] else ready)"

definition SubmitWait :: "'j \<Rightarrow> 'j pool \<Rightarrow> (bool option \<times> 'j pool) list" where
  "SubmitWait j p = send_cases j p @ done_case p"

definition worker :: "nat \<Rightarrow> 'j pool \<Rightarrow> 'j pool list" where
  "worker i p =
     (if i < length (pl_workers p) then
        (case pl_workers p ! i of
           Outside \<Rightarrow> [set_worker i Waiting p]
         | Waiting \<Rightarrow>
             (if pl_cancelled p then [set_worker i Exited p] else [])
             @ (case pl_jobs p of
                  j # js \<Rightarrow> [begin_job i j (p\<lparr>pl_jobs := js\<rparr>)]
                | [] \<Rightarrow> if pl_closed p then [set_worker i Exited p] else [])
         | Running j \<Rightarrow> [set_worker i Outside p]
         | Exited \<Rightarrow> [])
      else [])"

text \<open>\<open>cancel\<close>, \<open>close\<close>, \<open>wg.Wait\<close>; called again, it closes a closed channel.\<close>

definition Shutdown :: "'j pool \<Rightarrow> 'j pool list" where
  "Shutdown p = (case pl_phase p of
     Not_Called \<Rightarrow> [p\<lparr>pl_cancelled := True, pl_phase := Has_Cancelled\<rparr>]
   | Has_Cancelled \<Rightarrow> [p\<lparr>pl_closed := True, pl_phase := Has_Closed\<rparr>]
   | Has_Closed \<Rightarrow> if list_all (\<lambda>ws. case ws of Exited \<Rightarrow> True | _ \<Rightarrow> False) (pl_workers p) then [p\<lparr>pl_phase := Has_Returned\<rparr>] else []
   | Has_Returned \<Rightarrow> [p\<lparr>pl_panicked := True\<rparr>])"

section \<open>Runs\<close>

datatype 'j pool_event = Submitted 'j "bool option" | Worked nat | Shut_Down | Parent_Cancelled

text \<open>A panic ends the process, so it ends the run. \<open>Parent\<close>: the context given to \<open>NewPool\<close> is cancelled.\<close>

inductive pool_step :: "'j pool \<Rightarrow> 'j pool_event \<Rightarrow> 'j pool \<Rightarrow> bool" where
  Submit: "\<not> pl_panicked p \<Longrightarrow> (r, p') \<in> set (Submit j p) \<Longrightarrow> pool_step p (Submitted j r) p'"
| SubmitWait: "\<not> pl_panicked p \<Longrightarrow> (r, p') \<in> set (SubmitWait j p) \<Longrightarrow> pool_step p (Submitted j r) p'"
| Worker: "\<not> pl_panicked p \<Longrightarrow> p' \<in> set (worker i p) \<Longrightarrow> pool_step p (Worked i) p'"
| Shutdown: "\<not> pl_panicked p \<Longrightarrow> p' \<in> set (Shutdown p) \<Longrightarrow> pool_step p Shut_Down p'"
| Parent: "\<not> pl_panicked p \<Longrightarrow> pool_step p Parent_Cancelled (p\<lparr>pl_cancelled := True\<rparr>)"

inductive pool_reach :: "'j pool \<Rightarrow> 'j pool_event list \<Rightarrow> 'j pool \<Rightarrow> bool" where
  Start: "pool_reach p [] p"
| Step: "pool_reach p es p' \<Longrightarrow> pool_step p' e p'' \<Longrightarrow> pool_reach p (es @ [e]) p''"

section \<open>Invariant\<close>

text \<open>
  No job is lost, doubled or reordered on its way to a worker; the buffer is bounded; what the
  phase of \<open>Shutdown\<close> promises holds; a panic needs a closed channel.
\<close>

definition pool_ok :: "'j pool \<Rightarrow> bool" where
  "pool_ok p \<longleftrightarrow> pl_accepted p = pl_started p @ pl_jobs p \<and> length (pl_jobs p) \<le> pl_size p
     \<and> (pl_closed p \<longleftrightarrow> pl_phase p \<in> {Has_Closed, Has_Returned}) \<and> (pl_phase p \<noteq> Not_Called \<longrightarrow> pl_cancelled p)
     \<and> (pl_phase p = Has_Returned \<longrightarrow> list_all (\<lambda>ws. ws = Exited) (pl_workers p)) \<and> (pl_panicked p \<longrightarrow> pl_closed p)"

lemma waiting_iff: "i \<in> set (waiting p) \<longleftrightarrow> i < length (pl_workers p) \<and> pl_workers p ! i = Waiting"
  by (auto simp: waiting_def split: worker_state.splits)

lemma exited_iff: "(\<lambda>ws. case ws of Exited \<Rightarrow> True | _ \<Rightarrow> False) = (\<lambda>ws. ws = Exited)"
  by (auto simp: fun_eq_iff split: worker_state.split)

lemmas pool_updates = set_worker_def begin_job_def

text \<open>Once \<open>Shutdown\<close> has returned no worker is parked.\<close>

lemma exited_not_waiting: "list_all (\<lambda>ws. ws = Exited) ws \<Longrightarrow> i < length ws \<Longrightarrow> ws ! i = Exited"
  by (simp add: list_all_length)

lemma send_cases_ok: "(r, p') \<in> set (send_cases j p) \<Longrightarrow> pool_ok p \<Longrightarrow> pool_ok p'"
  by (cases "pl_phase p") (auto simp: send_cases_def pool_ok_def pool_updates Let_def split: if_splits)

lemma done_case_ok: "(r, p') \<in> set (done_case p) \<Longrightarrow> p' = p"
  by (simp add: done_case_def split: if_splits)

lemma submit_cases:
  assumes "(r, p') \<in> set (Submit j p)"
  shows "(r, p') \<in> set (SubmitWait j p) \<or> SubmitWait j p = [] \<and> r = Some False \<and> p' = p"
  using assms by (auto simp: Submit_def SubmitWait_def Let_def split: if_splits)

lemma worker_ok:
  assumes "p' \<in> set (worker i p)" "pool_ok p"
  shows "pool_ok p'"
proof -
  have i: "i < length (pl_workers p)" "pl_workers p ! i \<noteq> Exited" using assms(1) by (auto simp: worker_def split: if_splits)
  then have "pl_phase p \<noteq> Has_Returned" using assms(2) exited_not_waiting by (fastforce simp: pool_ok_def)
  with assms i show ?thesis
    by (cases "pl_workers p ! i"; cases "pl_jobs p")
      (auto simp: worker_def pool_ok_def pool_updates split: if_splits)
qed

lemma Shutdown_ok: "p' \<in> set (Shutdown p) \<Longrightarrow> pool_ok p \<Longrightarrow> pool_ok p'"
  by (cases "pl_phase p") (auto simp: Shutdown_def pool_ok_def exited_iff split: if_splits)

lemma pool_step_ok: "pool_step p e p' \<Longrightarrow> pool_ok p \<Longrightarrow> pool_ok p'"
proof (induction rule: pool_step.induct)
  case (Submit p r p' j)
  then show ?case using submit_cases send_cases_ok done_case_ok by (fastforce simp: SubmitWait_def)
next
  case (SubmitWait p r p' j)
  then show ?case using send_cases_ok done_case_ok by (fastforce simp: SubmitWait_def)
next
  case (Parent p)
  then show ?case by (simp add: pool_ok_def)
qed (blast intro: worker_ok Shutdown_ok)+

lemma pool_reach_ok: "pool_reach p es p' \<Longrightarrow> pool_ok p \<Longrightarrow> pool_ok p'"
  by (induction rule: pool_reach.induct) (auto intro: pool_step_ok)

lemma NewPool_ok: "pool_ok (NewPool workers queueSize)"
  by (simp add: pool_ok_def NewPool_def)

section \<open>Shutting down\<close>

text \<open>What is left to do: every step of a worker, and the return of \<open>Shutdown\<close>, uses some of it up.\<close>

definition worker_rank :: "'j worker_state \<Rightarrow> nat" where
  "worker_rank ws = (case ws of Exited \<Rightarrow> 0 | Waiting \<Rightarrow> 1 | Outside \<Rightarrow> 2 | Running j \<Rightarrow> 3)"

definition pool_work :: "'j pool \<Rightarrow> nat" where
  "pool_work p = 3 * length (pl_jobs p) + sum_list (map worker_rank (pl_workers p)) + (if pl_phase p = Has_Returned then 0 else 1)"

lemma sum_list_update_nat:
  "i < length xs \<Longrightarrow> sum_list (map f (xs[i := x])) + f (xs ! i) = sum_list (map f xs) + (f x :: nat)"
  by (induction xs arbitrary: i) (auto split: nat.split simp: less_Suc_eq_0_disj)

text \<open>The steps the pool takes by itself once the channel is closed.\<close>

inductive closing_step :: "'j pool \<Rightarrow> 'j pool \<Rightarrow> bool" where
  "p' \<in> set (worker i p) \<Longrightarrow> closing_step p p'"
| "pl_phase p = Has_Closed \<Longrightarrow> p' \<in> set (Shutdown p) \<Longrightarrow> closing_step p p'"

inductive closing_steps :: "'j pool \<Rightarrow> nat \<Rightarrow> 'j pool \<Rightarrow> bool" where
  "closing_steps p 0 p"
| "closing_steps p n p' \<Longrightarrow> closing_step p' p'' \<Longrightarrow> closing_steps p (Suc n) p''"

lemma worker_work:
  assumes "p' \<in> set (worker i p)"
  shows "pool_work p' < pool_work p \<and> pl_phase p' = pl_phase p \<and> pl_closed p' = pl_closed p"
proof -
  have i: "i < length (pl_workers p)" using assms by (simp add: worker_def split: if_splits)
  note upd = sum_list_update_nat [OF i, of worker_rank]
  show ?thesis
    using assms i upd [of Waiting] upd [of Exited] upd [of Outside] upd [of "Running (hd (pl_jobs p))"]
    by (cases "pl_workers p ! i"; cases "pl_jobs p")
      (auto simp: worker_def pool_work_def pool_updates worker_rank_def split: if_splits)
qed

lemma closing_step_work:
  assumes "closing_step p p'"
  shows "pool_work p' < pool_work p"
  using assms
proof cases
  case (1 i)
  then show ?thesis using worker_work by blast
next
  case 2
  then show ?thesis by (auto simp: Shutdown_def pool_work_def split: if_splits)
qed

lemma closing_steps_work: "closing_steps p n p' \<Longrightarrow> pool_work p' + n \<le> pool_work p"
  by (induction rule: closing_steps.induct) (auto dest: closing_step_work)

lemma closing_step_closed: "closing_step p p' \<Longrightarrow> pl_closed p \<Longrightarrow> pl_phase p \<in> {Has_Closed, Has_Returned} \<Longrightarrow>
    pl_closed p' \<and> pl_phase p' \<in> {Has_Closed, Has_Returned}"
  by (induction rule: closing_step.induct) (auto simp: Shutdown_def dest: worker_work split: if_splits)

lemma closing_steps_closed: "closing_steps p n p' \<Longrightarrow> pl_closed p \<Longrightarrow> pl_phase p \<in> {Has_Closed, Has_Returned} \<Longrightarrow>
    pl_closed p' \<and> pl_phase p' \<in> {Has_Closed, Has_Returned}"
  by (induction rule: closing_steps.induct) (auto dest: closing_step_closed)

text \<open>A closed pool that has not returned can always go on.\<close>

lemma closing_progress:
  assumes "pl_closed p" "pl_phase p = Has_Closed"
  shows "\<exists>p'. closing_step p p'"
proof (cases "list_all (\<lambda>ws. ws = Exited) (pl_workers p)")
  case True
  then have "Shutdown p = [p\<lparr>pl_phase := Has_Returned\<rparr>]" using assms(2) by (simp add: Shutdown_def exited_iff)
  then show ?thesis using assms(2) closing_step.intros(2) by fastforce
next
  case False
  then obtain i where i: "i < length (pl_workers p)" "pl_workers p ! i \<noteq> Exited" by (auto simp: list_all_length)
  then have "worker i p \<noteq> []" using assms(1) by (cases "pl_workers p ! i"; cases "pl_jobs p") (simp_all add: worker_def)
  then obtain p' where "p' \<in> set (worker i p)" by (cases "worker i p") auto
  then show ?thesis using closing_step.intros(1) by blast
qed

section \<open>What the pool promises\<close>

definition accepted_jobs :: "'j pool_event list \<Rightarrow> 'j list" where
  "accepted_jobs es = concat (map (\<lambda>e. case e of Submitted j (Some True) \<Rightarrow> [j] | _ \<Rightarrow> []) es)"

lemma send_cases_accepts: "(r, p') \<in> set (send_cases j p) \<Longrightarrow>
   pl_accepted p' = pl_accepted p @ accepted_jobs [Submitted j r] \<and> pl_size p' = pl_size p \<and> length (pl_workers p') = length (pl_workers p)"
  by (auto simp: send_cases_def accepted_jobs_def pool_updates Let_def split: if_splits)

lemma pool_step_accepts: "pool_step p e p' \<Longrightarrow>
   pl_accepted p' = pl_accepted p @ accepted_jobs [e] \<and> pl_size p' = pl_size p \<and> length (pl_workers p') = length (pl_workers p)"
proof (induction rule: pool_step.induct)
  case (Submit p r p' j)
  then have "(r, p') \<in> set (send_cases j p) \<or> r = Some False \<and> p' = p"
    by (auto simp: Submit_def done_case_def Let_def split: if_splits)
  then show ?case by (elim disjE; (elim send_cases_accepts)?; simp add: accepted_jobs_def)
next
  case (SubmitWait p r p' j)
  then have "(r, p') \<in> set (send_cases j p) \<or> r = Some False \<and> p' = p"
    by (auto simp: SubmitWait_def done_case_def split: if_splits)
  then show ?case by (elim disjE; (elim send_cases_accepts)?; simp add: accepted_jobs_def)
next
  case (Worker p p' i)
  then show ?case
    by (cases "pl_workers p ! i"; cases "pl_jobs p") (auto simp: worker_def accepted_jobs_def pool_updates split: if_splits)
next
  case (Shutdown p p')
  then show ?case by (cases "pl_phase p") (auto simp: Shutdown_def accepted_jobs_def split: if_splits)
qed (simp add: accepted_jobs_def)

lemma pool_reach_accepts: "pool_reach p es p' \<Longrightarrow>
   pl_accepted p' = pl_accepted p @ accepted_jobs es \<and> pl_size p' = pl_size p \<and> length (pl_workers p') = length (pl_workers p)"
proof (induction rule: pool_reach.induct)
  case (Step p es p' e p'')
  with pool_step_accepts [OF Step.hyps(2)] show ?case by (simp add: accepted_jobs_def)
qed (simp add: accepted_jobs_def)

text \<open>C21: in every interleaving of submitters, workers and a shutdown, the jobs for which \<open>Submit\<close> or \<open>SubmitWait\<close> returned true are, in that order, the jobs begun and then the jobs still queued; the queue keeps its size, and nothing panics before \<open>Shutdown\<close> has closed the channel.\<close>

theorem pool_runs_in_order:
  assumes "pool_reach (NewPool workers queueSize) es p"
  shows "accepted_jobs es = pl_started p @ pl_jobs p \<and> length (pl_jobs p) \<le> queueSize \<and> (pl_panicked p \<longrightarrow> pl_closed p)"
  using pool_reach_ok [OF assms NewPool_ok] pool_reach_accepts [OF assms] by (auto simp: pool_ok_def NewPool_def)

text \<open>Concrete runs of a pool with one worker, given by the states they pass through.\<close>

definition demo_pool :: "shutdown_phase \<Rightarrow> string worker_state \<Rightarrow> string list \<Rightarrow> string list \<Rightarrow> string pool" where
  "demo_pool phase ws started jobs = \<lparr>pl_size = 2, pl_jobs = jobs, pl_closed = (phase = Has_Closed \<or> phase = Has_Returned),
     pl_cancelled = (phase \<noteq> Not_Called), pl_workers = [ws], pl_phase = phase, pl_panicked = False,
     pl_accepted = started @ jobs, pl_started = started\<rparr>"

lemma demo_steps:
  "length jobs < 2 \<Longrightarrow> phase = Not_Called \<Longrightarrow> pool_step (demo_pool phase ws st jobs) (Submitted j (Some True)) (demo_pool phase ws st (jobs @ [j]))"
  "pool_step (demo_pool phase Outside st jobs) (Worked 0) (demo_pool phase Waiting st jobs)"
  "pool_step (demo_pool phase Waiting st (j # jobs)) (Worked 0) (demo_pool phase (Running j) (st @ [j]) jobs)"
  "phase \<noteq> Not_Called \<Longrightarrow> pool_step (demo_pool phase Waiting st jobs) (Worked 0) (demo_pool phase Exited st jobs)"
  "pool_step (demo_pool Not_Called ws st jobs) Shut_Down (demo_pool Has_Cancelled ws st jobs)"
  "pool_step (demo_pool Has_Cancelled ws st jobs) Shut_Down (demo_pool Has_Closed ws st jobs)"
  "pool_step (demo_pool Has_Closed Exited st jobs) Shut_Down (demo_pool Has_Returned Exited st jobs)"
  by ((rule pool_step.Submit pool_step.Worker pool_step.Shutdown;
      simp add: demo_pool_def Submit_def send_cases_def worker_def Shutdown_def pool_updates Let_def)+)

lemma demo_start: "pool_reach (NewPool 1 2) [] (demo_pool Not_Called Outside [] [])"
  using pool_reach.Start [of "NewPool 1 2"] by (simp add: NewPool_def demo_pool_def)

lemma demo_accepted:
  "pool_reach (NewPool 1 2) [Submitted ''a'' (Some True), Submitted ''b'' (Some True)] (demo_pool Not_Called Outside [] [''a'', ''b''])"
proof -
  have "pool_reach (NewPool 1 2) [Submitted ''a'' (Some True)] (demo_pool Not_Called Outside [] [''a''])"
    using pool_reach.Step [OF demo_start demo_steps(1) [of "[]" Not_Called Outside "[]" "''a''"]] by simp
  from pool_reach.Step [OF this demo_steps(1) [of "[''a'']" Not_Called Outside "[]" "''b''"]] show ?thesis by simp
qed

theorem pool_runs_in_order_witness:
  "\<exists>es p. pool_reach (NewPool 1 2) es p \<and> accepted_jobs es = [''a'', ''b''] \<and> pl_started p = [''a''] \<and> pl_jobs p = [''b'']"
proof -
  note run = pool_reach.Step [OF pool_reach.Step [OF demo_accepted demo_steps(2)] demo_steps(3)]
  show ?thesis
    by (rule exI, rule exI, rule conjI, rule run) (use pool_runs_in_order [OF run] in \<open>simp add: demo_pool_def\<close>)
qed

text \<open>C22: once \<open>Shutdown\<close> has closed the channel it returns: no run of the workers is longer than three steps for every queued job and every worker and one more, and a run that can not go on has returned with every worker gone.\<close>

theorem Shutdown_returns:
  assumes "pool_reach (NewPool workers queueSize) es p" "pl_phase p = Has_Closed" "closing_steps p n p'"
  shows "n \<le> 3 * (queueSize + workers) + 1
    \<and> ((\<nexists>p''. closing_step p' p'') \<longrightarrow> pl_phase p' = Has_Returned)"
proof
  have ok: "pool_ok p" by (rule pool_reach_ok [OF assms(1) NewPool_ok])
  have "sum_list (map worker_rank ws) \<le> 3 * length ws" for ws :: "'a worker_state list"
    by (induction ws) (auto simp: worker_rank_def split: worker_state.splits)
  moreover have "length (pl_jobs p) \<le> queueSize" "length (pl_workers p) = workers"
    using ok pool_reach_accepts [OF assms(1)] by (simp_all add: pool_ok_def NewPool_def)
  ultimately have "pool_work p \<le> 3 * queueSize + 3 * workers + 1" unfolding pool_work_def
    by (smt (verit) add_le_mono mult_le_mono2 le_refl zero_le)
  then show "n \<le> 3 * (queueSize + workers) + 1" using closing_steps_work [OF assms(3)] by simp
  have "pl_closed p' \<and> pl_phase p' \<in> {Has_Closed, Has_Returned}"
    by (rule closing_steps_closed [OF assms(3)]) (use ok assms(2) in \<open>auto simp: pool_ok_def\<close>)
  then show "(\<nexists>p''. closing_step p' p'') \<longrightarrow> pl_phase p' = Has_Returned" using closing_progress by blast
qed

lemma demo_closed:
  "pool_reach (NewPool 1 2) [Submitted ''a'' (Some True), Submitted ''b'' (Some True), Shut_Down, Shut_Down] (demo_pool Has_Closed Outside [] [''a'', ''b''])"
  using pool_reach.Step [OF pool_reach.Step [OF demo_accepted demo_steps(5)] demo_steps(6)] by simp

lemma demo_closing: "closing_steps (demo_pool Has_Closed Outside [] jobs) 3 (demo_pool Has_Returned Exited [] jobs)"
proof -
  have "closing_step (demo_pool Has_Closed Outside [] jobs) (demo_pool Has_Closed Waiting [] jobs)"
      "closing_step (demo_pool Has_Closed Waiting [] jobs) (demo_pool Has_Closed Exited [] jobs)"
    by (rule closing_step.intros(1) [where i = 0], simp add: demo_pool_def worker_def pool_updates)+
  moreover have "closing_step (demo_pool Has_Closed Exited [] jobs) (demo_pool Has_Returned Exited [] jobs)"
    by (rule closing_step.intros(2)) (simp_all add: demo_pool_def Shutdown_def)
  ultimately show ?thesis using closing_steps.intros by (metis numeral_3_eq_3)
qed

theorem Shutdown_returns_witness:
  "\<exists>n p'. closing_steps (demo_pool Has_Closed Outside [] [''a'', ''b'']) n p' \<and> n \<le> 10 \<and> pl_phase p' = Has_Returned"
proof -
  have "pl_phase (demo_pool Has_Closed Outside [] [''a'', ''b'']) = Has_Closed" by (simp add: demo_pool_def)
  from Shutdown_returns [OF demo_closed this demo_closing] have "(3 :: nat) \<le> 10" by simp
  moreover have "pl_phase (demo_pool Has_Returned Exited [] [''a'', ''b'']) = Has_Returned" by (simp add: demo_pool_def)
  ultimately show ?thesis using demo_closing by blast
qed

text \<open>C26: \<open>Shutdown\<close> may return while a job for which \<open>Submit\<close> returned true is still queued, so that it is never run; and a \<open>Submit\<close> during a shutdown may panic.\<close>

theorem Shutdown_drops_jobs_and_Submit_panics:
  "(\<exists>es p. pool_reach (NewPool 1 2) es p \<and> pl_phase p = Has_Returned \<and> accepted_jobs es = [''a'', ''b''] \<and> pl_started p = [])
     \<and> (\<exists>es p. pool_reach (NewPool 1 2 :: string pool) es p \<and> pl_panicked p \<and> pl_phase p \<noteq> Has_Returned)"
proof
  have left: "pool_step (demo_pool Has_Closed Waiting [] [''a'', ''b'']) (Worked 0) (demo_pool Has_Closed Exited [] [''a'', ''b''])"
    by (rule demo_steps(4)) simp
  note run = pool_reach.Step [OF pool_reach.Step [OF pool_reach.Step [OF demo_closed demo_steps(2)] left] demo_steps(7)]
  show "\<exists>es p. pool_reach (NewPool 1 2) es p \<and> pl_phase p = Has_Returned \<and> accepted_jobs es = [''a'', ''b''] \<and> pl_started p = []"
    by (rule exI, rule exI, rule conjI, rule run) (simp_all add: demo_pool_def accepted_jobs_def)
  have "pool_step (demo_pool Has_Closed Outside [] [''a'', ''b'']) (Submitted ''c'' None)
      ((demo_pool Has_Closed Outside [] [''a'', ''b''])\<lparr>pl_panicked := True\<rparr>)"
    by (rule pool_step.Submit) (simp_all add: demo_pool_def Submit_def send_cases_def Let_def)
  note panics = pool_reach.Step [OF demo_closed this]
  show "\<exists>es p. pool_reach (NewPool 1 2 :: string pool) es p \<and> pl_panicked p \<and> pl_phase p \<noteq> Has_Returned"
    by (rule exI, rule exI, rule conjI, rule panics) (simp_all add: demo_pool_def)
qed

end
