(* ===== verification/Startup.thy ===== *)
theory Startup
  imports Server
begin

text \<open>
  The life of the process: \<open>postgres/connection.go\<close>, \<open>redis/connection.go\<close> and the body of
  \<open>main\<close> in \<open>cmd/api/main.go\<close> around the construction modelled in \<open>Server\<close>. Opening a pool and
  a client, listening and waiting for a signal are library parameters; the goroutine that
  listens has begun before a signal arrives.
\<close>

section \<open>Connections\<close>

text \<open>The fields of \<open>pgxpool.Config\<close> that the code sets, and the rest of what was parsed.\<close>

record pool_config =
  po_ConnConfig :: string
  po_MaxConns :: "32 word"
  po_MinConns :: "32 word"
  po_MaxConnLifetime :: duration
  po_MaxConnIdleTime :: duration

record redis_options =
  op_Addr :: string
  op_Password :: string
  op_DB :: go_int
  op_PoolSize :: go_int
  op_MinIdleConns :: go_int

text \<open>
  What becomes of \<open>ListenAndServe\<close>: it fails by itself, or a signal comes and \<open>Shutdown\<close>
  returns, perhaps with an error.
\<close>

datatype served_until = Listen_Error goerror | Stop_Signal "goerror option"

record http_server =
  hs_Addr :: string
  hs_ReadTimeout :: duration
  hs_WriteTimeout :: duration
  hs_IdleTimeout :: duration

record ('w, 'p) environment =
  ev_ParseConfig :: "string \<Rightarrow> goerror + pool_config"
  ev_NewWithConfig :: "pool_config \<Rightarrow> ('w, 'p) go"
  ev_Ping :: "'p \<Rightarrow> ('w, unit) go"
  ev_NewClient :: "redis_options \<Rightarrow> 'w redis_client"
  ev_serve :: "http_server \<Rightarrow> duration \<Rightarrow> 'w server \<Rightarrow> 'w \<Rightarrow> served_until \<times> 'w"

text \<open>\<open>int32(n)\<close> keeps the low 32 bits.\<close>

definition postgres_NewConnection :: "('w, 'p) environment \<Rightarrow> database_config \<Rightarrow> ('w, 'p) go" where
  "postgres_NewConnection ev cfg =
     bindG (wrapG ''parse config'' (resultG (ev_ParseConfig ev (DSN cfg)))) (\<lambda>pc.
     bindG (wrapG ''create pool'' (ev_NewWithConfig ev (pc\<lparr>po_MaxConns := ucast (dc_MaxOpenConns cfg),
        po_MinConns := ucast (dc_MaxIdleConns cfg), po_MaxConnLifetime := dc_ConnMaxLifetime cfg,
        po_MaxConnIdleTime := dc_ConnMaxIdleTime cfg\<rparr>))) (\<lambda>pool.
     bindG (wrapG ''ping'' (ev_Ping ev pool)) (\<lambda>_. returnG pool)))"

definition redis_NewConnection :: "('w, 'p) environment \<Rightarrow> redis_config \<Rightarrow> ('w, 'w redis_client) go" where
  "redis_NewConnection ev cfg =
     (let client = ev_NewClient ev \<lparr>op_Addr = Addr cfg, op_Password = ec_Password cfg, op_DB = ec_DB cfg,
            op_PoolSize = ec_PoolSize cfg, op_MinIdleConns = ec_MinIdleConns cfg\<rparr>
      in bindG (wrapG ''ping'' (rc_Ping client)) (\<lambda>_. returnG client))"

section \<open>The process\<close>

datatype process_event = Info string | Failure string goerror | Listen string | Close_DB | Close_Redis

text \<open>
  How the process ended. \<open>os.Exit\<close> runs no deferred call; the return of \<open>main\<close> runs them all,
  the last one first, and so does a panic.
\<close>

datatype process_end = Exit int | Returned | Panicked string

definition main_serve :: "('x world_scheme, 'p) environment \<Rightarrow> app_config \<Rightarrow> 'x world_scheme server \<Rightarrow> 'x world_scheme \<Rightarrow> process_end \<times> process_event list" where
  "main_serve ev cfg srv w =
     (let sc = cfg_Server cfg;
          hs = \<lparr>hs_Addr = sc_Host sc @ '':'' @ sc_Port sc, hs_ReadTimeout = sc_ReadTimeout sc,
                hs_WriteTimeout = sc_WriteTimeout sc, hs_IdleTimeout = sc_IdleTimeout sc\<rparr>;
          started = [Info ''starting server'', Listen (hs_Addr hs)]
      in case fst (ev_serve ev hs (sc_ShutdownTimeout sc) srv w) of
           Listen_Error e \<Rightarrow> (Exit 1, started @ [Failure ''server error'' e])
         | Stop_Signal err \<Rightarrow> (Returned, started @ [Info ''shutting down server...'']
             @ (case err of None \<Rightarrow> [] | Some e \<Rightarrow> [Failure ''server shutdown error'' e])
             @ [Info ''server stopped'', Close_Redis, Close_DB]))"

definition main_process ::
    "('x world_scheme, 'p) environment \<Rightarrow> ('x world_scheme) libraries \<Rightarrow> (string \<Rightarrow> string) \<Rightarrow> 'x world_scheme \<Rightarrow> process_end \<times> process_event list" where
  "main_process ev lib env w =
     (let cfg = Load env in
      case postgres_NewConnection ev (cfg_Database cfg) w of
        (Err e, _) \<Rightarrow> (Exit 1, [Failure ''failed to connect to database'' e])
      | (Panic p, _) \<Rightarrow> (Panicked p, [])
      | (Ret db, w1) \<Rightarrow>
        (case redis_NewConnection ev (cfg_Redis cfg) w1 of
           (Err e, _) \<Rightarrow> (Exit 1, [Failure ''failed to connect to redis'' e])
         | (Panic p, _) \<Rightarrow> (Panicked p, [Close_DB])
         | (Ret redis, w2) \<Rightarrow>
           (case main_server (lib\<lparr>lb_redis := redis, lb_db_Ping := ev_Ping ev db\<rparr>) cfg of
              Inl e \<Rightarrow> (Exit 1, [Failure ''failed to build chatbot graph'' e])
            | Inr srv \<Rightarrow> main_serve ev cfg srv w2)))"

section \<open>What the process promises\<close>

text \<open>Nothing is served before the database and Redis have answered and the workflow was accepted.\<close>

lemma main_process_listens:
  assumes "main_process ev lib env w = (fin, events)" "Listen a \<in> set events"
  shows "\<exists>db redis srv w1 w2. postgres_NewConnection ev (cfg_Database (Load env)) w = (Ret db, w1)
    \<and> redis_NewConnection ev (cfg_Redis (Load env)) w1 = (Ret redis, w2)
    \<and> main_server (lib\<lparr>lb_redis := redis, lb_db_Ping := ev_Ping ev db\<rparr>) (Load env) = Inr srv
    \<and> a = sc_Host (cfg_Server (Load env)) @ '':'' @ sc_Port (cfg_Server (Load env))"
  using assms
  by (auto simp: main_process_def main_serve_def Let_def split: prod.splits outcome.splits sum.splits served_until.splits option.splits)

text \<open>A connection that is returned has answered a ping.\<close>

lemma postgres_connected:
  assumes "postgres_NewConnection ev cfg w = (Ret pool, w')"
  shows "\<exists>w1. ev_Ping ev pool w1 = (Ret (), w')"
  using assms by (auto simp: postgres_NewConnection_def bindG_eq_Ret wrapG_eq_Ret)

lemma redis_connected:
  assumes "redis_NewConnection ev cfg w = (Ret client, w')"
  shows "rc_Ping client w = (Ret (), w')"
  using assms by (auto simp: redis_NewConnection_def Let_def bindG_eq_Ret wrapG_eq_Ret)

text \<open>Only the orderly stop closes the connections; every \<open>os.Exit\<close> after a failure leaves them open.\<close>

lemma main_process_closes:
  assumes "main_process ev lib env w = (fin, events)"
  shows "fin = Returned \<Longrightarrow> \<exists>pre. events = pre @ [Close_Redis, Close_DB]"
    "fin = Exit n \<Longrightarrow> n = 1 \<and> Close_DB \<notin> set events \<and> Close_Redis \<notin> set events"
  using assms
  by (auto simp: main_process_def main_serve_def Let_def split: prod.splits outcome.splits sum.splits served_until.splits option.splits)

text \<open>The connection string is not quoted: a password may end up as the name of the database.\<close>

lemma DSN_ambiguous:
  "DSN (c\<lparr>dc_Password := p @ '' dbname='' @ q, dc_Name := n\<rparr>) = DSN (c\<lparr>dc_Password := p, dc_Name := q @ '' dbname='' @ n\<rparr>)"
  by (simp add: DSN_def)

text \<open>A limit of connections that needs more than 31 bits becomes negative.\<close>

lemma MaxConns_wraps: "sint (ucast (2147483648 :: go_int) :: 32 word) = - 2147483648"
  by code_simp

end
