(* ===== verification/Unit_Tests.thy ===== *)
theory Unit_Tests
  imports Domain_Service Builtin_Tools Scenario
begin

text \<open>
  The repository's unit tests, run on the model: one lemma per test function of
  \<open>*_test.go\<close>, with the inputs of the test and what it asserts. The clock reads \<open>0\<close> when an
  entity is made; the mocks of \<open>tests/mocks\<close> are records that answer as the tests set them up.
\<close>

section \<open>\<open>internal/domain/entity\<close>\<close>

lemma test_NewUser:
  "u_Role (NewUser 1 0 0 ''test@example.com'' ''hashed_password'' ''Test User'') = UserRoleUser"
  "u_IsActive (NewUser 1 0 0 ''test@example.com'' ''hashed_password'' ''Test User'')"
  "u_Metadata (NewUser 1 0 0 ''test@example.com'' ''hashed_password'' ''Test User'') \<noteq> None"
  by (simp_all add: NewUser_def)

lemma test_CanUseTools:
  assumes "user = NewUser 1 0 0 ''test@example.com'' ''hash'' ''Name''"
  shows "list_all (\<lambda>(role, active, want). User_CanUseTools (user\<lparr>u_Role := role, u_IsActive := active\<rparr>) = want)
    [(UserRoleAdmin, True, True), (UserRoleUser, True, True), (UserRoleAgent, True, False), (UserRoleAdmin, False, False), (UserRoleUser, False, False)]"
    "\<not> User_IsAdmin user" "User_IsAdmin (user\<lparr>u_Role := UserRoleAdmin\<rparr>)"
  by (simp_all add: assms User_CanUseTools_def User_IsAdmin_def NewUser_def)

lemma test_NewAPIKey:
  assumes "token = NewAPIKey 1 0 0 7 ''hash123'' ''My API Key'' (24 * hour)"
  shows "t_UserID token = 7" "t_TokenHash token = ''hash123''" "t_TokenType token = TokenTypeAPIKey" "t_ExpiresAt token = 24 * hour"
    "t_RateLimitPerMinute token = 60" "t_RateLimitPerDay token = 10000" "\<not> t_IsRevoked token"
  by (simp_all add: assms NewAPIKey_def)

lemma test_Token_IsExpired_IsValid:
  assumes "token = NewAPIKey 1 0 0 7 ''hash'' ''key'' hour" "expired = NewAPIKey 1 0 0 7 ''hash'' ''key'' (- hour)"
  shows "\<not> Token_IsExpired 0 token" "Token_IsExpired 0 expired" "Token_IsValid 0 token" "\<not> Token_IsValid 0 (token\<lparr>t_IsRevoked := True\<rparr>)"
    "\<not> Token_IsValid 0 expired"
  by (simp_all add: assms NewAPIKey_def Token_IsValid_def Token_IsExpired_def duration_defs)

lemma test_Token_CanUse:
  assumes "token = NewAPIKey 1 0 0 7 ''hash'' ''key'' hour"
  shows "Token_CanUseTool token ''web_search''" "Token_CanUseTool token ''calculator''"
    "Token_CanUseTool (token\<lparr>t_AllowedTools := [''calculator'']\<rparr>) ''calculator''"
    "\<not> Token_CanUseTool (token\<lparr>t_AllowedTools := [''calculator'']\<rparr>) ''web_search''"
    "Token_CanUseTool (token\<lparr>t_AllowedTools := [''*'']\<rparr>) ''anything''" "Token_CanUseModel token ''gpt-4o''"
    "Token_CanUseModel (token\<lparr>t_AllowedModels := [''gpt-4o-mini'']\<rparr>) ''gpt-4o-mini''"
    "\<not> Token_CanUseModel (token\<lparr>t_AllowedModels := [''gpt-4o-mini'']\<rparr>) ''gpt-4o''"
    "t_LastUsedAt token = None" "t_LastUsedAt (Token_UpdateLastUsed 0 token) \<noteq> None"
  by (simp_all add: assms NewAPIKey_def Token_CanUseTool_def Token_CanUseModel_def Token_UpdateLastUsed_def)

lemma test_Conversation:
  assumes "conv = NewConversation 1 0 0 7 ''general''"
  shows "c_Status conv = ConversationStatusActive" "c_Temperature conv = float_of_rat (7 / 10)" "c_Metadata conv \<noteq> None" "c_WorkflowState conv \<noteq> None"
    "Conversation_IsActive conv" "\<not> Conversation_IsActive (conv\<lparr>c_Status := ConversationStatusCompleted\<rparr>)"
    "\<not> Conversation_IsPendingApproval conv" "Conversation_IsPendingApproval (conv\<lparr>c_Status := ConversationStatusPending\<rparr>)"
    "c_Status (Conversation_Complete 0 conv) = ConversationStatusCompleted" "c_CompletedAt (Conversation_Complete 0 conv) \<noteq> None"
  by (simp_all add: assms NewConversation_def Conversation_IsActive_def Conversation_IsPendingApproval_def Conversation_Complete_def)

lemma test_Conversation_approval:
  assumes "Conversation_RequestApproval 0 ''act'' [(''tool'', AStr ''test'')] (NewConversation 1 0 0 7 ''general'') = Ret conv"
  shows "c_Status conv = ConversationStatusPending" "c_CurrentNode conv = ''act''" "map_of (the (c_Metadata conv)) ''pending_approval'' \<noteq> None"
    "c_Status (Conversation_Approve 0 conv) = ConversationStatusActive"
    "map_of (the (c_Metadata (Conversation_Approve 0 conv))) ''pending_approval'' = None"
    "\<exists>conv'. Conversation_Reject 0 0 ''too risky'' conv = Ret conv' \<and> c_Status conv' = ConversationStatusActive
       \<and> map_of (the (c_Metadata conv')) ''last_rejection'' \<noteq> None"
  using assms by (auto simp: conversation_op_defs NewConversation_def)

lemma test_Conversation_stats_and_title:
  assumes "conv = NewConversation 1 0 0 7 ''general''"
    and "conv2 = Conversation_AddMessageStats 0 200 2 (Conversation_AddMessageStats 0 100 1 conv)"
  shows "c_MessageCount conv2 = 2" "c_TotalTokens conv2 = 300" "c_ToolCallCount conv2 = 3" "c_LastMessageAt conv2 \<noteq> None"
    "c_Title conv = []" "c_Title (Conversation_SetTitle 0 ''My First Chat'' conv) = ''My First Chat''"
    "c_Title (Conversation_SetTitle 0 ''New Title'' (Conversation_SetTitle 0 ''My First Chat'' conv)) = ''My First Chat''"
  by (simp_all add: assms conversation_op_defs NewConversation_def)

lemma test_Message:
  "m_Role (NewUserMessage 1 0 5 ''Hello, world!'') = RoleUser" "m_Content (NewUserMessage 1 0 5 ''Hello, world!'') = ''Hello, world!''"
  "m_Role (NewAssistantMessage 1 0 5 c [tc] md) = RoleAssistant" "length (m_ToolCalls (NewAssistantMessage 1 0 5 c [tc] md)) = 1"
  "m_Model (NewAssistantMessage 1 0 5 c [tc] ''gpt-4o-mini'') = ''gpt-4o-mini''" "m_Role (NewSystemMessage 1 0 5 c) = RoleSystem"
  "m_Role (NewToolMessage 1 0 5 ''call_123'' ''calculator'' v) = RoleTool" "m_Name (NewToolMessage 1 0 5 ''call_123'' ''calculator'' v) = ''calculator''"
  "m_ToolCallID (NewToolMessage 1 0 5 ''call_123'' ''calculator'' v) = ''call_123''"
  by (simp_all add: NewUserMessage_def NewAssistantMessage_def NewSystemMessage_def NewToolMessage_def message_base_def)

lemma test_NewToolMessage_content:
  "json_parse (m_Content (NewToolMessage 1 0 5 ''call_123'' ''calculator'' (AMap [(''answer'', AStr ''42'')]))) = Some (JObj [(''answer'', JStr ''42'')])"
  by code_simp

lemma test_ToOpenAIFormat:
  assumes "get = (\<lambda>m. map_of (Message_ToOpenAIFormat m))"
  shows "get (NewUserMessage 1 0 5 ''Hello'') ''role'' = Some (AStr ''user'')" "get (NewUserMessage 1 0 5 ''Hello'') ''content'' = Some (AStr ''Hello'')"
    "get (NewUserMessage 1 0 5 ''Hello'') ''tool_calls'' = None" "get (NewAssistantMessage 1 0 5 [] [tc] md) ''role'' = Some (AStr ''assistant'')"
    "get (NewAssistantMessage 1 0 5 [] [tc] md) ''tool_calls'' \<noteq> None" "get (NewToolMessage 1 0 5 ''call_1'' ''calc'' v) ''role'' = Some (AStr ''tool'')"
    "get (NewToolMessage 1 0 5 ''call_1'' ''calc'' v) ''tool_call_id'' = Some (AStr ''call_1'')"
    "get (NewToolMessage 1 0 5 ''call_1'' ''calc'' v) ''name'' = Some (AStr ''calc'')"
  by (simp_all add: assms Message_ToOpenAIFormat_def NewUserMessage_def NewAssistantMessage_def NewToolMessage_def message_base_def)

section \<open>\<open>internal/domain/service\<close>\<close>

lemma test_ValidateTokenAccess:
  assumes "user = NewUser 7 0 0 ''test@example.com'' ''hash'' ''Test User''" "token = NewAPIKey 1 0 0 7 ''hash'' ''key'' hour"
  shows "ValidateTokenAccess 0 0 user token [] [] = None"
    "ValidateTokenAccess 0 0 (user\<lparr>u_IsActive := False\<rparr>) token [] [] = Some (Errorf ''user account is inactive'')"
    "ValidateTokenAccess 0 0 user (token\<lparr>t_IsRevoked := True\<rparr>) [] [] = Some (Errorf ''token has been revoked'')"
    "ValidateTokenAccess 0 0 user (token\<lparr>t_ExpiresAt := - hour\<rparr>) [] [] = Some (Errorf ''token has expired'')"
    "ValidateTokenAccess 0 0 user (token\<lparr>t_UserID := 8\<rparr>) [] [] \<noteq> None"
    "\<exists>e. ValidateTokenAccess 0 0 user (token\<lparr>t_AllowedTools := [''calculator'']\<rparr>) ''web_search'' [] = Some e"
    "\<exists>e. ValidateTokenAccess 0 0 user (token\<lparr>t_AllowedModels := [''gpt-4o-mini'']\<rparr>) [] ''gpt-4o'' = Some e"
  by (simp_all add: assms ValidateTokenAccess_def NewUser_def NewAPIKey_def Token_IsValid_def Token_IsExpired_def Token_CanUseTool_def
      Token_CanUseModel_def duration_defs)

lemma test_CanCreateAPIKey:
  assumes "user = NewUser 7 0 0 ''user@example.com'' ''hash'' ''User''"
  shows "CanCreateAPIKey (user\<lparr>u_Role := UserRoleAdmin\<rparr>)" "CanCreateAPIKey user" "\<not> CanCreateAPIKey (user\<lparr>u_IsActive := False\<rparr>)"
  by (simp_all add: assms CanCreateAPIKey_def NewUser_def)

section \<open>\<open>usecase/tool\<close>\<close>

definition mock_tool :: "string \<Rightarrow> 'w tool" where
  "mock_tool name = \<lparr>tl_Name = name, tl_Description = ''Mock tool: '' @ name, tl_Definition = NewTool name (''Mock tool: '' @ name) None,
     tl_Execute = (\<lambda>args. returnG (AMap [(''result'', AStr ''ok'')])), tl_RequiresApproval = BaseTool_RequiresApproval, tl_Validate = BaseTool_Validate\<rparr>"

definition three_tools :: "unit tool_registry" where
  "three_tools = RegisterAll [mock_tool ''tool_a'', mock_tool ''tool_b'', mock_tool ''tool_c''] NewToolRegistry"

lemmas registry_test_defs = three_tools_def mock_tool_def NewTool_def NewToolRegistry_def Register_def Registry_Get_def Registry_List_def Registry_ListNames_def
  ListForToken_def range_tools_def demo_runtime_def bindG_def List.map_filter_def

lemma test_ToolRegistry:
  "\<exists>t. Registry_List demo_runtime (RegisterAll [mock_tool ''test_tool''] NewToolRegistry) () = (Ret [t], ()) \<and> fs_Name (ts_Function t) = ''test_tool''"
  "\<exists>ts. Registry_List demo_runtime three_tools () = (Ret ts, ()) \<and> length ts = 3"
  "Registry_Get three_tools ''tool_b'' \<noteq> None" "Registry_Get three_tools ''nonexistent'' = None"
  "Registry_ListNames demo_runtime three_tools () = (Ret [''tool_a'', ''tool_b'', ''tool_c''], ())"
  by (simp_all add: registry_test_defs)

lemma test_ListForToken:
  "list_all (\<lambda>(allowed, n). \<exists>ts. ListForToken demo_runtime three_tools allowed () = (Ret ts, ()) \<and> length ts = n)
     [([], 3), ([''tool_a'', ''tool_c''], 2), ([''*''], 3), ([''tool_a'', ''nonexistent''], 1)]"
  by (simp add: registry_test_defs)

definition test_call :: "string \<Rightarrow> string \<Rightarrow> tool_call" where
  "test_call name args = \<lparr>tc_ID = ''call_123'', tc_Type = ''function'', tc_Function = \<lparr>fc_Name = name, fc_Arguments = args\<rparr>\<rparr>"

definition test_token :: "string list \<Rightarrow> token" where
  "test_token allowed = (NewAPIKey 1 0 0 7 ''hash'' ''key'' hour)\<lparr>t_AllowedTools := allowed\<rparr>"

lemma test_ParseArguments:
  "ParseArguments (test_call ''mock_tool'' (''{'' @ [CHR 34] @ ''input'' @ [CHR 34] @ '': '' @ [CHR 34] @ ''test'' @ [CHR 34] @ ''}''))
     = Inr [(''input'', AStr ''test'')]"
  "ParseArguments (test_call ''my_tool'' ''not valid json'') = Inl (Errorf ''invalid JSON'')"
  by code_simp+

lemma test_ExecuteTool:
  fixes user :: user
  shows "\<exists>out. ExecuteTool_Execute demo_runtime (RegisterAll [mock_tool ''mock_tool''] NewToolRegistry)
      (test_call ''mock_tool'' (''{'' @ [CHR 34] @ ''input'' @ [CHR 34] @ '': '' @ [CHR 34] @ ''test'' @ [CHR 34] @ ''}'')) (Some user) (Some (test_token [])) ()
      = (Ret out, ()) \<and> eo_ToolCallID out = ''call_123'' \<and> eo_ToolName out = ''mock_tool''"
    "\<exists>e. ExecuteTool_Execute demo_runtime NewToolRegistry (test_call ''nonexistent_tool'' ''{}'') (Some user) (Some (test_token [])) () = (Err e, ())"
    "\<exists>e. ExecuteTool_Execute demo_runtime (RegisterAll [mock_tool ''restricted_tool''] NewToolRegistry) (test_call ''restricted_tool'' ''{}'')
      (Some user) (Some (test_token [''other_tool''])) () = (Err e, ())"
    "\<exists>e. ExecuteTool_Execute demo_runtime (RegisterAll [mock_tool ''my_tool''] NewToolRegistry) (test_call ''my_tool'' ''not valid json'')
      (Some user) (Some (test_token [])) () = (Err e, ())"
  using test_ParseArguments
  by (auto simp: ExecuteTool_Execute_def registry_test_defs test_call_def test_token_def NewAPIKey_def Token_CanUseTool_def BaseTool_Validate_def attemptG_def Let_def)

section \<open>\<open>usecase/tool/builtin\<close>\<close>

text \<open>The expressions as Go's parser reads them; a literal of the tests is an integer.\<close>

definition test_literal :: "string \<Rightarrow> goerror + f64" where
  "test_literal v = Inr (float_of_rat (of_int (digits_val v)))"

lemma round64_numeral: "(numeral n :: int) < 2 ^ 53 \<Longrightarrow> round64 s (numeral n) = FNum (if s then - numeral n else numeral n)"
  using round64_int [of "numeral n" s] by simp

lemma test_Calculator_Execute:
  "calc_eval test_literal (BinaryExpr (BasicLit ''2'') ADD (BasicLit ''3'')) = Inr (FNum 5)"
  "calc_eval test_literal (BinaryExpr (BasicLit ''10'') SUB (BasicLit ''4'')) = Inr (FNum 6)"
  "calc_eval test_literal (BinaryExpr (BasicLit ''3'') MUL (BasicLit ''4'')) = Inr (FNum 12)"
  "calc_eval test_literal (BinaryExpr (BasicLit ''15'') QUO (BasicLit ''3'')) = Inr (FNum 5)"
  "calc_eval test_literal (BinaryExpr (ParenExpr (BinaryExpr (BasicLit ''2'') ADD (BasicLit ''3''))) MUL (BasicLit ''4'')) = Inr (FNum 20)"
  "calc_eval test_literal (BinaryExpr (UnaryExpr SUB (BasicLit ''5'')) ADD (BasicLit ''10'')) = Inr (FNum 5)"
  "calc_eval test_literal (BinaryExpr (BasicLit ''10'') QUO (BasicLit ''0'')) = Inl (Errorf ''division by zero'')"
  by (simp_all add: test_literal_def digits_val_def digit_val_def float_of_rat_def round64_numeral fsub_def fneg_def f_is_zero_def)

text \<open>\<open>7 / 2\<close>\<close>

lemma test_Calculator_float_division: "fdiv (FNum 7) (FNum 2) = FNum (7 / 2)"
  by code_simp

lemma test_Calculator_errors:
  "\<exists>e. calc_Execute parse pf [] w = (Err e, w)"
  "parse text = Inl e \<Longrightarrow> text \<noteq> [] \<Longrightarrow> \<exists>m. calc_Execute parse pf [(''expression'', AStr text)] w = (Ret (AMap m), w) \<and> map_of m ''error'' \<noteq> None"
  "js_Required (the (fs_Parameters (ts_Function calc_Definition))) = [''expression'']" "\<not> tl_RequiresApproval (CalculatorTool parse pf)"
  by (auto simp: calc_Execute_def calc_evaluate_def calc_Definition_def NewTool_def CalculatorTool_def BaseTool_RequiresApproval_def any_string_def)

section \<open>\<open>usecase/chat\<close>\<close>

text \<open>A mock panics when a method is called that the test did not set up.\<close>

definition unset :: "('w, 'a) go" where
  "unset = panicG ''mock: I don't know what to return because the method call was unexpected.''"

definition mock_convs :: "conversation option \<Rightarrow> unit conversation_repository" where
  "mock_convs found = \<lparr>cr_Create = (\<lambda>c. if c_AgentType c = ''general'' then returnG () else unset),
     cr_FindByID = (\<lambda>i. case found of Some c \<Rightarrow> if i = c_ID c then returnG c else unset | None \<Rightarrow> failG (Errorf ''not found'')),
     cr_FindByUserID = (\<lambda>u f. case found of Some c \<Rightarrow> returnG [c, c] | None \<Rightarrow> failG (Errorf ''db error'')), cr_Update = (\<lambda>c. returnG ()),
     cr_UpdateWorkflowState = (\<lambda>i st. unset), cr_Delete = (\<lambda>i. unset), cr_CountByUserID = (\<lambda>u. returnG 2)\<rparr>"

definition mock_msgs :: "message list \<Rightarrow> unit message_repository" where
  "mock_msgs ms = \<lparr>mr_Create = (\<lambda>m. returnG ()), mr_CreateBatch = (\<lambda>ms. unset), mr_FindByConversationID = (\<lambda>i. returnG ms),
     mr_FindByConversationIDPaginated = (\<lambda>i l o'. unset), mr_FindLastN = (\<lambda>i n. unset), mr_CountByConversationID = (\<lambda>i. unset),
     mr_Delete = (\<lambda>i. unset), mr_DeleteByConversationID = (\<lambda>i. unset)\<rparr>"

definition mock_output :: "string \<Rightarrow> workflow_output" where
  "mock_output response = \<lparr>wo_Response = response, wo_TokensUsed = 15, wo_ToolCallsCount = 0, wo_AgentType = ''general'',
     wo_RequiresApproval = False, wo_ApprovalReason = [], wo_PausedStateJSON = []\<rparr>"

text \<open>The engine asks for the default model, so a turn that completes also shows that it was chosen.\<close>

definition mock_engine :: "string option \<Rightarrow> unit workflow_engine" where
  "mock_engine reply = \<lparr>we_Run = (\<lambda>inp. if wi_Model inp = ''gpt-4o-mini'' then
       case reply of Some r \<Rightarrow> returnG (mock_output r) | None \<Rightarrow> failG (Errorf ''LLM unavailable'') else unset),
     we_Resume = (\<lambda>st ok. case reply of Some r \<Rightarrow> returnG (mock_output r) | None \<Rightarrow> unset)\<rparr>"

definition mock_sender :: "conversation option \<Rightarrow> string option \<Rightarrow> unit send_message_usecase" where
  "mock_sender found reply = NewSendMessageUseCase (mock_convs found) (mock_msgs [])
     \<lparr>llm_Chat = (\<lambda>rq. returnG (demo_reply ''stateless reply'' [])), llm_ChatStream = (\<lambda>rq. unset)\<rparr> (mock_engine reply) []"

definition test_message :: "uuid option \<Rightarrow> chat_message list \<Rightarrow> send_message_input" where
  "test_message conv ms = \<lparr>si_ConversationID = conv, si_UserID = 7, si_Content = ''test'', si_AgentType = [], si_Messages = ms, si_Model = [], si_Tools = []\<rparr>"

definition test_conversation :: conversation where
  "test_conversation = NewConversation 5 0 0 7 ''general''"

lemmas mock_defs = mock_convs_def mock_msgs_def mock_output_def mock_engine_def mock_sender_def test_message_def test_conversation_def demo_runtime_def
  demo_reply_def chat_message_of_def NewSendMessageUseCase_def chosen_model_def NewConversation_def

lemmas chat_test_defs = SendMessage_Execute_def send_stateless_def send_conversation_def send_finished_def new_conversation_def new_user_message_def
  new_assistant_message_def NewUserMessage_def NewAssistantMessage_def message_base_def Conversation_SetTitle_def Conversation_AddMessageStats_def
  bindG_def wrapG_def Let_def

lemma test_SendMessage_NewConversation:
  "\<exists>out. SendMessage_Execute demo_runtime (mock_sender None (Some ''Hello!'')) (test_message None []) () = (Ret out, ())
     \<and> so_Response out = ''Hello!'' \<and> so_ConversationID out \<noteq> 0 \<and> so_Message out \<noteq> None"
  by (simp add: mock_defs chat_test_defs)

lemma test_SendMessage_ExistingConversation:
  "\<exists>out. SendMessage_Execute demo_runtime (mock_sender (Some test_conversation) (Some ''Great!'')) (test_message (Some 5) []) () = (Ret out, ())
     \<and> so_Response out = ''Great!'' \<and> so_ConversationID out = 5"
  "\<exists>e. SendMessage_Execute demo_runtime (mock_sender None None) (test_message (Some 5) []) () = (Err (Wrapf ''conversation not found'' e), ())"
  "SendMessage_Execute demo_runtime (mock_sender (Some (test_conversation\<lparr>c_UserID := 8\<rparr>)) None) (test_message (Some 5) []) ()
     = (Err (Errorf ''unauthorized access to conversation''), ())"
  by (simp_all add: mock_defs chat_test_defs)

lemma test_SendMessage_WorkflowError:
  "\<exists>e. SendMessage_Execute demo_runtime (mock_sender None None) (test_message None []) () = (Err (Wrapf ''workflow run'' e), ())"
  by (simp add: mock_defs chat_test_defs)

lemma test_SendMessage_Stateless:
  "\<exists>out. SendMessage_Execute demo_runtime (mock_sender None None) (test_message None [chat_message_of ''user'' ''hello'']) () = (Ret out, ())
     \<and> so_Response out = ''stateless reply''"
  by (simp add: mock_defs chat_test_defs)

lemma test_GetConversation:
  "\<exists>out. GetConversation_Execute (mock_convs (Some test_conversation)) (mock_msgs [NewUserMessage 1 0 5 ''hello'', NewAssistantMessage 2 0 5 ''hi'' [] []]) 5 7 ()
     = (Ret out, ()) \<and> c_ID (go_Conversation out) = 5 \<and> length (go_Messages out) = 2"
  "\<exists>e. GetConversation_Execute (mock_convs None) (mock_msgs []) 5 7 () = (Err (Wrapf ''conversation not found'' e), ())"
  "GetConversation_Execute (mock_convs (Some test_conversation)) (mock_msgs []) 5 8 () = (Err (Errorf ''unauthorized access to conversation''), ())"
  by (simp_all add: GetConversation_Execute_def mock_defs chat_test_defs)

lemma test_ListConversations:
  "\<exists>out. ListConversations_Execute (mock_convs (Some test_conversation)) 7 () = (Ret out, ()) \<and> length (lo_Conversations out) = 2 \<and> lo_Total out = 2"
  "\<exists>e. ListConversations_Execute (mock_convs None) 7 () = (Err (Wrapf ''list conversations'' e), ())"
  by (simp_all add: ListConversations_Execute_def mock_defs chat_test_defs)

definition pending_conversation :: conversation where
  "pending_conversation = test_conversation\<lparr>c_Status := ConversationStatusPending, c_CurrentNode := ''tool_node'',
     c_Metadata := Some [(''pending_approval'', AMap [(''tool'', AStr ''web_search'')])], c_WorkflowState := Some [(''paused_state'', AStr ''{}'')]\<rparr>"

definition test_approve :: "conversation option \<Rightarrow> uuid \<Rightarrow> bool \<Rightarrow> (unit, approve_output) go" where
  "test_approve found u b = ApproveAction_Execute demo_runtime (NewApproveActionUseCase (mock_convs found) (mock_msgs []) (mock_engine (Some ''Tool executed successfully.'')))
     \<lparr>ai_ConversationID = 5, ai_UserID = u, ai_Approved = b, ai_Reason = ''Too risky''\<rparr>"

lemma test_ApproveAction:
  "\<exists>out. test_approve (Some pending_conversation) 7 True () = (Ret out, ()) \<and> ao_Status out = ''approved''
     \<and> ao_Response out = ''Tool executed successfully.'' \<and> c_Status (ao_Conversation out) = ConversationStatusActive"
  "\<exists>out. test_approve (Some pending_conversation) 7 False () = (Ret out, ()) \<and> ao_Status out = ''rejected''"
  "test_approve (Some test_conversation) 7 True () = (Err (Errorf ''conversation is not pending approval''), ())"
  "test_approve (Some pending_conversation) 8 True () = (Err (Errorf ''unauthorized access to conversation''), ())"
  "\<exists>e. test_approve None 7 True () = (Err (Wrapf ''conversation not found'' e), ())"
  by (simp_all add: test_approve_def pending_conversation_def ApproveAction_Execute_def approve_message_def approve_decision_def approve_status_def
      paused_state_def Conversation_IsPendingApproval_def Conversation_Approve_def Conversation_Reject_def map_assign_def outcomeG_def
      mock_defs chat_test_defs)

section \<open>\<open>usecase/auth\<close>\<close>

definition mock_tokens :: "token option \<Rightarrow> (token \<Rightarrow> (unit, unit) go) \<Rightarrow> unit token_repository" where
  "mock_tokens found create = \<lparr>kr_Create = create, kr_FindByHash = (\<lambda>h. case found of Some t \<Rightarrow> returnG t | None \<Rightarrow> failG (Errorf ''not found'')),
     kr_FindByID = (\<lambda>i. case found of Some t \<Rightarrow> returnG t | None \<Rightarrow> unset), kr_FindByUserID = (\<lambda>u. unset), kr_UpdateLastUsed = (\<lambda>i. returnG ()),
     kr_Revoke = (\<lambda>i. unset), kr_RevokeAllForUser = (\<lambda>u. unset), kr_DeleteExpired = unset\<rparr>"

definition mock_users :: "user option \<Rightarrow> unit user_repository" where
  "mock_users found = \<lparr>ur_Create = (\<lambda>u. unset), ur_FindByID = (\<lambda>i. case found of Some u \<Rightarrow> returnG u | None \<Rightarrow> unset),
     ur_FindByEmail = (\<lambda>e. case found of Some u \<Rightarrow> returnG u | None \<Rightarrow> failG (Errorf ''not found'')), ur_Update = (\<lambda>u. unset), ur_Delete = (\<lambda>i. unset)\<rparr>"

text \<open>The text of a JWT is its type here; any other text does not parse.\<close>

definition test_jwt :: jwt_library where
  "test_jwt = \<lparr>jl_Sign = (\<lambda>secret cl. Inr (cl_TokenType cl)),
     jl_Parse = (\<lambda>key now tok. if tok = ''access'' \<or> tok = ''refresh'' then Inr (Some (demo_claims tok), True) else Inl (Errorf ''token is malformed'')),
     jl_NewNumericDate = (\<lambda>t. t)\<rparr>"

definition test_user :: user where
  "test_user = NewUser 7 0 0 ''alice@example.com'' ''Secret123'' ''Alice''"

definition test_session :: token where
  "test_session = NewAPIKey 50 0 0 7 ''hash'' ''session'' hour"

definition test_auth :: "user option \<Rightarrow> token option \<Rightarrow> unit auth_usecase" where
  "test_auth u t = \<lparr>vu_tokenRepo = mock_tokens t (\<lambda>t. returnG ()), vu_userRepo = mock_users u,
     vu_jwtMgr = NewJWTManager ''test-secret-32-chars-minimum!!'' (15 * minute) (7 * 24 * hour)\<rparr>"

definition test_login :: "user option \<Rightarrow> string \<Rightarrow> (unit, login_output) go" where
  "test_login u password = Login_Execute demo_runtime test_jwt (\<lambda>s. s) (\<lambda>u. ''uuid'') demo_bcrypt (test_auth u None)
     \<lparr>li_Email = ''alice@example.com'', li_Password = password\<rparr>"

definition test_validate :: "user option \<Rightarrow> token option \<Rightarrow> string \<Rightarrow> (unit, validate_token_result) go" where
  "test_validate u t = ValidateToken_Execute demo_runtime test_jwt (\<lambda>s. s) (test_auth u t)"

definition test_refresh :: "user option \<Rightarrow> token option \<Rightarrow> string \<Rightarrow> (unit, refresh_token_output) go" where
  "test_refresh u t = RefreshToken_Execute demo_runtime test_jwt (test_auth u t)"

lemmas auth_test_defs = test_login_def test_validate_def test_refresh_def test_auth_def test_user_def test_session_def test_jwt_def mock_tokens_def mock_users_def
  Login_Execute_def ValidateToken_Execute_def RefreshToken_Execute_def validateAPIKey_def validateJWT_def check_token_def ValidateToken_def validate_claims_def
  GenerateAPIKey_def GenerateAccessToken_def GenerateRefreshToken_def generate_token_def resultG_def HashToken_def spawnG_def maskG_def wrapG_def bindG_def
  Token_IsValid_def Token_IsExpired_def has_prefix_def demo_runtime_def demo_claims_def demo_bcrypt_def NewUser_def NewAPIKey_def Let_def duration_defs

lemma test_Login:
  "\<exists>out. test_login (Some test_user) ''Secret123'' () = (Ret out, ()) \<and> lg_AccessToken out \<noteq> [] \<and> lg_RefreshToken out \<noteq> []
     \<and> lg_TokenType out = ''Bearer'' \<and> lg_ExpiresIn out = 900 \<and> u_ID (lg_User out) = u_ID test_user"
  "test_login None ''any'' () = (Err (Errorf ''invalid credentials''), ())"
  "test_login (Some test_user) ''WrongPass'' () = (Err (Errorf ''invalid credentials''), ())"
  "test_login (Some (test_user\<lparr>u_IsActive := False\<rparr>)) ''Secret123'' () = (Err (Errorf ''user account is inactive''), ())"
  by (simp_all add: auth_test_defs)

lemma test_Login_TokenCreateFails:
  "\<exists>e. Login_Execute demo_runtime test_jwt (\<lambda>s. s) (\<lambda>u. ''uuid'') demo_bcrypt
       ((test_auth (Some test_user) None)\<lparr>vu_tokenRepo := mock_tokens None (\<lambda>t. failG (Errorf ''db error''))\<rparr>)
       \<lparr>li_Email = ''alice@example.com'', li_Password = ''Secret123''\<rparr> () = (Err (Wrapf ''create token'' e), ())"
  by (simp add: auth_test_defs)

lemma test_ValidateToken:
  "\<exists>out. test_validate (Some test_user) (Some test_session) ''access'' () = (Ret out, ()) \<and> u_ID (vr_User out) = 7 \<and> t_ID (vr_Token out) = 50"
  "\<exists>e. test_validate (Some test_user) (Some test_session) ''not.a.jwt'' () = (Err (Wrapf ''invalid token'' e), ())"
  "test_validate (Some test_user) (Some (test_session\<lparr>t_IsRevoked := True\<rparr>)) ''access'' () = (Err (Errorf ''token is expired or revoked''), ())"
  "test_validate (Some (test_user\<lparr>u_IsActive := False\<rparr>)) (Some test_session) ''access'' () = (Err (Errorf ''user account is inactive''), ())"
  "\<exists>out. test_validate (Some test_user) (Some test_session) ''sk-uuid'' () = (Ret out, ()) \<and> u_ID (vr_User out) = 7"
  "test_validate (Some test_user) None ''sk-uuid'' () = (Err (Errorf ''invalid API key''), ())"
  by (simp_all add: auth_test_defs)

lemma test_RefreshToken:
  "\<exists>out. test_refresh (Some test_user) (Some test_session) ''refresh'' () = (Ret out, ()) \<and> ro_AccessToken out \<noteq> [] \<and> ro_TokenType out = ''Bearer''
     \<and> ro_ExpiresIn out = 900"
  "test_refresh (Some test_user) (Some test_session) ''access'' () = (Err (Errorf ''not a refresh token''), ())"
  "\<exists>e. test_refresh (Some test_user) (Some test_session) ''garbage'' () = (Err (Wrapf ''invalid refresh token'' e), ())"
  "test_refresh (Some test_user) (Some (test_session\<lparr>t_IsRevoked := True\<rparr>)) ''refresh'' () = (Err (Errorf ''token is expired or revoked''), ())"
  "test_refresh (Some (test_user\<lparr>u_IsActive := False\<rparr>)) (Some test_session) ''refresh'' () = (Err (Errorf ''user account is inactive''), ())"
  by (simp_all add: auth_test_defs)

end
