(* ===== verification/Spec2Isabelle.thy ===== *)
theory Spec2Isabelle
  imports Workflow_Theorems Chat_Theorems Failed_Turns Auth_Theorems Persistence_Theorems Domain_Theorems
    Http_Theorems Service_Theorems Documentation_Theorems Worker_Pool Startup Api_Docs Unit_Tests
begin

text \<open>
  \<^bold>\<open>A verification library for go-agent-api\<close>

  The program is an HTTP service that lets registered users talk to a language model which may
  call tools. A message arrives at a use case, which loads the conversation from PostgreSQL,
  stores the user's message, runs the agent's workflow over the whole transcript and stores
  the answer. The workflow is a graph of nodes: a router picks a persona, \<open>think\<close> asks the
  model, \<open>act\<close> runs the tools the model called, \<open>observe\<close> feeds their results back, and after at
  most ten turns \<open>response\<close> ends the run. A tool may require approval: the run then stops, its
  state is kept as JSON, and a second use case resumes it with the owner's decision.

  \<^bold>\<open>Conventions\<close>

  A Go function with effects is a function from a world to an outcome and a new world
  (\<open>('w, 'a) go\<close> in \<open>Go_Prelude\<close>); an outcome is a value, an error or a panic, so every error
  return and every panic of the source is a branch. \<open>bindG\<close> is sequencing with Go's
  \<open>if err != nil { return err }\<close>, \<open>wrapG\<close> adds the text of \<open>fmt.Errorf("...: %w", err)\<close>. The
  clock, the UUID generator and the order in which a map is visited come from a \<open>runtime\<close>
  record. A Go \<open>int\<close> is a 64-bit word, a \<open>float64\<close> a value of \<open>f64\<close> with IEEE rounding, a string
  the list of its bytes, a \<open>time.Time\<close> a number of nanoseconds. An interface is a record of its
  methods; code that is not in the repository is an argument of the definitions that use it.

  \<^bold>\<open>Theories and the code they model\<close>

  \<^item> \<open>Go_Prelude\<close>, \<open>Go_Float\<close>, \<open>Go_Json\<close>, \<open>Go_Time\<close>: the language and the parts of its standard
    library that are used everywhere. The JSON printer and parser are proved inverse.
  \<^item> \<open>Toolspec\<close>: \<open>pkg/toolspec\<close>, the tool-calling wire format and dynamic values.
  \<^item> \<open>Entities\<close>, \<open>Value_Objects\<close>: \<open>internal/domain/entity\<close>, \<open>valueobject\<close>, \<open>event\<close>, and
    \<open>internal/pkg/errors\<close>. \<open>Conversation_Lifecycle\<close>: the conversation's methods as steps of one
    state machine and its refinement of a four-field specification.
  \<^item> \<open>Domain_Service\<close>: \<open>internal/domain/service\<close>, who may send, approve and use a token.
  \<^item> \<open>Ports\<close>, \<open>Repositories\<close>: \<open>internal/application/port\<close> and \<open>internal/domain/repository\<close>, the
    interfaces, and their contracts as the locales \<open>conversation_store\<close>, \<open>message_store\<close>,
    \<open>chat_store\<close> and \<open>identity_store\<close>.
  \<^item> \<open>Tool_Registry\<close>, \<open>Builtin_Tools\<close>: \<open>internal/application/usecase/tool\<close>.
  \<^item> \<open>Agent_State\<close>: \<open>internal/infrastructure/eino/state\<close>; \<open>State_Codec\<close>: its JSON reads back.
  \<^item> \<open>Chatbot_Graph\<close>: \<open>internal/infrastructure/eino/graphs\<close>, the graph as data, its nodes and
    routes, \<open>Run\<close> and \<open>Resume\<close>. \<open>Graph_Engine\<close>: what the code relies on in the graph library,
    as the relation \<open>graph_run\<close> and the locale \<open>compiled_graph\<close>. \<open>Chatbot_Correct\<close>: invariants.
  \<^item> \<open>Postgres\<close>: \<open>internal/infrastructure/persistence/postgres\<close>, every statement over tables that
    carry the constraints of the migrations. \<open>Postgres_Correct\<close>: every operation keeps them, and
    the repositories meet the contracts (interpretations \<open>pg_conversations\<close>, \<open>pg_messages\<close>,
    \<open>pg_chat\<close>, \<open>pg_identity\<close>).
  \<^item> \<open>Chat_Usecases\<close>, \<open>Chat_Correct\<close>: \<open>internal/application/usecase/chat\<close>, and what its use cases
    do over any stores that meet the contracts. \<open>Isolation\<close>: the locale \<open>isolated_store\<close>, whose
    writes touch one conversation only (interpretation \<open>pg_isolated\<close>), and what a use case can
    then not touch. \<open>Engine_Quiet\<close>: the workflow as an engine that leaves the tables alone.
  \<^item> \<open>Auth_Usecases\<close>, \<open>Auth_Correct\<close>: \<open>internal/pkg/jwt\<close>, \<open>usecase/auth\<close> and \<open>usecase/user\<close>.
  \<^item> \<open>Http\<close>: \<open>internal/pkg/response\<close> over a model of \<open>net/http\<close>'s writer, and the JSON of the
    results. \<open>Middleware\<close>: \<open>http/middleware\<close> and \<open>persistence/redis/cache.go\<close>. \<open>Handlers\<close>:
    \<open>http/handler\<close> and \<open>application/dto/request\<close>. \<open>Litellm\<close>: \<open>internal/infrastructure/llm/litellm\<close>.
    \<open>Config\<close>: \<open>internal/infrastructure/config\<close>. \<open>Server\<close>: \<open>cmd/api/main.go\<close>, which puts all parts
    together: \<open>main_server\<close> constructs them, \<open>ServeHTTP\<close> is the router with its middleware.
    \<open>Startup\<close>: \<open>postgres/connection.go\<close>, \<open>redis/connection.go\<close> and the life of the process.
    \<open>Api_Docs\<close>: \<open>pkg/response/swagger_types.go\<close>, the documented answers, compared with the real.
  \<^item> \<open>Swagger_Docs\<close>: \<open>docs/docs.go\<close>, the published description of the API as the JSON document
    its template is the text of, one definition per path and per type. \<open>Swagger_Annotations\<close>: the
    comments of \<open>http/handler\<close> and \<open>cmd/api/main.go\<close> it is generated from. \<open>Swagger_Reading\<close>: what a
    client reads in it, its operations and, references resolved, its types (ten levels of
    references and members, which the answer of a completion uses up). \<open>Documentation\<close>: these readings computed.
  \<^item> \<open>Http_Correct\<close>: every request is answered and protected endpoints are gated. \<open>Rate_Limit\<close>:
    the limiter over sequences of requests. \<open>Litellm_Correct\<close>: the client against a conforming
    server.
  \<^item> \<open>Step_Relation\<close>: the locale \<open>step_relation\<close>, a reflexive and transitive relation between the
    worlds before and after a step, and how sequencing, the workflow and its tools respect it
    (interpretation \<open>view\<close> in \<open>Engine_Quiet\<close>: a part of the world that stays). \<open>Request_Steps\<close>: the
    locales \<open>quiet_relation\<close>, \<open>identity_relation\<close> and \<open>program_relation\<close>, relations that
    reading, the statements of the authentication and all statements respect; every use case,
    handler, middleware and request of the program \<open>main\<close> constructs then does. Interpretations:
    \<open>slot\<close> (\<open>Http_Isolation\<close>, one conversation stays as it is), \<open>integrity\<close> and \<open>growth\<close>
    (\<open>Http_History\<close>, the constraints of the database hold, its rows only grow), \<open>time\<close>
    (\<open>Sessions\<close>, the clock goes on). \<open>Sessions\<close>: what a login stores and signs, and why it stays
    accepted. \<open>Status_Codes\<close>, \<open>Statuses\<close>: the codes each endpoint answers with. \<open>Answers\<close>: the form
    of what it answers.
  \<^item> \<open>Worker_Pool\<close>: \<open>internal/infrastructure/worker\<close>, its operations as lists of outcomes, their
    interleavings as a step relation, and what it promises.
  \<^item> \<open>Scenario\<close>, \<open>Paused_Run\<close>: concrete providers and one paused run, on which the theorems are
    exercised. They model no code. \<open>Unit_Tests\<close>: the repository's unit tests (\<open>*_test.go\<close>), whose
    assertions hold of the definitions.

  \<^bold>\<open>What is proved\<close>

  \<open>Workflow_Theorems\<close>: runs are bounded and end, requests to the model follow the tool-call
  protocol, tools that need approval never run, what a pause reports and what \<open>Resume\<close> does with
  it. \<open>Chat_Theorems\<close>: which turns are accepted, what they store, and that the checkpoint of a
  paused turn is lost. \<open>Failed_Turns\<close>: what a turn leaves behind that ends with an error.
  \<open>Auth_Theorems\<close>: what an accepted credential proves, revocation, login,
  refresh, registration. \<open>Persistence_Theorems\<close>: the integrity of the tables over all histories
  of calls, atomic batches, ordered transcripts, cascading deletes. \<open>Domain_Theorems\<close>: the
  conversation machine refines its specification, the decision rules are complete, the registry
  and the built-in tools do what they say, a checkpoint reads back. \<open>Http_Theorems\<close>: the program
  as \<open>main\<close> constructs it lets nobody past a protected endpoint without an accepted credential and
  answers every request; no request changes the conversations of a user other than the one its
  credential belongs to; the rate limits; what registration reveals; the stream of the language
  model and its relay. \<open>Service_Theorems\<close>: over any sequence of requests the database keeps its
  integrity and its past and a session stays open until it expires; every answer has the
  envelope of the API and, where it has it, the documented type; two turns of one conversation
  at the same time lose an update. \<open>Documentation_Theorems\<close>: the published description is up to
  date with the annotations, its operations and their security are the program's routes, its
  types are the documented ones, and every answer has a code it lists, apart from the limiter's
  429 and the 500 of a recovered panic. \<open>Worker_Pool\<close>: jobs run in order and once, shutdown returns and what it may
  drop.

  \<^bold>\<open>Bounds and fuel\<close>

  A run executes at most 32 nodes and calls the model at most ten times: every round of
  \<open>think\<close>, \<open>act\<close>, \<open>observe\<close> uses up one of the ten iterations of \<open>NewAgentState\<close>, and \<open>router\<close>
  and \<open>response\<close> are entered once. \<open>run_steps\<close> and \<open>run_limited\<close> take a step limit; 32 is enough
  for every run, and witnesses use 40. Once its channel is closed, a pool of \<open>n\<close> workers and a
  queue of \<open>m\<close> takes at most \<open>3 (m + n) + 1\<close> steps. The stream reader ends because every line
  shortens the body. The JSON parser's fuel is the length of its input plus
  one, which the round trip shows to be enough for every printed document.

  \<^bold>\<open>Simplifications\<close>

  Nil and empty slices are not distinguished where the code does not. Contexts are not modelled:
  a cancellation is an error of the call that notices it. \<open>go f()\<close> in token validation runs \<open>f\<close>
  at once. The texts of errors inside \<open>encoding/json\<close> are not kept. In PostgreSQL, \<open>DECIMAL\<close> and
  timestamps are not rounded, an \<open>ORDER BY\<close> other than the columns the code's callers use is an
  error, and the checks of an \<open>UPDATE\<close> apply also when no row matches. The goroutines of a tool
  batch run one after the other, in an order the scheduler picks. A parked worker of the pool
  counts as parked until it has noticed that the context is done. Keys in Redis do not expire.
  A lookup in a repository answers a row or an error, never neither, as the SQL repositories do.

  \<^bold>\<open>Not modelled\<close>

  The set-up of the logger and of the registry of the swag library, the handler that shows the
  documentation, the tests and their mocks carry no logic of the service.
  \<open>AgentState.Clone\<close> has no caller, and over values it is the identity.
\<close>

end
